(* ===== verification/Go_Prelude.thy ===== *)
theory Go_Prelude
  imports Main "HOL-Library.Word" "HOL-Library.Sublist"
begin

text \<open>
  The part of Go and of its standard library the provider's code uses: error values with
  wrapping, the \<open>strings\<close> and \<open>strconv\<close> functions, \<open>fmt\<close>'s \<open>%d\<close> and \<open>%q\<close> verbs, and reads
  of a Go map. A Go string is a sequence of bytes and is modelled as a \<open>string\<close> (a list of
  8-bit characters). The theory also declares the collections the component theories fill:
  \<open>effects\<close> (what an operation can do to the outside world) and \<open>frames\<close> (what it leaves
  alone).
\<close>

named_theorems effects "the events an operation can emit"
named_theorems frames "the parts of the state an operation leaves unchanged"
named_theorems go_strings "evaluation rules for the string functions"

section \<open>Errors\<close>

text \<open>
  An error is a value. The Kubernetes client's errors carry a reason, which
  \<open>apierrors.IsNotFound\<close> and its siblings read through any wrapping; \<open>fmt.Errorf\<close> with \<open>%w\<close>
  wraps; \<open>ConditionError\<close> (status.go) unwraps to its original. \<open>Panic\<close> is a run-time panic,
  which aborts the reconcile.
\<close>

datatype api_reason = NotFound | Conflict | AlreadyExists | OtherReason

datatype error =
    Plain string
  | ApiStatus api_reason string
  | Wrapped string error
  | ConditionError error error
  | Panic string

fun error_text :: "error \<Rightarrow> string" where
  "error_text (Plain s) = s"
| "error_text (ApiStatus r s) = s"
| "error_text (Wrapped p e) = p @ error_text e"
| "error_text (ConditionError orig cond) =
     error_text orig @ '' (condition update failed: '' @ error_text cond @ '')''"
| "error_text (Panic s) = s"

fun api_reason_of :: "error \<Rightarrow> api_reason" where
  "api_reason_of (ApiStatus r s) = r"
| "api_reason_of (Wrapped p e) = api_reason_of e"
| "api_reason_of (ConditionError orig cond) = api_reason_of orig"
| "api_reason_of _ = OtherReason"

definition api_not_found :: "error \<Rightarrow> bool" where
  "api_not_found e \<longleftrightarrow> api_reason_of e = NotFound"

definition api_conflict :: "error \<Rightarrow> bool" where
  "api_conflict e \<longleftrightarrow> api_reason_of e = Conflict"

definition api_already_exists :: "error \<Rightarrow> bool" where
  "api_already_exists e \<longleftrightarrow> api_reason_of e = AlreadyExists"

fun is_panic :: "error \<Rightarrow> bool" where
  "is_panic (Panic s) = True"
| "is_panic _ = False"

text \<open>What an operation reports of an outcome, where only success matters.\<close>

fun failure_of :: "error + 'a \<Rightarrow> error option" where
  "failure_of (Inl e) = Some e"
| "failure_of (Inr x) = None"

lemma failure_of_None [simp]: "failure_of r = None \<longleftrightarrow> (\<exists>x. r = Inr x)"
  by (cases r) auto

section \<open>Maps\<close>

text \<open>Reading a missing key of a \<open>map[string]string\<close> gives the empty string.\<close>

definition go_get :: "('k \<rightharpoonup> string) \<Rightarrow> 'k \<Rightarrow> string" where
  "go_get m k = (case m k of None \<Rightarrow> [] | Some v \<Rightarrow> v)"

lemma go_get_None [simp]: "m k = None \<Longrightarrow> go_get m k = []"
  by (simp add: go_get_def)

lemma go_get_Some [simp]: "m k = Some v \<Longrightarrow> go_get m k = v"
  by (simp add: go_get_def)

section \<open>The strings package\<close>

fun contains_str :: "string \<Rightarrow> string \<Rightarrow> bool" where
  "contains_str [] sub = (sub = [])"
| "contains_str (c # cs) sub = (prefix sub (c # cs) \<or> contains_str cs sub)"

lemma contains_str_iff: "contains_str s sub \<longleftrightarrow> (\<exists>u v. s = u @ sub @ v)"
proof (induction s)
  case Nil
  then show ?case by auto
next
  case (Cons c cs)
  note IH = Cons.IH
  show ?case
  proof
    assume "contains_str (c # cs) sub"
    then consider "prefix sub (c # cs)" | "contains_str cs sub" by auto
    then show "\<exists>u v. c # cs = u @ sub @ v"
    proof cases
      case 1
      then obtain v where "c # cs = [] @ sub @ v" by (auto elim: prefixE)
      then show ?thesis by blast
    next
      case 2
      then obtain u v where "cs = u @ sub @ v" using Cons.IH by blast
      then have "c # cs = (c # u) @ sub @ v" by simp
      then show ?thesis by blast
    qed
  next
    assume "\<exists>u v. c # cs = u @ sub @ v"
    then obtain u v where eq: "c # cs = u @ sub @ v" by blast
    show "contains_str (c # cs) sub"
    proof (cases u)
      case Nil
      with eq have "prefix sub (c # cs)" by (metis append_Nil prefixI)
      then show ?thesis by simp
    next
      case (Cons d u')
      with eq have "cs = u' @ sub @ v" by simp
      then have "contains_str cs sub" using IH by blast
      then show ?thesis by simp
    qed
  qed
qed

lemma contains_str_mid: "contains_str (u @ sub @ v) sub"
  by (auto simp: contains_str_iff)

lemma contains_str_append: "contains_str s sub \<Longrightarrow> contains_str (u @ s) sub"
  by (metis append.assoc contains_str_iff)

definition has_prefix :: "string \<Rightarrow> string \<Rightarrow> bool" where
  "has_prefix s p = prefix p s"

definition has_suffix :: "string \<Rightarrow> string \<Rightarrow> bool" where
  "has_suffix s p = suffix p s"

definition trim_suffix :: "string \<Rightarrow> string \<Rightarrow> string" where
  "trim_suffix s p = (if suffix p s then take (length s - length p) s else s)"

text \<open>\<open>strings.LastIndex\<close>: the text before and after the last occurrence, if there is one.\<close>

fun split_last :: "string \<Rightarrow> string \<Rightarrow> (string \<times> string) option" where
  "split_last [] sep = (if sep = [] then Some ([], []) else None)"
| "split_last (c # cs) sep =
     (case split_last cs sep of
        Some (u, v) \<Rightarrow> Some (c # u, v)
      | None \<Rightarrow> (if prefix sep (c # cs) then Some ([], drop (length sep) (c # cs)) else None))"

lemma split_last_Some: "split_last s sep = Some (u, v) \<Longrightarrow> s = u @ sep @ v"
  by (induction s arbitrary: u v) (auto split: if_splits option.splits simp: prefix_def)

lemma split_last_None: "split_last s sep = None \<longleftrightarrow> \<not> contains_str s sep"
  by (induction s) (auto split: if_splits option.splits)

text \<open>\<open>strings.Cut\<close>: around the first occurrence.\<close>

fun cut_str :: "string \<Rightarrow> string \<Rightarrow> (string \<times> string) option" where
  "cut_str [] sep = (if sep = [] then Some ([], []) else None)"
| "cut_str (c # cs) sep =
     (if prefix sep (c # cs) then Some ([], drop (length sep) (c # cs))
      else map_option (\<lambda>(u, v). (c # u, v)) (cut_str cs sep))"

lemma cut_str_Some: "cut_str s sep = Some (u, v) \<Longrightarrow> s = u @ sep @ v"
  by (induction s arbitrary: u v) (auto split: if_splits simp: prefix_def)

lemma cut_str_char:
  "c \<notin> set u \<Longrightarrow> cut_str (u @ c # v) [c] = Some (u, v)"
  by (induction u) auto

definition trim_chars :: "string \<Rightarrow> string \<Rightarrow> string" where
  "trim_chars s cutset =
     rev (dropWhile (\<lambda>c. c \<in> set cutset) (rev (dropWhile (\<lambda>c. c \<in> set cutset) s)))"

text \<open>
  \<open>strings.ToLower\<close> and \<open>strings.ToUpper\<close> on ASCII letters. Two non-ASCII runes have an ASCII
  lower case, the dotted capital I (bytes C4 B0) and the Kelvin sign (E2 84 AA); every
  other non-ASCII byte is kept, which no search for an ASCII text can see.
\<close>

definition lower_char :: "char \<Rightarrow> char" where
  "lower_char c = (let n = of_char c :: nat in if 65 \<le> n \<and> n \<le> 90 then char_of (n + 32) else c)"

definition upper_char :: "char \<Rightarrow> char" where
  "upper_char c = (let n = of_char c :: nat in if 97 \<le> n \<and> n \<le> 122 then char_of (n - 32) else c)"

fun to_lower :: "string \<Rightarrow> string" where
  "to_lower [] = []"
| "to_lower (c # cs) =
     (if prefix [CHR 0xC4, CHR 0xB0] (c # cs) then CHR ''i'' # to_lower (drop 1 cs)
      else if prefix [CHR 0xE2, CHR 0x84, CHR 0xAA] (c # cs) then CHR ''k'' # to_lower (drop 2 cs)
      else lower_char c # to_lower cs)"

definition to_upper :: "string \<Rightarrow> string" where
  "to_upper s = map upper_char s"

fun join_str :: "string list \<Rightarrow> string \<Rightarrow> string" where
  "join_str [] sep = []"
| "join_str [x] sep = x"
| "join_str (x # y # xs) sep = x @ sep @ join_str (y # xs) sep"

text \<open>\<open>strings.Compare\<close>: the lexicographic order on bytes.\<close>

fun str_compare :: "string \<Rightarrow> string \<Rightarrow> int" where
  "str_compare [] [] = 0"
| "str_compare [] (d # ds) = - 1"
| "str_compare (c # cs) [] = 1"
| "str_compare (c # cs) (d # ds) =
     (if (of_char c :: nat) < of_char d then - 1
      else if (of_char d :: nat) < of_char c then 1
      else str_compare cs ds)"

lemma str_compare_eq_0: "str_compare a b = 0 \<longleftrightarrow> a = b"
  by (induction a b rule: str_compare.induct) auto

lemma str_compare_antisym: "str_compare a b < 0 \<longleftrightarrow> 0 < str_compare b a"
  by (induction a b rule: str_compare.induct) auto

lemma str_compare_trans:
  "str_compare a b \<le> 0 \<Longrightarrow> str_compare b c \<le> 0 \<Longrightarrow> str_compare a c \<le> 0"
proof (induction a c arbitrary: b rule: str_compare.induct)
  case (3 c cs)
  then show ?case by (cases b) auto
next
  case (4 x xs z zs)
  then show ?case by (cases b) (auto split: if_splits)
qed simp_all

section \<open>Numbers\<close>

text \<open>\<open>strconv.Itoa\<close> and the \<open>%d\<close> verb.\<close>

fun nat_str :: "nat \<Rightarrow> string" where
  "nat_str n = (if n < 10 then [char_of (48 + n)]
                else nat_str (n div 10) @ [char_of (48 + n mod 10)])"

declare nat_str.simps [simp del]

definition int_str :: "int \<Rightarrow> string" where
  "int_str i = (if i < 0 then CHR ''-'' # nat_str (nat (- i)) else nat_str (nat i))"

definition is_digit :: "char \<Rightarrow> bool" where
  "is_digit c = (48 \<le> (of_char c :: nat) \<and> (of_char c :: nat) \<le> 57)"

definition digit_val :: "char \<Rightarrow> nat" where
  "digit_val c = of_char c - 48"

definition digits_val :: "string \<Rightarrow> nat" where
  "digits_val ds = foldl (\<lambda>acc c. 10 * acc + digit_val c) 0 ds"

text \<open>\<open>strconv.Atoi\<close>: an optional sign and decimal digits, in the range of a 64-bit \<open>int\<close>.\<close>

definition go_atoi :: "string \<Rightarrow> 64 word option" where
  "go_atoi s =
     (let (neg, ds) = (case s of [] \<Rightarrow> (False, [])
                       | c # r \<Rightarrow> if c = CHR ''-'' then (True, r)
                                  else if c = CHR ''+'' then (False, r) else (False, s));
          v = (if neg then - int (digits_val ds) else int (digits_val ds))
      in if ds = [] \<or> \<not> list_all is_digit ds then None
         else if - (2 ^ 63) \<le> v \<and> v < 2 ^ 63 then Some (word_of_int v) else None)"

lemma nat_str_digits: "list_all is_digit (nat_str n) \<and> nat_str n \<noteq> []"
proof (induction n rule: nat_str.induct)
  case (1 n)
  have d: "is_digit (char_of (48 + k))" if "k < 10" for k :: nat
    using that by (simp add: is_digit_def of_char_of)
  show ?case
    using 1 d[of n] d[of "n mod 10"] by (subst (1 2) nat_str.simps) auto
qed

lemma digits_val_snoc [simp]: "digits_val (ds @ [c]) = 10 * digits_val ds + digit_val c"
  by (simp add: digits_val_def)

lemma digits_val_nat_str: "digits_val (nat_str n) = n"
proof (induction n rule: nat_str.induct)
  case (1 n)
  have d: "digit_val (char_of (48 + k)) = k" if "k < 10" for k :: nat
    using that by (simp add: digit_val_def of_char_of)
  show ?case
  proof (cases "n < 10")
    case True
    then have "nat_str n = [char_of (48 + n)]" by (subst nat_str.simps) simp
    with True d[of n] show ?thesis by (simp add: digits_val_def)
  next
    case False
    then have "nat_str n = nat_str (n div 10) @ [char_of (48 + n mod 10)]"
      by (subst nat_str.simps) simp
    with False 1 d[of "n mod 10"] show ?thesis by simp
  qed
qed

lemma nat_str_inj: "nat_str m = nat_str n \<longleftrightarrow> m = n"
  by (metis digits_val_nat_str)

text \<open>
  The \<open>%q\<close> verb (\<open>strconv.Quote\<close>): quotes and backslashes are escaped, control characters get
  their escape, other bytes are kept.
\<close>

definition hex_digit :: "nat \<Rightarrow> char" where
  "hex_digit n = (if n < 10 then char_of (48 + n) else char_of (87 + n))"

definition quote_char :: "char \<Rightarrow> string" where
  "quote_char c =
     (let n = of_char c :: nat; bs = CHR 0x5C in
      if c = CHR 0x22 \<or> c = bs then [bs, c]
      else if n = 7 then [bs, CHR ''a''] else if n = 8 then [bs, CHR ''b'']
      else if n = 9 then [bs, CHR ''t''] else if n = 10 then [bs, CHR ''n'']
      else if n = 11 then [bs, CHR ''v''] else if n = 12 then [bs, CHR ''f'']
      else if n = 13 then [bs, CHR ''r'']
      else if n < 32 \<or> n = 127 then [bs, CHR ''x'', hex_digit (n div 16), hex_digit (n mod 16)]
      else [c])"

definition go_quote :: "string \<Rightarrow> string" where
  "go_quote s = [CHR 0x22] @ concat (map quote_char s) @ [CHR 0x22]"

end
