(* ===== verification/Api_Types.thy ===== *)
theory Api_Types
  imports Go_Prelude
begin

text \<open>
  The data of the provider. The first section holds the fields the provider reads and writes
  of the Kubernetes and Cluster API objects; the second the four resources of
  \<open>api/v1beta2\<close>, field by field; the third the payloads of the Xen Orchestra SDK. A pointer
  that may be nil is an \<open>option\<close>, a Go slice a list, a \<open>map[string]string\<close> a map. Times are
  natural numbers; \<open>int32\<close> and \<open>int64\<close> values, which the code only compares, copies and
  prints, are \<open>int\<close>. A \<open>uuid.UUID\<close> is sixteen bytes.
\<close>

section \<open>Kubernetes and Cluster API objects\<close>

type_synonym labels = "string \<rightharpoonup> string"
type_synonym uuid = "128 word"
type_synonym time = nat

record nn =
  nn_namespace :: string
  nn_name :: string

record owner_ref =
  or_api_version :: string
  or_kind :: string
  or_name :: string
  or_uid :: string
  or_controller :: "bool option"

record object_meta =
  om_name :: string
  om_namespace :: string
  om_uid :: string
  om_resource_version :: string
  om_labels :: labels
  om_finalizers :: "string list"
  om_owners :: "owner_ref list"
  om_deletion :: "time option"

datatype cond_status = ConditionTrue | ConditionFalse | ConditionUnknown

record condition =
  cond_type :: string
  cond_stat :: cond_status
  cond_reason :: string
  cond_message :: string
  cond_time :: time

datatype address_type = NodeInternalIP | NodeExternalIP | OtherAddressType string

record node_address =
  na_type :: address_type
  na_address :: string

record machine =
  mach_meta :: object_meta
  mach_cluster_name :: string
  mach_infra_kind :: string
  mach_infra_name :: string
  mach_data_secret :: "string option"
  mach_config_kind :: string

record cluster =
  cl_meta :: object_meta
  cl_infra_kind :: string
  cl_infra_name :: string
  cl_cp_kind :: string

record secret =
  sec_namespace :: string
  sec_owners :: "owner_ref list"
  sec_data :: "string \<rightharpoonup> string"

record pool_ref =
  pr_name :: string
  pr_kind :: string
  pr_api_group :: string

record ip_claim =
  claim_meta :: object_meta
  claim_cluster :: string
  claim_pool :: pool_ref
  claim_address_ref :: string

record ip_address =
  ipa_address :: string
  ipa_prefix :: "int option"
  ipa_gateway :: string

record config_map =
  cm_nn :: nn
  cm_data :: "(string \<rightharpoonup> string) option"

record resource_set =
  crs_nn :: nn
  crs_match_labels :: labels
  crs_resources :: "(string \<times> string) list"
  crs_strategy :: string

text \<open>The labels and groups of Cluster API the code names.\<close>

definition ClusterNameLabel :: string where
  "ClusterNameLabel = ''cluster.x-k8s.io/cluster-name''"

definition MachineControlPlaneLabel :: string where
  "MachineControlPlaneLabel = ''cluster.x-k8s.io/control-plane''"

definition ClusterGroupVersion :: string where
  "ClusterGroupVersion = ''cluster.x-k8s.io/v1beta2''"

section \<open>The provider's resources\<close>

record bootstrap_behavior =
  bb_format :: string
  bb_cloud_init :: bool
  bb_kube_vip :: bool

definition BootstrapFormatPassthrough :: string where
  "BootstrapFormatPassthrough = ''passthrough''"

definition BootstrapFormatCloudInit :: string where
  "BootstrapFormatCloudInit = ''cloudinit''"

record network =
  net_id :: string
  net_name :: string

record network_config =
  nc_allowed_ip_range :: string
  nc_networks :: "network list"
  nc_addresses_from_pools :: "pool_ref list"
  nc_guest_config :: string

record resource_spec =
  rs_cpus :: "int option"
  rs_memory :: string
  rs_disk_size :: string

record xomachine_spec =
  ms_provider_id :: "string option"
  ms_pool_id :: string
  ms_pool_name :: string
  ms_template_id :: string
  ms_template_name :: string
  ms_network_config :: "network_config option"
  ms_resource_set :: "resource_spec option"
  ms_failure_domain :: "string option"
  ms_bootstrap_provider :: string
  ms_tags :: "string list"
  ms_bootstrap :: "bootstrap_behavior option"
  ms_bootstrap_data :: string
  ms_identity_ref :: "string option"

record initialization_status =
  provisioned :: bool

record xomachine_status =
  mst_ready :: bool
  mst_provider_id :: "string option"
  mst_vm_name :: string
  mst_addresses :: "node_address list"
  mst_initialization :: "initialization_status option"
  mst_failure_reason :: "string option"
  mst_failure_message :: "string option"
  mst_conditions :: "condition list"

record xomachine =
  xm_meta :: object_meta
  xm_spec :: xomachine_spec
  xm_status :: xomachine_status

record api_endpoint =
  ep_host :: string
  ep_port :: int
  ep_subnet :: "int option"

record vm_naming_spec =
  vn_control_plane_prefix :: string
  vn_worker_prefix :: string

record cilium_spec =
  ci_kube_proxy_replacement :: "bool option"
  ci_k8s_service_host :: string
  ci_k8s_service_port :: int

record node_out_of_service_spec =
  oos_enabled :: "bool option"
  oos_sync_period :: "int option"
  oos_grace_period :: "int option"

record addons_spec =
  ad_ccm :: "bool option"
  ad_csi :: "bool option"
  ad_cni :: "string option"
  ad_cilium :: "cilium_spec option"
  ad_node_out_of_service :: "node_out_of_service_spec option"

record xocluster_spec =
  cs_control_plane_endpoint :: "api_endpoint option"
  cs_control_plane_lb :: "string option"
  cs_inject_ssh_keys :: bool
  cs_identity_ref :: "string option"
  cs_tags :: "string list"
  cs_vm_naming :: "vm_naming_spec option"
  cs_addons :: "addons_spec option"

record xocluster_status =
  cst_ready :: bool
  cst_control_plane_endpoint :: "api_endpoint option"
  cst_initialization :: "initialization_status option"
  cst_failure_reason :: "string option"
  cst_failure_message :: "string option"
  cst_conditions :: "condition list"

record xocluster =
  xc_meta :: object_meta
  xc_spec :: xocluster_spec
  xc_status :: xocluster_status

definition KindXOMachine :: string where
  "KindXOMachine = ''XOMachine''"

record xomachine_template =
  xmt_meta :: object_meta
  xmt_spec :: xomachine_spec

record xocluster_template =
  xct_meta :: object_meta
  xct_spec :: xocluster_spec

section \<open>Xen Orchestra payloads\<close>

text \<open>
  The values an iteration over the v1 API's \<open>map[string]string\<close> of guest addresses visits, in
  the order of that iteration, which Go leaves open.
\<close>

datatype power_state = PowerRunning | PowerHalted | PowerPaused | PowerSuspended

record vm =
  vm_id :: uuid
  vm_name_label :: string
  vm_name_description :: string
  vm_power_state :: power_state
  vm_main_ip :: string

record v1_vm =
  v1_addresses :: "string list"

record vif_params =
  vp_device :: string
  vp_network :: string

record create_vm_params =
  cp_name_label :: string
  cp_name_description :: string
  cp_template :: uuid
  cp_auto_poweron :: "bool option"
  cp_clone :: "bool option"
  cp_cloud_config :: "string option"
  cp_network_config :: "string option"
  cp_memory :: "int option"
  cp_vifs :: "vif_params list"

record disk =
  d_vdi_id :: string
  d_name_label :: string
  d_size :: int
  d_bootable :: bool
  d_is_cd_drive :: bool
  d_position :: string
  d_device :: string

record vif =
  vif_id :: string
  vif_network :: string
  vif_attached :: bool

record vdi =
  vdi_id :: uuid

record vbd =
  vbd_id :: uuid
  vbd_vdi :: "uuid option"

datatype task_status = TaskSuccess | TaskOther string

record xo_task =
  task_stat :: task_status
  task_result_id :: uuid
  task_result_message :: string

record xo_config =
  xo_url :: string
  xo_token :: string
  xo_insecure :: bool

text \<open>
  What \<open>Client.V1Client()\<close> returns: nil, an implementation that is not the SDK's concrete
  client (as in the unit tests), or the concrete client, whose pointer may itself be nil.
\<close>

datatype v1_client = V1Nil | V1Other | V1ConcreteNil | V1Concrete

record xo_client =
  xo_cfg :: xo_config
  xo_v1 :: v1_client

fun v1_is_nil :: "v1_client \<Rightarrow> bool" where
  "v1_is_nil V1Nil = True"
| "v1_is_nil _ = False"

text \<open>The type assertion \<open>v1Client.(*xoclient.Client)\<close>.\<close>

fun v1_ok :: "v1_client \<Rightarrow> bool" where
  "v1_ok V1Concrete = True"
| "v1_ok V1ConcreteNil = True"
| "v1_ok _ = False"

datatype rpc_arg = ArgString string | ArgInt int

text \<open>A YAML value, as \<open>yaml.v3\<close> decodes it into an \<open>any\<close>.\<close>

datatype yaml =
    YString string
  | YSeq "yaml list"
  | YMap "(string \<times> yaml) list"
  | YScalar string

end
