(* ===== verification/World.thy ===== *)
theory World
  imports Api_Types "HOL-Library.State_Monad"
begin

text \<open>
  The world the provider's code runs in. The Kubernetes API (through controller-runtime's
  client), the Xen Orchestra API (through the SDK) and the third-party pure functions are not
  code of the repository: they are the fields of three records of arbitrary functions, passed
  to every definition that calls them. A call reads and changes an external state of an
  arbitrary type \<open>'s\<close>, so that any behaviour of the two services, and any change another
  actor makes between two calls, is one of these functions.

  A program is a state transformer over the object being reconciled (\<open>obj\<close>, what the
  \<open>xoMachine\<close> or \<open>xoCluster\<close> pointer points to), the external state (\<open>ext\<close>) and the log of
  the calls made so far (\<open>log\<close>): every call that can change something outside, and the lookups
  on which a safety argument rests, leave an event with their outcome. The log is what the
  theorems about order speak of; no definition reads it.
\<close>

section \<open>The Kubernetes client\<close>

record 's kube =
  k_get_xomachine :: "nn \<Rightarrow> 's \<Rightarrow> (error + xomachine) \<times> 's"
  k_get_xocluster :: "nn \<Rightarrow> 's \<Rightarrow> (error + xocluster) \<times> 's"
  k_get_machine :: "nn \<Rightarrow> 's \<Rightarrow> (error + machine) \<times> 's"
  k_get_cluster :: "nn \<Rightarrow> 's \<Rightarrow> (error + cluster) \<times> 's"
  k_get_secret :: "nn \<Rightarrow> 's \<Rightarrow> (error + secret) \<times> 's"
  k_get_claim :: "nn \<Rightarrow> 's \<Rightarrow> (error + ip_claim) \<times> 's"
  k_get_ip_address :: "nn \<Rightarrow> 's \<Rightarrow> (error + ip_address) \<times> 's"
  k_list_machines :: "string \<Rightarrow> labels \<Rightarrow> 's \<Rightarrow> (error + machine list) \<times> 's"
  k_update_xomachine :: "xomachine \<Rightarrow> 's \<Rightarrow> (error + xomachine) \<times> 's"
  k_status_update_xomachine :: "xomachine \<Rightarrow> 's \<Rightarrow> (error + xomachine) \<times> 's"
  k_update_xocluster :: "xocluster \<Rightarrow> 's \<Rightarrow> (error + xocluster) \<times> 's"
  k_status_patch_xocluster :: "xocluster \<Rightarrow> xocluster \<Rightarrow> 's \<Rightarrow> (error + xocluster) \<times> 's"
  k_patch_cluster :: "cluster \<Rightarrow> cluster \<Rightarrow> 's \<Rightarrow> (error + cluster) \<times> 's"
  k_create_claim :: "ip_claim \<Rightarrow> 's \<Rightarrow> (error + ip_claim) \<times> 's"
  k_apply_config_map :: "config_map \<Rightarrow> (config_map \<Rightarrow> config_map) \<Rightarrow> 's \<Rightarrow> (error + config_map) \<times> 's"
  k_apply_resource_set :: "resource_set \<Rightarrow> (resource_set \<Rightarrow> resource_set) \<Rightarrow> 's \<Rightarrow> (error + resource_set) \<times> 's"
  k_delete_config_map :: "nn \<Rightarrow> 's \<Rightarrow> (error + unit) \<times> 's"
  k_delete_resource_set :: "nn \<Rightarrow> 's \<Rightarrow> (error + unit) \<times> 's"

section \<open>The Xen Orchestra client\<close>

text \<open>
  The v2 REST calls (VM, VBD, Task) and the v1 JSON-RPC calls. A call that succeeds returns an
  object, never a nil pointer; a list may hold nil entries where the code tests for them.
\<close>

record 's xo_api =
  x_new_client :: "xo_config \<Rightarrow> 's \<Rightarrow> (error + xo_client) \<times> 's"
  x_check_client :: "xo_client \<Rightarrow> 's \<Rightarrow> (error + unit) \<times> 's"
  x_vm_get :: "xo_client \<Rightarrow> uuid \<Rightarrow> 's \<Rightarrow> (error + vm) \<times> 's"
  x_vm_get_all :: "xo_client \<Rightarrow> string \<Rightarrow> 's \<Rightarrow> (error + vm option list) \<times> 's"
  x_vm_create :: "xo_client \<Rightarrow> uuid \<Rightarrow> create_vm_params \<Rightarrow> 's \<Rightarrow> (error + vm) \<times> 's"
  x_vm_start :: "xo_client \<Rightarrow> uuid \<Rightarrow> 's \<Rightarrow> (error + string) \<times> 's"
  x_vm_hard_shutdown :: "xo_client \<Rightarrow> uuid \<Rightarrow> 's \<Rightarrow> (error + string) \<times> 's"
  x_vm_delete :: "xo_client \<Rightarrow> uuid \<Rightarrow> 's \<Rightarrow> (error + unit) \<times> 's"
  x_vm_vdis :: "xo_client \<Rightarrow> uuid \<Rightarrow> string \<Rightarrow> 's \<Rightarrow> (error + vdi list) \<times> 's"
  x_vbd_get_all :: "xo_client \<Rightarrow> string \<Rightarrow> 's \<Rightarrow> (error + vbd list) \<times> 's"
  x_vbd_delete :: "xo_client \<Rightarrow> uuid \<Rightarrow> 's \<Rightarrow> (error + unit) \<times> 's"
  x_task_wait :: "xo_client \<Rightarrow> string \<Rightarrow> 's \<Rightarrow> (error + xo_task) \<times> 's"
  x_v1_get_vm :: "xo_client \<Rightarrow> string \<Rightarrow> 's \<Rightarrow> (error + v1_vm option) \<times> 's"
  x_v1_get_disks :: "xo_client \<Rightarrow> string \<Rightarrow> 's \<Rightarrow> (error + disk list) \<times> 's"
  x_v1_get_vifs :: "xo_client \<Rightarrow> string \<Rightarrow> 's \<Rightarrow> (error + vif list) \<times> 's"
  x_v1_connect_vif :: "xo_client \<Rightarrow> vif \<Rightarrow> 's \<Rightarrow> (error + unit) \<times> 's"
  x_v1_call :: "xo_client \<Rightarrow> string \<Rightarrow> (string \<times> rpc_arg) list \<Rightarrow> 's \<Rightarrow> (error + unit) \<times> 's"
  x_v1_add_tag :: "xo_client \<Rightarrow> string \<Rightarrow> string \<Rightarrow> 's \<Rightarrow> (error + unit) \<times> 's"
  x_v1_templates :: "xo_client \<Rightarrow> string \<Rightarrow> 's \<Rightarrow> (error + string list) \<times> 's"
  x_v1_pools :: "xo_client \<Rightarrow> string \<Rightarrow> 's \<Rightarrow> (error + string list) \<times> 's"
  x_v1_network :: "xo_client \<Rightarrow> string \<Rightarrow> string \<Rightarrow> 's \<Rightarrow> (error + string) \<times> 's"
  x_v1_ssh_keys :: "xo_client \<Rightarrow> 's \<Rightarrow> (error + string list) \<times> 's"

section \<open>Third-party functions without effects\<close>

record ccm_manifest_data =
  ccm_xoa_url :: string
  ccm_xoa_token :: string
  ccm_xoa_insecure :: string
  ccm_controllers :: string
  ccm_sync_period :: string
  ccm_grace_period :: string

record csi_manifest_data =
  csi_api_server_host :: string
  csi_api_server_port :: string

record cilium_manifest_data =
  cmd_talos :: bool
  cmd_kube_proxy_replacement :: bool
  cmd_k8s_service_host :: string
  cmd_k8s_service_port :: int

record lib =
  l_uuid_from_string :: "string \<Rightarrow> error + uuid"
  l_uuid_string :: "uuid \<Rightarrow> string"
  l_get_vm_id :: "string \<Rightarrow> error + uuid"
  l_get_provider_id :: "uuid \<Rightarrow> vm \<Rightarrow> string"
  l_parse_quantity :: "string \<Rightarrow> error + int"
  l_yaml_unmarshal :: "string \<Rightarrow> error + (string \<rightharpoonup> yaml) option"
  l_yaml_marshal :: "(string \<rightharpoonup> yaml) \<Rightarrow> error + string"
  l_add_finalizer :: "string \<Rightarrow> string list \<Rightarrow> bool \<times> string list"
  l_remove_finalizer :: "string \<Rightarrow> string list \<Rightarrow> string list"
  l_contains_finalizer :: "string \<Rightarrow> string list \<Rightarrow> bool"
  l_get_controller_of :: "owner_ref list \<Rightarrow> owner_ref option"
  l_set_controller_reference :: "xomachine \<Rightarrow> ip_claim \<Rightarrow> error + ip_claim"
  l_duration_string :: "int \<Rightarrow> string"
  l_render_ccm :: "ccm_manifest_data \<Rightarrow> error + string"
  l_render_csi :: "csi_manifest_data \<Rightarrow> error + string"
  l_render_cilium :: "cilium_manifest_data \<Rightarrow> error + string"

text \<open>
  What ends a wait of \<open>ResolveVMIP\<close>: the context, the deadline timer or the backoff timer.
  \<open>e_new_timer d\<close> starts a timer of \<open>d\<close> milliseconds and returns the instant it fires;
  \<open>e_select t b\<close> is the \<open>select\<close> on the context, that timer and a fresh one of \<open>b\<close>
  milliseconds. \<open>e_has_recorder\<close> and \<open>e_global_creds\<close> are the reconciler's own fields.
\<close>

datatype wake = WakeContext | WakeDeadline | WakeBackoff

record 's env =
  kube :: "'s kube"
  xo :: "'s xo_api"
  libs :: lib
  e_now :: "'s \<Rightarrow> time \<times> 's"
  e_new_timer :: "nat \<Rightarrow> 's \<Rightarrow> nat \<times> 's"
  e_select :: "nat \<Rightarrow> nat \<Rightarrow> 's \<Rightarrow> wake \<times> 's"
  e_has_recorder :: bool
  e_global_creds :: "xo_config option"

section \<open>Events and the state\<close>

datatype event =
    EvUpdateXOMachine xomachine "error option"
  | EvStatusUpdateXOMachine xomachine "error option"
  | EvUpdateXOCluster xocluster "error option"
  | EvStatusPatchXOCluster xocluster "error option"
  | EvPatchCluster cluster "error option"
  | EvCreateClaim ip_claim "error option"
  | EvApplyConfigMap nn string string "error option"
  | EvApplyResourceSet resource_set "error option"
  | EvDeleteConfigMap nn "error option"
  | EvDeleteResourceSet nn "error option"
  | EvWarning string string
  | EvGetVM uuid "error + vm"
  | EvListVMs string "error + vm option list"
  | EvCreateVM uuid create_vm_params "error + vm"
  | EvStartVM uuid "error option"
  | EvHardShutdown uuid "error option"
  | EvDeleteVM uuid "error option"
  | EvListVDIs uuid string "error + vdi list"
  | EvListVBDs string "error + vbd list"
  | EvDeleteVBD uuid "error option"
  | EvTaskWait string "error + xo_task"
  | EvV1GetVM string
  | EvConnectVIF vif "error option"
  | EvCall string "(string \<times> rpc_arg) list" "error option"
  | EvAddTag string string "error option"

record ('o, 's) st =
  obj :: 'o
  ext :: 's
  log :: "event list"

type_synonym ('o, 's, 'a) prog = "(('o, 's) st, 'a) state"

abbreviation ret :: "'a \<Rightarrow> ('w, 'a) state" where
  "ret \<equiv> State_Monad.return"

definition get_obj :: "('o, 's, 'o) prog" where
  "get_obj = State (\<lambda>w. (obj w, w))"

definition set_obj :: "'o \<Rightarrow> ('o, 's, unit) prog" where
  "set_obj x = State (\<lambda>w. ((), w\<lparr>obj := x\<rparr>))"

definition modify_obj :: "('o \<Rightarrow> 'o) \<Rightarrow> ('o, 's, unit) prog" where
  "modify_obj f = State (\<lambda>w. ((), w\<lparr>obj := f (obj w)\<rparr>))"

text \<open>A call that leaves no event, and a call that does.\<close>

definition query :: "('s \<Rightarrow> 'a \<times> 's) \<Rightarrow> ('o, 's, 'a) prog" where
  "query op = State (\<lambda>w. case op (ext w) of (r, s) \<Rightarrow> (r, w\<lparr>ext := s\<rparr>))"

definition act :: "('a \<Rightarrow> event) \<Rightarrow> ('s \<Rightarrow> 'a \<times> 's) \<Rightarrow> ('o, 's, 'a) prog" where
  "act ev op = State (\<lambda>w. case op (ext w) of (r, s) \<Rightarrow> (r, w\<lparr>ext := s, log := log w @ [ev r]\<rparr>))"

definition emit :: "event \<Rightarrow> ('o, 's, unit) prog" where
  "emit e = State (\<lambda>w. ((), w\<lparr>log := log w @ [e]\<rparr>))"

lemma run_prims [simp]:
  "run_state get_obj w = (obj w, w)"
  "run_state (set_obj x) w = ((), w\<lparr>obj := x\<rparr>)"
  "run_state (modify_obj f) w = ((), w\<lparr>obj := f (obj w)\<rparr>)"
  "run_state (emit e) w = ((), w\<lparr>log := log w @ [e]\<rparr>)"
  by (simp_all add: get_obj_def set_obj_def modify_obj_def emit_def)

lemma run_query [simp]:
  "run_state (query op) w = (fst (op (ext w)), w\<lparr>ext := snd (op (ext w))\<rparr>)"
  by (simp add: query_def split: prod.split)

lemma run_act [simp]:
  "run_state (act ev op) w =
     (fst (op (ext w)), w\<lparr>ext := snd (op (ext w)), log := log w @ [ev (fst (op (ext w)))]\<rparr>)"
  by (simp add: act_def split: prod.split)

section \<open>Weakest preconditions\<close>

text \<open>
  \<open>wp m Q w\<close>: run from \<open>w\<close>, the program ends in a result and a state that satisfy \<open>Q\<close>. The
  rules below compute it along the program text.
\<close>

definition wp :: "('w, 'a) state \<Rightarrow> ('a \<Rightarrow> 'w \<Rightarrow> bool) \<Rightarrow> 'w \<Rightarrow> bool" where
  "wp m Q w \<longleftrightarrow> (case run_state m w of (a, w') \<Rightarrow> Q a w')"

lemma wp_run: "wp m Q w \<Longrightarrow> run_state m w = (a, w') \<Longrightarrow> Q a w'"
  by (simp add: wp_def)

lemma wpI: "(\<And>a w'. run_state m w = (a, w') \<Longrightarrow> Q a w') \<Longrightarrow> wp m Q w"
  by (simp add: wp_def split: prod.split)

lemma wp_mono: "wp m Q w \<Longrightarrow> (\<And>a w'. Q a w' \<Longrightarrow> Q' a w') \<Longrightarrow> wp m Q' w"
  by (simp add: wp_def split: prod.splits)

lemma wp_conj: "wp m (\<lambda>a w'. Q a w' \<and> R a w') w \<longleftrightarrow> wp m Q w \<and> wp m R w"
  by (simp add: wp_def split: prod.split)

lemma wp_simps [simp]:
  "wp (ret a) Q w = Q a w"
  "wp (m \<bind> f) Q w = wp m (\<lambda>a. wp (f a) Q) w"
  "wp get_obj Q' v = Q' (obj v) v"
  "wp (set_obj x) R v = R () (v\<lparr>obj := x\<rparr>)"
  "wp (modify_obj h) R v = R () (v\<lparr>obj := h (obj v)\<rparr>)"
  "wp (emit e) R v = R () (v\<lparr>log := log v @ [e]\<rparr>)"
  by (simp_all add: wp_def split: prod.split)

lemma wp_query [simp]:
  "wp (query op) Q w = (\<forall>r s. op (ext w) = (r, s) \<longrightarrow> Q r (w\<lparr>ext := s\<rparr>))"
  by (cases "op (ext w)") (simp add: wp_def)

lemma wp_act [simp]:
  "wp (act ev op) Q w =
     (\<forall>r s. op (ext w) = (r, s) \<longrightarrow> Q r (w\<lparr>ext := s, log := log w @ [ev r]\<rparr>))"
  by (cases "op (ext w)") (simp add: wp_def)

lemma wp_cases [simp]:
  "wp (if b then m else n) Q w = (if b then wp m Q w else wp n Q w)"
  "wp (case x of Inl e \<Rightarrow> f e | Inr y \<Rightarrow> g y) Q w =
     (case x of Inl e \<Rightarrow> wp (f e) Q w | Inr y \<Rightarrow> wp (g y) Q w)"
  "wp (case z of None \<Rightarrow> m | Some y \<Rightarrow> h y) Q w =
     (case z of None \<Rightarrow> wp m Q w | Some y \<Rightarrow> wp (h y) Q w)"
  "wp (case l of [] \<Rightarrow> m | y # ys \<Rightarrow> k y ys) Q w =
     (case l of [] \<Rightarrow> wp m Q w | y # ys \<Rightarrow> wp (k y ys) Q w)"
  "wp (case p of (a, b) \<Rightarrow> j a b) Q w = (case p of (a, b) \<Rightarrow> wp (j a b) Q w)"
  "wp (Let t u) Q w = wp (u t) Q w"
  by (auto split: sum.split option.split list.split prod.split simp: Let_def)

text \<open>
  \<open>always Q m\<close>: the program ends in \<open>Q\<close> wherever it starts. What comes before the last step does not
  matter then, but for the results that decide on it.
\<close>

definition always :: "('a \<Rightarrow> 'w \<Rightarrow> bool) \<Rightarrow> ('w, 'a) state \<Rightarrow> bool" where
  "always Q m \<longleftrightarrow> (\<forall>w. wp m Q w)"

lemma always_result:
  assumes "always (\<lambda>x w'. R x) m" and "\<And>x. R x \<Longrightarrow> always Q (f x)" shows "always Q (m \<bind> f)"
  using assms unfolding always_def wp_simps(2) by (blast intro: wp_mono)

lemma always_bind: "(\<And>x. always Q (f x)) \<Longrightarrow> always Q (m \<bind> f)"
  unfolding always_def wp_simps(2) by (blast intro: wpI)

lemma always_cases:
  "(b \<Longrightarrow> always Q m) \<Longrightarrow> (\<not> b \<Longrightarrow> always Q n) \<Longrightarrow> always Q (if b then m else n)"
  "(\<And>e. x = Inl e \<Longrightarrow> always Q (g e)) \<Longrightarrow> (\<And>y. x = Inr y \<Longrightarrow> always Q (h y)) \<Longrightarrow>
   always Q (case x of Inl e \<Rightarrow> g e | Inr y \<Rightarrow> h y)"
  "(z = None \<Longrightarrow> always Q m) \<Longrightarrow> (\<And>v. z = Some v \<Longrightarrow> always Q (k v)) \<Longrightarrow>
   always Q (case z of None \<Rightarrow> m | Some v \<Rightarrow> k v)"
  "(\<And>a c. p = (a, c) \<Longrightarrow> always Q (j a c)) \<Longrightarrow> always Q (case p of (a, c) \<Rightarrow> j a c)"
  by (simp_all split: sum.split option.split prod.split)

lemmas always_struct = always_bind always_cases

section \<open>Disciplines\<close>

text \<open>
  A relation between the state before and the state after that is reflexive and transitive is
  kept by a program when its calls keep it. Two kinds are used throughout: the log only grows,
  by events of a given class (\<open>grows\<close>), and a part of the state does not change (\<open>same\<close>).
\<close>

definition steps_in :: "('w \<Rightarrow> 'w \<Rightarrow> bool) \<Rightarrow> ('w, 'a) state \<Rightarrow> bool" where
  "steps_in R m \<longleftrightarrow> (\<forall>w. R w (snd (run_state m w)))"

locale discipline =
  fixes R :: "'w \<Rightarrow> 'w \<Rightarrow> bool"
  assumes discipline_refl: "R w w"
    and discipline_trans: "R w v \<Longrightarrow> R v u \<Longrightarrow> R w u"
begin

lemma steps_ret: "steps_in R (ret a)"
  by (simp add: steps_in_def discipline_refl)

lemma steps_bind: "steps_in R m \<Longrightarrow> (\<And>x. steps_in R (f x)) \<Longrightarrow> steps_in R (m \<bind> f)"
  unfolding steps_in_def
  by (auto split: prod.splits) (metis discipline_trans prod.sel)

lemma steps_if:
  "(b \<Longrightarrow> steps_in R m) \<Longrightarrow> (\<not> b \<Longrightarrow> steps_in R n) \<Longrightarrow> steps_in R (if b then m else n)"
  by simp

lemma steps_sum:
  "(\<And>e. x = Inl e \<Longrightarrow> steps_in R (f e)) \<Longrightarrow> (\<And>y. x = Inr y \<Longrightarrow> steps_in R (g y)) \<Longrightarrow>
   steps_in R (case x of Inl e \<Rightarrow> f e | Inr y \<Rightarrow> g y)"
  by (cases x) simp_all

lemma steps_option:
  "(z = None \<Longrightarrow> steps_in R m) \<Longrightarrow> (\<And>y. z = Some y \<Longrightarrow> steps_in R (h y)) \<Longrightarrow>
   steps_in R (case z of None \<Rightarrow> m | Some y \<Rightarrow> h y)"
  by (cases z) simp_all

lemma steps_list:
  "(l = [] \<Longrightarrow> steps_in R m) \<Longrightarrow> (\<And>y ys. l = y # ys \<Longrightarrow> steps_in R (k y ys)) \<Longrightarrow>
   steps_in R (case l of [] \<Rightarrow> m | y # ys \<Rightarrow> k y ys)"
  by (cases l) simp_all

lemma steps_prod: "(\<And>a b. p = (a, b) \<Longrightarrow> steps_in R (j a b)) \<Longrightarrow> steps_in R (case p of (a, b) \<Rightarrow> j a b)"
  by (cases p) simp

lemma steps_let: "steps_in R (u t) \<Longrightarrow> steps_in R (Let t u)"
  by simp

text \<open>With what is known of the result.\<close>

lemma steps_bind_result:
  assumes "steps_in R m" and "\<And>w. wp m (\<lambda>x w'. P x) w" and "\<And>x. P x \<Longrightarrow> steps_in R (f x)"
  shows "steps_in R (m \<bind> f)"
  unfolding steps_in_def
proof
  fix w
  obtain x v where run: "run_state m w = (x, v)" by fastforce
  have "P x" using wp_run[OF assms(2) run] .
  from assms(3)[OF this] assms(1) run show "R w (snd (run_state (m \<bind> f) w))"
    unfolding steps_in_def by simp (metis discipline_trans snd_conv)
qed

lemmas steps_struct = steps_ret steps_bind steps_if steps_sum steps_option steps_list steps_prod steps_let

end

definition grows :: "(event \<Rightarrow> bool) \<Rightarrow> ('o, 's) st \<Rightarrow> ('o, 's) st \<Rightarrow> bool" where
  "grows P w w' \<longleftrightarrow> (\<exists>es. log w' = log w @ es \<and> list_all P es)"

definition same :: "('w \<Rightarrow> 'x) \<Rightarrow> 'w \<Rightarrow> 'w \<Rightarrow> bool" where
  "same f w w' \<longleftrightarrow> f w' = f w"

interpretation eff: discipline "grows P" for P
proof
  show "grows P w w" for w by (simp add: grows_def)
  show "grows P w u" if "grows P w v" "grows P v u" for w v u
    using that by (force simp: grows_def)
qed

interpretation frm: discipline "same f" for f
  by unfold_locales (simp_all add: same_def)

abbreviation emits :: "(event \<Rightarrow> bool) \<Rightarrow> ('o, 's, 'a) prog \<Rightarrow> bool" where
  "emits P m \<equiv> steps_in (grows P) m"

abbreviation keeps :: "(('o, 's) st \<Rightarrow> 'x) \<Rightarrow> ('o, 's, 'a) prog \<Rightarrow> bool" where
  "keeps f m \<equiv> steps_in (same f) m"

declare eff.steps_struct [effects] frm.steps_struct [frames]

lemma emits_prims [effects]:
  "emits P get_obj"
  "emits P (set_obj x)"
  "emits P (modify_obj f)"
  "emits P (query op)"
  "P e \<Longrightarrow> emits P (emit e)"
  "(\<And>r. P (ev r)) \<Longrightarrow> emits P (act ev op)"
  by (auto simp: steps_in_def grows_def)

lemma keeps_obj_prims [frames]:
  "keeps obj get_obj"
  "keeps obj (query op)"
  "keeps obj (emit e)"
  "keeps obj (act ev op)"
  by (auto simp: steps_in_def same_def)

lemma emits_mono: "emits P m \<Longrightarrow> (\<And>e. P e \<Longrightarrow> Q e) \<Longrightarrow> emits Q m"
  unfolding steps_in_def grows_def by (meson list.pred_mono_strong)

lemma emits_log:
  "emits P m \<Longrightarrow> run_state m w = (a, w') \<Longrightarrow> \<exists>es. log w' = log w @ es \<and> (\<forall>e \<in> set es. P e)"
  unfolding steps_in_def grows_def by (metis list.pred_set snd_conv)

lemma emits_wp: "emits P m \<Longrightarrow> wp m (\<lambda>a w'. \<exists>es. log w' = log w @ es \<and> (\<forall>e \<in> set es. P e)) w"
  by (rule wpI) (erule (1) emits_log)

lemma keeps_run: "keeps f m \<Longrightarrow> run_state m w = (a, w') \<Longrightarrow> f w' = f w"
  unfolding steps_in_def same_def by (metis snd_conv)

lemma keeps_wp: "keeps f m \<Longrightarrow> wp m (\<lambda>a w'. f w' = f w) w"
  by (rule wpI) (erule (1) keeps_run)

text \<open>Stepping over a program of which only a frame or a class of events matters.\<close>

lemma wp_keeps: "keeps f m \<Longrightarrow> (\<And>a w'. f w' = f w \<Longrightarrow> Q a w') \<Longrightarrow> wp m Q w"
  by (rule wpI) (auto dest: keeps_run)

lemma wp_emits:
  "emits P m \<Longrightarrow> (\<And>a w' es. log w' = log w @ es \<Longrightarrow> \<forall>e \<in> set es. P e \<Longrightarrow> Q a w') \<Longrightarrow> wp m Q w"
  by (rule wpI) (auto dest: emits_log)

text \<open>Both at once.\<close>

lemma wp_framed:
  assumes "keeps f m" and "emits P m"
    and "\<And>a w' es. f w' = f w \<Longrightarrow> log w' = log w @ es \<Longrightarrow> \<forall>e \<in> set es. P e \<Longrightarrow> Q a w'"
  shows "wp m Q w"
proof (rule wpI)
  fix a w' assume run: "run_state m w = (a, w')"
  from emits_log[OF assms(2) run] obtain es where "log w' = log w @ es" "\<forall>e \<in> set es. P e" by blast
  with keeps_run[OF assms(1) run] assms(3) show "Q a w'" by blast
qed

lemma wp_quiet:
  assumes "keeps f m" and "emits (\<lambda>_. False) m"
    and "\<And>a w'. f w' = f w \<Longrightarrow> log w' = log w \<Longrightarrow> Q a w'"
  shows "wp m Q w"
  by (rule wp_framed[OF assms(1,2)]) (auto intro: assms(3))

text \<open>
  A third kind: as long as the object satisfies \<open>J\<close>, it goes on doing so and only events of a
  class appear. A read of the object may use \<open>J\<close>.
\<close>

definition guarded :: "('o \<Rightarrow> bool) \<Rightarrow> (event \<Rightarrow> bool) \<Rightarrow> ('o, 's) st \<Rightarrow> ('o, 's) st \<Rightarrow> bool" where
  "guarded J P w w' \<longleftrightarrow> (J (obj w) \<longrightarrow> J (obj w') \<and> grows P w w')"

interpretation grd: discipline "guarded J P" for J P
proof
  show "guarded J P w w" for w by (simp add: guarded_def eff.discipline_refl)
  show "guarded J P w u" if "guarded J P w v" "guarded J P v u" for w v u
    using that eff.discipline_trans unfolding guarded_def by blast
qed

abbreviation guards :: "('o \<Rightarrow> bool) \<Rightarrow> (event \<Rightarrow> bool) \<Rightarrow> ('o, 's, 'a) prog \<Rightarrow> bool" where
  "guards J P m \<equiv> steps_in (guarded J P) m"

lemma guards_get_obj: "(\<And>x. J x \<Longrightarrow> guards J P (f x)) \<Longrightarrow> guards J P (get_obj \<bind> f)"
  by (auto simp: steps_in_def guarded_def)

lemma guards_set_obj: "J x \<Longrightarrow> guards J P (set_obj x)"
  by (simp add: steps_in_def guarded_def grows_def)

lemma guards_modify_obj: "(\<And>x. J x \<Longrightarrow> J (h x)) \<Longrightarrow> guards J P (modify_obj h)"
  by (simp add: steps_in_def guarded_def grows_def)

lemma guards_keeps: "keeps obj m \<Longrightarrow> emits P m \<Longrightarrow> guards J P m"
  by (simp add: steps_in_def guarded_def same_def)

lemma guards_log:
  "guards J P m \<Longrightarrow> J (obj w) \<Longrightarrow> run_state m w = (a, w') \<Longrightarrow>
   J (obj w') \<and> (\<exists>es. log w' = log w @ es \<and> (\<forall>e \<in> set es. P e))"
  unfolding steps_in_def guarded_def grows_def by (metis list.pred_set snd_conv)

lemma keeps_ext_prims [frames]:
  "keeps (\<lambda>w. f (ext w)) get_obj"
  "keeps (\<lambda>w. f (ext w)) (set_obj x)"
  "keeps (\<lambda>w. f (ext w)) (modify_obj h)"
  "keeps (\<lambda>w. f (ext w)) (emit e)"
  "(\<And>s. f (snd (op s)) = f s) \<Longrightarrow> keeps (\<lambda>w. f (ext w)) (query op)"
  "(\<And>s. f (snd (op' s)) = f s) \<Longrightarrow> keeps (\<lambda>w. f (ext w)) (act ev op')"
  by (auto simp: steps_in_def same_def)

text \<open>The object an event of a kind is about: which VM is shut down, started, deleted or created.\<close>

fun hard_shutdown_of :: "event \<Rightarrow> uuid option" where
  "hard_shutdown_of (EvHardShutdown i r) = Some i"
| "hard_shutdown_of _ = None"

fun start_of :: "event \<Rightarrow> uuid option" where
  "start_of (EvStartVM i r) = Some i"
| "start_of _ = None"

fun delete_vm_of :: "event \<Rightarrow> uuid option" where
  "delete_vm_of (EvDeleteVM i r) = Some i"
| "delete_vm_of _ = None"

fun delete_vbd_of :: "event \<Rightarrow> uuid option" where
  "delete_vbd_of (EvDeleteVBD i r) = Some i"
| "delete_vbd_of _ = None"

fun is_create :: "event \<Rightarrow> bool" where
  "is_create (EvCreateVM p params r) = True"
| "is_create _ = False"

fun is_machine_write :: "event \<Rightarrow> bool" where
  "is_machine_write (EvUpdateXOMachine m r) = True"
| "is_machine_write (EvStatusUpdateXOMachine m r) = True"
| "is_machine_write _ = False"

fun is_status_update :: "event \<Rightarrow> bool" where
  "is_status_update (EvStatusUpdateXOMachine m r) = True"
| "is_status_update _ = False"

text \<open>What stops, removes or detaches something.\<close>

fun destructive :: "event \<Rightarrow> bool" where
  "destructive (EvHardShutdown i r) = True"
| "destructive (EvDeleteVM i r) = True"
| "destructive (EvDeleteVBD i r) = True"
| "destructive _ = False"

text \<open>What bringing a machine up can do besides creating its VM.\<close>

fun provisioning :: "event \<Rightarrow> bool" where
  "provisioning (EvUpdateXOMachine m r) = True"
| "provisioning (EvStatusUpdateXOMachine m r) = True"
| "provisioning (EvCreateClaim c r) = True"
| "provisioning (EvWarning a b) = True"
| "provisioning (EvGetVM i r) = True"
| "provisioning (EvListVMs f r) = True"
| "provisioning (EvStartVM i r) = True"
| "provisioning (EvTaskWait p r) = True"
| "provisioning (EvV1GetVM i) = True"
| "provisioning (EvConnectVIF v r) = True"
| "provisioning (EvCall method args r) = True"
| "provisioning (EvAddTag i t r) = True"
| "provisioning _ = False"

lemma provisioning_harmless: "provisioning e \<Longrightarrow> \<not> destructive e \<and> \<not> is_create e"
  by (cases e) simp_all

text \<open>Counting the events of a kind.\<close>

definition count_events :: "(event \<Rightarrow> bool) \<Rightarrow> ('o, 's) st \<Rightarrow> nat" where
  "count_events p w = length (filter p (log w))"

lemma emits_count: "emits (\<lambda>e. \<not> p e) m \<Longrightarrow> keeps (count_events p) m"
  unfolding steps_in_def grows_def same_def count_events_def
  by (metis (mono_tags, lifting) append_Nil2 filter_False filter_append list.pred_set)

lemma count_events_upd [simp]:
  "count_events p (w\<lparr>obj := x\<rparr>) = count_events p w"
  "count_events p (w\<lparr>ext := s\<rparr>) = count_events p w"
  "count_events p (w\<lparr>ext := s, log := log w @ [e]\<rparr>) = count_events p w + (if p e then 1 else 0)"
  by (simp_all add: count_events_def)

text \<open>
  Running a program with no loop of its own through a list of items, in order: the code's
  \<open>for range\<close> loops that stop at the first failure.
\<close>

fun for_each :: "('a \<Rightarrow> ('w, error option) state) \<Rightarrow> 'a list \<Rightarrow> ('w, error option) state" where
  "for_each body [] = ret None"
| "for_each body (x # xs) =
     do { r \<leftarrow> body x;
          (case r of Some e \<Rightarrow> ret (Some e) | None \<Rightarrow> for_each body xs) }"

context discipline begin

lemma steps_for_each: "(\<And>x. steps_in R (body x)) \<Longrightarrow> steps_in R (for_each body xs)"
  by (induction xs) (auto intro!: steps_struct)

end

text \<open>The invariant rule of such a loop: \<open>I\<close> speaks of the items already done.\<close>

lemma for_each_wp:
  assumes "I [] w"
    and "\<And>pre x post v. xs = pre @ x # post \<Longrightarrow> I pre v \<Longrightarrow>
           wp (body x) (\<lambda>r v'. case r of None \<Rightarrow> I (pre @ [x]) v' | Some e \<Rightarrow> Q (Some e) v') v"
    and "\<And>v. I xs v \<Longrightarrow> Q None v"
  shows "wp (for_each body xs) Q w"
proof -
  have "wp (for_each body ys) Q v" if "xs = pre @ ys" "I pre v" for pre ys v
    using that
  proof (induction ys arbitrary: pre v)
    case Nil
    then show ?case using assms(3) by simp
  next
    case (Cons y ys)
    have "wp (body y) (\<lambda>r v'. case r of None \<Rightarrow> I (pre @ [y]) v' | Some e \<Rightarrow> Q (Some e) v') v"
      using Cons.prems assms(2) by blast
    then show ?case
      using Cons.IH[of "pre @ [y]"] Cons.prems(1)
      by (auto intro: wp_mono split: option.splits)
  qed
  from this[of "[]" xs w] assms(1) show ?thesis by simp
qed

declare eff.steps_for_each [effects] frm.steps_for_each [frames]

end
