(* ===== verification/Conditions.thy ===== *)
theory Conditions
  imports World
begin

text \<open>
  The condition helpers: \<open>xomachine/status.go\<close> for the XOMachine and \<open>setCondition\<close> of
  \<open>xocluster_controller.go\<close> for the XOCluster. The two are written differently; the locale
  \<open>condition_store\<close> is the contract they share, and both are shown to provide it.
\<close>

section \<open>SetCondition (XOMachine)\<close>

text \<open>\<open>slices.IndexFunc\<close>: the first index that satisfies the predicate.\<close>

fun index_func :: "('a \<Rightarrow> bool) \<Rightarrow> 'a list \<Rightarrow> nat option" where
  "index_func p [] = None"
| "index_func p (x # xs) = (if p x then Some 0 else map_option Suc (index_func p xs))"

definition set_condition_list ::
  "time \<Rightarrow> string \<Rightarrow> cond_status \<Rightarrow> string \<Rightarrow> string \<Rightarrow> condition list \<Rightarrow> condition list" where
  "set_condition_list now t st reason msg cs =
     (case index_func (\<lambda>c. cond_type c = t) cs of
        Some i \<Rightarrow>
          cs[i := (cs ! i)\<lparr>cond_time := (if cond_stat (cs ! i) \<noteq> st then now else cond_time (cs ! i)),
                            cond_stat := st, cond_reason := reason, cond_message := msg\<rparr>]
      | None \<Rightarrow>
          cs @ [\<lparr>cond_type = t, cond_stat = st, cond_reason = reason, cond_message = msg, cond_time = now\<rparr>])"

definition SetCondition ::
  "time \<Rightarrow> string \<Rightarrow> cond_status \<Rightarrow> string \<Rightarrow> string \<Rightarrow> xomachine \<Rightarrow> xomachine" where
  "SetCondition now t st reason msg m =
     m\<lparr>xm_status := (xm_status m)\<lparr>mst_conditions :=
        set_condition_list now t st reason msg (mst_conditions (xm_status m))\<rparr>\<rparr>"

section \<open>setCondition (XOCluster)\<close>

fun cluster_set_condition_list ::
  "time \<Rightarrow> string \<Rightarrow> cond_status \<Rightarrow> string \<Rightarrow> string \<Rightarrow> condition list \<Rightarrow> condition list" where
  "cluster_set_condition_list now t st reason msg [] =
     [\<lparr>cond_type = t, cond_stat = st, cond_reason = reason, cond_message = msg, cond_time = now\<rparr>]"
| "cluster_set_condition_list now t st reason msg (c # cs) =
     (if cond_type c = t
      then c\<lparr>cond_time := (if cond_stat c \<noteq> st then now else cond_time c),
             cond_stat := st, cond_reason := reason, cond_message := msg\<rparr> # cs
      else c # cluster_set_condition_list now t st reason msg cs)"

definition setCondition ::
  "time \<Rightarrow> string \<Rightarrow> cond_status \<Rightarrow> string \<Rightarrow> string \<Rightarrow> xocluster \<Rightarrow> xocluster" where
  "setCondition now t st reason msg c =
     c\<lparr>xc_status := (xc_status c)\<lparr>cst_conditions :=
        cluster_set_condition_list now t st reason msg (cst_conditions (xc_status c))\<rparr>\<rparr>"

section \<open>The contract\<close>

text \<open>
  The abstract view of a condition list: the first condition of each type. Storing a condition
  changes the view at its own type only, there to the new status, reason and message; the
  transition time moves exactly when the status does.
\<close>

definition cond_view :: "condition list \<Rightarrow> string \<Rightarrow> condition option" where
  "cond_view cs t = find (\<lambda>c. cond_type c = t) cs"

definition cond_merge ::
  "time \<Rightarrow> string \<Rightarrow> cond_status \<Rightarrow> string \<Rightarrow> string \<Rightarrow> condition option \<Rightarrow> condition" where
  "cond_merge now t st reason msg old =
     \<lparr>cond_type = t, cond_stat = st, cond_reason = reason, cond_message = msg,
      cond_time = (case old of Some c \<Rightarrow> (if cond_stat c \<noteq> st then now else cond_time c) | None \<Rightarrow> now)\<rparr>"

locale condition_store =
  fixes store :: "time \<Rightarrow> string \<Rightarrow> cond_status \<Rightarrow> string \<Rightarrow> string \<Rightarrow> condition list \<Rightarrow> condition list"
  assumes view_store:
      "cond_view (store now t st reason msg cs) =
         (cond_view cs)(t \<mapsto> cond_merge now t st reason msg (cond_view cs t))"
    and types_store:
      "map cond_type (store now t st reason msg cs) =
         (if t \<in> cond_type ` set cs then map cond_type cs else map cond_type cs @ [t])"
begin

lemma store_unique:
  "distinct (map cond_type cs) \<Longrightarrow> distinct (map cond_type (store now t st reason msg cs))"
  by (auto simp: types_store)

lemma store_same_status_keeps_time:
  assumes "cond_view cs t = Some c" and "cond_stat c = st"
  shows "map_option cond_time (cond_view (store now t st reason msg cs) t) = Some (cond_time c)"
  using assms by (simp add: view_store cond_merge_def)

lemma store_twice:
  "cond_view (store now2 t st reason2 msg2 (store now1 t st reason1 msg1 cs)) =
   cond_view (store now1 t st reason2 msg2 cs)"
  by (rule ext) (simp add: view_store cond_merge_def)

lemma store_frame: "t' \<noteq> t \<Longrightarrow> cond_view (store now t st reason msg cs) t' = cond_view cs t'"
  by (simp add: view_store)

lemma store_commute:
  "t1 \<noteq> t2 \<Longrightarrow>
   cond_view (store n1 t1 s1 r1 m1 (store n2 t2 s2 r2 m2 cs)) =
   cond_view (store n2 t2 s2 r2 m2 (store n1 t1 s1 r1 m1 cs))"
  by (rule ext) (simp add: view_store)

lemma store_length: "length (store now t st reason msg cs) \<le> Suc (length cs)"
  by (metis (no_types, lifting) types_store length_append_singleton length_map lessI less_imp_le order_refl)

end

text \<open>The two implementations compute the same list, hence both provide the contract.\<close>

lemma set_condition_list_eq:
  "set_condition_list now t st reason msg cs = cluster_set_condition_list now t st reason msg cs"
proof (induction cs)
  case Nil
  then show ?case by (simp add: set_condition_list_def)
next
  case (Cons c cs)
  then show ?case
    by (cases "index_func (\<lambda>c. cond_type c = t) cs") (auto simp: set_condition_list_def)
qed

lemma cond_view_cluster:
  "cond_view (cluster_set_condition_list now t st reason msg cs) =
     (cond_view cs)(t \<mapsto> cond_merge now t st reason msg (cond_view cs t))"
  by (induction cs) (auto simp: cond_view_def cond_merge_def fun_eq_iff)

lemma cond_types_cluster:
  "map cond_type (cluster_set_condition_list now t st reason msg cs) =
     (if t \<in> cond_type ` set cs then map cond_type cs else map cond_type cs @ [t])"
  by (induction cs) auto

interpretation cluster_conds: condition_store cluster_set_condition_list
  by unfold_locales (rule cond_view_cluster, rule cond_types_cluster)

interpretation machine_conds: condition_store set_condition_list
  by unfold_locales (simp_all add: set_condition_list_eq cond_view_cluster cond_types_cluster)

section \<open>Persisting a condition\<close>

definition status_update :: "'s env \<Rightarrow> (xomachine, 's, error option) prog" where
  "status_update E =
     do { o' \<leftarrow> get_obj;
          r \<leftarrow> act (\<lambda>r. EvStatusUpdateXOMachine o' (failure_of r)) (k_status_update_xomachine (kube E) o');
          (case r of
             Inl e \<Rightarrow> ret (Some e)
           | Inr fresh \<Rightarrow> do { set_obj fresh; ret None }) }"

text \<open>\<open>Update\<close> of the object itself, and the \<open>Get\<close> that reads it again after a conflict.\<close>

definition update_machine :: "'s env \<Rightarrow> (xomachine, 's, error option) prog" where
  "update_machine E =
     do { o' \<leftarrow> get_obj;
          r \<leftarrow> act (\<lambda>r. EvUpdateXOMachine o' (failure_of r)) (k_update_xomachine (kube E) o');
          (case r of
             Inl e \<Rightarrow> ret (Some e)
           | Inr fresh \<Rightarrow> do { set_obj fresh; ret None }) }"

definition refetch_machine :: "'s env \<Rightarrow> (xomachine, 's, error option) prog" where
  "refetch_machine E =
     do { o' \<leftarrow> get_obj;
          r \<leftarrow> query (k_get_xomachine (kube E)
                 \<lparr>nn_namespace = om_namespace (xm_meta o'), nn_name = om_name (xm_meta o')\<rparr>);
          (case r of
             Inl e \<Rightarrow> ret (Some e)
           | Inr fresh \<Rightarrow> do { set_obj fresh; ret None }) }"

definition UpdateCondition ::
  "'s env \<Rightarrow> cond_status \<Rightarrow> string \<Rightarrow> string \<Rightarrow> (xomachine, 's, error option) prog" where
  "UpdateCondition E st reason msg =
     do { now \<leftarrow> query (e_now E);
          modify_obj (SetCondition now ''Ready'' st reason msg);
          status_update E }"

definition WithConditionUpdate ::
  "'s env \<Rightarrow> error \<Rightarrow> cond_status \<Rightarrow> string \<Rightarrow> (xomachine, 's, error) prog" where
  "WithConditionUpdate E original st reason =
     do { condErr \<leftarrow> UpdateCondition E st reason (error_text original);
          (case condErr of
             Some ce \<Rightarrow> ret (ConditionError original ce)
           | None \<Rightarrow> ret original) }"

text \<open>\<open>isConditionTrue\<close> of xomachine_reconcile.go.\<close>

definition isConditionTrue :: "xomachine \<Rightarrow> string \<Rightarrow> bool" where
  "isConditionTrue m reason =
     list_ex (\<lambda>c. cond_type c = ''Ready'' \<and> cond_stat c = ConditionTrue \<and> cond_reason c = reason)
       (mst_conditions (xm_status m))"

lemma status_update_emits [effects]:
  "(\<And>m r. P (EvStatusUpdateXOMachine m r)) \<Longrightarrow> emits P (status_update E)"
  unfolding status_update_def by (intro effects)

lemma update_machine_emits [effects]:
  "(\<And>m r. P (EvUpdateXOMachine m r)) \<Longrightarrow> emits P (update_machine E)"
  unfolding update_machine_def by (intro effects)

lemma refetch_machine_emits [effects]: "emits P (refetch_machine E)"
  unfolding refetch_machine_def by (intro effects)

lemma UpdateCondition_emits [effects]:
  "(\<And>m r. P (EvStatusUpdateXOMachine m r)) \<Longrightarrow> emits P (UpdateCondition E st reason msg)"
  unfolding UpdateCondition_def by (intro effects)

lemma WithConditionUpdate_emits [effects]:
  "(\<And>m r. P (EvStatusUpdateXOMachine m r)) \<Longrightarrow> emits P (WithConditionUpdate E e st reason)"
  unfolding WithConditionUpdate_def by (intro effects)

lemma SetCondition_frame [simp]:
  "xm_meta (SetCondition now t st reason msg m) = xm_meta m"
  "xm_spec (SetCondition now t st reason msg m) = xm_spec m"
  "mst_ready (xm_status (SetCondition now t st reason msg m)) = mst_ready (xm_status m)"
  "mst_provider_id (xm_status (SetCondition now t st reason msg m)) = mst_provider_id (xm_status m)"
  "mst_vm_name (xm_status (SetCondition now t st reason msg m)) = mst_vm_name (xm_status m)"
  "mst_addresses (xm_status (SetCondition now t st reason msg m)) = mst_addresses (xm_status m)"
  "mst_initialization (xm_status (SetCondition now t st reason msg m)) = mst_initialization (xm_status m)"
  by (simp_all add: SetCondition_def)

lemma WithConditionUpdate_reason:
  "run_state (WithConditionUpdate E e st reason) w = (e', w') \<Longrightarrow>
   api_reason_of e' = api_reason_of e \<and> prefix (error_text e) (error_text e')"
  by (auto simp: WithConditionUpdate_def split: prod.splits option.splits)

lemma isConditionTrue_SetCondition:
  "isConditionTrue (SetCondition now ''Ready'' ConditionTrue reason msg m) reason"
proof -
  have "list_ex (\<lambda>c. cond_type c = t \<and> cond_stat c = ConditionTrue \<and> cond_reason c = reason)
          (cluster_set_condition_list now t ConditionTrue reason msg cs)" for t cs
    by (induction cs) auto
  then show ?thesis
    by (simp add: isConditionTrue_def SetCondition_def set_condition_list_eq)
qed

end
