(* ===== verification/K8s_Helpers.thy ===== *)
theory K8s_Helpers
  imports Conditions
begin

text \<open>
  Lookups of owner objects (\<open>xomachine/k8s_helpers.go\<close>) and of Xen Orchestra credentials and
  clients (\<open>controller/credentials.go\<close>, \<open>xomachine/client.go\<close>). None of these operations
  changes anything: each emits no event and keeps the reconciled object.
\<close>

section \<open>Owner objects\<close>

definition GetXOCluster :: "'s env \<Rightarrow> string \<Rightarrow> string \<Rightarrow> ('o, 's, error + xocluster option) prog" where
  "GetXOCluster E namespace clusterName =
     do { r \<leftarrow> query (k_get_cluster (kube E) \<lparr>nn_namespace = namespace, nn_name = clusterName\<rparr>);
          (case r of
             Inl err \<Rightarrow> ret (Inl err)
           | Inr cl \<Rightarrow>
               (if cl_infra_kind cl \<noteq> ''XOCluster'' \<or> cl_infra_name cl = [] then ret (Inr None)
                else do { r2 \<leftarrow> query (k_get_xocluster (kube E)
                                  \<lparr>nn_namespace = namespace, nn_name = cl_infra_name cl\<rparr>);
                          (case r2 of
                             Inl err \<Rightarrow> ret (Inl err)
                           | Inr xc \<Rightarrow> ret (Inr (Some xc))) })) }"

definition GetOwnerMachine :: "'s env \<Rightarrow> xomachine \<Rightarrow> ('o, 's, error + machine option) prog" where
  "GetOwnerMachine E m =
     (case l_get_controller_of (libs E) (om_owners (xm_meta m)) of
        None \<Rightarrow> ret (Inr None)
      | Some ownerRef \<Rightarrow>
          do { r \<leftarrow> query (k_get_machine (kube E)
                     \<lparr>nn_namespace = om_namespace (xm_meta m), nn_name = or_name ownerRef\<rparr>);
               (case r of
                  Inl err \<Rightarrow> (if \<not> api_not_found err then ret (Inl err) else ret (Inr None))
                | Inr mach \<Rightarrow>
                    (if om_uid (mach_meta mach) \<noteq> or_uid ownerRef then ret (Inr None)
                     else ret (Inr (Some mach)))) })"

section \<open>Credentials and clients\<close>

definition trueStr :: string where
  "trueStr = ''true''"

definition ResolveXOConfig ::
  "'s env \<Rightarrow> string \<Rightarrow> string option \<Rightarrow> xo_config option \<Rightarrow> ('o, 's, error + xo_config option) prog" where
  "ResolveXOConfig E namespace identityRef fallback =
     (case identityRef of
        None \<Rightarrow> ret (Inr fallback)
      | Some name \<Rightarrow>
          do { r \<leftarrow> query (k_get_secret (kube E) \<lparr>nn_namespace = namespace, nn_name = name\<rparr>);
               (case r of
                  Inl err \<Rightarrow>
                    ret (Inl (Wrapped (''get identity secret '' @ namespace @ ''/'' @ name @ '': '') err))
                | Inr sec \<Rightarrow>
                    (let url = go_get (sec_data sec) ''url'';
                         token = go_get (sec_data sec) ''token'';
                         ins = go_get (sec_data sec) ''insecure'';
                         who = ''identity secret '' @ namespace @ ''/'' @ name
                     in if url = [] then ret (Inl (Plain (who @ '' missing 'url' key'')))
                        else if token = [] then ret (Inl (Plain (who @ '' missing 'token' key'')))
                        else ret (Inr (Some \<lparr>xo_url = url, xo_token = token,
                                             xo_insecure = (ins \<noteq> [] \<and> ins = trueStr)\<rparr>)))) })"

definition NewXOClientFromConfig ::
  "'s env \<Rightarrow> xo_config option \<Rightarrow> ('o, 's, error + xo_client option) prog" where
  "NewXOClientFromConfig E cfg =
     (case cfg of
        None \<Rightarrow> ret (Inr None)
      | Some c \<Rightarrow>
          do { r \<leftarrow> query (x_new_client (xo E) c);
               (case r of
                  Inl err \<Rightarrow> ret (Inl (Wrapped ''create XO client: '' err))
                | Inr cl \<Rightarrow>
                    do { r2 \<leftarrow> query (x_check_client (xo E) cl);
                         (case r2 of
                            Inl err \<Rightarrow> ret (Inl (Wrapped ''connect to XO: '' err))
                          | Inr u \<Rightarrow> ret (Inr (Some cl))) }) })"

definition GetOrCreateXOClient ::
  "'s env \<Rightarrow> xo_config option \<Rightarrow> xo_client option \<Rightarrow> ('o, 's, error + xo_client option) prog" where
  "GetOrCreateXOClient E xoCreds current =
     (case current of
        Some cl \<Rightarrow> ret (Inr (Some cl))
      | None \<Rightarrow> NewXOClientFromConfig E xoCreds)"

section \<open>Lemmas\<close>

lemma GetXOCluster_emits [effects]: "emits P (GetXOCluster E ns n)"
  unfolding GetXOCluster_def by (intro effects)

lemma GetOwnerMachine_emits [effects]: "emits P (GetOwnerMachine E m)"
  unfolding GetOwnerMachine_def by (intro effects)

lemma ResolveXOConfig_emits [effects]: "emits P (ResolveXOConfig E ns r fb)"
  unfolding ResolveXOConfig_def Let_def by (intro effects)

lemma NewXOClientFromConfig_emits [effects]: "emits P (NewXOClientFromConfig E c)"
  unfolding NewXOClientFromConfig_def by (intro effects)

lemma GetXOCluster_keeps [frames]: "keeps obj (GetXOCluster E ns n)"
  unfolding GetXOCluster_def by (intro frames)

lemma GetOwnerMachine_keeps [frames]: "keeps obj (GetOwnerMachine E m)"
  unfolding GetOwnerMachine_def by (intro frames)

lemma ResolveXOConfig_keeps [frames]: "keeps obj (ResolveXOConfig E ns r fb)"
  unfolding ResolveXOConfig_def Let_def by (intro frames)

lemma NewXOClientFromConfig_keeps [frames]: "keeps obj (NewXOClientFromConfig E c)"
  unfolding NewXOClientFromConfig_def by (intro frames)

text \<open>The owner machine is the one the controller reference names, uid included.\<close>

lemma GetOwnerMachine_uid:
  "wp (GetOwnerMachine E m)
      (\<lambda>r w'. \<forall>mach. r = Inr (Some mach) \<longrightarrow>
          (\<exists>ref. l_get_controller_of (libs E) (om_owners (xm_meta m)) = Some ref \<and>
                 om_uid (mach_meta mach) = or_uid ref)) w"
  by (auto simp: GetOwnerMachine_def split: option.split sum.split)

lemma ResolveXOConfig_sound:
  "wp (ResolveXOConfig E ns (Some name) fb)
      (\<lambda>r w'. \<forall>c. r = Inr c \<longrightarrow>
          (\<exists>cfg sec. c = Some cfg \<and>
             fst (k_get_secret (kube E) \<lparr>nn_namespace = ns, nn_name = name\<rparr> (ext w)) = Inr sec \<and>
             sec_data sec ''url'' = Some (xo_url cfg) \<and> sec_data sec ''token'' = Some (xo_token cfg) \<and>
             xo_url cfg \<noteq> [] \<and> xo_token cfg \<noteq> [])) w"
  by (auto simp: ResolveXOConfig_def Let_def go_get_def split: sum.split option.splits if_splits)

end
