(* ===== verification/Vm_Tags.thy ===== *)
theory Vm_Tags
  imports K8s_Helpers
begin

text \<open>
  Tags of a VM (\<open>SetVMTags\<close>, \<open>clusterTags\<close>, \<open>vmTags\<close> of \<open>xomachine/vm_ops.go\<close>). The
  Kubernetes client is never nil here, as in the running controller.
\<close>

section \<open>The code\<close>

text \<open>The loop that appends the user's tags.\<close>

fun appendTags :: "string list \<Rightarrow> string list \<Rightarrow> string list" where
  "appendTags tags [] = tags"
| "appendTags tags (tag # rest) =
     (if tag \<noteq> [] \<and> tag \<notin> set tags then appendTags (tags @ [tag]) rest else appendTags tags rest)"

definition vmTags :: "xomachine \<Rightarrow> string \<Rightarrow> string list \<Rightarrow> string list" where
  "vmTags m providerName clusterTags =
     (let role = (if om_labels (xm_meta m) MachineControlPlaneLabel \<noteq> None
                  then ''control-plane'' else ''worker'');
          tags = [''vates-capi'',
                  ''cluster-name:'' @ go_get (om_labels (xm_meta m)) ClusterNameLabel,
                  ''machine:'' @ om_name (xm_meta m),
                  ''role:'' @ role];
          tags' = (if providerName \<noteq> [] then tags @ [''bootstrap:'' @ providerName] else tags)
      in appendTags tags' (clusterTags @ ms_tags (xm_spec m)))"

definition clusterTags :: "'s env \<Rightarrow> xomachine \<Rightarrow> ('o, 's, string list) prog" where
  "clusterTags E m =
     (let clusterName = go_get (om_labels (xm_meta m)) ClusterNameLabel
      in if clusterName = [] then ret []
         else do { r \<leftarrow> GetXOCluster E (om_namespace (xm_meta m)) clusterName;
                   (case r of
                      Inl err \<Rightarrow> ret []
                    | Inr None \<Rightarrow> ret []
                    | Inr (Some xc) \<Rightarrow> ret (cs_tags (xc_spec xc))) })"

definition add_tag :: "'s env \<Rightarrow> xo_client \<Rightarrow> string \<Rightarrow> string \<Rightarrow> ('o, 's, error option) prog" where
  "add_tag E c vmID tag =
     do { r \<leftarrow> act (\<lambda>r. EvAddTag vmID tag (failure_of r)) (x_v1_add_tag (xo E) c vmID tag);
          ret (failure_of r) }"

definition SetVMTags ::
  "'s env \<Rightarrow> xomachine \<Rightarrow> uuid \<Rightarrow> xo_client option \<Rightarrow> string \<Rightarrow> ('o, 's, unit) prog" where
  "SetVMTags E m vmID xoClient providerName =
     (case xoClient of
        None \<Rightarrow> ret ()
      | Some c \<Rightarrow>
          (if \<not> v1_ok (xo_v1 c) \<or> xo_v1 c = V1ConcreteNil then ret ()
           else do { ct \<leftarrow> clusterTags E m;
                     for_each (add_tag E c (l_uuid_string (libs E) vmID)) (vmTags m providerName ct);
                     ret () }))"

section \<open>Lemmas\<close>

lemma appendTags_set: "set (appendTags tags ts) = set tags \<union> {t \<in> set ts. t \<noteq> []}"
  by (induction ts arbitrary: tags) auto

lemma appendTags_distinct: "distinct tags \<Longrightarrow> distinct (appendTags tags ts)"
  by (induction ts arbitrary: tags) auto

lemma appendTags_prefix: "prefix tags (appendTags tags ts)"
proof (induction ts arbitrary: tags)
  case Nil
  then show ?case by simp
next
  case (Cons t ts)
  show ?case using Cons[of "tags @ [t]"] Cons[of tags] by (auto dest: append_prefixD)
qed

lemma appendTags_idem: "appendTags (appendTags tags ts) ts = appendTags tags ts"
proof -
  have "\<forall>t \<in> set us. t \<noteq> [] \<longrightarrow> t \<in> set base \<Longrightarrow> appendTags base us = base" for base us
    by (induction us) auto
  then show ?thesis by (simp add: appendTags_set)
qed

lemma clusterTags_emits [effects]: "emits P (clusterTags E m)"
  unfolding clusterTags_def by (intro effects)

lemma clusterTags_keeps [frames]: "keeps obj (clusterTags E m)"
  unfolding clusterTags_def Let_def by (intro frames)

lemma add_tag_emits [effects]: "(\<And>r. P (EvAddTag i tag r)) \<Longrightarrow> emits P (add_tag E c i tag)"
  unfolding add_tag_def by (intro effects)

lemma add_tag_keeps [frames]: "keeps obj (add_tag E c i tag)"
  unfolding add_tag_def by (intro frames)

lemma SetVMTags_emits [effects]:
  "(\<And>tag r. P (EvAddTag (l_uuid_string (libs E) i) tag r)) \<Longrightarrow> emits P (SetVMTags E m i c p)"
  unfolding SetVMTags_def by (intro effects)

lemma SetVMTags_keeps [frames]: "keeps obj (SetVMTags E m i c p)"
  unfolding SetVMTags_def by (intro frames)

end
