(* ===== verification/Naming.thy ===== *)
theory Naming
  imports Api_Types
begin

text \<open>
  The names of virtual machines (\<open>xomachine/naming.go\<close>) and the recognition of this machine's
  own VM among those of the same name (\<open>vmMarker\<close> and \<open>adoptableVM\<close> of \<open>vm_ops.go\<close>).
\<close>

section \<open>The machine ID\<close>

definition machineSuffixLength :: nat where
  "machineSuffixLength = 5"

definition maxMachineNameLength :: nat where
  "maxMachineNameLength = 63"

definition randomAlphabet :: string where
  "randomAlphabet = ''bcdfghjklmnpqrstvwxz2456789''"

definition MachineID :: "string \<Rightarrow> string" where
  "MachineID machineName =
     (let n = length machineName;
          suffix = drop (n - machineSuffixLength) machineName
      in if n < machineSuffixLength then machineName
         else if \<not> list_all (\<lambda>r. r \<in> set randomAlphabet) suffix then machineName
         else if n = machineSuffixLength \<or> n = maxMachineNameLength then suffix
         else if machineName ! (n - machineSuffixLength - 1) = CHR ''-'' then suffix
         else machineName)"

section \<open>VM names\<close>

definition VMNameFromNaming :: "vm_naming_spec \<Rightarrow> bool \<Rightarrow> string \<Rightarrow> error + string" where
  "VMNameFromNaming naming controlPlane machineName =
     (let pre = (if controlPlane then vn_control_plane_prefix naming else vn_worker_prefix naming)
      in if pre = [] then Inl (Plain ''vmNaming sets no prefix for this machine's role'')
         else Inr (pre @ MachineID machineName))"

definition defaultDistribution :: string where
  "defaultDistribution = ''CAPI''"

definition distribution :: "string \<Rightarrow> string" where
  "distribution bootstrapKind =
     (let name0 = trim_suffix bootstrapKind ''Config'';
          name = (if name0 = [] then bootstrapKind else name0)
      in if name = [] then defaultDistribution else to_upper name)"

definition DefaultVMName :: "string \<Rightarrow> string \<Rightarrow> bool \<Rightarrow> string \<Rightarrow> string" where
  "DefaultVMName bootstrapKind clusterName controlPlane machineName =
     distribution bootstrapKind @ ''-'' @ clusterName @ ''-'' @
     (if controlPlane then ''CP'' else ''WORKER'') @ ''-'' @ MachineID machineName"

section \<open>Searching by name\<close>

text \<open>\<open>strings.NewReplacer\<close> with two one-byte patterns replaces byte by byte.\<close>

definition escape_label_char :: "char \<Rightarrow> string" where
  "escape_label_char c =
     (if c = CHR 0x5C then [CHR 0x5C, CHR 0x5C]
      else if c = CHR 0x22 then [CHR 0x5C, CHR 0x22] else [c])"

definition nameLabelFilter :: "string \<Rightarrow> string" where
  "nameLabelFilter vmName =
     ''name_label:'' @ [CHR 0x22] @ concat (map escape_label_char vmName) @ [CHR 0x22]"

text \<open>A nil entry of the listing is \<open>None\<close>.\<close>

definition foreignVMCount :: "vm option list \<Rightarrow> string \<Rightarrow> string \<Rightarrow> nat" where
  "foreignVMCount vms vmName marker =
     length (filter (\<lambda>v. case v of
         None \<Rightarrow> False
       | Some vm \<Rightarrow> vm_name_label vm = vmName \<and> \<not> (marker \<noteq> [] \<and> vm_name_description vm = marker)) vms)"

definition vmMarker :: "xomachine option \<Rightarrow> string" where
  "vmMarker xoMachine =
     (case xoMachine of
        None \<Rightarrow> []
      | Some m \<Rightarrow> if om_uid (xm_meta m) = [] then [] else ''vates-capi-machine:'' @ om_uid (xm_meta m))"

fun adoptableVM :: "vm option list \<Rightarrow> string \<Rightarrow> string \<Rightarrow> vm option" where
  "adoptableVM [] vmName marker = None"
| "adoptableVM (v # vms) vmName marker =
     (if marker = [] then None
      else (case v of
              None \<Rightarrow> adoptableVM vms vmName marker
            | Some vm \<Rightarrow>
                if vm_name_description vm \<noteq> marker then adoptableVM vms vmName marker
                else if vmName \<noteq> [] \<and> vm_name_label vm \<noteq> vmName then adoptableVM vms vmName marker
                else Some vm))"

section \<open>Lemmas\<close>

lemma MachineID_whole_or_suffix:
  "MachineID n = n \<or>
   (length (MachineID n) = machineSuffixLength \<and> suffix (MachineID n) n \<and>
    set (MachineID n) \<subseteq> set randomAlphabet)"
  by (auto simp: MachineID_def Let_def suffix_drop list_all_iff)

lemma MachineID_suffix: "suffix (MachineID n) n"
  using MachineID_whole_or_suffix[of n] by auto

lemma MachineID_short: "length n < machineSuffixLength \<Longrightarrow> MachineID n = n"
  by (simp add: MachineID_def Let_def)

lemma MachineID_generated:
  assumes "length s = machineSuffixLength" and "set s \<subseteq> set randomAlphabet"
  shows "MachineID (base @ ''-'' @ s) = s"
proof -
  let ?n = "base @ ''-'' @ s"
  have len: "length ?n = Suc (length base) + machineSuffixLength" using assms(1) by simp
  have drop: "drop (length ?n - machineSuffixLength) ?n = s" using assms(1) by simp
  have nth: "?n ! (length ?n - machineSuffixLength - 1) = CHR ''-''"
    using assms(1) by (simp add: nth_append)
  show ?thesis
    unfolding MachineID_def Let_def drop nth
    using assms len by (auto simp: list_all_iff subset_iff)
qed

lemma MachineID_truncated:
  assumes "length s = machineSuffixLength" and "set s \<subseteq> set randomAlphabet"
    and "length base + machineSuffixLength = maxMachineNameLength"
  shows "MachineID (base @ s) = s"
  using assms by (auto simp: MachineID_def Let_def list_all_iff)

lemma MachineID_idem: "MachineID (MachineID n) = MachineID n"
proof (cases "MachineID n = n")
  case False
  then have "length (MachineID n) = machineSuffixLength"
    using MachineID_whole_or_suffix by auto
  then show ?thesis using MachineID_whole_or_suffix[of "MachineID n"]
    by (metis append_eq_append_conv suffix_def self_append_conv2 MachineID_suffix append_Nil)
qed simp

lemma MachineID_nonempty: "n \<noteq> [] \<Longrightarrow> MachineID n \<noteq> []"
  using MachineID_whole_or_suffix[of n] by (auto simp: machineSuffixLength_def)

text \<open>Reading back a quoted value: up to the first quote no backslash escapes.\<close>

fun read_quoted :: "string \<Rightarrow> (string \<times> string) option" where
  "read_quoted [] = None"
| "read_quoted (c # cs) =
     (if c = CHR 0x22 then Some ([], cs)
      else if c = CHR 0x5C then
        (case cs of [] \<Rightarrow> None | d # ds \<Rightarrow> map_option (\<lambda>(v, r). (d # v, r)) (read_quoted ds))
      else map_option (\<lambda>(v, r). (c # v, r)) (read_quoted cs))"

lemma read_quoted_escaped:
  "read_quoted (concat (map escape_label_char v) @ [CHR 0x22] @ rest) = Some (v, rest)"
  by (induction v) (auto simp: escape_label_char_def)

lemma nameLabelFilter_reads_back:
  "read_quoted (drop (length ''name_label:'' + 1) (nameLabelFilter v)) = Some (v, [])"
  using read_quoted_escaped[of v "[]"] by (simp add: nameLabelFilter_def)

lemma nameLabelFilter_inj: "nameLabelFilter v = nameLabelFilter v' \<longleftrightarrow> v = v'"
  by (metis nameLabelFilter_reads_back option.inject prod.inject)

lemma adoptableVM_empty_marker [simp]: "adoptableVM vms vmName [] = None"
  by (cases vms) auto

lemma adoptableVM_Some:
  "adoptableVM vms vmName marker = Some vm \<Longrightarrow>
   marker \<noteq> [] \<and> Some vm \<in> set vms \<and> vm_name_description vm = marker \<and>
   (vmName = [] \<or> vm_name_label vm = vmName)"
  by (induction vms) (auto split: if_splits option.splits)

lemma adoptableVM_None:
  "marker \<noteq> [] \<Longrightarrow> adoptableVM vms vmName marker = None \<longleftrightarrow>
   (\<forall>vm. Some vm \<in> set vms \<and> vm_name_description vm = marker \<longrightarrow>
      vmName \<noteq> [] \<and> vm_name_label vm \<noteq> vmName)"
  by (induction vms) (auto split: option.splits)

lemma vmMarker_inj:
  "vmMarker (Some m) = vmMarker (Some m') \<Longrightarrow> om_uid (xm_meta m) = om_uid (xm_meta m')"
  by (auto simp: vmMarker_def split: if_splits)

text \<open>
  The two readings of a listing cover it: a VM of the machine's name is adoptable, foreign, or
  carries the marker too.
\<close>

lemma foreignVMCount_unowned:
  assumes "marker \<noteq> []" and "vmName \<noteq> []" and "adoptableVM vms vmName marker = None"
  shows "foreignVMCount vms vmName marker =
    length (filter (\<lambda>v. \<exists>vm. v = Some vm \<and> vm_name_label vm = vmName) vms)"
proof -
  have "filter (\<lambda>v. case v of None \<Rightarrow> False
           | Some vm \<Rightarrow> vm_name_label vm = vmName \<and> \<not> (marker \<noteq> [] \<and> vm_name_description vm = marker)) vms =
        filter (\<lambda>v. \<exists>vm. v = Some vm \<and> vm_name_label vm = vmName) vms"
    using assms adoptableVM_None[of marker vms vmName]
    by (intro filter_cong) (auto split: option.splits)
  then show ?thesis by (simp add: foreignVMCount_def)
qed

section \<open>Properties\<close>

text \<open>
  The identity of a machine in its VM's name. The random suffix is found in both shapes
  generated names have (after a dash, or at the end of a name cut to 63 bytes); anything else is
  used whole; and taking the identity again changes nothing. Two names share an identity exactly
  when they are equal or both end in that same suffix, which two Machines of a namespace can:
  a-bcdfg and b-bcdfg do.
\<close>

theorem MachineID_correct:
  assumes "length s = machineSuffixLength" and "set s \<subseteq> set randomAlphabet"
  shows "MachineID (base @ ''-'' @ s) = s \<and>
    (length base + machineSuffixLength = maxMachineNameLength \<longrightarrow> MachineID (base @ s) = s) \<and>
    (MachineID n = n \<or> (length (MachineID n) = machineSuffixLength \<and> suffix (MachineID n) n \<and>
       set (MachineID n) \<subseteq> set randomAlphabet)) \<and>
    MachineID (MachineID n) = MachineID n \<and>
    (MachineID n = MachineID n' \<longrightarrow> n = n' \<or>
       (\<exists>t. suffix t n \<and> suffix t n' \<and> (length t = machineSuffixLength \<or> t = n \<or> t = n'))) \<and>
    MachineID (''a-'' @ s) = MachineID (''b-'' @ s)"
proof -
  have shared: "n = n' \<or> (\<exists>t. suffix t n \<and> suffix t n' \<and> (length t = machineSuffixLength \<or> t = n \<or> t = n'))"
    if "MachineID n = MachineID n'"
    using that MachineID_suffix[of n] MachineID_suffix[of n'] MachineID_whole_or_suffix[of n] by metis
  have "MachineID (''a-'' @ s) = s" "MachineID (''b-'' @ s) = s"
    using MachineID_generated[OF assms, of "''a''"] MachineID_generated[OF assms, of "''b''"] by simp_all
  with shared show ?thesis
    using MachineID_generated[OF assms] MachineID_truncated[OF assms] MachineID_whole_or_suffix
      MachineID_idem by simp
qed

theorem MachineID_correct_witness:
  "MachineID ''demo-7n62g'' = ''7n62g'' \<and> MachineID ''a-7n62g'' = MachineID ''b-7n62g''"
proof -
  have "length ''7n62g'' = machineSuffixLength" "set ''7n62g'' \<subseteq> set randomAlphabet"
    by (simp_all add: machineSuffixLength_def randomAlphabet_def)
  from MachineID_correct[OF this, of "''demo''"] show ?thesis by simp
qed

text \<open>
  C31: the search for a VM an interrupted creation left behind. The filter sent to Xen Orchestra
  quotes the name so that reading it back gives exactly the name, whatever quotes and backslashes
  it holds. Of the VMs found, one is adopted exactly when some VM carries this machine's marker and
  name; two machines with different UIDs never have one marker, so what one adopts the other cannot;
  and a machine without a UID adopts nothing.
\<close>

theorem adoption_correct:
  assumes "om_uid (xm_meta m) \<noteq> []" and "vmName \<noteq> []"
  shows "read_quoted (drop (length ''name_label:'' + 1) (nameLabelFilter vmName)) = Some (vmName, []) \<and>
    (adoptableVM vms vmName (vmMarker (Some m)) = None \<longleftrightarrow>
      (\<nexists>vm. Some vm \<in> set vms \<and> vm_name_description vm = vmMarker (Some m) \<and> vm_name_label vm = vmName)) \<and>
    (\<forall>vm. adoptableVM vms vmName (vmMarker (Some m)) = Some vm \<longrightarrow>
       Some vm \<in> set vms \<and> vm_name_label vm = vmName \<and> vm_name_description vm = vmMarker (Some m) \<and>
       (\<forall>m' vms' vmName'. adoptableVM vms' vmName' (vmMarker (Some m')) = Some vm \<longrightarrow>
          om_uid (xm_meta m') = om_uid (xm_meta m))) \<and>
    adoptableVM vms vmName (vmMarker None) = None"
proof -
  have marker: "vmMarker (Some m) \<noteq> []" using assms(1) by (simp add: vmMarker_def)
  have none: "adoptableVM vms vmName (vmMarker (Some m)) = None \<longleftrightarrow>
      (\<nexists>vm. Some vm \<in> set vms \<and> vm_name_description vm = vmMarker (Some m) \<and> vm_name_label vm = vmName)"
    using adoptableVM_None[OF marker, of vms vmName] assms(2) by blast
  have some: "Some vm \<in> set vms \<and> vm_name_label vm = vmName \<and> vm_name_description vm = vmMarker (Some m)"
    if "adoptableVM vms vmName (vmMarker (Some m)) = Some vm" for vm
    using adoptableVM_Some[OF that] assms(2) by blast
  have own: "om_uid (xm_meta m') = om_uid (xm_meta m)"
    if "adoptableVM vms vmName (vmMarker (Some m)) = Some vm"
      "adoptableVM vms' vmName' (vmMarker (Some m')) = Some vm" for vm m' vms' vmName'
    using adoptableVM_Some[OF that(1)] adoptableVM_Some[OF that(2)] vmMarker_inj by metis
  have nil: "adoptableVM vms vmName (vmMarker None) = None"
    by (simp add: vmMarker_def)
  show ?thesis
    using nameLabelFilter_reads_back none some own nil by blast
qed

definition marked_machine :: xomachine where
  "marked_machine = \<lparr>xm_meta = \<lparr>om_name = ''demo-cp-7n62g'', om_namespace = ''default'', om_uid = ''u1'',
       om_resource_version = ''1'', om_labels = Map.empty, om_finalizers = [], om_owners = [], om_deletion = None\<rparr>,
     xm_spec = \<lparr>ms_provider_id = None, ms_pool_id = ''1'', ms_pool_name = [],
       ms_template_id = ''2'', ms_template_name = [], ms_network_config = None,
       ms_resource_set = None, ms_failure_domain = None, ms_bootstrap_provider = ''talos'',
       ms_tags = [], ms_bootstrap = None, ms_bootstrap_data = [], ms_identity_ref = None\<rparr>,
     xm_status = \<lparr>mst_ready = False, mst_provider_id = None, mst_vm_name = [],
       mst_addresses = [], mst_initialization = None, mst_failure_reason = None,
       mst_failure_message = None, mst_conditions = []\<rparr>\<rparr>"

definition left_behind :: vm where
  "left_behind = \<lparr>vm_id = 7, vm_name_label = ''vm'', vm_name_description = ''vates-capi-machine:u1'',
     vm_power_state = PowerHalted, vm_main_ip = []\<rparr>"

theorem adoption_correct_witness:
  "\<exists>vm. adoptableVM [None, Some left_behind] ''vm'' (vmMarker (Some marked_machine)) = Some vm"
proof -
  have "om_uid (xm_meta marked_machine) \<noteq> []" "''vm'' \<noteq> []" by (simp_all add: marked_machine_def)
  from adoption_correct[OF this, of "[None, Some left_behind]"]
  have "adoptableVM [None, Some left_behind] ''vm'' (vmMarker (Some marked_machine)) \<noteq> None"
    by (auto simp: left_behind_def vmMarker_def marked_machine_def)
  then show ?thesis by simp
qed

end
