(* ===== verification/Resolve.thy ===== *)
theory Resolve
  imports World
begin

text \<open>
  Resolution of templates, pools and networks (\<open>xomachine/resolve.go\<close>): a direct identifier
  wins, a name is looked up through the v1 client, anything else is an error (or, for a pool,
  the nil UUID).
\<close>

definition ResolveTemplateID ::
  "'s env \<Rightarrow> xo_client \<Rightarrow> string \<Rightarrow> string \<Rightarrow> ('o, 's, error + uuid) prog" where
  "ResolveTemplateID E c templateIDStr templateName =
     (if templateIDStr \<noteq> [] then
        (case l_uuid_from_string (libs E) templateIDStr of
           Inl err \<Rightarrow> ret (Inl (Wrapped (''invalid template ID '' @ go_quote templateIDStr @ '': '') err))
         | Inr u \<Rightarrow> ret (Inr u))
      else if templateName \<noteq> [] then
        (if v1_is_nil (xo_v1 c) then ret (Inl (Plain ''V1 client not available for template lookup''))
         else do { r \<leftarrow> query (x_v1_templates (xo E) c templateName);
                   (case r of
                      Inl err \<Rightarrow> ret (Inl (Wrapped ''template lookup: '' err))
                    | Inr [] \<Rightarrow>
                        ret (Inl (Wrapped ''template lookup: ''
                               (Plain (''template '' @ go_quote templateName @ '' not found''))))
                    | Inr (t # ts) \<Rightarrow>
                        (case l_uuid_from_string (libs E) t of
                           Inl err \<Rightarrow> ret (Inl (Wrapped ''invalid template UUID from lookup: '' err))
                         | Inr u \<Rightarrow> ret (Inr u))) })
      else ret (Inl (Plain ''template must specify either templateID or templateName'')))"

definition ResolvePoolID ::
  "'s env \<Rightarrow> xo_client \<Rightarrow> string \<Rightarrow> string \<Rightarrow> ('o, 's, error + uuid) prog" where
  "ResolvePoolID E c poolIDStr poolName =
     (if poolIDStr \<noteq> [] then
        (case l_uuid_from_string (libs E) poolIDStr of
           Inl err \<Rightarrow> ret (Inl (Wrapped (''invalid pool ID '' @ go_quote poolIDStr @ '': '') err))
         | Inr u \<Rightarrow> ret (Inr u))
      else if poolName \<noteq> [] then
        (if v1_is_nil (xo_v1 c) then ret (Inl (Plain ''V1 client not available for pool lookup''))
         else do { r \<leftarrow> query (x_v1_pools (xo E) c poolName);
                   (case r of
                      Inl err \<Rightarrow> ret (Inl (Wrapped ''pool lookup: '' err))
                    | Inr [] \<Rightarrow>
                        ret (Inl (Wrapped ''pool lookup: ''
                               (Plain (''pool '' @ go_quote poolName @ '' not found''))))
                    | Inr (p # ps) \<Rightarrow>
                        (case l_uuid_from_string (libs E) p of
                           Inl err \<Rightarrow> ret (Inl (Wrapped ''invalid pool UUID from lookup: '' err))
                         | Inr u \<Rightarrow> ret (Inr u))) })
      else ret (Inr 0))"

text \<open>The pool narrows a network lookup when it is known (not the nil UUID).\<close>

definition ResolveNetworkID ::
  "'s env \<Rightarrow> xo_client \<Rightarrow> network \<Rightarrow> uuid \<Rightarrow> ('o, 's, error + string) prog" where
  "ResolveNetworkID E c netConfig poolID =
     (if net_id netConfig \<noteq> [] then ret (Inr (net_id netConfig))
      else if net_name netConfig \<noteq> [] then
        (if v1_is_nil (xo_v1 c) then ret (Inl (Plain ''V1 client not available for network lookup''))
         else do { r \<leftarrow> query (x_v1_network (xo E) c (net_name netConfig)
                            (if poolID = 0 then [] else l_uuid_string (libs E) poolID));
                   (case r of
                      Inl err \<Rightarrow>
                        ret (Inl (Wrapped (''network '' @ go_quote (net_name netConfig) @ '' not found: '') err))
                    | Inr n \<Rightarrow> ret (Inr n)) })
      else ret (Inl (Plain ''network must specify either networkID or name'')))"

lemma ResolveTemplateID_emits [effects]: "emits P (ResolveTemplateID E c i n)"
  unfolding ResolveTemplateID_def by (intro effects)

lemma ResolvePoolID_emits [effects]: "emits P (ResolvePoolID E c i n)"
  unfolding ResolvePoolID_def by (intro effects)

lemma ResolveNetworkID_emits [effects]: "emits P (ResolveNetworkID E c n p)"
  unfolding ResolveNetworkID_def by (intro effects)

lemma ResolveTemplateID_keeps [frames]: "keeps obj (ResolveTemplateID E c i n)"
  unfolding ResolveTemplateID_def by (intro frames)

lemma ResolvePoolID_keeps [frames]: "keeps obj (ResolvePoolID E c i n)"
  unfolding ResolvePoolID_def by (intro frames)

lemma ResolveNetworkID_keeps [frames]: "keeps obj (ResolveNetworkID E c n p)"
  unfolding ResolveNetworkID_def by (intro frames)

text \<open>An identifier given directly is used as it is: no lookup runs, and the state is untouched.\<close>

lemma ResolveTemplateID_direct:
  assumes "templateIDStr \<noteq> []"
  shows "run_state (ResolveTemplateID E c templateIDStr n) w =
    (case l_uuid_from_string (libs E) templateIDStr of
       Inl err \<Rightarrow> Inl (Wrapped (''invalid template ID '' @ go_quote templateIDStr @ '': '') err)
     | Inr u \<Rightarrow> Inr u, w)"
  using assms by (simp add: ResolveTemplateID_def split: sum.split)

lemma ResolvePoolID_direct:
  assumes "poolIDStr \<noteq> []"
  shows "run_state (ResolvePoolID E c poolIDStr n) w =
    (case l_uuid_from_string (libs E) poolIDStr of
       Inl err \<Rightarrow> Inl (Wrapped (''invalid pool ID '' @ go_quote poolIDStr @ '': '') err)
     | Inr u \<Rightarrow> Inr u, w)"
  using assms by (simp add: ResolvePoolID_def split: sum.split)

end
