(* ===== verification/Xo_Compat.thy ===== *)
theory Xo_Compat
  imports World
begin

text \<open>
  The workarounds for older Xen Orchestra versions (\<open>xomachine/xo_compat.go\<close>): errors
  recognised by their text, and the task path an error text carries.
\<close>

definition isUnmarshalError :: "error \<Rightarrow> bool" where
  "isUnmarshalError err = contains_str (error_text err) ''unmarshal''"

definition IsNotFoundError :: "error \<Rightarrow> bool" where
  "IsNotFoundError err = contains_str (error_text err) ''404''"

definition bareTaskMarker :: string where
  "bareTaskMarker = ''%!(EXTRA string=''"

definition ExtractBareTaskPath :: "error \<Rightarrow> error + string" where
  "ExtractBareTaskPath err =
     (case split_last (error_text err) bareTaskMarker of
        None \<Rightarrow> Inl (Wrapped ''cannot extract task ID from error: '' err)
      | Some (pre, bodyPart) \<Rightarrow>
          (case cut_str bodyPart '')'' of
             None \<Rightarrow> Inl (Wrapped ''cannot parse task ID from error: '' err)
           | Some (head, rest) \<Rightarrow>
               (let taskPath = trim_chars head [CHR 0x22]
                in if taskPath = [] then Inl (Wrapped ''empty task ID in error: '' err)
                   else Inr taskPath)))"

definition task_wait :: "'s env \<Rightarrow> xo_client \<Rightarrow> string \<Rightarrow> ('o, 's, error + xo_task) prog" where
  "task_wait E c path = act (EvTaskWait path) (x_task_wait (xo E) c path)"

definition get_vm :: "'s env \<Rightarrow> xo_client \<Rightarrow> uuid \<Rightarrow> ('o, 's, error + vm) prog" where
  "get_vm E c i = act (EvGetVM i) (x_vm_get (xo E) c i)"

definition handleV2BareTaskResponse ::
  "'s env \<Rightarrow> xo_client \<Rightarrow> error \<Rightarrow> ('o, 's, error + vm) prog" where
  "handleV2BareTaskResponse E c createErr =
     (case ExtractBareTaskPath createErr of
        Inl err \<Rightarrow> ret (Inl err)
      | Inr taskPath \<Rightarrow>
          do { r \<leftarrow> task_wait E c taskPath;
               (case r of
                  Inl err \<Rightarrow> ret (Inl (Wrapped ''wait for VM creation task: '' err))
                | Inr task \<Rightarrow>
                    (if task_stat task \<noteq> TaskSuccess
                     then ret (Inl (Plain (''VM creation task failed: '' @ task_result_message task)))
                     else do { v \<leftarrow> get_vm E c (task_result_id task);
                               (case v of
                                  Inl err \<Rightarrow> ret (Inl (Wrapped ''fetch VM after creation: '' err))
                                | Inr vm \<Rightarrow> ret (Inr vm)) })) })"

section \<open>Lemmas\<close>

text \<open>The shape of the error text the SDK produces, and what is read from it.\<close>

lemma split_last_unique:
  assumes "\<not> contains_str (drop 1 (sep @ v)) sep" and "sep \<noteq> []"
  shows "split_last (u @ sep @ v) sep = Some (u, v)"
proof (induction u)
  case Nil
  obtain c cs where sep: "sep = c # cs" using assms(2) by (cases sep) auto
  with assms(1) have "split_last (cs @ v) sep = None" by (simp add: split_last_None)
  then show ?case by (simp add: sep)
next
  case (Cons d u)
  then show ?case by simp
qed

lemma trim_chars_quoted:
  assumes "q \<notin> set p" and "p \<noteq> []"
  shows "trim_chars ([q] @ p @ [q]) [q] = p"
proof -
  have d: "dropWhile (\<lambda>c. c = q) (p @ xs) = p @ xs" for xs
    using assms by (cases p) auto
  have r: "dropWhile (\<lambda>c. c = q) (rev p) = rev p"
  proof -
    have "q \<notin> set (rev p)" using assms by simp
    then show ?thesis by (cases "rev p") auto
  qed
  show ?thesis by (simp add: trim_chars_def d r)
qed

lemma ExtractBareTaskPath_finds:
  assumes "error_text err = pre @ bareTaskMarker @ [CHR 0x22] @ path @ [CHR 0x22] @ '')'' @ post"
    and "CHR '')'' \<notin> set path" and "CHR 0x22 \<notin> set path" and "path \<noteq> []"
    and "\<not> contains_str (drop 1 (bareTaskMarker @ [CHR 0x22] @ path @ [CHR 0x22] @ '')'' @ post)) bareTaskMarker"
  shows "ExtractBareTaskPath err = Inr path"
proof -
  let ?v = "[CHR 0x22] @ path @ [CHR 0x22] @ '')'' @ post"
  have s: "split_last (error_text err) bareTaskMarker = Some (pre, ?v)"
    using split_last_unique[of bareTaskMarker ?v pre] assms(1,5) by (simp add: bareTaskMarker_def)
  have c: "cut_str ?v '')'' = Some ([CHR 0x22] @ path @ [CHR 0x22], post)"
    using cut_str_char[of "CHR '')''" "[CHR 0x22] @ path @ [CHR 0x22]" post] assms(2) by simp
  show ?thesis
    using s c trim_chars_quoted[of "CHR 0x22" path] assms(3,4)
    by (simp add: ExtractBareTaskPath_def)
qed

lemma ExtractBareTaskPath_nonempty: "ExtractBareTaskPath err = Inr p \<Longrightarrow> p \<noteq> []"
  by (auto simp: ExtractBareTaskPath_def Let_def split: option.splits prod.splits if_splits)

lemma task_wait_emits [effects]: "(\<And>p r. P (EvTaskWait p r)) \<Longrightarrow> emits P (task_wait E c path)"
  unfolding task_wait_def by (intro effects)

lemma get_vm_emits [effects]: "(\<And>i r. P (EvGetVM i r)) \<Longrightarrow> emits P (get_vm E c i)"
  unfolding get_vm_def by (intro effects)

lemma handleV2BareTaskResponse_emits [effects]:
  "(\<And>p r. P (EvTaskWait p r)) \<Longrightarrow> (\<And>i r. P (EvGetVM i r)) \<Longrightarrow>
   emits P (handleV2BareTaskResponse E c err)"
  unfolding handleV2BareTaskResponse_def by (intro effects)

lemma handleV2BareTaskResponse_keeps [frames]: "keeps obj (handleV2BareTaskResponse E c err)"
  unfolding handleV2BareTaskResponse_def task_wait_def get_vm_def by (intro frames)

end
