(* ===== verification/Disks.thy ===== *)
theory Disks
  imports World
begin

text \<open>
  The choice of a VM's OS disk (\<open>findMainDisk\<close> and its helpers in \<open>xomachine/vm_ops.go\<close>).
  Positions are 64-bit machine integers, as \<open>strconv.Atoi\<close> returns them, and \<open>pa - pb\<close> is
  their wrapping difference.
\<close>

section \<open>The code\<close>

definition isCloudConfigDrive :: "disk \<Rightarrow> bool" where
  "isCloudConfigDrive d =
     (let name = to_lower (d_name_label d)
      in contains_str name ''cloudconfigdrive'' \<or> contains_str name ''cloud config drive'')"

definition parseDiskPosition :: "string \<Rightarrow> 64 word option" where
  "parseDiskPosition position = (if position = [] then None else go_atoi position)"

definition diskOrder :: "disk \<Rightarrow> disk \<Rightarrow> 64 word" where
  "diskOrder a b =
     (case (parseDiskPosition (d_position a), parseDiskPosition (d_position b)) of
        (Some pa, Some pb) \<Rightarrow>
          (if pa \<noteq> pb then pa - pb else word_of_int (str_compare (d_device a) (d_device b)))
      | (Some pa, None) \<Rightarrow> - 1
      | (None, Some pb) \<Rightarrow> 1
      | (None, None) \<Rightarrow> word_of_int (str_compare (d_device a) (d_device b)))"

definition skippedDisk :: "disk \<Rightarrow> bool" where
  "skippedDisk d \<longleftrightarrow> d_is_cd_drive d \<or> isCloudConfigDrive d"

text \<open>The two loops of \<open>findMainDisk\<close>.\<close>

fun firstBootable :: "disk list \<Rightarrow> disk option" where
  "firstBootable [] = None"
| "firstBootable (d # ds) =
     (if skippedDisk d then firstBootable ds
      else if d_bootable d then Some d else firstBootable ds)"

fun lowestDisk :: "disk option \<Rightarrow> disk list \<Rightarrow> disk option" where
  "lowestDisk best [] = best"
| "lowestDisk best (d # ds) =
     (if skippedDisk d then lowestDisk best ds
      else if best = None \<or> sint (diskOrder d (the best)) < 0 then lowestDisk (Some d) ds
      else lowestDisk best ds)"

definition findMainDisk :: "disk list \<Rightarrow> disk option" where
  "findMainDisk disks =
     (case disks of
        [] \<Rightarrow> None
      | [d] \<Rightarrow> Some d
      | _ \<Rightarrow>
          (case firstBootable disks of
             Some d \<Rightarrow> Some d
           | None \<Rightarrow> lowestDisk None disks))"

section \<open>The order\<close>

text \<open>
  Positions that are small enough for their difference to fit: what Xen Orchestra reports
  (device numbers) always is. On such disks \<open>diskOrder\<close> is the lexicographic order of the
  parsed position, unparsed ones last, and the device name.
\<close>

definition small_position :: "disk \<Rightarrow> bool" where
  "small_position d \<longleftrightarrow>
     (case parseDiskPosition (d_position d) of
        None \<Rightarrow> True | Some p \<Rightarrow> - (2 ^ 62) \<le> sint p \<and> sint p < 2 ^ 62)"

definition disk_le :: "disk \<Rightarrow> disk \<Rightarrow> bool" where
  "disk_le a b \<longleftrightarrow>
     (case (parseDiskPosition (d_position a), parseDiskPosition (d_position b)) of
        (Some pa, Some pb) \<Rightarrow>
          sint pa < sint pb \<or> (sint pa = sint pb \<and> str_compare (d_device a) (d_device b) \<le> 0)
      | (Some pa, None) \<Rightarrow> True
      | (None, Some pb) \<Rightarrow> False
      | (None, None) \<Rightarrow> str_compare (d_device a) (d_device b) \<le> 0)"

lemma str_compare_range: "str_compare a b \<in> {- 1, 0, 1}"
  by (induction a b rule: str_compare.induct) auto

lemma sint_str_compare: "sint (word_of_int (str_compare a b) :: 64 word) = str_compare a b"
  using str_compare_range[of a b] by auto

lemma sint_small_diff:
  fixes p q :: "64 word"
  assumes "- (2 ^ 62) \<le> sint p" "sint p < 2 ^ 62" "- (2 ^ 62) \<le> sint q" "sint q < 2 ^ 62"
  shows "sint (p - q) = sint p - sint q"
proof -
  have r: "- (2 ^ 63) \<le> sint p - sint q" "sint p - sint q < 2 ^ 63"
    using assms by auto
  have "sint (p - q) = signed_take_bit 63 (sint p - sint q)"
    by (simp add: sint_word_ariths)
  also have "\<dots> = sint p - sint q"
    using r by (simp add: signed_take_bit_int_eq_self)
  finally show ?thesis .
qed

lemma sint_eq_iff: "sint (p :: 64 word) = sint q \<longleftrightarrow> p = q"
  using signed_word_eqI by blast

lemma sint_le_less: "(p :: 64 word) \<noteq> q \<Longrightarrow> sint p \<le> sint q \<longleftrightarrow> sint p < sint q"
  using sint_eq_iff[of p q] by linarith

lemma diskOrder_le:
  assumes "small_position a" and "small_position b"
  shows "sint (diskOrder a b) \<le> 0 \<longleftrightarrow> disk_le a b"
  using assms
  by (auto simp: diskOrder_def disk_le_def small_position_def sint_str_compare sint_small_diff
      sint_eq_iff sint_le_less split: option.splits)

lemma disk_le_refl: "disk_le a a"
  using str_compare_eq_0[of "d_device a" "d_device a"]
  by (auto simp: disk_le_def split: option.splits)

lemma disk_le_total: "disk_le a b \<or> disk_le b a"
  using str_compare_antisym[of "d_device a" "d_device b"]
  by (auto simp: disk_le_def split: option.splits)

lemma disk_le_trans: "disk_le a b \<Longrightarrow> disk_le b c \<Longrightarrow> disk_le a c"
  using str_compare_trans[of "d_device a" "d_device b" "d_device c"]
  by (auto simp: disk_le_def split: option.splits)

lemma diskOrder_antisym:
  assumes "small_position a" and "small_position b"
  shows "sint (diskOrder a b) < 0 \<longleftrightarrow> 0 < sint (diskOrder b a)"
  using assms str_compare_antisym[of "d_device a" "d_device b"]
  by (auto simp: diskOrder_def small_position_def sint_str_compare sint_small_diff
      split: option.splits)

lemma diskOrder_less:
  assumes "small_position a" and "small_position b"
  shows "sint (diskOrder a b) < 0 \<longleftrightarrow> \<not> disk_le b a"
  using diskOrder_antisym[OF assms] diskOrder_le[OF assms(2,1)] by linarith

text \<open>
  A scan that keeps the best element of a total preorder returns a least one: the contract the
  second loop rests on, proved once for any such order.
\<close>

locale best_scan =
  fixes le :: "'a \<Rightarrow> 'a \<Rightarrow> bool"
  assumes le_total: "le a b \<or> le b a"
    and le_trans: "le a b \<Longrightarrow> le b c \<Longrightarrow> le a c"
begin

lemma le_refl: "le a a"
  using le_total by blast

lemma scan_step:
  assumes "\<forall>x \<in> A. le b x"
  shows "\<forall>x \<in> insert d A. le (if \<not> le b d then d else b) x"
proof (cases "le b d")
  case True
  with assms show ?thesis by auto
next
  case False
  then have "le d b" using le_total by blast
  with False assms show ?thesis using le_trans le_refl by auto
qed

end

interpretation disks: best_scan disk_le
  by unfold_locales (rule disk_le_total, erule (1) disk_le_trans)

lemma firstBootable_Some:
  "firstBootable ds = Some d \<Longrightarrow>
   d \<in> set ds \<and> \<not> skippedDisk d \<and> d_bootable d"
  by (induction ds) (auto split: if_splits)

lemma firstBootable_None:
  "firstBootable ds = None \<longleftrightarrow> (\<forall>d \<in> set ds. d_bootable d \<longrightarrow> skippedDisk d)"
  by (induction ds) auto

lemma lowestDisk_least:
  assumes "\<forall>d \<in> set ds. small_position d" and "small_position b"
    and "\<forall>x \<in> A. disk_le b x"
  shows "\<exists>m. lowestDisk (Some b) ds = Some m \<and> m \<in> insert b {d \<in> set ds. \<not> skippedDisk d} \<and>
    (\<forall>x \<in> insert b (A \<union> {d \<in> set ds. \<not> skippedDisk d}). disk_le m x)"
  using assms
proof (induction ds arbitrary: b A)
  case Nil
  then show ?case by (auto simp: disk_le_refl)
next
  case (Cons d ds)
  let ?b = "if \<not> skippedDisk d \<and> sint (diskOrder d b) < 0 then d else b"
  let ?A = "insert b (if skippedDisk d then A else insert d A)"
  have eq: "lowestDisk (Some b) (d # ds) = lowestDisk (Some ?b) ds" by simp
  have small: "small_position ?b" using Cons.prems by simp
  have least: "\<forall>x \<in> ?A. disk_le ?b x"
    using Cons.prems diskOrder_less[of d b] disks.scan_step[of "insert b A" b d] disk_le_refl
    by (auto split: if_splits)
  have "\<forall>d \<in> set ds. small_position d" using Cons.prems by simp
  from Cons.IH[OF this small least] show ?case
    unfolding eq by (auto split: if_splits)
qed

lemma lowestDisk_None:
  "lowestDisk None ds = None \<longleftrightarrow> (\<forall>d \<in> set ds. skippedDisk d)"
proof -
  have "lowestDisk (Some b) ds \<noteq> None" for b ds
    by (induction ds arbitrary: b) auto
  then show ?thesis by (induction ds) auto
qed

lemma lowestDisk_in: "lowestDisk b xs = Some d \<Longrightarrow> b = Some d \<or> (d \<in> set xs \<and> \<not> skippedDisk d)"
proof (induction xs arbitrary: b)
  case Nil
  then show ?case by simp
next
  case (Cons x xs)
  show ?case
  proof (cases "skippedDisk x")
    case True
    with Cons show ?thesis by auto
  next
    case False
    with Cons.prems have "lowestDisk (Some x) xs = Some d \<or> lowestDisk b xs = Some d"
      by (auto split: if_splits)
    with Cons.IH[of "Some x"] Cons.IH[of b] False show ?thesis by auto
  qed
qed

lemma lowestDisk_None_least:
  assumes "\<forall>d \<in> set ds. small_position d" and "lowestDisk None ds = Some m"
  shows "\<not> skippedDisk m \<and> m \<in> set ds \<and> (\<forall>d \<in> set ds. \<not> skippedDisk d \<longrightarrow> disk_le m d)"
  using assms
proof (induction ds)
  case Nil
  then show ?case by simp
next
  case (Cons d ds)
  show ?case
  proof (cases "skippedDisk d")
    case True
    with Cons show ?thesis by simp
  next
    case False
    then have "lowestDisk (Some d) ds = Some m" using Cons.prems by simp
    moreover have "\<exists>m. lowestDisk (Some d) ds = Some m \<and>
        m \<in> insert d {d \<in> set ds. \<not> skippedDisk d} \<and>
        (\<forall>x \<in> insert d ({} \<union> {d \<in> set ds. \<not> skippedDisk d}). disk_le m x)"
      using Cons.prems by (intro lowestDisk_least) auto
    ultimately show ?thesis using False by auto
  qed
qed

lemma findMainDisk_cases:
  assumes "2 \<le> length ds"
  shows "findMainDisk ds =
    (case firstBootable ds of Some d \<Rightarrow> Some d | None \<Rightarrow> lowestDisk None ds)"
  using assms by (auto simp: findMainDisk_def numeral_2_eq_2 Suc_le_length_iff split: list.split)

lemma findMainDisk_in: "findMainDisk ds = Some d \<Longrightarrow> d \<in> set ds"
proof (cases "2 \<le> length ds")
  case True
  assume "findMainDisk ds = Some d"
  with True show ?thesis
    using lowestDisk_in[of None ds d] firstBootable_Some[of ds d]
    by (auto simp: findMainDisk_cases split: option.splits)
next
  case False
  assume "findMainDisk ds = Some d"
  with False show ?thesis
    by (cases ds; cases "tl ds") (auto simp: findMainDisk_def)
qed

section \<open>Properties\<close>

text \<open>
  C32: which disk of a VM is resized and marked. A single disk is taken as it is. Of several, CD
  drives and cloud-config drives are never chosen; the first bootable one wins; with none bootable
  it is one that no other precedes in the order of position (unparsed last) and device name; and
  there is none exactly when all are skipped. Positions are assumed below 2^62 in absolute value,
  so that their 64-bit difference does not wrap.
\<close>

theorem findMainDisk_correct:
  assumes "\<forall>d \<in> set ds. small_position d" and "2 \<le> length ds"
  shows "(findMainDisk ds = None \<longleftrightarrow> (\<forall>d \<in> set ds. skippedDisk d)) \<and>
    (\<forall>d. findMainDisk ds = Some d \<longrightarrow> d \<in> set ds \<and> \<not> skippedDisk d \<and>
       (if \<exists>b \<in> set ds. \<not> skippedDisk b \<and> d_bootable b
        then find (\<lambda>b. \<not> skippedDisk b \<and> d_bootable b) ds = Some d
        else (\<forall>x \<in> set ds. \<not> skippedDisk x \<longrightarrow> disk_le d x))) \<and>
    findMainDisk [] = None \<and> findMainDisk [d'] = Some d'"
proof -
  have first: "firstBootable xs = find (\<lambda>b. \<not> skippedDisk b \<and> d_bootable b) xs" for xs
    by (induction xs) auto
  show ?thesis
  proof (cases "firstBootable ds")
    case None
    then have "\<not> (\<exists>b \<in> set ds. \<not> skippedDisk b \<and> d_bootable b)" by (auto simp: firstBootable_None)
    moreover have "findMainDisk ds = lowestDisk None ds"
      using None by (simp add: findMainDisk_cases[OF assms(2)])
    ultimately show ?thesis
      using lowestDisk_None_least[OF assms(1)] lowestDisk_None[of ds] by (auto simp: findMainDisk_def)
  next
    case (Some d)
    then have "findMainDisk ds = Some d" by (simp add: findMainDisk_cases[OF assms(2)])
    with firstBootable_Some[OF Some] first[of ds] Some show ?thesis by (auto simp: findMainDisk_def)
  qed
qed

definition ref_disks :: "disk list" where
  "ref_disks =
     [\<lparr>d_vdi_id = ''v1'', d_name_label = ''XO CloudConfigDrive'', d_size = 0, d_bootable = True,
       d_is_cd_drive = False, d_position = ''0'', d_device = ''xvda''\<rparr>,
      \<lparr>d_vdi_id = ''v2'', d_name_label = ''os'', d_size = 0, d_bootable = False,
       d_is_cd_drive = False, d_position = ''1'', d_device = ''xvdb''\<rparr>]"

lemma ref_disks_small: "\<forall>d \<in> set ref_disks. small_position d"
  by (simp add: ref_disks_def small_position_def parseDiskPosition_def go_atoi_def is_digit_def
      digits_val_def digit_val_def)

lemma ref_disks_skipped: "map skippedDisk ref_disks = [True, False]"
  by code_simp

theorem findMainDisk_correct_witness:
  "\<exists>d. findMainDisk ref_disks = Some d \<and> d_vdi_id d = ''v2''"
proof -
  have skip: "skippedDisk (ref_disks ! 0)" "\<not> skippedDisk (ref_disks ! 1)"
    using ref_disks_skipped by (simp_all add: ref_disks_def)
  have len: "2 \<le> length ref_disks" by (simp add: ref_disks_def)
  note fact = findMainDisk_correct[OF ref_disks_small len]
  from fact skip have "findMainDisk ref_disks \<noteq> None" by (metis len nth_mem One_nat_def Suc_le_eq numeral_2_eq_2)
  then obtain d where d: "findMainDisk ref_disks = Some d" by blast
  with fact have "d \<in> set ref_disks" "\<not> skippedDisk d" by blast+
  with skip have "d = ref_disks ! 1" by (auto simp: ref_disks_def)
  with d show ?thesis by (simp add: ref_disks_def)
qed

end
