(* ===== verification/Reference_Env.thy ===== *)
theory Reference_Env
  imports World
begin

text \<open>
  A concrete environment on which the properties with hypotheses are applied: every read of a
  Kubernetes object says NotFound, every write answers with the object written, every Xen
  Orchestra call succeeds on one running VM. A witness overrides the operations it is about.
  Nothing here describes the real services; it only shows that hypotheses can hold.
\<close>

definition ref_kube :: "'s kube" where
  "ref_kube = \<lparr>
     k_get_xomachine = (\<lambda>n s. (Inl (ApiStatus NotFound ''xomachine not found''), s)),
     k_get_xocluster = (\<lambda>n s. (Inl (ApiStatus NotFound ''xocluster not found''), s)),
     k_get_machine = (\<lambda>n s. (Inl (ApiStatus NotFound ''machine not found''), s)),
     k_get_cluster = (\<lambda>n s. (Inl (ApiStatus NotFound ''cluster not found''), s)),
     k_get_secret = (\<lambda>n s. (Inl (ApiStatus NotFound ''secret not found''), s)),
     k_get_claim = (\<lambda>n s. (Inl (ApiStatus NotFound ''claim not found''), s)),
     k_get_ip_address = (\<lambda>n s. (Inl (ApiStatus NotFound ''address not found''), s)),
     k_list_machines = (\<lambda>n l s. (Inr [], s)),
     k_update_xomachine = (\<lambda>m s. (Inr m, s)),
     k_status_update_xomachine = (\<lambda>m s. (Inr m, s)),
     k_update_xocluster = (\<lambda>c s. (Inr c, s)),
     k_status_patch_xocluster = (\<lambda>b c s. (Inr c, s)),
     k_patch_cluster = (\<lambda>b c s. (Inr c, s)),
     k_create_claim = (\<lambda>c s. (Inr c, s)),
     k_apply_config_map = (\<lambda>c f s. (Inr (f c), s)),
     k_apply_resource_set = (\<lambda>c f s. (Inr (f c), s)),
     k_delete_config_map = (\<lambda>n s. (Inr (), s)),
     k_delete_resource_set = (\<lambda>n s. (Inr (), s)) \<rparr>"

definition ref_vm :: vm where
  "ref_vm = \<lparr>vm_id = 7, vm_name_label = ''TALOS-demo-CP-7n62g'', vm_name_description = [],
             vm_power_state = PowerRunning, vm_main_ip = ''10.0.0.5''\<rparr>"

definition ref_xo :: "'s xo_api" where
  "ref_xo = \<lparr>
     x_new_client = (\<lambda>cfg s. (Inr \<lparr>xo_cfg = cfg, xo_v1 = V1Concrete\<rparr>, s)),
     x_check_client = (\<lambda>c s. (Inr (), s)),
     x_vm_get = (\<lambda>c i s. (Inr (ref_vm\<lparr>vm_id := i\<rparr>), s)),
     x_vm_get_all = (\<lambda>c f s. (Inr [], s)),
     x_vm_create = (\<lambda>c p ps s. (Inr (ref_vm\<lparr>vm_name_label := cp_name_label ps,
                       vm_name_description := cp_name_description ps\<rparr>), s)),
     x_vm_start = (\<lambda>c i s. (Inr ''task-1'', s)),
     x_vm_hard_shutdown = (\<lambda>c i s. (Inr ''task-2'', s)),
     x_vm_delete = (\<lambda>c i s. (Inr (), s)),
     x_vm_vdis = (\<lambda>c i f s. (Inr [], s)),
     x_vbd_get_all = (\<lambda>c f s. (Inr [], s)),
     x_vbd_delete = (\<lambda>c i s. (Inr (), s)),
     x_task_wait = (\<lambda>c p s. (Inr \<lparr>task_stat = TaskSuccess, task_result_id = 7, task_result_message = []\<rparr>, s)),
     x_v1_get_vm = (\<lambda>c i s. (Inr (Some \<lparr>v1_addresses = [''10.0.0.5'']\<rparr>), s)),
     x_v1_get_disks = (\<lambda>c i s. (Inr [], s)),
     x_v1_get_vifs = (\<lambda>c i s. (Inr [], s)),
     x_v1_connect_vif = (\<lambda>c v s. (Inr (), s)),
     x_v1_call = (\<lambda>c m a s. (Inr (), s)),
     x_v1_add_tag = (\<lambda>c i t s. (Inr (), s)),
     x_v1_templates = (\<lambda>c n s. (Inr [''21''], s)),
     x_v1_pools = (\<lambda>c n s. (Inr [''22''], s)),
     x_v1_network = (\<lambda>c n p s. (Inr ''net-1'', s)),
     x_v1_ssh_keys = (\<lambda>c s. (Inr [''ssh-ed25519 AAAA admin''], s)) \<rparr>"

text \<open>UUIDs written in decimal and provider IDs ending in one are enough for the witnesses.\<close>

definition ref_lib :: lib where
  "ref_lib = \<lparr>
     l_uuid_from_string = (\<lambda>t. if t \<noteq> [] \<and> list_all is_digit t then Inr (of_nat (digits_val t))
                               else Inl (Plain ''uuid: incorrect UUID'')),
     l_uuid_string = (\<lambda>u. nat_str (unat u)),
     l_get_vm_id = (\<lambda>t. case split_last t ''/'' of
                         None \<Rightarrow> Inl (Plain ''invalid provider ID'')
                       | Some (pre, i) \<Rightarrow> Inr (of_nat (digits_val i))),
     l_get_provider_id = (\<lambda>p v. ''xenorchestra://'' @ nat_str (unat p) @ ''/'' @ nat_str (unat (vm_id v))),
     l_parse_quantity = (\<lambda>t. if t \<noteq> [] \<and> list_all is_digit t then Inr (int (digits_val t))
                             else Inl (Plain ''quantities must match the regular expression'')),
     l_yaml_unmarshal = (\<lambda>t. Inr None),
     l_yaml_marshal = (\<lambda>m. Inr ''{}''),
     l_add_finalizer = (\<lambda>f fs. if f \<in> set fs then (False, fs) else (True, fs @ [f])),
     l_remove_finalizer = (\<lambda>f fs. filter (\<lambda>g. g \<noteq> f) fs),
     l_contains_finalizer = (\<lambda>f fs. f \<in> set fs),
     l_get_controller_of = (\<lambda>rs. find (\<lambda>r. or_controller r = Some True) rs),
     l_set_controller_reference = (\<lambda>m c. Inr c),
     l_duration_string = (\<lambda>d. int_str d),
     l_render_ccm = (\<lambda>d. Inr (ccm_controllers d)),
     l_render_csi = (\<lambda>d. Inr (csi_api_server_host d)),
     l_render_cilium = (\<lambda>d. Inr (cmd_k8s_service_host d)) \<rparr>"

definition ref_env :: "'s env" where
  "ref_env = \<lparr>kube = ref_kube, xo = ref_xo, libs = ref_lib,
     e_now = (\<lambda>s. (100, s)), e_new_timer = (\<lambda>d s. (d, s)), e_select = (\<lambda>t b s. (WakeDeadline, s)),
     e_has_recorder = True,
     e_global_creds = Some \<lparr>xo_url = ''https://xo'', xo_token = ''token'', xo_insecure = False\<rparr>\<rparr>"

definition ref_client :: xo_client where
  "ref_client = \<lparr>xo_cfg = \<lparr>xo_url = ''https://xo'', xo_token = ''token'', xo_insecure = False\<rparr>,
                 xo_v1 = V1Concrete\<rparr>"

definition ref_meta :: "string \<Rightarrow> object_meta" where
  "ref_meta n = \<lparr>om_name = n, om_namespace = ''default'', om_uid = ''uid-1'', om_resource_version = ''1'',
     om_labels = [''cluster.x-k8s.io/cluster-name'' \<mapsto> ''demo''], om_finalizers = [], om_owners = [],
     om_deletion = None\<rparr>"

definition ref_machine_spec :: xomachine_spec where
  "ref_machine_spec = \<lparr>ms_provider_id = None, ms_pool_id = ''1'', ms_pool_name = [],
     ms_template_id = ''2'', ms_template_name = [], ms_network_config = None,
     ms_resource_set = None, ms_failure_domain = None, ms_bootstrap_provider = ''talos'',
     ms_tags = [], ms_bootstrap = None, ms_bootstrap_data = ''machine: {}'', ms_identity_ref = None\<rparr>"

definition ref_machine_status :: xomachine_status where
  "ref_machine_status = \<lparr>mst_ready = False, mst_provider_id = None, mst_vm_name = [],
     mst_addresses = [], mst_initialization = None, mst_failure_reason = None,
     mst_failure_message = None, mst_conditions = []\<rparr>"

definition ref_machine :: xomachine where
  "ref_machine = \<lparr>xm_meta = ref_meta ''demo-cp-7n62g'', xm_spec = ref_machine_spec,
                  xm_status = ref_machine_status\<rparr>"

definition ref_cluster_spec :: xocluster_spec where
  "ref_cluster_spec = \<lparr>cs_control_plane_endpoint = Some \<lparr>ep_host = ''10.0.0.1'', ep_port = 6443, ep_subnet = None\<rparr>,
     cs_control_plane_lb = None, cs_inject_ssh_keys = False, cs_identity_ref = None, cs_tags = [],
     cs_vm_naming = None, cs_addons = None\<rparr>"

definition ref_xocluster :: xocluster where
  "ref_xocluster = \<lparr>xc_meta = ref_meta ''demo'', xc_spec = ref_cluster_spec,
     xc_status = \<lparr>cst_ready = False, cst_control_plane_endpoint = None, cst_initialization = None,
                  cst_failure_reason = None, cst_failure_message = None, cst_conditions = []\<rparr>\<rparr>"

definition ref_owner_machine :: machine where
  "ref_owner_machine = \<lparr>mach_meta = ref_meta ''demo-cp-7n62g'', mach_cluster_name = ''demo'',
     mach_infra_kind = ''XOMachine'', mach_infra_name = ''demo-cp-7n62g'',
     mach_data_secret = Some ''demo-bootstrap'', mach_config_kind = ''TalosConfig''\<rparr>"

definition ref_cluster :: cluster where
  "ref_cluster = \<lparr>cl_meta = ref_meta ''demo'', cl_infra_kind = ''XOCluster'', cl_infra_name = ''demo'',
     cl_cp_kind = ''TalosControlPlane''\<rparr>"

definition start_state :: "'o \<Rightarrow> 's \<Rightarrow> ('o, 's) st" where
  "start_state o' s = \<lparr>obj = o', ext = s, log = []\<rparr>"

lemmas ref_defs = ref_kube_def ref_vm_def ref_xo_def ref_lib_def ref_env_def ref_client_def ref_meta_def
  ref_machine_spec_def ref_machine_status_def ref_machine_def ref_cluster_spec_def ref_xocluster_def
  ref_owner_machine_def ref_cluster_def start_state_def

end
