(* ===== verification/Vm_Create.thy ===== *)
theory Vm_Create
  imports Vm_Tags Naming Resolve Xo_Compat Disks Reference_Env
begin

text \<open>
  Creation of a machine's VM (\<open>CreateVM\<close> of \<open>xomachine/vm_ops.go\<close> and its helpers): the
  creation parameters with the machine's marker, adoption of a VM an interrupted create left
  behind, the configuration of the new VM, and the record of its provider ID.
\<close>

section \<open>Parameters\<close>

definition buildCreateParams :: "uuid \<Rightarrow> string \<Rightarrow> string \<Rightarrow> string option \<Rightarrow> string \<Rightarrow> create_vm_params" where
  "buildCreateParams templateID vmName cloudConfig networkConfig marker =
     \<lparr>cp_name_label = vmName, cp_name_description = marker, cp_template = templateID,
      cp_auto_poweron = Some False, cp_clone = Some True, cp_cloud_config = Some cloudConfig,
      cp_network_config = networkConfig, cp_memory = None, cp_vifs = []\<rparr>"

text \<open>The memory of the resource set, if it sets one.\<close>

definition memoryParam :: "'s env \<Rightarrow> xomachine \<Rightarrow> create_vm_params \<Rightarrow> error + create_vm_params" where
  "memoryParam E m params =
     (case ms_resource_set (xm_spec m) of
        None \<Rightarrow> Inr params
      | Some rs \<Rightarrow>
          (if rs_memory rs = [] then Inr params
           else (case l_parse_quantity (libs E) (rs_memory rs) of
                   Inl err \<Rightarrow> Inl err
                 | Inr v \<Rightarrow> Inr (params\<lparr>cp_memory := Some v\<rparr>))))"

text \<open>
  A network that cannot be resolved is skipped; the device number is the network's index in
  the spec, so a skipped network leaves a gap.
\<close>

fun addVIFs ::
  "'s env \<Rightarrow> xo_client \<Rightarrow> uuid \<Rightarrow> nat \<Rightarrow> network list \<Rightarrow> create_vm_params \<Rightarrow> ('o, 's, create_vm_params) prog" where
  "addVIFs E c poolID i [] params = ret params"
| "addVIFs E c poolID i (n # ns) params =
     do { r \<leftarrow> ResolveNetworkID E c n poolID;
          (case r of
             Inl err \<Rightarrow> addVIFs E c poolID (Suc i) ns params
           | Inr networkID \<Rightarrow>
               addVIFs E c poolID (Suc i) ns
                 (params\<lparr>cp_vifs := cp_vifs params @ [\<lparr>vp_device = nat_str i, vp_network = networkID\<rparr>]\<rparr>)) }"

definition addVIFsToParams ::
  "'s env \<Rightarrow> xo_client \<Rightarrow> xomachine \<Rightarrow> create_vm_params \<Rightarrow> uuid \<Rightarrow> ('o, 's, create_vm_params) prog" where
  "addVIFsToParams E c m params poolID =
     (case ms_network_config (xm_spec m) of
        None \<Rightarrow> ret params
      | Some nc \<Rightarrow> addVIFs E c poolID 0 (nc_networks nc) params)"

section \<open>Configuration of the new VM\<close>

definition v1_call ::
  "'s env \<Rightarrow> xo_client \<Rightarrow> string \<Rightarrow> (string \<times> rpc_arg) list \<Rightarrow> ('o, 's, error + unit) prog" where
  "v1_call E c method args = act (\<lambda>r. EvCall method args (failure_of r)) (x_v1_call (xo E) c method args)"

definition resizeDiskIfNeeded :: "'s env \<Rightarrow> xo_client \<Rightarrow> xomachine \<Rightarrow> vm \<Rightarrow> ('o, 's, unit) prog" where
  "resizeDiskIfNeeded E c m v =
     (let diskSize = (case ms_resource_set (xm_spec m) of None \<Rightarrow> [] | Some rs \<Rightarrow> rs_disk_size rs)
      in if diskSize = [] \<or> \<not> v1_ok (xo_v1 c) then ret ()
         else (case l_parse_quantity (libs E) diskSize of
                 Inl err \<Rightarrow> ret ()
               | Inr requestedSize \<Rightarrow>
                   do { r \<leftarrow> query (x_v1_get_disks (xo E) c (l_uuid_string (libs E) (vm_id v)));
                        (case r of
                           Inl err \<Rightarrow> ret ()
                         | Inr disks \<Rightarrow>
                             (case findMainDisk disks of
                                None \<Rightarrow> ret ()
                              | Some mainDisk \<Rightarrow>
                                  (if d_size mainDisk \<ge> requestedSize then ret ()
                                   else do { _ \<leftarrow> v1_call E c ''vdi.set''
                                               [(''id'', ArgString (d_vdi_id mainDisk)),
                                                (''size'', ArgInt requestedSize)];
                                             ret () }))) }))"

definition setCPUsIfNeeded :: "'s env \<Rightarrow> xo_client \<Rightarrow> xomachine \<Rightarrow> vm \<Rightarrow> ('o, 's, unit) prog" where
  "setCPUsIfNeeded E c m v =
     (case ms_resource_set (xm_spec m) of
        None \<Rightarrow> ret ()
      | Some rs \<Rightarrow>
          (case rs_cpus rs of
             None \<Rightarrow> ret ()
           | Some cpus \<Rightarrow>
               (if \<not> v1_ok (xo_v1 c) then ret ()
                else do { _ \<leftarrow> v1_call E c ''vm.set''
                            [(''id'', ArgString (l_uuid_string (libs E) (vm_id v))), (''CPUs'', ArgInt cpus)];
                          ret () })))"

definition setBootOrder :: "'s env \<Rightarrow> xo_client \<Rightarrow> vm \<Rightarrow> ('o, 's, unit) prog" where
  "setBootOrder E c v =
     (if \<not> v1_ok (xo_v1 c) then ret ()
      else do { _ \<leftarrow> v1_call E c ''vm.setBootOrder''
                  [(''vm'', ArgString (l_uuid_string (libs E) (vm_id v))), (''order'', ArgString ''cd'')];
                ret () })"

section \<open>The provider ID\<close>

definition set_spec_provider_id :: "string \<Rightarrow> xomachine \<Rightarrow> xomachine" where
  "set_spec_provider_id p m = m\<lparr>xm_spec := (xm_spec m)\<lparr>ms_provider_id := Some p\<rparr>\<rparr>"

definition set_status_provider_id :: "string \<Rightarrow> xomachine \<Rightarrow> xomachine" where
  "set_status_provider_id p m = m\<lparr>xm_status := (xm_status m)\<lparr>mst_provider_id := Some p\<rparr>\<rparr>"

text \<open>
  A change of the object and its write, retried once after a conflict on a fresh read: the
  shape of both halves of \<open>saveProviderID\<close>.
\<close>

definition write_with_retry ::
  "'s env \<Rightarrow> (xomachine \<Rightarrow> xomachine) \<Rightarrow> (xomachine, 's, error option) prog \<Rightarrow>
   (xomachine, 's, error option) prog" where
  "write_with_retry E change write =
     do { modify_obj change;
          r \<leftarrow> write;
          (case r of
             None \<Rightarrow> ret None
           | Some err \<Rightarrow>
               (if \<not> api_conflict err then ret (Some err)
                else do { g \<leftarrow> refetch_machine E;
                          (case g of
                             Some err2 \<Rightarrow> ret (Some err2)
                           | None \<Rightarrow> do { modify_obj change; write }) })) }"

definition saveProviderID :: "'s env \<Rightarrow> string \<Rightarrow> (xomachine, 's, error option) prog" where
  "saveProviderID E providerID =
     do { r \<leftarrow> write_with_retry E (set_spec_provider_id providerID) (update_machine E);
          (case r of
             Some err \<Rightarrow> ret (Some err)
           | None \<Rightarrow> write_with_retry E (set_status_provider_id providerID) (status_update E)) }"

section \<open>Create or adopt\<close>

definition findAdoptableVM ::
  "'s env \<Rightarrow> xo_client \<Rightarrow> string \<Rightarrow> string \<Rightarrow> ('o, 's, vm option \<times> nat) prog" where
  "findAdoptableVM E c vmName marker =
     (if marker = [] then ret (None, 0)
      else do { r \<leftarrow> act (EvListVMs (nameLabelFilter vmName)) (x_vm_get_all (xo E) c (nameLabelFilter vmName));
                (case r of
                   Inl err \<Rightarrow> ret (None, 0)
                 | Inr vms \<Rightarrow> ret (adoptableVM vms vmName marker, foreignVMCount vms vmName marker)) })"

text \<open>After the API refused the creation, with the task of an older version awaited first.\<close>

definition recoverCreate ::
  "'s env \<Rightarrow> xo_client \<Rightarrow> string \<Rightarrow> string \<Rightarrow> error \<Rightarrow> (xomachine, 's, error + vm) prog" where
  "recoverCreate E c vmName marker err =
     do { r \<leftarrow> (if contains_str (error_text err) ''unmarshal''
                then handleV2BareTaskResponse E c err else ret (Inl err));
          (case r of
             Inr v \<Rightarrow> ret (Inr v)
           | Inl err2 \<Rightarrow>
               do { found \<leftarrow> findAdoptableVM E c vmName marker;
                    (case fst found of
                       Some v \<Rightarrow> ret (Inr v)
                     | None \<Rightarrow>
                         do { e \<leftarrow> WithConditionUpdate E err2 ConditionFalse ''VmCreationFailed'';
                              ret (Inl e) }) }) }"

definition createOrAdopt ::
  "'s env \<Rightarrow> xo_client \<Rightarrow> uuid \<Rightarrow> create_vm_params \<Rightarrow> string \<Rightarrow> string \<Rightarrow>
   (string \<Rightarrow> nat \<Rightarrow> (xomachine, 's, unit) prog) option \<Rightarrow> (xomachine, 's, error + vm) prog" where
  "createOrAdopt E c poolID params vmName marker onDuplicateName =
     do { found \<leftarrow> findAdoptableVM E c vmName marker;
          (case onDuplicateName of
             Some warn \<Rightarrow> (if fst found = None \<and> snd found > 0 then warn vmName (snd found) else ret ())
           | None \<Rightarrow> ret ());
          (case fst found of
             Some v \<Rightarrow> ret (Inr v)
           | None \<Rightarrow>
               do { r \<leftarrow> act (EvCreateVM poolID params) (x_vm_create (xo E) c poolID params);
                    (case r of
                       Inr v \<Rightarrow> ret (Inr v)
                     | Inl err \<Rightarrow> recoverCreate E c vmName marker err) }) }"

text \<open>What follows once the VM is known.\<close>

definition configureVM ::
  "'s env \<Rightarrow> xo_client \<Rightarrow> uuid \<Rightarrow> string \<Rightarrow> vm \<Rightarrow> (xomachine, 's, error + vm) prog" where
  "configureVM E c poolID providerName v =
     do { m \<leftarrow> get_obj;
          resizeDiskIfNeeded E c m v;
          setCPUsIfNeeded E c m v;
          setBootOrder E c v;
          r \<leftarrow> saveProviderID E (l_get_provider_id (libs E) poolID v);
          (case r of
             Some err \<Rightarrow> ret (Inl err)
           | None \<Rightarrow>
               do { m' \<leftarrow> get_obj;
                    SetVMTags E m' (vm_id v) (Some c) providerName;
                    ret (Inr v) }) }"

definition CreateVM ::
  "'s env \<Rightarrow> xo_client \<Rightarrow> uuid \<Rightarrow> uuid \<Rightarrow> string \<Rightarrow> string option \<Rightarrow> string \<Rightarrow> string \<Rightarrow>
   (string \<Rightarrow> nat \<Rightarrow> (xomachine, 's, unit) prog) option \<Rightarrow> (xomachine, 's, error + vm) prog" where
  "CreateVM E c poolID templateID cloudConfig networkConfig vmName providerName onDuplicateName =
     do { m \<leftarrow> get_obj;
          let marker = vmMarker (Some m);
          (case memoryParam E m (buildCreateParams templateID vmName cloudConfig networkConfig marker) of
             Inl err \<Rightarrow>
               do { e \<leftarrow> WithConditionUpdate E err ConditionFalse ''InvalidMemoryQuantity'';
                    ret (Inl e) }
           | Inr params0 \<Rightarrow>
               do { params \<leftarrow> addVIFsToParams E c m params0 poolID;
                    r \<leftarrow> createOrAdopt E c poolID params vmName marker onDuplicateName;
                    (case r of
                       Inl err \<Rightarrow> ret (Inl err)
                     | Inr v \<Rightarrow> configureVM E c poolID providerName v) }) }"

definition LookupExistingVM :: "'s env \<Rightarrow> xo_client \<Rightarrow> uuid \<Rightarrow> (xomachine, 's, error + vm) prog" where
  "LookupExistingVM E c vmID =
     do { r \<leftarrow> get_vm E c vmID;
          (case r of
             Inl err \<Rightarrow> do { e \<leftarrow> WithConditionUpdate E err ConditionFalse ''VmNotFound''; ret (Inl e) }
           | Inr v \<Rightarrow> ret (Inr v)) }"

section \<open>Effects and frames\<close>

text \<open>The events of the configuration calls: three methods, each on this VM or its main disk.\<close>

fun is_config_call :: "event \<Rightarrow> bool" where
  "is_config_call (EvCall method args r) = (method \<in> {''vdi.set'', ''vm.set'', ''vm.setBootOrder''})"
| "is_config_call _ = False"

lemma addVIFs_emits [effects]: "emits P (addVIFs E c pool i ns params)"
  by (induction ns arbitrary: i params) (auto intro!: effects)

lemma addVIFs_keeps [frames]: "keeps obj (addVIFs E c pool i ns params)"
  by (induction ns arbitrary: i params) (auto intro!: frames)

lemma addVIFsToParams_emits [effects]: "emits P (addVIFsToParams E c m params pool)"
  unfolding addVIFsToParams_def by (intro effects)

lemma addVIFsToParams_keeps [frames]: "keeps obj (addVIFsToParams E c m params pool)"
  unfolding addVIFsToParams_def by (intro frames)

lemma v1_call_emits [effects]: "(\<And>r. P (EvCall method args r)) \<Longrightarrow> emits P (v1_call E c method args)"
  unfolding v1_call_def by (intro effects)

lemma v1_call_keeps [frames]: "keeps obj (v1_call E c method args)"
  unfolding v1_call_def by (intro frames)

lemma resizeDiskIfNeeded_emits [effects]:
  "(\<And>args r. P (EvCall ''vdi.set'' args r)) \<Longrightarrow> emits P (resizeDiskIfNeeded E c m v)"
  unfolding resizeDiskIfNeeded_def by (intro effects)

lemma resizeDiskIfNeeded_keeps [frames]: "keeps obj (resizeDiskIfNeeded E c m v)"
  unfolding resizeDiskIfNeeded_def by (intro frames)

lemma setCPUsIfNeeded_emits [effects]:
  "(\<And>args r. P (EvCall ''vm.set'' args r)) \<Longrightarrow> emits P (setCPUsIfNeeded E c m v)"
  unfolding setCPUsIfNeeded_def by (intro effects)

lemma setCPUsIfNeeded_keeps [frames]: "keeps obj (setCPUsIfNeeded E c m v)"
  unfolding setCPUsIfNeeded_def by (intro frames)

lemma setBootOrder_emits [effects]:
  "(\<And>args r. P (EvCall ''vm.setBootOrder'' args r)) \<Longrightarrow> emits P (setBootOrder E c v)"
  unfolding setBootOrder_def by (intro effects)

lemma setBootOrder_keeps [frames]: "keeps obj (setBootOrder E c v)"
  unfolding setBootOrder_def by (intro frames)

lemma write_with_retry_emits [effects]:
  "emits P write \<Longrightarrow> emits P (write_with_retry E change write)"
  unfolding write_with_retry_def by (intro effects)

lemma saveProviderID_emits [effects]:
  "(\<And>m r. P (EvUpdateXOMachine m r)) \<Longrightarrow> (\<And>m r. P (EvStatusUpdateXOMachine m r)) \<Longrightarrow>
   emits P (saveProviderID E p)"
  unfolding saveProviderID_def by (intro effects)

lemma findAdoptableVM_emits [effects]:
  "(\<And>r. P (EvListVMs (nameLabelFilter n) r)) \<Longrightarrow> emits P (findAdoptableVM E c n marker)"
  unfolding findAdoptableVM_def by (intro effects)

lemma findAdoptableVM_keeps [frames]: "keeps obj (findAdoptableVM E c n marker)"
  unfolding findAdoptableVM_def by (intro frames)

lemma recoverCreate_emits [effects]:
  "(\<And>r. P (EvListVMs (nameLabelFilter n) r)) \<Longrightarrow> (\<And>p r. P (EvTaskWait p r)) \<Longrightarrow>
   (\<And>i r. P (EvGetVM i r)) \<Longrightarrow> (\<And>m r. P (EvStatusUpdateXOMachine m r)) \<Longrightarrow>
   emits P (recoverCreate E c n marker err)"
  unfolding recoverCreate_def by (intro effects)

lemma configureVM_emits [effects]:
  "(\<And>e. is_config_call e \<Longrightarrow> P e) \<Longrightarrow> (\<And>e. is_machine_write e \<Longrightarrow> P e) \<Longrightarrow>
   (\<And>tag r. P (EvAddTag (l_uuid_string (libs E) (vm_id v)) tag r)) \<Longrightarrow>
   emits P (configureVM E c pool prov v)"
  unfolding configureVM_def by (intro effects) simp_all

lemma LookupExistingVM_emits [effects]:
  "(\<And>i r. P (EvGetVM i r)) \<Longrightarrow> (\<And>m r. P (EvStatusUpdateXOMachine m r)) \<Longrightarrow>
   emits P (LookupExistingVM E c i)"
  unfolding LookupExistingVM_def by (intro effects)

lemma createOrAdopt_emits [effects]:
  assumes "\<And>r. P (EvListVMs (nameLabelFilter n) r)" and "\<And>p r. P (EvTaskWait p r)"
    and "\<And>i r. P (EvGetVM i r)" and "\<And>m r. P (EvStatusUpdateXOMachine m r)"
    and "\<And>r. P (EvCreateVM pool params r)"
    and "\<And>f k. onDup = Some f \<Longrightarrow> emits P (f n k)"
  shows "emits P (createOrAdopt E c pool params n marker onDup)"
  unfolding createOrAdopt_def by (intro effects assms) simp_all

section \<open>At most one creation\<close>

text \<open>
  \<open>makes C k m\<close>: a run of \<open>m\<close> only provisions and creates at most \<open>k\<close> VMs, each by an event
  of class \<open>C\<close>.
\<close>

definition log_ok :: "(event \<Rightarrow> bool) \<Rightarrow> nat \<Rightarrow> event list \<Rightarrow> bool" where
  "log_ok C k es \<longleftrightarrow> (\<forall>e \<in> set es. provisioning e \<or> is_create e \<and> C e) \<and> length (filter is_create es) \<le> k"

definition makes :: "(event \<Rightarrow> bool) \<Rightarrow> nat \<Rightarrow> ('o, 's, 'a) prog \<Rightarrow> bool" where
  "makes C k m \<longleftrightarrow> (\<forall>w. \<exists>es. log (snd (run_state m w)) = log w @ es \<and> log_ok C k es)"

lemma log_ok_append: "log_ok C j as \<Longrightarrow> log_ok C k bs \<Longrightarrow> log_ok C (j + k) (as @ bs)"
  by (auto simp: log_ok_def)

lemma provisioning_log_ok:
  assumes "\<forall>e \<in> set es. provisioning e" shows "log_ok C k es"
proof -
  have "filter is_create es = []" using assms by (auto simp: filter_empty_conv dest: provisioning_harmless)
  with assms show ?thesis by (simp add: log_ok_def)
qed

lemma makes_emits: "emits provisioning m \<Longrightarrow> makes C k m"
  unfolding makes_def by (metis emits_log prod.collapse provisioning_log_ok)

lemma makes_mono: "makes C j m \<Longrightarrow> j \<le> k \<Longrightarrow> makes C k m"
  unfolding makes_def log_ok_def by (meson le_trans)

lemma makes_wp: "makes C k m \<Longrightarrow> wp m (\<lambda>r w'. \<exists>es. log w' = log w @ es \<and> log_ok C k es) w"
  unfolding makes_def wp_def by (auto split: prod.split) (metis snd_conv)

lemma makes_bind:
  assumes "makes C j m" and "\<And>x. makes C k (f x)"
  shows "makes C (j + k) (m \<bind> f)"
  unfolding makes_def
proof
  fix w
  obtain a v where r: "run_state m w = (a, v)" by fastforce
  from assms(1) r obtain es where "log v = log w @ es" "log_ok C j es"
    unfolding makes_def by (metis snd_conv)
  moreover from assms(2) obtain fs where "log (snd (run_state (f a) v)) = log v @ fs" "log_ok C k fs"
    unfolding makes_def by blast
  ultimately show "\<exists>es. log (snd (run_state (m \<bind> f) w)) = log w @ es \<and> log_ok C (j + k) es"
    using r log_ok_append by (intro exI[of _ "es @ fs"]) auto
qed

lemma makes_bind_0: "emits provisioning m \<Longrightarrow> (\<And>x. makes C k (f x)) \<Longrightarrow> makes C k (m \<bind> f)"
  using makes_bind[of C 0 m k f] makes_emits by fastforce

lemma makes_bind_1: "makes C k m \<Longrightarrow> (\<And>x. emits provisioning (f x)) \<Longrightarrow> makes C k (m \<bind> f)"
  using makes_bind[of C k m 0 f] makes_emits by fastforce

lemma makes_cases:
  "makes C k m \<Longrightarrow> makes C k n \<Longrightarrow> makes C k (if b then m else n)"
  "(\<And>e. makes C k (f e)) \<Longrightarrow> (\<And>y. makes C k (g y)) \<Longrightarrow> makes C k (case x of Inl e \<Rightarrow> f e | Inr y \<Rightarrow> g y)"
  "makes C k m \<Longrightarrow> (\<And>y. makes C k (h y)) \<Longrightarrow> makes C k (case z of None \<Rightarrow> m | Some y \<Rightarrow> h y)"
  by (auto split: sum.split option.split)

text \<open>The parameters the creation is called with: this name, this machine's marker.\<close>

definition creates_as :: "xomachine \<Rightarrow> uuid \<Rightarrow> string \<Rightarrow> event \<Rightarrow> bool" where
  "creates_as m templateID vmName e \<longleftrightarrow>
     (\<exists>pool params r. e = EvCreateVM pool params r \<and>
        cp_name_label params = vmName \<and> cp_name_description params = vmMarker (Some m) \<and>
        cp_template params = templateID \<and> cp_clone params = Some True \<and> cp_auto_poweron params = Some False)"

definition same_identity :: "create_vm_params \<Rightarrow> create_vm_params \<Rightarrow> bool" where
  "same_identity p q \<longleftrightarrow> cp_name_label p = cp_name_label q \<and> cp_name_description p = cp_name_description q \<and>
     cp_template p = cp_template q \<and> cp_clone p = cp_clone q \<and> cp_auto_poweron p = cp_auto_poweron q"

lemma same_identity_refl [simp]: "same_identity p p"
  by (simp add: same_identity_def)

lemma addVIFs_identity: "wp (addVIFs E c pool i ns params) (\<lambda>ps w'. same_identity ps params) w"
proof (induction ns arbitrary: i params w)
  case (Cons n ns)
  show ?case
    unfolding addVIFs.simps wp_simps
  proof (rule wp_emits[OF ResolveNetworkID_emits[where P = "\<lambda>_. True"]])
    fix r and v :: "('a, 'b) st"
    show "wp (case r of Inl err \<Rightarrow> addVIFs E c pool (Suc i) ns params
          | Inr networkID \<Rightarrow> addVIFs E c pool (Suc i) ns
                 (params\<lparr>cp_vifs := cp_vifs params @ [\<lparr>vp_device = nat_str i, vp_network = networkID\<rparr>]\<rparr>))
         (\<lambda>ps w'. same_identity ps params) v"
      by (cases r) (auto intro!: wp_mono[OF Cons.IH] simp: same_identity_def)
  qed
qed simp

lemma addVIFsToParams_identity:
  "wp (addVIFsToParams E c m params pool) (\<lambda>ps w'. same_identity ps params) w"
  by (simp add: addVIFsToParams_def addVIFs_identity split: option.split)

lemma memoryParam_identity: "memoryParam E m params = Inr ps \<Longrightarrow> same_identity ps params"
  by (auto simp: memoryParam_def same_identity_def split: option.splits if_splits sum.splits)

lemma createOrAdopt_makes:
  assumes "\<And>pl r. C (EvCreateVM pl params r)"
    and "\<And>f k. onDup = Some f \<Longrightarrow> emits provisioning (f n k)"
  shows "makes C 1 (createOrAdopt E c pool params n marker onDup)"
proof -
  have create: "makes C 1 (act (EvCreateVM pool params) (x_vm_create (xo E) c pool params))"
    using assms(1) by (simp add: makes_def log_ok_def)
  have recover: "emits provisioning (case r of Inl err \<Rightarrow> recoverCreate E c n marker err | Inr v \<Rightarrow> ret (Inr v))" for r
    by (intro effects) simp_all
  have warned: "emits provisioning (case onDup of None \<Rightarrow> ret ()
      | Some warn \<Rightarrow> (if fst found = None \<and> snd found > 0 then warn n (snd found) else ret ()))" for found
    by (intro effects assms(2)) simp_all
  show ?thesis
    unfolding createOrAdopt_def
  proof (rule makes_bind_0)
    show "emits provisioning (findAdoptableVM E c n marker)" by (intro effects) simp
    show "makes C 1 (do {
        (case onDup of Some warn \<Rightarrow> (if fst found = None \<and> snd found > 0 then warn n (snd found) else ret ())
           | None \<Rightarrow> ret ());
        (case fst found of Some v \<Rightarrow> ret (Inr v)
         | None \<Rightarrow> do { r \<leftarrow> act (EvCreateVM pool params) (x_vm_create (xo E) c pool params);
                      (case r of Inr v \<Rightarrow> ret (Inr v) | Inl err \<Rightarrow> recoverCreate E c n marker err) }) })" for found
      by (rule makes_bind_0[OF warned], rule makes_cases(3), rule makes_bind_1[OF create recover])
         (rule makes_emits, intro effects)
  qed
qed

text \<open>The whole of \<open>CreateVM\<close>: the marker is that of the object it starts on.\<close>

lemma CreateVM_makes:
  assumes "\<And>f k. onDup = Some f \<Longrightarrow> emits provisioning (f n k)"
  shows "wp (CreateVM E c pool t cc nc n prov onDup)
     (\<lambda>r w'. \<exists>es. log w' = log w @ es \<and> log_ok (creates_as (obj w) t n) 1 es) w"
proof -
  define C where "C = creates_as (obj w) t n"
  have conf: "emits provisioning (case r of Inl err \<Rightarrow> ret (Inl err) | Inr v \<Rightarrow> configureVM E c pool prov v)" for r
    by (intro effects) (auto elim: is_config_call.elims is_machine_write.elims)
  show ?thesis
  proof (cases "memoryParam E (obj w) (buildCreateParams t n cc nc (vmMarker (Some (obj w))))")
    case (Inl err)
    have "makes C 1 (do { e \<leftarrow> WithConditionUpdate E err ConditionFalse ''InvalidMemoryQuantity''; ret (Inl e) })"
      by (rule makes_emits, intro effects) simp
    from makes_wp[OF this] Inl show ?thesis by (simp add: CreateVM_def C_def)
  next
    case (Inr params0)
    have id0: "same_identity params0 (buildCreateParams t n cc nc (vmMarker (Some (obj w))))"
      using memoryParam_identity[OF Inr] .
    have tail: "makes C 1 (do { r \<leftarrow> createOrAdopt E c pool params n (vmMarker (Some (obj w))) onDup;
                    (case r of Inl err \<Rightarrow> ret (Inl err) | Inr v \<Rightarrow> configureVM E c pool prov v) })"
      if "same_identity params params0" for params
    proof (rule makes_bind_1[OF createOrAdopt_makes conf])
      show "C (EvCreateVM pl params r)" for pl r
        using that id0 by (auto simp: C_def creates_as_def same_identity_def buildCreateParams_def)
    qed (use assms in simp)
    have "wp (addVIFsToParams E c (obj w) params0 pool)
       (\<lambda>ps w'. same_identity ps params0 \<and> log w' = log w) w"
      unfolding wp_conj
      by (rule conjI[OF addVIFsToParams_identity],
          rule wp_mono[OF emits_wp[OF addVIFsToParams_emits[where P = "\<lambda>_. False"]]]) auto
    then have "wp (addVIFsToParams E c (obj w) params0 pool)
       (\<lambda>ps. wp (do { r \<leftarrow> createOrAdopt E c pool ps n (vmMarker (Some (obj w))) onDup;
                    (case r of Inl err \<Rightarrow> ret (Inl err) | Inr v \<Rightarrow> configureVM E c pool prov v) })
          (\<lambda>r w'. \<exists>es. log w' = log w @ es \<and> log_ok C 1 es)) w"
    proof (rule wp_mono)
      fix ps and v :: "(xomachine, 'a) st"
      assume "same_identity ps params0 \<and> log v = log w"
      with makes_wp[OF tail, of ps v]
      show "wp (do { r \<leftarrow> createOrAdopt E c pool ps n (vmMarker (Some (obj w))) onDup;
                    (case r of Inl err \<Rightarrow> ret (Inl err) | Inr v \<Rightarrow> configureVM E c pool prov v) })
          (\<lambda>r w'. \<exists>es. log w' = log w @ es \<and> log_ok C 1 es) v"
        by simp
    qed
    then show ?thesis
      by (simp add: CreateVM_def Inr C_def)
  qed
qed

text \<open>
  One run of \<open>CreateVM\<close> asks for at most one VM, and what it asks for is a halted clone of the
  given template that carries the given name and the marker of this machine, whatever the two
  services answer on the way; nothing is ever stopped, deleted or detached.
\<close>

theorem CreateVM_once:
  assumes "\<And>f k. onDup = Some f \<Longrightarrow> emits provisioning (f n k)"
  shows "\<exists>es. log (snd (run_state (CreateVM E c pool t cc nc n prov onDup) w)) = log w @ es \<and>
     (\<forall>e \<in> set es. provisioning e \<or> is_create e \<and> creates_as (obj w) t n e) \<and>
     length (filter is_create es) \<le> 1"
proof -
  have "wp (CreateVM E c pool t cc nc n prov onDup)
     (\<lambda>r w'. \<exists>es. log w' = log w @ es \<and> log_ok (creates_as (obj w) t n) 1 es) w"
    by (rule CreateVM_makes) (rule assms)
  then show ?thesis by (simp add: wp_def log_ok_def split: prod.splits)
qed

theorem CreateVM_once_witness:
  "\<exists>es. log (snd (run_state (CreateVM ref_env ref_client 1 2 ''machine: {}'' None ''TALOS-demo-CP-7n62g'' ''talos'' None)
                     (start_state ref_machine ()))) = log (start_state ref_machine ()) @ es \<and>
     (\<forall>e \<in> set es. provisioning e \<or>
        is_create e \<and> creates_as (obj (start_state ref_machine ())) 2 ''TALOS-demo-CP-7n62g'' e) \<and>
     length (filter is_create es) \<le> 1"
  by (rule CreateVM_once) simp

end
