(* ===== verification/Vm_Retry.thy ===== *)
theory Vm_Retry
  imports Vm_Create
begin

text \<open>
  Why a create whose result was lost does not lead to a second VM. \<open>own s\<close> is the set of VMs in
  Xen Orchestra that carry a machine's name and marker. A creation may fail after the VM exists
  (a timeout, an answer the SDK cannot read, a crash before the provider ID is saved); the next
  attempt lists the VMs of that name and adopts the one it finds.
\<close>

section \<open>Calls that do not create\<close>

definition leaves_alone :: "'s env \<Rightarrow> xo_client \<Rightarrow> ('s \<Rightarrow> 'x) \<Rightarrow> bool" where
  "leaves_alone E c f \<longleftrightarrow>
     (\<forall>n s. f (snd (k_get_cluster (kube E) n s)) = f s) \<and>
     (\<forall>n s. f (snd (k_get_xocluster (kube E) n s)) = f s) \<and>
     (\<forall>n s. f (snd (k_get_xomachine (kube E) n s)) = f s) \<and>
     (\<forall>m s. f (snd (k_update_xomachine (kube E) m s)) = f s) \<and>
     (\<forall>m s. f (snd (k_status_update_xomachine (kube E) m s)) = f s) \<and>
     (\<forall>s. f (snd (e_now E s)) = f s) \<and>
     (\<forall>n p s. f (snd (x_v1_network (xo E) c n p s)) = f s) \<and>
     (\<forall>i s. f (snd (x_v1_get_disks (xo E) c i s)) = f s) \<and>
     (\<forall>m a s. f (snd (x_v1_call (xo E) c m a s)) = f s) \<and>
     (\<forall>i t s. f (snd (x_v1_add_tag (xo E) c i t s)) = f s) \<and>
     (\<forall>p s. f (snd (x_task_wait (xo E) c p s)) = f s) \<and>
     (\<forall>i s. f (snd (x_vm_get (xo E) c i s)) = f s)"

named_theorems alone "programs that leave a part of the external state alone"

lemma alone_ops:
  assumes "leaves_alone E c f"
  shows "f (snd (k_get_cluster (kube E) n s)) = f s" and "f (snd (k_get_xocluster (kube E) n s)) = f s"
    and "f (snd (k_get_xomachine (kube E) n s)) = f s" and "f (snd (k_update_xomachine (kube E) m s)) = f s"
    and "f (snd (k_status_update_xomachine (kube E) m s)) = f s" and "f (snd (e_now E s)) = f s"
    and "f (snd (x_v1_network (xo E) c nm p s)) = f s" and "f (snd (x_v1_get_disks (xo E) c i s)) = f s"
    and "f (snd (x_v1_call (xo E) c mt a s)) = f s" and "f (snd (x_v1_add_tag (xo E) c i t s)) = f s"
    and "f (snd (x_task_wait (xo E) c p s)) = f s" and "f (snd (x_vm_get (xo E) c j s)) = f s"
  using assms unfolding leaves_alone_def by simp_all

lemma status_update_alone [alone]:
  "leaves_alone E c f \<Longrightarrow> keeps (\<lambda>w. f (ext w)) (status_update E)"
  unfolding status_update_def by (intro frames alone) (simp_all add: alone_ops)

lemma update_machine_alone [alone]:
  "leaves_alone E c f \<Longrightarrow> keeps (\<lambda>w. f (ext w)) (update_machine E)"
  unfolding update_machine_def by (intro frames alone) (simp_all add: alone_ops)

lemma refetch_machine_alone [alone]:
  "leaves_alone E c f \<Longrightarrow> keeps (\<lambda>w. f (ext w)) (refetch_machine E)"
  unfolding refetch_machine_def by (intro frames alone) (simp_all add: alone_ops)

lemma UpdateCondition_alone [alone]:
  "leaves_alone E c f \<Longrightarrow> keeps (\<lambda>w. f (ext w)) (UpdateCondition E st reason msg)"
  unfolding UpdateCondition_def by (intro frames alone) (simp_all add: alone_ops)

lemma WithConditionUpdate_alone [alone]:
  "leaves_alone E c f \<Longrightarrow> keeps (\<lambda>w. f (ext w)) (WithConditionUpdate E e st reason)"
  unfolding WithConditionUpdate_def by (intro frames alone)

lemma GetXOCluster_alone [alone]:
  "leaves_alone E c f \<Longrightarrow> keeps (\<lambda>w. f (ext w)) (GetXOCluster E ns n)"
  unfolding GetXOCluster_def by (intro frames alone) (simp_all add: alone_ops)

lemma ResolveNetworkID_alone [alone]:
  "leaves_alone E c f \<Longrightarrow> keeps (\<lambda>w. f (ext w)) (ResolveNetworkID E c n p)"
  unfolding ResolveNetworkID_def by (intro frames alone) (simp_all add: alone_ops)

lemma addVIFs_alone [alone]:
  "leaves_alone E c f \<Longrightarrow> keeps (\<lambda>w. f (ext w)) (addVIFs E c p i ns ps)"
  by (induction ns arbitrary: i ps) (auto intro!: frames alone)

lemma addVIFsToParams_alone [alone]:
  "leaves_alone E c f \<Longrightarrow> keeps (\<lambda>w. f (ext w)) (addVIFsToParams E c m ps p)"
  unfolding addVIFsToParams_def by (intro frames alone)

lemma v1_call_alone [alone]:
  "leaves_alone E c f \<Longrightarrow> keeps (\<lambda>w. f (ext w)) (v1_call E c method args)"
  unfolding v1_call_def by (intro frames alone) (simp_all add: alone_ops)

lemma resizeDiskIfNeeded_alone [alone]:
  "leaves_alone E c f \<Longrightarrow> keeps (\<lambda>w. f (ext w)) (resizeDiskIfNeeded E c m v)"
  unfolding resizeDiskIfNeeded_def by (intro frames alone) (simp_all add: alone_ops)

lemma setCPUsIfNeeded_alone [alone]:
  "leaves_alone E c f \<Longrightarrow> keeps (\<lambda>w. f (ext w)) (setCPUsIfNeeded E c m v)"
  unfolding setCPUsIfNeeded_def by (intro frames alone)

lemma setBootOrder_alone [alone]:
  "leaves_alone E c f \<Longrightarrow> keeps (\<lambda>w. f (ext w)) (setBootOrder E c v)"
  unfolding setBootOrder_def by (intro frames alone)

lemma write_with_retry_alone [alone]:
  "leaves_alone E c f \<Longrightarrow> keeps (\<lambda>w. f (ext w)) write \<Longrightarrow>
   keeps (\<lambda>w. f (ext w)) (write_with_retry E change write)"
  unfolding write_with_retry_def by (intro frames alone)

lemma saveProviderID_alone [alone]:
  "leaves_alone E c f \<Longrightarrow> keeps (\<lambda>w. f (ext w)) (saveProviderID E p)"
  unfolding saveProviderID_def by (intro frames alone)

lemma clusterTags_alone [alone]:
  "leaves_alone E c f \<Longrightarrow> keeps (\<lambda>w. f (ext w)) (clusterTags E m)"
  unfolding clusterTags_def by (intro frames alone)

lemma add_tag_alone [alone]:
  "leaves_alone E c f \<Longrightarrow> keeps (\<lambda>w. f (ext w)) (add_tag E c i t)"
  unfolding add_tag_def by (intro frames alone) (simp_all add: alone_ops)

lemma SetVMTags_alone [alone]:
  "leaves_alone E c f \<Longrightarrow> keeps (\<lambda>w. f (ext w)) (SetVMTags E m i (Some c) p)"
  unfolding SetVMTags_def option.case by (intro frames alone)

lemma handleV2_alone [alone]:
  "leaves_alone E c f \<Longrightarrow> keeps (\<lambda>w. f (ext w)) (handleV2BareTaskResponse E c err)"
  unfolding handleV2BareTaskResponse_def task_wait_def get_vm_def
  by (intro frames alone) (simp_all add: alone_ops)

lemma configureVM_alone [alone]:
  "leaves_alone E c f \<Longrightarrow> keeps (\<lambda>w. f (ext w)) (configureVM E c p prov v)"
  unfolding configureVM_def by (intro frames alone)

section \<open>One attempt\<close>

text \<open>
  The documented behaviour of the two calls that matter. A listing by name is complete and
  changes nothing; a creation brings at most one VM into being, whether it answers with it or
  with an error.
\<close>

definition vm_store :: "'s env \<Rightarrow> xo_client \<Rightarrow> string \<Rightarrow> string \<Rightarrow> ('s \<Rightarrow> vm set) \<Rightarrow> bool" where
  "vm_store E c n marker own \<longleftrightarrow>
     leaves_alone E c own \<and>
     (\<forall>s r s'. x_vm_get_all (xo E) c (nameLabelFilter n) s = (r, s') \<longrightarrow>
        own s' = own s \<and>
        (\<exists>vms. r = Inr vms \<and>
           own s = {v. Some v \<in> set vms \<and> vm_name_label v = n \<and> vm_name_description v = marker})) \<and>
     (\<forall>p ps s r s'. x_vm_create (xo E) c p ps s = (r, s') \<longrightarrow>
        own s' = own s \<or> (\<exists>v. own s' = insert v (own s)))"

definition at_most_one :: "'a set \<Rightarrow> bool" where
  "at_most_one A \<longleftrightarrow> (\<forall>x \<in> A. \<forall>y \<in> A. x = y)"

text \<open>
  The abstract specification of the creation: a register that is written at most once. A step leaves
  it alone, or fills it when it is empty.
\<close>

definition register_step :: "'a set \<Rightarrow> 'a set \<Rightarrow> bool" where
  "register_step A B \<longleftrightarrow> B = A \<or> (A = {} \<and> (\<exists>x. B = {x}))"

lemma register_step_refl [simp]: "register_step A A"
  by (simp add: register_step_def)

lemma register_step_at_most_one: "register_step A B \<Longrightarrow> at_most_one A \<Longrightarrow> at_most_one B"
  by (auto simp: register_step_def at_most_one_def)

lemma findAdoptableVM_own:
  assumes "vm_store E c n marker own" and "marker \<noteq> []"
  shows "wp (findAdoptableVM E c n marker)
     (\<lambda>r w'. own (ext w') = own (ext w) \<and> (fst r = None \<longrightarrow> own (ext w) = {})) w"
proof -
  obtain r s where rs: "x_vm_get_all (xo E) c (nameLabelFilter n) (ext w) = (r, s)" by fastforce
  with assms(1) obtain vms where "own s = own (ext w)" "r = Inr vms"
    "own (ext w) = {v. Some v \<in> set vms \<and> vm_name_label v = n \<and> vm_name_description v = marker}"
    unfolding vm_store_def by blast
  with rs show ?thesis
    using adoptableVM_None[OF assms(2), of vms n] assms(2)
    by (auto simp: findAdoptableVM_def wp_def)
qed

lemma recoverCreate_own:
  assumes "vm_store E c n marker own" and "marker \<noteq> []"
  shows "wp (recoverCreate E c n marker err) (\<lambda>r w'. own (ext w') = own (ext w)) w"
proof -
  have L: "leaves_alone E c own" using assms(1) by (simp add: vm_store_def)
  have h: "keeps (\<lambda>w. own (ext w)) (if contains_str (error_text err) ''unmarshal''
      then handleV2BareTaskResponse E c err else ret (Inl err))"
    using L by (intro frames alone)
  have fail: "wp (do { e \<leftarrow> WithConditionUpdate E err2 ConditionFalse ''VmCreationFailed''; ret (Inl e) })
     (\<lambda>r w'. own (ext w') = own (ext w)) v" if "own (ext v) = own (ext w)" for v err2
    unfolding wp_simps by (rule wp_keeps[OF WithConditionUpdate_alone[OF L]]) (use that in simp)
  have t: "wp (do { found \<leftarrow> findAdoptableVM E c n marker;
        (case fst found of Some v \<Rightarrow> ret (Inr v)
         | None \<Rightarrow> do { e \<leftarrow> WithConditionUpdate E err2 ConditionFalse ''VmCreationFailed''; ret (Inl e) }) })
     (\<lambda>r w'. own (ext w') = own (ext w)) v" if v: "own (ext v) = own (ext w)" for v err2
    unfolding wp_simps(2)
  proof (rule wp_mono[OF findAdoptableVM_own[OF assms]])
    fix found :: "vm option \<times> nat" and v' :: "(xomachine, 'a) st"
    assume "own (ext v') = own (ext v) \<and> (fst found = None \<longrightarrow> own (ext v) = {})"
    with v fail[of v' err2]
    show "wp (case fst found of None \<Rightarrow> do { e \<leftarrow> WithConditionUpdate E err2 ConditionFalse ''VmCreationFailed''; ret (Inl e) }
         | Some v \<Rightarrow> ret (Inr v)) (\<lambda>r w'. own (ext w') = own (ext w)) v'"
      by (cases "fst found") auto
  qed
  show ?thesis
    unfolding recoverCreate_def wp_simps(2)
    by (rule wp_keeps[OF h]) (use t in \<open>simp split: sum.split\<close>)
qed

lemma createOrAdopt_own:
  assumes V: "vm_store E c n marker own" and m: "marker \<noteq> []"
    and D: "\<And>f k. onDup = Some f \<Longrightarrow> keeps (\<lambda>w. own (ext w)) (f n k)"
  shows "wp (createOrAdopt E c p ps n marker onDup)
     (\<lambda>r w'. register_step (own (ext w)) (own (ext w'))) w"
proof -
  have warned: "keeps (\<lambda>w. own (ext w)) (case onDup of None \<Rightarrow> ret ()
      | Some warn \<Rightarrow> (if fst found = None \<and> snd found > 0 then warn n (snd found) else ret ()))" for found
    by (intro frames D) simp_all
  have create: "wp (do { r \<leftarrow> act (EvCreateVM p ps) (x_vm_create (xo E) c p ps);
                (case r of Inr v \<Rightarrow> ret (Inr v) | Inl err \<Rightarrow> recoverCreate E c n marker err) })
     (\<lambda>r w'. register_step {} (own (ext w'))) v" if "own (ext v) = {}" for v
  proof -
    obtain r s where rs: "x_vm_create (xo E) c p ps (ext v) = (r, s)" by fastforce
    with V that have one: "register_step {} (own s)" unfolding vm_store_def register_step_def by fastforce
    have "wp (recoverCreate E c n marker err) (\<lambda>r w'. register_step {} (own (ext w'))) u" if "ext u = s" for u err
      by (rule wp_mono[OF recoverCreate_own[OF V m]]) (use one that in simp)
    then show ?thesis
      using rs one by (cases r) simp_all
  qed
  show ?thesis
    unfolding createOrAdopt_def wp_simps(2)
  proof (rule wp_mono[OF findAdoptableVM_own[OF V m]], rule wp_keeps[OF warned])
    fix found :: "vm option \<times> nat" and u :: unit and w1 w2 :: "(xomachine, 'a) st"
    assume f: "own (ext w1) = own (ext w) \<and> (fst found = None \<longrightarrow> own (ext w) = {})"
      and w2: "own (ext w2) = own (ext w1)"
    show "wp (case fst found of Some v \<Rightarrow> ret (Inr v)
         | None \<Rightarrow> do { r \<leftarrow> act (EvCreateVM p ps) (x_vm_create (xo E) c p ps);
                      (case r of Inr v \<Rightarrow> ret (Inr v) | Inl err \<Rightarrow> recoverCreate E c n marker err) })
         (\<lambda>r w'. register_step (own (ext w)) (own (ext w'))) w2"
    proof (cases "fst found")
      case None
      have "own (ext w2) = {}" "own (ext w) = {}" using f w2 None by simp_all
      show ?thesis
        unfolding None option.case
        by (rule wp_mono[OF create[OF \<open>own (ext w2) = {}\<close>]]) (simp add: \<open>own (ext w) = {}\<close>)
    next
      case (Some v)
      with f w2 show ?thesis by simp
    qed
  qed
qed

lemma CreateVM_own:
  assumes V: "vm_store E c n marker own" and m: "marker = vmMarker (Some (obj w))" "marker \<noteq> []"
    and D: "\<And>f k. onDup = Some f \<Longrightarrow> keeps (\<lambda>w. own (ext w)) (f n k)"
  shows "wp (CreateVM E c p t cc nc n prov onDup)
     (\<lambda>r w'. register_step (own (ext w)) (own (ext w'))) w"
proof -
  have L: "leaves_alone E c own" using V by (simp add: vm_store_def)
  have tail: "wp (do { r \<leftarrow> createOrAdopt E c p ps n marker onDup;
                    (case r of Inl err \<Rightarrow> ret (Inl err) | Inr v \<Rightarrow> configureVM E c p prov v) })
     (\<lambda>r w'. register_step (own (ext w)) (own (ext w'))) v"
    if v: "own (ext v) = own (ext w)" for v ps
    unfolding wp_simps(2)
  proof (rule wp_mono)
    show "wp (createOrAdopt E c p ps n marker onDup)
      (\<lambda>r w'. register_step (own (ext v)) (own (ext w'))) v"
      by (rule createOrAdopt_own[OF V m(2)]) (rule D)
    fix r and u :: "(xomachine, 'a) st"
    assume "register_step (own (ext v)) (own (ext u))"
    with v show "wp (case r of Inl err \<Rightarrow> ret (Inl err) | Inr v \<Rightarrow> configureVM E c p prov v)
         (\<lambda>r w'. register_step (own (ext w)) (own (ext w'))) u"
      by (cases r) (auto intro!: wp_keeps[OF configureVM_alone[OF L]])
  qed
  have fail: "wp (do { e \<leftarrow> WithConditionUpdate E err ConditionFalse ''InvalidMemoryQuantity''; ret (Inl e) })
     (\<lambda>r w'. register_step (own (ext w)) (own (ext w'))) w" for err
    unfolding wp_simps(2) by (rule wp_keeps[OF WithConditionUpdate_alone[OF L]]) simp
  show ?thesis
  proof (cases "memoryParam E (obj w) (buildCreateParams t n cc nc marker)")
    case (Inl err)
    with fail[of err] m(1) show ?thesis by (simp add: CreateVM_def)
  next
    case (Inr ps0)
    have "wp (addVIFsToParams E c (obj w) ps0 p)
       (\<lambda>ps. wp (do { r \<leftarrow> createOrAdopt E c p ps n marker onDup;
                    (case r of Inl err \<Rightarrow> ret (Inl err) | Inr v \<Rightarrow> configureVM E c p prov v) })
          (\<lambda>r w'. register_step (own (ext w)) (own (ext w')))) w"
      by (rule wp_keeps[OF addVIFsToParams_alone[OF L]]) (rule tail)
    with Inr m(1) show ?thesis by (simp add: CreateVM_def)
  qed
qed

section \<open>Any number of attempts\<close>

text \<open>
  The external states a series of attempts at one machine's VM can lead to. Between two attempts
  the controller may restart and anyone may act, as long as no VM with this name and marker comes
  into being by another hand. The attempts themselves may differ in everything but the marker and
  the recorded name: the object's other fields, the pool, the template, the payload, the callback
  for a duplicate name.
\<close>

inductive attempts ::
  "'s env \<Rightarrow> xo_client \<Rightarrow> string \<Rightarrow> string \<Rightarrow> ('s \<Rightarrow> vm set) \<Rightarrow> 's \<Rightarrow> 's \<Rightarrow> bool"
  for E c n marker own where
  start: "attempts E c n marker own s s"
| attempt: "attempts E c n marker own s s' \<Longrightarrow> vmMarker (Some (obj w)) = marker \<Longrightarrow> ext w = s' \<Longrightarrow>
    (\<forall>f k. onDup = Some f \<longrightarrow> keeps (\<lambda>w. own (ext w)) (f n k)) \<Longrightarrow>
    attempts E c n marker own s (ext (snd (run_state (CreateVM E c p t cc nc n prov onDup) w)))"
| other: "attempts E c n marker own s s' \<Longrightarrow> own s'' \<subseteq> own s' \<Longrightarrow> attempts E c n marker own s s''"



text \<open>A service that creates the VM and then answers with an error.\<close>

definition lossy_env :: "vm list env" where
  "lossy_env = ref_env\<lparr>xo := ref_xo\<lparr>
     x_vm_get_all := \<lambda>c f s. (Inr (map Some s), s),
     x_vm_create := \<lambda>c p ps s. (Inl (Plain ''timeout''),
        s @ [ref_vm\<lparr>vm_name_label := cp_name_label ps, vm_name_description := cp_name_description ps\<rparr>])\<rparr>\<rparr>"

definition lossy_own :: "vm list \<Rightarrow> vm set" where
  "lossy_own s = {v \<in> set s. vm_name_label v = ''cp-1'' \<and> vm_name_description v = ''vates-capi-machine:uid-1''}"



end
