(* ===== verification/Vm_Delete.thy ===== *)
theory Vm_Delete
  imports Xo_Compat Reference_Env
begin

text \<open>
  What happens to a VM before its deletion (\<open>DetachPersistentVolumes\<close>, \<open>HardShutdownVM\<close> and
  \<open>StopVMIfNotDetachable\<close> of \<open>xomachine/vm_ops.go\<close>). Xen Orchestra deletes a VM's disks with
  the VM, so the order of these calls is what keeps the data of persistent volumes.
\<close>

section \<open>Detaching persistent volumes\<close>

definition persistentVolumeTagPrefix :: string where
  "persistentVolumeTagPrefix = ''k8s:volumeId:''"

definition volume_filter :: string where
  "volume_filter = ''tags:/^'' @ persistentVolumeTagPrefix @ ''/''"

definition vbd_filter :: "'s env \<Rightarrow> uuid \<Rightarrow> string" where
  "vbd_filter E vmID = ''VM:'' @ l_uuid_string (libs E) vmID"

text \<open>The body of the loop over the VM's block devices.\<close>

definition removeVBD :: "'s env \<Rightarrow> xo_client \<Rightarrow> uuid set \<Rightarrow> vbd \<Rightarrow> ('o, 's, error option) prog" where
  "removeVBD E c pvVDIs b =
     (case vbd_vdi b of
        None \<Rightarrow> ret None
      | Some i \<Rightarrow>
          (if i \<notin> pvVDIs then ret None
           else do { r \<leftarrow> act (\<lambda>r. EvDeleteVBD (vbd_id b) (failure_of r)) (x_vbd_delete (xo E) c (vbd_id b));
                     (case r of
                        Inl err \<Rightarrow> (if IsNotFoundError err then ret None else ret (Some err))
                      | Inr u \<Rightarrow> ret None) }))"

definition DetachPersistentVolumes :: "'s env \<Rightarrow> xo_client \<Rightarrow> uuid \<Rightarrow> ('o, 's, error option) prog" where
  "DetachPersistentVolumes E c vmID =
     do { r \<leftarrow> act (EvListVDIs vmID volume_filter) (x_vm_vdis (xo E) c vmID volume_filter);
          (case r of
             Inl err \<Rightarrow>
               (if IsNotFoundError err then ret None
                else ret (Some (Wrapped (''failed to list persistent volume VDIs for VM '' @
                                         l_uuid_string (libs E) vmID @ '': '') err)))
           | Inr vdis \<Rightarrow>
               (if vdis = [] then ret None
                else do { r2 \<leftarrow> act (EvListVBDs (vbd_filter E vmID)) (x_vbd_get_all (xo E) c (vbd_filter E vmID));
                          (case r2 of
                             Inl err \<Rightarrow>
                               (if IsNotFoundError err then ret None
                                else ret (Some (Wrapped (''failed to list VBDs for VM '' @
                                                         l_uuid_string (libs E) vmID @ '': '') err)))
                           | Inr vbds \<Rightarrow> for_each (removeVBD E c (vdi_id ` set vdis)) vbds) })) }"

section \<open>Stopping a VM\<close>

fun task_status_text :: "task_status \<Rightarrow> string" where
  "task_status_text TaskSuccess = ''success''"
| "task_status_text (TaskOther s) = s"

definition HardShutdownVM :: "'s env \<Rightarrow> xo_client \<Rightarrow> uuid \<Rightarrow> ('o, 's, error option) prog" where
  "HardShutdownVM E c vmID =
     do { r \<leftarrow> act (\<lambda>r. EvHardShutdown vmID (failure_of r)) (x_vm_hard_shutdown (xo E) c vmID);
          (case r of
             Inl err \<Rightarrow>
               (if contains_str (error_text err) ''unmarshal'' then
                  (case ExtractBareTaskPath err of
                     Inl extractErr \<Rightarrow>
                       ret (Some (Wrapped (''extracting bare hard shutdown task for VM '' @
                                           l_uuid_string (libs E) vmID @ '': '') err))
                   | Inr taskPath \<Rightarrow>
                       (if taskPath = [] then
                          ret (Some (Wrapped (''extracting bare hard shutdown task for VM '' @
                                              l_uuid_string (libs E) vmID @ '': '') err))
                        else do { t \<leftarrow> task_wait E c taskPath;
                                  (case t of
                                     Inl waitErr \<Rightarrow>
                                       ret (Some (Wrapped (''waiting for hard shutdown task '' @ taskPath @ '': '') waitErr))
                                   | Inr task \<Rightarrow> ret None) }))
                else ret (Some (Wrapped (''hard shutting down VM '' @ l_uuid_string (libs E) vmID @ '': '') err)))
           | Inr taskID \<Rightarrow>
               do { t \<leftarrow> task_wait E c taskID;
                    (case t of
                       Inl waitErr \<Rightarrow>
                         ret (Some (Wrapped (''waiting for hard shutdown task '' @ taskID @ '': '') waitErr))
                     | Inr task \<Rightarrow>
                         (if task_stat task \<noteq> TaskSuccess then
                            ret (Some (Plain (''hard shutdown task '' @ taskID @ '' not successful: '' @
                                              task_status_text (task_stat task))))
                          else ret None)) }) }"

text \<open>A successful lookup returns a VM, so the code's test for a nil one has no branch here.\<close>

definition StopVMIfNotDetachable :: "'s env \<Rightarrow> xo_client \<Rightarrow> uuid \<Rightarrow> ('o, 's, error option) prog" where
  "StopVMIfNotDetachable E c vmID =
     do { r \<leftarrow> get_vm E c vmID;
          (case r of
             Inl err \<Rightarrow>
               (if IsNotFoundError err then ret None
                else ret (Some (Wrapped (''failed to get VM '' @ l_uuid_string (libs E) vmID @
                                         '' power state: '') err)))
           | Inr v \<Rightarrow>
               (if vm_power_state v \<noteq> PowerPaused \<and> vm_power_state v \<noteq> PowerSuspended then ret None
                else HardShutdownVM E c vmID)) }"

section \<open>Effects and frames\<close>

lemma removeVBD_emits [effects]:
  "(\<And>r. P (EvDeleteVBD (vbd_id b) r)) \<Longrightarrow> emits P (removeVBD E c pv b)"
  unfolding removeVBD_def by (intro effects)

lemma removeVBD_keeps [frames]: "keeps obj (removeVBD E c pv b)"
  unfolding removeVBD_def by (intro frames)

lemma DetachPersistentVolumes_emits [effects]:
  "(\<And>r. P (EvListVDIs i volume_filter r)) \<Longrightarrow> (\<And>r. P (EvListVBDs (vbd_filter E i) r)) \<Longrightarrow>
   (\<And>b r. P (EvDeleteVBD b r)) \<Longrightarrow> emits P (DetachPersistentVolumes E c i)"
  unfolding DetachPersistentVolumes_def by (intro effects)

lemma DetachPersistentVolumes_keeps [frames]: "keeps obj (DetachPersistentVolumes E c i)"
  unfolding DetachPersistentVolumes_def by (intro frames)

lemma HardShutdownVM_emits [effects]:
  "(\<And>r. P (EvHardShutdown i r)) \<Longrightarrow> (\<And>p r. P (EvTaskWait p r)) \<Longrightarrow> emits P (HardShutdownVM E c i)"
  unfolding HardShutdownVM_def by (intro effects)

lemma HardShutdownVM_keeps [frames]: "keeps obj (HardShutdownVM E c i)"
  unfolding HardShutdownVM_def task_wait_def by (intro frames)

lemma StopVMIfNotDetachable_emits [effects]:
  "(\<And>r. P (EvGetVM i r)) \<Longrightarrow> (\<And>r. P (EvHardShutdown i r)) \<Longrightarrow> (\<And>p r. P (EvTaskWait p r)) \<Longrightarrow>
   emits P (StopVMIfNotDetachable E c i)"
  unfolding StopVMIfNotDetachable_def get_vm_def by (intro effects)

lemma StopVMIfNotDetachable_keeps [frames]: "keeps obj (StopVMIfNotDetachable E c i)"
  unfolding StopVMIfNotDetachable_def get_vm_def by (intro frames)

section \<open>What the log shows after a detach\<close>

text \<open>
  An outcome that lets the loop go on: success, or the object already gone. \<open>detached\<close> says of
  the events of a call that nothing the two listings showed is left attached.
\<close>

definition gone_or_done :: "error option \<Rightarrow> bool" where
  "gone_or_done r \<longleftrightarrow> (\<forall>err. r = Some err \<longrightarrow> IsNotFoundError err)"

definition volumes_removed :: "vdi list \<Rightarrow> vbd list \<Rightarrow> event list \<Rightarrow> bool" where
  "volumes_removed vdis vbds es \<longleftrightarrow>
     (\<forall>b \<in> set vbds. \<forall>i. vbd_vdi b = Some i \<and> i \<in> vdi_id ` set vdis \<longrightarrow>
        (\<exists>r. EvDeleteVBD (vbd_id b) r \<in> set es \<and> gone_or_done r))"

definition detached :: "'s env \<Rightarrow> uuid \<Rightarrow> event list \<Rightarrow> bool" where
  "detached E vmID es \<longleftrightarrow>
     (\<exists>r. EvListVDIs vmID volume_filter r \<in> set es \<and>
        (case r of
           Inl err \<Rightarrow> IsNotFoundError err
         | Inr vdis \<Rightarrow> vdis = [] \<or>
             (\<exists>r2. EvListVBDs (vbd_filter E vmID) r2 \<in> set es \<and>
                (case r2 of
                   Inl err \<Rightarrow> IsNotFoundError err
                 | Inr vbds \<Rightarrow> volumes_removed vdis vbds es))))"

lemma volumes_removed_Nil [simp]: "volumes_removed vdis [] es"
  by (simp add: volumes_removed_def)

lemma volumes_removed_mono: "volumes_removed vdis vbds es \<Longrightarrow> set es \<subseteq> set es' \<Longrightarrow> volumes_removed vdis vbds es'"
  unfolding volumes_removed_def by (meson subsetD)

lemma volumes_removed_snoc:
  assumes "volumes_removed vdis pre es"
    and "\<And>i. vbd_vdi b = Some i \<Longrightarrow> i \<in> vdi_id ` set vdis \<Longrightarrow>
           \<exists>r. EvDeleteVBD (vbd_id b) r \<in> set es' \<and> gone_or_done r"
  shows "volumes_removed vdis (pre @ [b]) (es @ es')"
  unfolding volumes_removed_def
proof (intro ballI allI impI, elim conjE)
  fix b' i
  assume b': "b' \<in> set (pre @ [b])" and i: "vbd_vdi b' = Some i" "i \<in> vdi_id ` set vdis"
  show "\<exists>r. EvDeleteVBD (vbd_id b') r \<in> set (es @ es') \<and> gone_or_done r"
  proof (cases "b' \<in> set pre")
    case True
    with assms(1) i show ?thesis unfolding volumes_removed_def by fastforce
  next
    case False
    with b' have "b' = b" by simp
    with assms(2) i show ?thesis by fastforce
  qed
qed

lemma detached_mono:
  assumes "detached E i es" and sub: "set es \<subseteq> set es'"
  shows "detached E i es'"
proof -
  obtain r where r: "EvListVDIs i volume_filter r \<in> set es"
    and c: "case r of Inl err \<Rightarrow> IsNotFoundError err
         | Inr vdis \<Rightarrow> vdis = [] \<or>
             (\<exists>r2. EvListVBDs (vbd_filter E i) r2 \<in> set es \<and>
                (case r2 of Inl err \<Rightarrow> IsNotFoundError err
                 | Inr vbds \<Rightarrow> volumes_removed vdis vbds es))"
    using assms(1) unfolding detached_def by blast
  have "case r of Inl err \<Rightarrow> IsNotFoundError err
         | Inr vdis \<Rightarrow> vdis = [] \<or>
             (\<exists>r2. EvListVBDs (vbd_filter E i) r2 \<in> set es' \<and>
                (case r2 of Inl err \<Rightarrow> IsNotFoundError err
                 | Inr vbds \<Rightarrow> volumes_removed vdis vbds es'))"
  proof (cases r)
    case (Inr vdis)
    show ?thesis
    proof (cases "vdis = []")
      case False
      with c Inr obtain r2 where r2: "EvListVBDs (vbd_filter E i) r2 \<in> set es"
        and "case r2 of Inl err \<Rightarrow> IsNotFoundError err | Inr vbds \<Rightarrow> volumes_removed vdis vbds es"
        by auto
      then have "case r2 of Inl err \<Rightarrow> IsNotFoundError err | Inr vbds \<Rightarrow> volumes_removed vdis vbds es'"
        using volumes_removed_mono[OF _ sub] by (cases r2) auto
      with r2 sub Inr show ?thesis by auto
    qed (simp add: Inr)
  qed (use c in simp)
  with r sub show ?thesis unfolding detached_def by blast
qed

lemma removeVBD_wp:
  "wp (removeVBD E c pv b)
      (\<lambda>r w'. r = None \<longrightarrow>
         (\<exists>es. log w' = log w @ es \<and>
           (\<forall>i. vbd_vdi b = Some i \<and> i \<in> pv \<longrightarrow>
              (\<exists>o'. EvDeleteVBD (vbd_id b) o' \<in> set es \<and> gone_or_done o')))) w"
proof (cases "vbd_vdi b")
  case (Some i)
  show ?thesis
  proof (cases "i \<in> pv")
    case True
    then show ?thesis
      by (simp add: removeVBD_def Some gone_or_done_def split: sum.split)
  qed (simp add: removeVBD_def Some)
qed (simp add: removeVBD_def)

lemma removeVBDs_wp:
  "wp (for_each (removeVBD E c (vdi_id ` set vdis)) vbds)
      (\<lambda>r w'. r = None \<longrightarrow> (\<exists>es. log w' = log w @ es \<and> volumes_removed vdis vbds es)) w"
proof (rule for_each_wp[where I = "\<lambda>pre v. \<exists>es. log v = log w @ es \<and> volumes_removed vdis pre es"])
  show "wp (removeVBD E c (vdi_id ` set vdis) b)
     (\<lambda>r v'. case r of None \<Rightarrow> \<exists>es. log v' = log w @ es \<and> volumes_removed vdis (pre @ [b]) es
             | Some e \<Rightarrow> Some e = None \<longrightarrow> (\<exists>es. log v' = log w @ es \<and> volumes_removed vdis vbds es)) v"
    if I: "\<exists>es. log v = log w @ es \<and> volumes_removed vdis pre es" for pre b post v
  proof -
    obtain es where es: "log v = log w @ es" "volumes_removed vdis pre es" using I by blast
    show ?thesis
    proof (rule wp_mono[OF removeVBD_wp])
      fix r v'
      assume Q: "r = None \<longrightarrow>
         (\<exists>es. log v' = log v @ es \<and>
           (\<forall>i. vbd_vdi b = Some i \<and> i \<in> vdi_id ` set vdis \<longrightarrow>
              (\<exists>o'. EvDeleteVBD (vbd_id b) o' \<in> set es \<and> gone_or_done o')))"
      have "\<exists>es. log v' = log w @ es \<and> volumes_removed vdis (pre @ [b]) es" if "r = None"
        using Q that volumes_removed_snoc[OF es(2)] es(1) by (metis append.assoc)
      then show "case r of None \<Rightarrow> \<exists>es. log v' = log w @ es \<and> volumes_removed vdis (pre @ [b]) es
             | Some e \<Rightarrow> Some e = None \<longrightarrow> (\<exists>es. log v' = log w @ es \<and> volumes_removed vdis vbds es)"
        by (simp split: option.split)
    qed
  qed
qed auto

lemma detached_no_vdis: "detached E i (es @ [EvListVDIs i volume_filter (Inr [])])"
  by (force simp: detached_def)

lemma detached_gone: "IsNotFoundError err \<Longrightarrow> detached E i (es @ [EvListVDIs i volume_filter (Inl err)])"
  by (force simp: detached_def)

lemma detached_vbds:
  "(case answer of Inl err \<Rightarrow> IsNotFoundError err | Inr vbds \<Rightarrow> volumes_removed vdis vbds es) \<Longrightarrow>
   detached E i (EvListVDIs i volume_filter (Inr vdis) # EvListVBDs (vbd_filter E i) answer # es)"
  unfolding detached_def
  by (rule exI[of _ "Inr vdis"], simp, rule disjI2, rule exI[of _ answer])
     (auto intro: volumes_removed_mono split: sum.splits)

lemma DetachPersistentVolumes_log:
  "wp (DetachPersistentVolumes E c i)
      (\<lambda>r w'. r = None \<longrightarrow> (\<exists>es. log w' = log w @ es \<and> detached E i es)) w"
proof -
  have "wp (for_each (removeVBD E c (vdi_id ` set vdis)) vbds)
      (\<lambda>r w'. r = None \<longrightarrow> (\<exists>es. log w' = log w @ es \<and> detached E i es)) v"
    if v: "log v = log w @ [EvListVDIs i volume_filter (Inr vdis), EvListVBDs (vbd_filter E i) (Inr vbds)]"
    for v :: "('a, 'b) st" and vdis vbds
    by (rule wp_mono[OF removeVBDs_wp]) (use v detached_vbds[where answer = "Inr vbds" and vdis = vdis and E = E and i = i] in fastforce)
  then show ?thesis
    using detached_no_vdis[of E i "[]"] detached_gone[of _ E i "[]"] detached_vbds[where answer = "Inl _" and es = "[]" and E = E and i = i]
    by (auto simp: DetachPersistentVolumes_def split: sum.split)
qed

section \<open>What a detach does to the attachments\<close>

text \<open>
  The documented behaviour of the three calls on the block devices \<open>A\<close> of a VM, of which
  those on a volume of \<open>PV\<close> are persistent: the listings are complete and change nothing, a
  deleted VBD is gone and no other, an answer of 404 means that there is none.
\<close>

definition is_pv :: "uuid set \<Rightarrow> vbd \<Rightarrow> bool" where
  "is_pv PV b \<longleftrightarrow> (\<exists>v \<in> PV. vbd_vdi b = Some v)"

definition lists_volumes :: "'s env \<Rightarrow> xo_client \<Rightarrow> uuid \<Rightarrow> ('s \<Rightarrow> vbd set) \<Rightarrow> uuid set \<Rightarrow> bool" where
  "lists_volumes E c i A PV \<longleftrightarrow>
     (\<forall>s r s'. x_vm_vdis (xo E) c i volume_filter s = (r, s') \<longrightarrow>
        A s' = A s \<and>
        (case r of
           Inl err \<Rightarrow> IsNotFoundError err \<longrightarrow> A s = {}
         | Inr vdis \<Rightarrow> vdi_id ` set vdis = {v \<in> PV. \<exists>b \<in> A s. vbd_vdi b = Some v}))"

definition lists_vbds :: "'s env \<Rightarrow> xo_client \<Rightarrow> uuid \<Rightarrow> ('s \<Rightarrow> vbd set) \<Rightarrow> bool" where
  "lists_vbds E c i A \<longleftrightarrow>
     (\<forall>s r s'. x_vbd_get_all (xo E) c (vbd_filter E i) s = (r, s') \<longrightarrow>
        A s' = A s \<and>
        (case r of
           Inl err \<Rightarrow> IsNotFoundError err \<longrightarrow> A s = {}
         | Inr vbds \<Rightarrow> set vbds = A s \<and> inj_on vbd_id (A s)))"

definition deletes_vbds :: "'s env \<Rightarrow> xo_client \<Rightarrow> ('s \<Rightarrow> vbd set) \<Rightarrow> bool" where
  "deletes_vbds E c A \<longleftrightarrow>
     (\<forall>b s r s'. x_vbd_delete (xo E) c b s = (r, s') \<longrightarrow>
        (case r of
           Inl err \<Rightarrow> A s' = A s \<and> (IsNotFoundError err \<longrightarrow> b \<notin> vbd_id ` A s)
         | Inr u \<Rightarrow> A s' = {x \<in> A s. vbd_id x \<noteq> b}))"

text \<open>The attachments left when the loop has treated the devices of \<open>done\<close>.\<close>

definition left_after :: "uuid set \<Rightarrow> vbd set \<Rightarrow> vbd set \<Rightarrow> vbd set" where
  "left_after PV treated A0 = {b \<in> A0. \<not> (b \<in> treated \<and> is_pv PV b)}"

lemma left_after_empty [simp]: "left_after PV {} A0 = A0"
  by (auto simp: left_after_def)

lemma left_after_bounds:
  "left_after PV treated A0 \<subseteq> A0" "left_after PV A0 A0 \<subseteq> left_after PV treated A0"
  by (auto simp: left_after_def)

lemma removeVBD_left:
  assumes D: "deletes_vbds E c A" and pv: "\<And>v. b \<in> A0 \<Longrightarrow> vbd_vdi b = Some v \<Longrightarrow> v \<in> pv \<longleftrightarrow> v \<in> PV"
    and b: "b \<in> A0" and inj: "inj_on vbd_id A0" and w: "A (ext w) = left_after PV T A0"
  shows "wp (removeVBD E c pv b)
     (\<lambda>r w'. if r = None then A (ext w') = left_after PV (insert b T) A0
             else A (ext w') = left_after PV T A0) w"
proof (cases "is_pv PV b")
  case False
  with pv[OF b] w have "left_after PV (insert b T) A0 = left_after PV T A0"
    by (auto simp: left_after_def)
  moreover have "run_state (removeVBD E c pv b) w = (None, w)"
    using False pv[OF b] by (auto simp: removeVBD_def is_pv_def split: option.split)
  ultimately show ?thesis using w by (simp add: wp_def)
next
  case True
  then obtain v where v: "vbd_vdi b = Some v" "v \<in> pv" using pv[OF b] by (auto simp: is_pv_def)
  obtain r s where rs: "x_vbd_delete (xo E) c (vbd_id b) (ext w) = (r, s)" by fastforce
  have same_id: "x \<in> A0 \<Longrightarrow> vbd_id x = vbd_id b \<longleftrightarrow> x = b" for x
    using inj b by (auto dest: inj_onD)
  have "case r of
           Inl err \<Rightarrow> A s = A (ext w) \<and> (IsNotFoundError err \<longrightarrow> vbd_id b \<notin> vbd_id ` A (ext w))
         | Inr u \<Rightarrow> A s = {x \<in> A (ext w). vbd_id x \<noteq> vbd_id b}"
    using D rs unfolding deletes_vbds_def by blast
  then show ?thesis
    using rs v True same_id w b
    by (cases r) (auto simp: removeVBD_def left_after_def)
qed

lemma removeVBDs_left:
  assumes D: "deletes_vbds E c A" and w: "A (ext w) = A0" and vbds: "set vbds = A0" "inj_on vbd_id A0"
    and pv: "pv = {v \<in> PV. \<exists>b \<in> A0. vbd_vdi b = Some v}"
  shows "wp (for_each (removeVBD E c pv) vbds)
     (\<lambda>r w'. (r = None \<longrightarrow> A (ext w') = left_after PV A0 A0) \<and>
             (\<exists>T. A (ext w') = left_after PV T A0)) w"
proof (rule for_each_wp[where I = "\<lambda>pre v. A (ext v) = left_after PV (set pre) A0"])
  show "wp (removeVBD E c pv b)
     (\<lambda>r v'. case r of None \<Rightarrow> A (ext v') = left_after PV (set (pre @ [b])) A0
             | Some e \<Rightarrow> (Some e = None \<longrightarrow> A (ext v') = left_after PV A0 A0) \<and>
                         (\<exists>T. A (ext v') = left_after PV T A0)) v"
    if "vbds = pre @ b # post" and I: "A (ext v) = left_after PV (set pre) A0" for pre b post v
  proof -
    have b: "b \<in> A0" using that(1) vbds(1) by auto
    have pv': "i \<in> pv \<longleftrightarrow> i \<in> PV" if "b \<in> A0" "vbd_vdi b = Some i" for i
      using that by (auto simp: pv)
    show ?thesis
      by (rule wp_mono[OF removeVBD_left[where A = A and T = "set pre", OF D pv' b vbds(2) I]])
         (auto split: option.split if_splits)
  qed
qed (use w vbds in auto)

lemma DetachPersistentVolumes_left:
  assumes V: "lists_volumes E c i A PV" and B: "lists_vbds E c i A" and D: "deletes_vbds E c A"
    and w: "A (ext w) = A0"
  shows "wp (DetachPersistentVolumes E c i)
     (\<lambda>r w'. (r = None \<longrightarrow> A (ext w') = left_after PV A0 A0) \<and>
             (\<exists>T. A (ext w') = left_after PV T A0)) w"
proof -
  have start: "\<exists>T. X = left_after PV T X" for X by (rule exI[of _ "{}"]) simp
  have none: "left_after PV A0 A0 = A0" if "{v \<in> PV. \<exists>b \<in> A0. vbd_vdi b = Some v} = {}"
    using that by (auto simp: left_after_def is_pv_def)
  obtain r1 s1 where rs1: "x_vm_vdis (xo E) c i volume_filter (ext w) = (r1, s1)" by fastforce
  have v: "A s1 = A0" "case r1 of Inl err \<Rightarrow> IsNotFoundError err \<longrightarrow> A0 = {}
         | Inr vdis \<Rightarrow> vdi_id ` set vdis = {v \<in> PV. \<exists>b \<in> A0. vbd_vdi b = Some v}"
    using V rs1 w unfolding lists_volumes_def by blast+
  show ?thesis
  proof (cases r1)
    case (Inl err)
    then show ?thesis using rs1 v start none by (auto simp: DetachPersistentVolumes_def intro: start)
  next
    case (Inr vdis)
    obtain r2 s2 where rs2: "x_vbd_get_all (xo E) c (vbd_filter E i) s1 = (r2, s2)" by fastforce
    have b: "A s2 = A0" "case r2 of Inl err \<Rightarrow> IsNotFoundError err \<longrightarrow> A0 = {}
         | Inr vbds \<Rightarrow> set vbds = A0 \<and> inj_on vbd_id A0"
      using B rs2 v(1) unfolding lists_vbds_def by blast+
    show ?thesis
    proof (cases r2)
      case Inl
      then show ?thesis using Inr rs1 rs2 v b none by (auto simp: DetachPersistentVolumes_def intro: start)
    next
      case r2: (Inr vbds)
      show ?thesis
        using Inr r2 rs1 rs2 v b none
        by (cases "vdis = []")
           (auto simp: DetachPersistentVolumes_def intro: start intro!: removeVBDs_left[OF D])
    qed
  qed
qed

text \<open>
  C18: under the documented behaviour of the three calls, \<open>DetachPersistentVolumes\<close> that
  reports no error leaves exactly the VM's block devices that hold no persistent volume, and
  one that fails half-way has removed none of those either.
\<close>

theorem DetachPersistentVolumes_exact:
  assumes "lists_volumes E c i A PV" and "lists_vbds E c i A" and "deletes_vbds E c A"
    and "run_state (DetachPersistentVolumes E c i) w = (r, w')"
  shows "A (ext w') \<subseteq> A (ext w) \<and> {b \<in> A (ext w). \<not> is_pv PV b} \<subseteq> A (ext w') \<and>
    (r = None \<longrightarrow> A (ext w') = {b \<in> A (ext w). \<not> is_pv PV b})"
  using wp_run[OF DetachPersistentVolumes_left[where w = w and A = A, OF assms(1-3) refl] assms(4)]
  by (auto simp: left_after_def)

text \<open>A machine with one persistent volume and one OS disk: only the first is detached.\<close>

definition two_disks :: "vbd list" where
  "two_disks = [\<lparr>vbd_id = 1, vbd_vdi = Some 3\<rparr>, \<lparr>vbd_id = 2, vbd_vdi = Some 4\<rparr>]"

definition disk_env :: "vbd list env" where
  "disk_env = ref_env\<lparr>xo := ref_xo\<lparr>
     x_vm_vdis := \<lambda>c i f s. (Inr (if \<exists>b \<in> set s. vbd_vdi b = Some 3 then [\<lparr>vdi_id = 3\<rparr>] else []), s),
     x_vbd_get_all := \<lambda>c f s. (if inj_on vbd_id (set s) then Inr s else Inl (Plain ''busy''), s),
     x_vbd_delete := \<lambda>c b s. (Inr (), filter (\<lambda>x. vbd_id x \<noteq> b) s)\<rparr>\<rparr>"

theorem DetachPersistentVolumes_exact_witness:
  "set [\<lparr>vbd_id = 2, vbd_vdi = Some (4 :: uuid)\<rparr>] \<subseteq> set two_disks \<and>
   set [\<lparr>vbd_id = 2, vbd_vdi = Some 4\<rparr>] = {b \<in> set two_disks. \<not> is_pv {3} b}"
proof -
  let ?w = "start_state ref_machine two_disks"
  have 1: "lists_volumes disk_env ref_client 7 set {3}" "lists_vbds disk_env ref_client 7 set"
    "deletes_vbds disk_env ref_client set"
    by (auto simp: lists_volumes_def lists_vbds_def deletes_vbds_def disk_env_def ref_env_def
        IsNotFoundError_def image_iff split: sum.split if_splits)
  have "fst (run_state (DetachPersistentVolumes disk_env ref_client 7) ?w) = None \<and>
    ext (snd (run_state (DetachPersistentVolumes disk_env ref_client 7) ?w)) =
      [\<lparr>vbd_id = 2, vbd_vdi = Some 4\<rparr>]"
    by (simp add: DetachPersistentVolumes_def disk_env_def two_disks_def ref_env_def ref_xo_def
        start_state_def removeVBD_def)
  then have "run_state (DetachPersistentVolumes disk_env ref_client 7) ?w =
      (None, snd (run_state (DetachPersistentVolumes disk_env ref_client 7) ?w))"
    and e: "ext (snd (run_state (DetachPersistentVolumes disk_env ref_client 7) ?w)) =
      [\<lparr>vbd_id = 2, vbd_vdi = Some 4\<rparr>]"
    by (simp_all add: prod_eq_iff)
  from DetachPersistentVolumes_exact[OF 1 this(1)] show ?thesis
    unfolding e by (simp add: start_state_def)
qed

text \<open>
  \<open>StopVMIfNotDetachable\<close> issues a hard shutdown only on the VM it was asked about and only
  after a lookup that showed it Paused or Suspended, in which no guest runs; a Running or
  Halted VM is left alone.
\<close>

theorem StopVMIfNotDetachable_only_idle:
  "\<exists>es. log (snd (run_state (StopVMIfNotDetachable E c i) w)) = log w @ es \<and>
    (\<forall>e \<in> set es. \<forall>j. hard_shutdown_of e = Some j \<longrightarrow>
       j = i \<and> (\<exists>v. EvGetVM i (Inr v) \<in> set es \<and> vm_power_state v \<in> {PowerPaused, PowerSuspended}))"
proof -
  let ?Q = "\<lambda>r w'. \<exists>es. log w' = log w @ es \<and> (\<forall>e \<in> set es. \<forall>j. hard_shutdown_of e = Some j \<longrightarrow>
       j = i \<and> (\<exists>v. EvGetVM i (Inr v) \<in> set es \<and> vm_power_state v \<in> {PowerPaused, PowerSuspended}))"
  have "wp (HardShutdownVM E c i) ?Q v"
    if v: "log v = log w @ [EvGetVM i (Inr u)]" "vm_power_state u \<in> {PowerPaused, PowerSuspended}"
    for v :: "('a, 'b) st" and u
  proof (rule wp_emits[OF HardShutdownVM_emits[where P = "\<lambda>e. hard_shutdown_of e \<in> {None, Some i}"]])
    fix v' :: "('a, 'b) st" and es
    assume "log v' = log v @ es" "\<forall>e \<in> set es. hard_shutdown_of e \<in> {None, Some i}"
    with v show "\<exists>es. log v' = log w @ es \<and> (\<forall>e \<in> set es. \<forall>j. hard_shutdown_of e = Some j \<longrightarrow>
       j = i \<and> (\<exists>v. EvGetVM i (Inr v) \<in> set es \<and> vm_power_state v \<in> {PowerPaused, PowerSuspended}))"
      by (intro exI[of _ "EvGetVM i (Inr u) # es"]) auto
  qed simp_all
  then have "wp (StopVMIfNotDetachable E c i) ?Q w"
    by (auto simp: StopVMIfNotDetachable_def get_vm_def split: sum.split)
  then show ?thesis by (auto simp: wp_def split: prod.splits)
qed

theorem StopVMIfNotDetachable_only_idle_witness:
  "\<exists>es. log (snd (run_state (StopVMIfNotDetachable ref_env ref_client 7) (start_state ref_machine ()))) =
        log (start_state ref_machine ()) @ es \<and>
    (\<forall>e \<in> set es. \<forall>j. hard_shutdown_of e = Some j \<longrightarrow>
       j = 7 \<and> (\<exists>v. EvGetVM 7 (Inr v) \<in> set es \<and> vm_power_state v \<in> {PowerPaused, PowerSuspended}))"
  by (rule StopVMIfNotDetachable_only_idle)

end
