(* ===== verification/Vm_Ready.thy ===== *)
theory Vm_Ready
  imports Vm_Create Vm_Delete Reference_Env
begin

text \<open>
  Starting a VM, finding its address and marking the machine Ready (\<open>StartVM\<close>, \<open>ResolveVMIP\<close>,
  \<open>nodeIPv4\<close>, \<open>ResolveVMIPNow\<close>, \<open>SetNodeAddress\<close>, \<open>ManageVIFs\<close> and \<open>WaitForVMReady\<close> of
  \<open>xomachine/vm_ops.go\<close>).

  The polling loop of \<open>ResolveVMIP\<close> runs on fuel; \<open>None\<close> says that it has not returned within
  it. \<open>maxAttempts\<close> rounds are enough when the timers behave (\<open>ResolveVMIP_returns\<close>).
\<close>

text \<open>\<open>reconcile.Result\<close>: the delay of the next run, in milliseconds, zero for none.\<close>

record reconcile_result =
  requeue_after :: nat

definition done_result :: reconcile_result where
  "done_result = \<lparr>requeue_after = 0\<rparr>"

section \<open>Starting\<close>

definition StartVM :: "'s env \<Rightarrow> xo_client \<Rightarrow> vm \<Rightarrow> (xomachine, 's, error + vm \<times> bool) prog" where
  "StartVM E c v =
     do { started \<leftarrow>
            (if vm_power_state v \<noteq> PowerRunning then
               do { r \<leftarrow> act (\<lambda>r. EvStartVM (vm_id v) (failure_of r)) (x_vm_start (xo E) c (vm_id v));
                    (case r of
                       Inl err \<Rightarrow>
                         (if isUnmarshalError err then
                            do { f \<leftarrow> get_vm E c (vm_id v);
                                 let v' = (case f of Inl e \<Rightarrow> v | Inr fresh \<Rightarrow> fresh);
                                 ret (Inr (v', vm_power_state v' = PowerRunning)) }
                          else do { e \<leftarrow> WithConditionUpdate E err ConditionFalse ''VmStartFailed'';
                                    ret (Inl e) })
                     | Inr taskID \<Rightarrow>
                         do { t \<leftarrow> task_wait E c taskID;
                              (case t of
                                 Inl err \<Rightarrow> do { e \<leftarrow> WithConditionUpdate E err ConditionFalse ''VmStartFailed'';
                                                ret (Inl e) }
                               | Inr task \<Rightarrow>
                                   (if task_stat task \<noteq> TaskSuccess then
                                      do { e \<leftarrow> WithConditionUpdate E
                                                 (Plain (''VM start task '' @ taskID @ '' status: '' @
                                                         task_status_text (task_stat task)))
                                                 ConditionFalse ''VmStartFailed'';
                                           ret (Inl e) }
                                    else ret (Inr (v, True)))) }) }
             else ret (Inr (v, False)));
          (case started of
             Inl e \<Rightarrow> ret (Inl e)
           | Inr vb \<Rightarrow>
               do { r \<leftarrow> get_vm E c (vm_id (fst vb));
                    (case r of
                       Inl err \<Rightarrow> do { e \<leftarrow> WithConditionUpdate E err ConditionFalse ''VmRefetchFailed'';
                                      ret (Inl e) }
                     | Inr fresh \<Rightarrow> ret (Inr (fresh, snd vb))) }) }"

section \<open>Addresses\<close>

definition nodeIPv4 :: "string \<Rightarrow> bool" where
  "nodeIPv4 addr \<longleftrightarrow>
     addr \<noteq> [] \<and> \<not> has_prefix addr ''fe80:'' \<and> \<not> has_prefix addr ''169.254.'' \<and> contains_str addr ''.''"

definition v1_get_vm :: "'s env \<Rightarrow> xo_client \<Rightarrow> string \<Rightarrow> ('o, 's, error + v1_vm option) prog" where
  "v1_get_vm E c i = act (\<lambda>r. EvV1GetVM i) (x_v1_get_vm (xo E) c i)"

text \<open>The loop over the addresses: the first usable one.\<close>

fun firstNodeIPv4 :: "string list \<Rightarrow> string option" where
  "firstNodeIPv4 [] = None"
| "firstNodeIPv4 (a # as) = (if nodeIPv4 a then Some a else firstNodeIPv4 as)"

definition addressOf :: "error + v1_vm option \<Rightarrow> string option" where
  "addressOf r = (case r of Inr (Some v) \<Rightarrow> firstNodeIPv4 (v1_addresses v) | _ \<Rightarrow> None)"

text \<open>One run of the loop body, then the wait, then the next run.\<close>

fun resolve_loop ::
  "nat \<Rightarrow> 's env \<Rightarrow> xo_client \<Rightarrow> string \<Rightarrow> nat \<Rightarrow> nat \<Rightarrow> ('o, 's, string option) prog" where
  "resolve_loop 0 E c i deadline backoff = ret None"
| "resolve_loop (Suc fuel) E c i deadline backoff =
     do { r \<leftarrow> v1_get_vm E c i;
          (case addressOf r of
             Some addr \<Rightarrow> ret (Some addr)
           | None \<Rightarrow>
               do { wake \<leftarrow> query (e_select E deadline backoff);
                    (case wake of
                       WakeContext \<Rightarrow> ret (Some [])
                     | WakeDeadline \<Rightarrow> ret (Some [])
                     | WakeBackoff \<Rightarrow> resolve_loop fuel E c i deadline (min (backoff * 2) 8000)) }) }"

definition maxAttempts :: nat where
  "maxAttempts = 19"

definition ResolveVMIP :: "'s env \<Rightarrow> xo_client \<Rightarrow> vm \<Rightarrow> ('o, 's, string option) prog" where
  "ResolveVMIP E c v =
     (if nodeIPv4 (vm_main_ip v) then ret (Some (vm_main_ip v))
      else if v1_is_nil (xo_v1 c) then ret (Some (vm_main_ip v))
      else do { deadline \<leftarrow> query (e_new_timer E 120000);
                resolve_loop maxAttempts E c (l_uuid_string (libs E) (vm_id v)) deadline 1000 })"

definition ResolveVMIPNow :: "'s env \<Rightarrow> xo_client \<Rightarrow> vm \<Rightarrow> ('o, 's, string) prog" where
  "ResolveVMIPNow E c v =
     (if nodeIPv4 (vm_main_ip v) then ret (vm_main_ip v)
      else if v1_is_nil (xo_v1 c) then ret []
      else do { r \<leftarrow> v1_get_vm E c (l_uuid_string (libs E) (vm_id v));
                (case addressOf r of Some addr \<Rightarrow> ret addr | None \<Rightarrow> ret []) })"

fun set_internal_ip :: "string \<Rightarrow> node_address list \<Rightarrow> bool \<times> node_address list" where
  "set_internal_ip addr [] = (True, [\<lparr>na_type = NodeInternalIP, na_address = addr\<rparr>])"
| "set_internal_ip addr (a # as) =
     (if na_type a \<noteq> NodeInternalIP then map_prod id ((#) a) (set_internal_ip addr as)
      else if na_address a = addr then (False, a # as)
      else (True, a\<lparr>na_address := addr\<rparr> # as))"

definition set_addresses :: "node_address list \<Rightarrow> xomachine \<Rightarrow> xomachine" where
  "set_addresses as m = m\<lparr>xm_status := (xm_status m)\<lparr>mst_addresses := as\<rparr>\<rparr>"

definition SetNodeAddress :: "string \<Rightarrow> xomachine \<Rightarrow> bool \<times> xomachine" where
  "SetNodeAddress addr m =
     (if addr = [] then (False, m)
      else (case set_internal_ip addr (mst_addresses (xm_status m)) of
              (changed, as) \<Rightarrow> (changed, set_addresses as m)))"

section \<open>Network interfaces\<close>

definition connectVIF :: "'s env \<Rightarrow> xo_client \<Rightarrow> vif \<Rightarrow> ('o, 's, error option) prog" where
  "connectVIF E c v =
     (if vif_attached v then ret None
      else do { r \<leftarrow> act (\<lambda>r. EvConnectVIF v (failure_of r)) (x_v1_connect_vif (xo E) c v);
                (case r of
                   Inl err \<Rightarrow> ret (Some (Wrapped (''failed to connect VIF '' @ vif_id v @ '': '') err))
                 | Inr u \<Rightarrow> ret None) })"

text \<open>A refused range is logged and the loop goes on.\<close>

definition setAllowedRange :: "'s env \<Rightarrow> xo_client \<Rightarrow> string \<Rightarrow> vif \<Rightarrow> ('o, 's, error option) prog" where
  "setAllowedRange E c allowed v =
     (if v1_ok (xo_v1 c)
      then do { r \<leftarrow> v1_call E c ''vif.set''
                        [(''id'', ArgString (vif_id v)), (''ipv4_allowed'', ArgString allowed)];
                ret None }
      else ret None)"

definition ManageVIFs :: "'s env \<Rightarrow> xo_client \<Rightarrow> vm \<Rightarrow> (xomachine, 's, error option) prog" where
  "ManageVIFs E c v =
     do { m \<leftarrow> get_obj;
          (case ms_network_config (xm_spec m) of
             None \<Rightarrow> ret None
           | Some nc \<Rightarrow>
               (if nc_networks nc = [] then ret None
                else if v1_is_nil (xo_v1 c) then
                  ret (Some (Plain ''v1 client not available (V1Client returned nil)''))
                else do { r \<leftarrow> query (x_v1_get_vifs (xo E) c (l_uuid_string (libs E) (vm_id v)));
                          (case r of
                             Inl err \<Rightarrow> ret (Some (Wrapped ''failed to get existing VIFs: '' err))
                           | Inr vifs \<Rightarrow>
                               do { k \<leftarrow> for_each (connectVIF E c) vifs;
                                    (case k of
                                       Some err \<Rightarrow> ret (Some err)
                                     | None \<Rightarrow>
                                         (if nc_allowed_ip_range nc \<noteq> [] then
                                            for_each (setAllowedRange E c (nc_allowed_ip_range nc)) vifs
                                          else ret None)) }) })) }"

section \<open>Ready\<close>

definition mark_ready :: "string \<Rightarrow> xomachine \<Rightarrow> xomachine" where
  "mark_ready ip m =
     m\<lparr>xm_status := (xm_status m)\<lparr>mst_addresses := [\<lparr>na_type = NodeInternalIP, na_address = ip\<rparr>],
        mst_ready := True, mst_initialization := Some \<lparr>provisioned = True\<rparr>\<rparr>\<rparr>"

definition out_of_fuel :: error where
  "out_of_fuel = Panic ''ResolveVMIP has not returned''"

definition WaitForVMReady :: "'s env \<Rightarrow> xo_client \<Rightarrow> vm \<Rightarrow> (xomachine, 's, error + reconcile_result) prog" where
  "WaitForVMReady E c v0 =
     do { r \<leftarrow> StartVM E c v0;
          (case r of
             Inl err \<Rightarrow> ret (Inl err)
           | Inr (v, started) \<Rightarrow>
               do { ip \<leftarrow> ResolveVMIP E c v;
                    (case ip of
                       None \<Rightarrow> ret (Inl out_of_fuel)
                     | Some vmIP \<Rightarrow>
                         (if vmIP = [] then
                            do { ue \<leftarrow> UpdateCondition E ConditionFalse ''WaitingForIPAddress''
                                        ''VM is running, waiting for IP address from Xen guest tools'';
                                 (case ue of
                                    Some e \<Rightarrow> ret (Inl e)
                                  | None \<Rightarrow> ret (Inr \<lparr>requeue_after = 3000\<rparr>)) }
                          else
                            do { k \<leftarrow> ManageVIFs E c v;
                                 (case k of
                                    Some err \<Rightarrow>
                                      do { e \<leftarrow> WithConditionUpdate E err ConditionFalse ''VifManagementFailed'';
                                           ret (Inl e) }
                                  | None \<Rightarrow>
                                      do { modify_obj (mark_ready vmIP);
                                           ue \<leftarrow> UpdateCondition E ConditionTrue ''VmReady''
                                                   ''VM is created, running and has an IP address'';
                                           (case ue of
                                              Some e \<Rightarrow> ret (Inl e)
                                            | None \<Rightarrow> ret (Inr done_result)) }) })) }) }"

section \<open>Effects and frames\<close>

lemma StartVM_emits [effects]:
  "(\<And>r. vm_power_state v \<noteq> PowerRunning \<Longrightarrow> P (EvStartVM (vm_id v) r)) \<Longrightarrow>
   (\<And>p r. P (EvTaskWait p r)) \<Longrightarrow> (\<And>i r. P (EvGetVM i r)) \<Longrightarrow>
   (\<And>m r. P (EvStatusUpdateXOMachine m r)) \<Longrightarrow> emits P (StartVM E c v)"
  unfolding StartVM_def Let_def by (intro effects) simp_all

lemma v1_get_vm_emits [effects]: "P (EvV1GetVM i) \<Longrightarrow> emits P (v1_get_vm E c i)"
  unfolding v1_get_vm_def by (intro effects)

lemma v1_get_vm_keeps [frames]: "keeps obj (v1_get_vm E c i)"
  unfolding v1_get_vm_def by (intro frames)

lemma steps_wake:
  "steps_in R m \<Longrightarrow> steps_in R n \<Longrightarrow> steps_in R k \<Longrightarrow>
   steps_in R (case x of WakeContext \<Rightarrow> m | WakeDeadline \<Rightarrow> n | WakeBackoff \<Rightarrow> k)"
  by (cases x) simp_all

lemma resolve_loop_emits [effects]: "P (EvV1GetVM i) \<Longrightarrow> emits P (resolve_loop n E c i d b)"
  by (induction n arbitrary: b) (auto intro!: effects steps_wake)

lemma resolve_loop_keeps [frames]: "keeps obj (resolve_loop n E c i d b)"
  by (induction n arbitrary: b) (auto intro!: frames steps_wake)

lemma ResolveVMIP_emits [effects]: "(\<And>i. P (EvV1GetVM i)) \<Longrightarrow> emits P (ResolveVMIP E c v)"
  unfolding ResolveVMIP_def by (intro effects)

lemma ResolveVMIP_keeps [frames]: "keeps obj (ResolveVMIP E c v)"
  unfolding ResolveVMIP_def by (intro frames)

lemma ResolveVMIPNow_emits [effects]: "(\<And>i. P (EvV1GetVM i)) \<Longrightarrow> emits P (ResolveVMIPNow E c v)"
  unfolding ResolveVMIPNow_def by (intro effects)

lemma ResolveVMIPNow_keeps [frames]: "keeps obj (ResolveVMIPNow E c v)"
  unfolding ResolveVMIPNow_def by (intro frames)

lemma connectVIF_emits [effects]: "(\<And>r. P (EvConnectVIF v r)) \<Longrightarrow> emits P (connectVIF E c v)"
  unfolding connectVIF_def by (intro effects)

lemma connectVIF_keeps [frames]: "keeps obj (connectVIF E c v)"
  unfolding connectVIF_def by (intro frames)

lemma setAllowedRange_emits [effects]:
  "(\<And>args r. P (EvCall ''vif.set'' args r)) \<Longrightarrow> emits P (setAllowedRange E c a v)"
  unfolding setAllowedRange_def by (intro effects)

lemma setAllowedRange_keeps [frames]: "keeps obj (setAllowedRange E c a v)"
  unfolding setAllowedRange_def by (intro frames)

lemma ManageVIFs_emits [effects]:
  "(\<And>v r. P (EvConnectVIF v r)) \<Longrightarrow> (\<And>args r. P (EvCall ''vif.set'' args r)) \<Longrightarrow>
   emits P (ManageVIFs E c v)"
  unfolding ManageVIFs_def by (intro effects)

lemma ManageVIFs_keeps [frames]: "keeps obj (ManageVIFs E c v)"
  unfolding ManageVIFs_def by (intro frames)

text \<open>The events of a run that only brings a VM up: nothing is created, stopped or removed.\<close>

fun bring_up :: "event \<Rightarrow> bool" where
  "bring_up (EvStatusUpdateXOMachine m r) = True"
| "bring_up (EvGetVM i r) = True"
| "bring_up (EvTaskWait p r) = True"
| "bring_up (EvStartVM i r) = True"
| "bring_up (EvV1GetVM i) = True"
| "bring_up (EvConnectVIF v r) = True"
| "bring_up (EvCall method args r) = (method = ''vif.set'')"
| "bring_up _ = False"

lemma WaitForVMReady_emits [effects]:
  "(\<And>e. bring_up e \<Longrightarrow> P e) \<Longrightarrow> emits P (WaitForVMReady E c v)"
  unfolding WaitForVMReady_def by (intro effects) simp_all

section \<open>The polling loop returns\<close>

lemma maxAttempts_Suc: "maxAttempts = Suc 18"
  by (simp add: maxAttempts_def)

lemmas resolve_loop_max = resolve_loop.simps(2)[of 18, folded maxAttempts_Suc]

text \<open>
  What the timers of Go's \<open>time\<close> package promise, over a clock of the world in milliseconds: a
  timer fires at the instant it was asked for, a \<open>select\<close> ends with the backoff only when the
  deadline had not already fired and the backoff has passed, and a call does not turn time back.
\<close>

definition timers_ok :: "'s env \<Rightarrow> xo_client \<Rightarrow> ('s \<Rightarrow> nat) \<Rightarrow> bool" where
  "timers_ok E c clock \<longleftrightarrow>
     (\<forall>d s t s'. e_new_timer E d s = (t, s') \<longrightarrow> t \<le> clock s' + d) \<and>
     (\<forall>t b s s'. e_select E t b s = (WakeBackoff, s') \<longrightarrow> clock s < t \<and> clock s + b \<le> clock s') \<and>
     (\<forall>i s r s'. x_v1_get_vm (xo E) c i s = (r, s') \<longrightarrow> clock s \<le> clock s')"

text \<open>The time \<open>n\<close> waits take, from a given first backoff.\<close>

fun waits :: "nat \<Rightarrow> nat \<Rightarrow> nat" where
  "waits 0 b = 0"
| "waits (Suc n) b = b + waits n (min (b * 2) 8000)"

lemma waits_numeral: "waits (numeral k) b = b + waits (pred_numeral k) (min (b * 2) 8000)"
  by (simp add: numeral_eq_Suc)

lemma waits_enough: "waits 18 1000 = 127000" "waits 17 1000 = 119000"
  by (simp_all add: waits_numeral)

lemma resolve_loop_returns:
  assumes T: "timers_ok E c clock"
    and "deadline \<le> clock (ext w) + waits n b"
  shows "\<exists>ip. fst (run_state (resolve_loop (Suc n) E c i deadline b) w) = Some ip"
  using assms(2)
proof (induction n arbitrary: b w)
  case 0
  obtain r s where g: "x_v1_get_vm (xo E) c i (ext w) = (r, s)" by fastforce
  obtain k s' where k: "e_select E deadline b s = (k, s')" by fastforce
  have "clock (ext w) \<le> clock s" using T g unfolding timers_ok_def by blast
  with 0 T k have "k \<noteq> WakeBackoff" unfolding timers_ok_def by (metis add_0_right leD le_trans waits.simps(1))
  with g k show ?case
    by (cases k) (auto simp: v1_get_vm_def split: option.split)
next
  case (Suc n)
  obtain r s where g: "x_v1_get_vm (xo E) c i (ext w) = (r, s)" by fastforce
  obtain k s' where k: "e_select E deadline b s = (k, s')" by fastforce
  have c1: "clock (ext w) \<le> clock s" using T g unfolding timers_ok_def by blast
  show ?case
  proof (cases "k = WakeBackoff \<and> addressOf r = None")
    case True
    then have "clock s + b \<le> clock s'" using T k unfolding timers_ok_def by blast
    with c1 Suc.prems have "deadline \<le> clock s' + waits n (min (b * 2) 8000)" by simp
    with Suc.IH[of "w\<lparr>ext := s', log := log w @ [EvV1GetVM i]\<rparr>" "min (b * 2) 8000"] True g k
    show ?thesis by (simp add: v1_get_vm_def)
  next
    case False
    with g k show ?thesis
      by (cases k) (auto simp: v1_get_vm_def split: option.split)
  qed
qed

text \<open>
  C21: the two-minute loop of \<open>ResolveVMIP\<close> returns: with timers that behave, nineteen rounds of
  polling are always enough, so the run ends and the fuel of the model is never the reason.
\<close>

theorem ResolveVMIP_returns:
  assumes "timers_ok E c clock"
  shows "\<exists>ip. fst (run_state (ResolveVMIP E c v) w) = Some ip"
proof -
  obtain t s where ts: "e_new_timer E 120000 (ext w) = (t, s)" by fastforce
  have "t \<le> clock s + 120000" using assms ts unfolding timers_ok_def by blast
  then have "t \<le> clock (ext (w\<lparr>ext := s\<rparr>)) + waits 18 1000" by (simp add: waits_enough)
  from resolve_loop_returns[OF assms this] show ?thesis
    using ts by (simp add: ResolveVMIP_def maxAttempts_Suc)
qed

theorem ResolveVMIP_returns_witness:
  "\<exists>ip. fst (run_state (ResolveVMIP (ref_env\<lparr>xo := ref_xo\<lparr>x_v1_get_vm := \<lambda>c i s. (Inr None, s)\<rparr>,
              e_new_timer := \<lambda>d s. (s + d, s),
              e_select := \<lambda>t b s. if s + b < t then (WakeBackoff, s + b) else (WakeDeadline, t)\<rparr>)
           ref_client (ref_vm\<lparr>vm_main_ip := ''fe80::1''\<rparr>)) (start_state ref_machine 0)) = Some ip"
  by (rule ResolveVMIP_returns[where clock = id])
     (auto simp: timers_ok_def ref_env_def ref_xo_def split: if_splits)

text \<open>
  Timers that are also punctual, and an API whose answer to a poll takes at most \<open>lat\<close>: a \<open>select\<close> ends
  when the first of its timers fires, at once if the deadline has passed.
\<close>

definition punctual :: "'s env \<Rightarrow> xo_client \<Rightarrow> ('s \<Rightarrow> nat) \<Rightarrow> nat \<Rightarrow> bool" where
  "punctual E c clock lat \<longleftrightarrow>
     (\<forall>d s t s'. e_new_timer E d s = (t, s') \<longrightarrow> clock s' = clock s \<and> t = clock s + d) \<and>
     (\<forall>t b s k s'. e_select E t b s = (k, s') \<longrightarrow> clock s' \<le> max (clock s) (min t (clock s + b))) \<and>
     (\<forall>i s r s'. x_v1_get_vm (xo E) c i s = (r, s') \<longrightarrow> clock s' \<le> clock s + lat)"

fun is_poll :: "event \<Rightarrow> bool" where
  "is_poll (EvV1GetVM i) = True"
| "is_poll _ = False"

lemma resolve_loop_polls:
  "count_events is_poll (snd (run_state (resolve_loop n E c i d b) w)) \<le> count_events is_poll w + n"
proof (induction n arbitrary: b w)
  case (Suc n)
  obtain r s where g: "x_v1_get_vm (xo E) c i (ext w) = (r, s)" by fastforce
  let ?v = "w\<lparr>ext := s, log := log w @ [EvV1GetVM i]\<rparr>"
  obtain k s' where k: "e_select E d b s = (k, s')" by fastforce
  have "count_events is_poll (?v\<lparr>ext := s'\<rparr>) = Suc (count_events is_poll w)"
    by (simp add: count_events_def)
  with Suc.IH[of "min (b * 2) 8000" "?v\<lparr>ext := s'\<rparr>"] g k show ?case
    by (cases k) (auto simp: v1_get_vm_def count_events_def split: option.split)
qed simp

lemma resolve_loop_time:
  assumes T: "timers_ok E c clock" and P: "punctual E c clock lat" and "clock (ext w) \<le> d"
  shows "clock (ext (snd (run_state (resolve_loop n E c i d b) w))) \<le> d + lat"
  using assms(3)
proof (induction n arbitrary: b w)
  case (Suc n)
  obtain r s where g: "x_v1_get_vm (xo E) c i (ext w) = (r, s)" by fastforce
  obtain k s' where k: "e_select E d b s = (k, s')" by fastforce
  have now: "clock s \<le> d + lat" using P g Suc.prems unfolding punctual_def by (metis add_le_mono1 le_trans)
  have woken: "clock s' \<le> max (clock s) (min d (clock s + b))" using P k unfolding punctual_def by blast
  have "clock s' \<le> d" if "k = WakeBackoff"
    using T k that woken unfolding timers_ok_def by fastforce
  with Suc.IH[of "w\<lparr>log := log w @ [EvV1GetVM i], ext := s'\<rparr>" "min (b * 2) 8000"] now woken g k show ?case
    by (cases k) (auto simp: v1_get_vm_def split: option.split)
qed simp

text \<open>
  C22: The wait for an address is bounded: it polls at most nineteen times, whatever the guest tools answer, and,
  with timers that are punctual, it is over two minutes after its start, but for the answer to one poll.
\<close>

theorem ResolveVMIP_bounded:
  assumes "timers_ok E c clock" and "punctual E c clock lat"
  shows "\<exists>ip w'. run_state (ResolveVMIP E c v) w = (Some ip, w') \<and>
    count_events is_poll w' \<le> count_events is_poll w + 19 \<and> clock (ext w') \<le> clock (ext w) + 120000 + lat"
proof -
  obtain t s where ts: "e_new_timer E 120000 (ext w) = (t, s)" by fastforce
  have t: "t = clock s + 120000" "clock s = clock (ext w)"
    using assms(2) ts unfolding punctual_def by metis+
  let ?i = "l_uuid_string (libs E) (vm_id v)" and ?v = "w\<lparr>ext := s\<rparr>"
  obtain r w' where run: "run_state (resolve_loop maxAttempts E c ?i t 1000) ?v = (r, w')" by fastforce
  have "t \<le> clock (ext ?v) + waits 18 1000" using t by (simp add: waits_enough)
  from resolve_loop_returns[OF assms(1) this, of ?i, folded maxAttempts_Suc] run obtain ip where ip: "r = Some ip"
    by auto
  have "clock (ext w') \<le> t + lat"
    using resolve_loop_time[OF assms, of ?v t maxAttempts ?i 1000] run t by simp
  moreover have "count_events is_poll w' \<le> count_events is_poll w + 19"
    using resolve_loop_polls[of maxAttempts E c ?i t 1000 ?v] run by (simp add: maxAttempts_def)
  ultimately show ?thesis using run ts ip t by (simp add: ResolveVMIP_def)
qed

text \<open>A clock that is the state, and polls that take a fifth of a second.\<close>

definition clock_env :: "nat env" where
  "clock_env = ref_env\<lparr>xo := ref_xo\<lparr>x_v1_get_vm := \<lambda>c i s. (Inr None, s + 200)\<rparr>,
     e_new_timer := \<lambda>d s. (s + d, s),
     e_select := \<lambda>t b s. if t \<le> s then (WakeDeadline, s)
                        else if s + b < t then (WakeBackoff, s + b) else (WakeDeadline, t)\<rparr>"

theorem ResolveVMIP_bounded_witness:
  "\<exists>ip w'. run_state (ResolveVMIP clock_env ref_client (ref_vm\<lparr>vm_main_ip := ''fe80::1''\<rparr>)) (start_state ref_machine 0) = (Some ip, w') \<and>
     count_events is_poll w' \<le> 19 \<and> ext w' \<le> 120200"
proof -
  have "timers_ok clock_env ref_client id" "punctual clock_env ref_client id 200"
    by (auto simp: timers_ok_def punctual_def clock_env_def ref_env_def ref_xo_def split: if_splits)
  from ResolveVMIP_bounded[OF this, of "ref_vm\<lparr>vm_main_ip := ''fe80::1''\<rparr>" "start_state ref_machine 0"] show ?thesis
    by (simp add: start_state_def count_events_def)
qed

section \<open>The address found\<close>

lemma firstNodeIPv4_usable: "firstNodeIPv4 as = Some a \<Longrightarrow> nodeIPv4 a \<and> a \<in> set as"
  by (induction as) (auto split: if_splits)

lemma addressOf_usable: "addressOf r = Some a \<Longrightarrow> nodeIPv4 a"
  by (auto simp: addressOf_def dest: firstNodeIPv4_usable split: sum.splits option.splits)

lemma resolve_loop_usable:
  "wp (resolve_loop n E c i d b) (\<lambda>r w'. \<forall>ip. r = Some ip \<longrightarrow> ip = [] \<or> nodeIPv4 ip) w"
proof (induction n arbitrary: b w)
  case (Suc n)
  then show ?case
    by (auto simp: v1_get_vm_def addressOf_usable wp_def split: option.split wake.split prod.split)
qed simp

text \<open>
  With a v1 client, the address \<open>ResolveVMIP\<close> returns is either empty (not known yet) or one
  that passes the test for a node address: never a link-local one.
\<close>

theorem ResolveVMIP_usable:
  assumes "\<not> v1_is_nil (xo_v1 c)" and "fst (run_state (ResolveVMIP E c v) w) = Some ip"
  shows "ip = [] \<or> nodeIPv4 ip"
proof -
  have "wp (ResolveVMIP E c v) (\<lambda>r w'. \<forall>ip. r = Some ip \<longrightarrow> ip = [] \<or> nodeIPv4 ip) w"
    using assms(1) resolve_loop_usable by (auto simp: ResolveVMIP_def)
  with assms(2) show ?thesis by (auto simp: wp_def split: prod.splits)
qed

theorem ResolveVMIP_usable_witness:
  "''10.0.0.5'' = [] \<or> nodeIPv4 ''10.0.0.5''"
  by (rule ResolveVMIP_usable[where c = ref_client and E = ref_env and
        v = "ref_vm\<lparr>vm_main_ip := ''fe80::1''\<rparr>" and w = "start_state ref_machine (0 :: nat)"])
     (simp_all add: ref_defs ResolveVMIP_def nodeIPv4_def has_prefix_def resolve_loop_max
        v1_get_vm_def addressOf_def)

text \<open>
  Without a v1 client \<open>ResolveVMIP\<close> hands back whatever the main address is, so an IPv6
  link-local address, which \<open>nodeIPv4\<close> refuses, is returned as the VM's address.
\<close>

theorem ResolveVMIP_nil_client_link_local:
  "run_state (ResolveVMIP E (ref_client\<lparr>xo_v1 := V1Nil\<rparr>) (ref_vm\<lparr>vm_main_ip := ''fe80::1''\<rparr>)) w =
     (Some ''fe80::1'', w) \<and> \<not> nodeIPv4 ''fe80::1''"
  by (simp add: ResolveVMIP_def nodeIPv4_def has_prefix_def ref_client_def ref_vm_def)

text \<open>
  The test refuses both link-local families and the empty text, yet it accepts a text that
  is no dotted quad, such as an IPv4-mapped IPv6 address or a host name.
\<close>

theorem nodeIPv4_range:
  "\<not> nodeIPv4 [] \<and> \<not> nodeIPv4 (''fe80:'' @ t) \<and> \<not> nodeIPv4 (''169.254.'' @ t) \<and>
   nodeIPv4 ''192.168.1.10'' \<and> nodeIPv4 ''::ffff:10.0.0.1'' \<and> nodeIPv4 ''node.local''"
  by (simp add: nodeIPv4_def has_prefix_def)

section \<open>The recorded address\<close>

text \<open>The machine's InternalIP as its readers see it: the first entry of that type.\<close>

definition internal_ip :: "node_address list \<Rightarrow> string option" where
  "internal_ip as = map_option na_address (find (\<lambda>a. na_type a = NodeInternalIP) as)"

lemma set_internal_ip_sets: "internal_ip (snd (set_internal_ip addr as)) = Some addr"
  by (induction as) (auto simp: internal_ip_def)

lemma set_internal_ip_changed: "fst (set_internal_ip addr as) \<longleftrightarrow> internal_ip as \<noteq> Some addr"
  by (induction as) (auto simp: internal_ip_def)

lemma set_internal_ip_same: "\<not> fst (set_internal_ip addr as) \<Longrightarrow> snd (set_internal_ip addr as) = as"
  by (induction as) (auto split: if_splits)

lemma set_internal_ip_others:
  "filter (\<lambda>a. na_type a \<noteq> NodeInternalIP) (snd (set_internal_ip addr as)) =
   filter (\<lambda>a. na_type a \<noteq> NodeInternalIP) as"
  by (induction as) auto

text \<open>
  \<open>SetNodeAddress\<close> with a known address makes it the machine's InternalIP, touches no address
  of another type and nothing else of the machine, and reports a change exactly when the
  InternalIP was another; an unknown (empty) address never overwrites a good one.
\<close>

theorem SetNodeAddress_correct:
  "case SetNodeAddress addr m of (changed, m') \<Rightarrow>
     (let old = mst_addresses (xm_status m); new = mst_addresses (xm_status m') in
      (if addr = [] then \<not> changed
       else internal_ip new = Some addr \<and> (changed \<longleftrightarrow> internal_ip old \<noteq> Some addr)) \<and>
      (\<not> changed \<longrightarrow> m' = m) \<and>
      filter (\<lambda>a. na_type a \<noteq> NodeInternalIP) new = filter (\<lambda>a. na_type a \<noteq> NodeInternalIP) old \<and>
      m' = set_addresses new m)"
proof (cases "addr = []")
  case True
  then show ?thesis by (simp add: SetNodeAddress_def set_addresses_def)
next
  case False
  obtain ch as where p: "set_internal_ip addr (mst_addresses (xm_status m)) = (ch, as)" by fastforce
  then show ?thesis
    using False set_internal_ip_sets[of addr "mst_addresses (xm_status m)"]
      set_internal_ip_changed[of addr "mst_addresses (xm_status m)"]
      set_internal_ip_same[of addr "mst_addresses (xm_status m)"]
      set_internal_ip_others[of addr "mst_addresses (xm_status m)"]
    by (auto simp: SetNodeAddress_def set_addresses_def)
qed

theorem SetNodeAddress_correct_witness:
  "case SetNodeAddress ''10.0.0.9'' ref_machine of (changed, m') \<Rightarrow>
     (let old = mst_addresses (xm_status ref_machine); new = mst_addresses (xm_status m') in
      (if ''10.0.0.9'' = [] then \<not> changed
       else internal_ip new = Some ''10.0.0.9'' \<and> (changed \<longleftrightarrow> internal_ip old \<noteq> Some ''10.0.0.9'')) \<and>
      (\<not> changed \<longrightarrow> m' = ref_machine) \<and>
      filter (\<lambda>a. na_type a \<noteq> NodeInternalIP) new = filter (\<lambda>a. na_type a \<noteq> NodeInternalIP) old \<and>
      m' = set_addresses new ref_machine)"
  by (rule SetNodeAddress_correct)

section \<open>Ready is recorded before it is reported\<close>

text \<open>
  The write that records a machine Ready: the address just found is its only one, and the
  condition, the flag and the initialization status agree.
\<close>

definition ready_write :: "event \<Rightarrow> bool" where
  "ready_write e \<longleftrightarrow>
     (\<exists>m ip. e = EvStatusUpdateXOMachine m None \<and> ip \<noteq> [] \<and>
        mst_addresses (xm_status m) = [\<lparr>na_type = NodeInternalIP, na_address = ip\<rparr>] \<and>
        mst_ready (xm_status m) \<and> mst_initialization (xm_status m) = Some \<lparr>provisioned = True\<rparr> \<and>
        isConditionTrue m ''VmReady'')"

lemma UpdateCondition_log:
  "wp (UpdateCondition E st reason msg)
     (\<lambda>r w'. \<exists>now m res. m = SetCondition now ''Ready'' st reason msg (obj w) \<and>
        r = res \<and> log w' = log w @ [EvStatusUpdateXOMachine m res]) w"
  by (auto simp: UpdateCondition_def status_update_def split: sum.split)

lemma mark_ready_simps [simp]:
  "xm_meta (mark_ready ip m) = xm_meta m" "xm_spec (mark_ready ip m) = xm_spec m"
  "mst_addresses (xm_status (mark_ready ip m)) = [\<lparr>na_type = NodeInternalIP, na_address = ip\<rparr>]"
  "mst_ready (xm_status (mark_ready ip m))"
  "mst_initialization (xm_status (mark_ready ip m)) = Some \<lparr>provisioned = True\<rparr>"
  by (simp_all add: mark_ready_def)

lemma ready_write_recorded:
  assumes "ip \<noteq> []" and "obj w = mark_ready ip m"
  shows "wp (UpdateCondition E ConditionTrue ''VmReady'' msg)
     (\<lambda>r w'. r = None \<longrightarrow> (\<exists>e. log w' = log w @ [e] \<and> ready_write e)) w"
  using assms
  by (intro wp_mono[OF UpdateCondition_log])
     (auto simp: ready_write_def isConditionTrue_SetCondition)

lemma ready_tail:
  assumes "ip \<noteq> []" and "log v = log w @ es"
  shows "wp (do { modify_obj (mark_ready ip);
                  ue \<leftarrow> UpdateCondition E ConditionTrue ''VmReady'' msg;
                  (case ue of Some e \<Rightarrow> ret (Inl e) | None \<Rightarrow> ret (Inr done_result)) })
     (\<lambda>r w'. \<forall>res. r = Inr res \<longrightarrow> requeue_after res = 0 \<longrightarrow>
        (\<exists>es e. log w' = log w @ es @ [e] \<and> ready_write e)) v"
  using assms(2)
  by (auto intro!: wp_mono[OF ready_write_recorded[OF assms(1), of _ "obj v"]] split: option.split)

text \<open>
  When \<open>WaitForVMReady\<close> reports that nothing is left to do, its last call was the accepted
  write of a Ready status: a non-empty InternalIP as the only address, \<open>Ready\<close>, \<open>Provisioned\<close>
  and the \<open>VmReady\<close> condition, all in one object.
\<close>

theorem WaitForVMReady_done:
  assumes "run_state (WaitForVMReady E c v) w = (Inr res, w')" and "requeue_after res = 0"
  shows "\<exists>es e. log w' = log w @ es @ [e] \<and> ready_write e"
proof -
  let ?Q = "\<lambda>r w'. \<forall>res. r = Inr res \<longrightarrow> requeue_after res = 0 \<longrightarrow>
        (\<exists>es e. log w' = log w @ es @ [e] \<and> ready_write e)"
  have "wp (WaitForVMReady E c v) ?Q w"
    unfolding WaitForVMReady_def wp_simps(2)
  proof (rule wp_emits[OF StartVM_emits[where P = "\<lambda>_. True"]], goal_cases)
    case (5 r w1 es1)
    show ?case
    proof (cases r)
      case (Inr vb)
      obtain v1 b where vb: "vb = (v1, b)" by fastforce
      show ?thesis
        unfolding Inr vb sum.case prod.case wp_simps(2)
      proof (rule wp_emits[OF ResolveVMIP_emits[where P = "\<lambda>_. True"]], goal_cases)
        case (2 ip w2 es2)
        show ?case
        proof (cases ip)
          case (Some vmIP)
          show ?thesis
          proof (cases "vmIP = []")
            case True
            then show ?thesis using Some
              by (auto simp: UpdateCondition_def status_update_def split: sum.split)
          next
            case False
            show ?thesis
              unfolding Some option.case if_not_P[OF False] wp_simps(2)
            proof (rule wp_emits[OF ManageVIFs_emits[where P = "\<lambda>_. True"]], goal_cases)
              case (3 k w3 es3)
              show ?case
              proof (cases k)
                case None
                then show ?thesis
                  using ready_tail[OF False, of w3 w "es1 @ es2 @ es3"] 3 2(1) 5(1) by simp
              qed (simp add: WithConditionUpdate_def UpdateCondition_def status_update_def split: sum.split)
            qed simp_all
          qed
        qed simp
      qed simp
    qed simp
  qed simp_all
  with assms show ?thesis by (auto dest: wp_run)
qed

theorem WaitForVMReady_done_witness:
  "\<exists>es e. log (snd (run_state (WaitForVMReady ref_env ref_client ref_vm) (start_state ref_machine ()))) =
      log (start_state ref_machine ()) @ es @ [e] \<and> ready_write e"
proof (rule WaitForVMReady_done[where res = done_result])
  have "fst (run_state (WaitForVMReady ref_env ref_client ref_vm) (start_state ref_machine ())) = Inr done_result"
    by (simp add: ref_defs WaitForVMReady_def StartVM_def get_vm_def ResolveVMIP_def nodeIPv4_def
        has_prefix_def ManageVIFs_def UpdateCondition_def status_update_def)
  then show "run_state (WaitForVMReady ref_env ref_client ref_vm) (start_state ref_machine ()) =
      (Inr done_result, snd (run_state (WaitForVMReady ref_env ref_client ref_vm) (start_state ref_machine ())))"
    by (simp add: prod_eq_iff)
qed (simp add: done_result_def)

text \<open>
  Bringing a machine up never creates, deletes or force-stops a VM, detaches no disk and never
  writes the machine's spec; it starts only the VM it was given, and only when that VM was not
  reported running.
\<close>

theorem WaitForVMReady_harmless:
  "\<exists>es. log (snd (run_state (WaitForVMReady E c v) w)) = log w @ es \<and>
     (\<forall>e \<in> set es. bring_up e \<and> \<not> destructive e \<and> \<not> is_create e \<and>
        (start_of e = None \<or> start_of e = Some (vm_id v) \<and> vm_power_state v \<noteq> PowerRunning))"
proof -
  let ?P = "\<lambda>e. bring_up e \<and> \<not> destructive e \<and> \<not> is_create e \<and>
        (start_of e = None \<or> start_of e = Some (vm_id v) \<and> vm_power_state v \<noteq> PowerRunning)"
  have "emits ?P (WaitForVMReady E c v)"
    unfolding WaitForVMReady_def by (intro effects) simp_all
  from emits_log[OF this] show ?thesis by (metis (no_types, lifting) prod.collapse)
qed

theorem WaitForVMReady_harmless_witness:
  "\<exists>es. log (snd (run_state (WaitForVMReady ref_env ref_client ref_vm) (start_state ref_machine ()))) =
       log (start_state ref_machine ()) @ es \<and>
     (\<forall>e \<in> set es. bring_up e \<and> \<not> destructive e \<and> \<not> is_create e \<and>
        (start_of e = None \<or> start_of e = Some (vm_id ref_vm) \<and> vm_power_state ref_vm \<noteq> PowerRunning))"
  by (rule WaitForVMReady_harmless)

end
