(* ===== verification/Kubevip.thy ===== *)
theory Kubevip
  imports Reference_Env
begin

text \<open>
  Injection of kube-vip into a control plane node's cloud-config (\<open>internal/kubevip/inject.go\<close>):
  two scripts written before \<open>runcmd\<close> runs, and the commands that call them around the kubeadm
  command. The YAML library is \<open>l_yaml_unmarshal\<close> and \<open>l_yaml_marshal\<close>; a document that
  decodes to nothing leaves the Go map nil (\<open>None\<close>), which can be read but not written.
\<close>

section \<open>The scripts\<close>

definition preScriptPath :: string where
  "preScriptPath = ''/etc/kubernetes/kube-vip-pre.sh''"

definition postScriptPath :: string where
  "postScriptPath = ''/etc/kubernetes/kube-vip-post.sh''"

definition kubeVIPImage :: string where
  "kubeVIPImage = ''ghcr.io/kube-vip/kube-vip:v1.1.2''"

record kubevip_config =
  kv_vip :: string
  kv_subnet :: "int option"

definition unlines :: "string list \<Rightarrow> string" where
  "unlines ls = concat (map (\<lambda>l. l @ [CHR 0x0A]) ls)"

definition quoted :: "string \<Rightarrow> string" where
  "quoted s = [CHR 0x22] @ s @ [CHR 0x22]"

definition preScript :: string where
  "preScript = unlines
    [''#!/bin/bash'',
     ''set -e'',
     ''command -v ctr >/dev/null 2>&1 || { echo '' @
       quoted ''ERROR: ctr not found, kube-vip requires containerd'' @ ''; exit 1; }'',
     ''ctr image pull '' @ kubeVIPImage]"

definition vipSubnetFlag :: "kubevip_config \<Rightarrow> string" where
  "vipSubnetFlag cfg =
     (case kv_subnet cfg of None \<Rightarrow> [] | Some n \<Rightarrow> '' --vipSubnet '' @ int_str n)"

definition postScript :: "kubevip_config \<Rightarrow> string" where
  "postScript cfg = unlines
    [''#!/bin/bash'',
     ''set -e'',
     ''until curl -sk https://127.0.0.1:6443/healthz > /dev/null 2>&1; do sleep 2; done'',
     ''if [ -f /etc/kubernetes/super-admin.conf ]; then'',
     ''  cp /etc/kubernetes/super-admin.conf /etc/kubernetes/kube-vip.conf'',
     ''else'',
     ''  cp /etc/kubernetes/admin.conf /etc/kubernetes/kube-vip.conf'',
     ''fi'',
     ''sed -i 's|https://[^:]*:6443|https://127.0.0.1:6443|g' /etc/kubernetes/kube-vip.conf'',
     ''VIP_INTERFACE=$(ip route show default | awk '{print $5}' | head -1)'',
     ''[ -z '' @ quoted ''$VIP_INTERFACE'' @ '' ] && VIP_INTERFACE=eth0'',
     ''ctr run --rm --net-host '' @ kubeVIPImage @ '' gen /kube-vip manifest pod '' @ [CHR 0x5C],
     ''  --interface '' @ quoted ''$VIP_INTERFACE'' @ '' --address '' @ kv_vip cfg @
       '' --controlplane --services --arp --leaderElection'' @ vipSubnetFlag cfg @ '' '' @ [CHR 0x5C],
     ''  > /etc/kubernetes/manifests/kube-vip.yaml'',
     ''sed -i 's|admin'' @ [CHR 0x5C] @ ''.conf|kube-vip.conf|g' /etc/kubernetes/manifests/kube-vip.yaml'',
     ''sed -i 's|mountPath: /etc/kubernetes/kube-vip.conf|mountPath: /.kube/config|g' '' @
       ''/etc/kubernetes/manifests/kube-vip.yaml'']"

section \<open>The injection\<close>

definition is_kubeadm :: "yaml \<Rightarrow> bool" where
  "is_kubeadm cmd =
     (case cmd of
        YString s \<Rightarrow> contains_str s ''kubeadm init'' \<or> contains_str s ''kubeadm join''
      | _ \<Rightarrow> False)"

text \<open>The loop that finds the first kubeadm command.\<close>

fun kubeadm_index :: "yaml list \<Rightarrow> nat option" where
  "kubeadm_index [] = None"
| "kubeadm_index (cmd # cmds) = (if is_kubeadm cmd then Some 0 else map_option Suc (kubeadm_index cmds))"

definition injectAroundKubeadm :: "yaml list \<Rightarrow> error + yaml list" where
  "injectAroundKubeadm runcmd =
     (case kubeadm_index runcmd of
        None \<Rightarrow> Inl (Plain ''could not find kubeadm init/join command in runcmd'')
      | Some i \<Rightarrow>
          Inr (take i runcmd @ [YString (''bash '' @ preScriptPath)] @ [runcmd ! i] @
               [YString (''bash '' @ postScriptPath)] @ drop (i + 1) runcmd))"

text \<open>The type assertion \<open>.([]any)\<close> on an entry of the map.\<close>

definition seq_entry :: "(string \<rightharpoonup> yaml) option \<Rightarrow> string \<Rightarrow> yaml list option" where
  "seq_entry config key =
     (case config of
        None \<Rightarrow> None
      | Some m \<Rightarrow> (case m key of Some (YSeq xs) \<Rightarrow> Some xs | _ \<Rightarrow> None))"

definition script_file :: "string \<Rightarrow> string \<Rightarrow> yaml" where
  "script_file path content =
     YMap [(''path'', YString path), (''permissions'', YString ''0755''), (''content'', YString content)]"

definition nil_map_write :: error where
  "nil_map_write = Panic ''assignment to entry in nil map''"

definition Inject :: "lib \<Rightarrow> string \<Rightarrow> kubevip_config \<Rightarrow> error + string" where
  "Inject L cloudConfig cfg =
     (if cloudConfig = [] then Inr []
      else (case l_yaml_unmarshal L cloudConfig of
              Inl err \<Rightarrow> Inl (Wrapped ''failed to parse cloud-config: '' err)
            | Inr config \<Rightarrow>
                (let writeFiles0 = (case seq_entry config ''write_files'' of None \<Rightarrow> [] | Some fs \<Rightarrow> fs);
                     writeFiles = writeFiles0 @ [script_file preScriptPath preScript,
                                                 script_file postScriptPath (postScript cfg)]
                 in (case config of
                       None \<Rightarrow> Inl nil_map_write
                     | Some m0 \<Rightarrow>
                         (let m1 = m0(''write_files'' \<mapsto> YSeq writeFiles)
                          in (case seq_entry (Some m1) ''runcmd'' of
                                None \<Rightarrow> Inl (Plain (''cloud-config has no runcmd section, '' @
                                                 ''cannot inject kube-vip commands''))
                              | Some runcmd \<Rightarrow>
                                  (case injectAroundKubeadm runcmd of
                                     Inl err \<Rightarrow> Inl err
                                   | Inr newRuncmd \<Rightarrow>
                                       (case l_yaml_marshal L (m1(''runcmd'' \<mapsto> YSeq newRuncmd)) of
                                          Inl err \<Rightarrow> Inl (Wrapped ''failed to marshal cloud-config: '' err)
                                        | Inr out \<Rightarrow> Inr (''#cloud-config'' @ [CHR 0x0A] @ out)))))))))"

section \<open>Lemmas\<close>

lemma kubeadm_index_None: "kubeadm_index cs = None \<longleftrightarrow> (\<forall>c \<in> set cs. \<not> is_kubeadm c)"
  by (induction cs) auto

lemma kubeadm_index_Some:
  "kubeadm_index cs = Some i \<Longrightarrow> i < length cs \<and> is_kubeadm (cs ! i) \<and> (\<forall>j < i. \<not> is_kubeadm (cs ! j))"
proof (induction cs arbitrary: i)
  case (Cons c cs)
  show ?case
  proof (cases "is_kubeadm c")
    case False
    with Cons.prems obtain k where k: "kubeadm_index cs = Some k" "i = Suc k" by auto
    with Cons.IH[of k] False show ?thesis by (auto simp: less_Suc_eq_0_disj)
  qed (use Cons.prems in simp)
qed simp

lemma is_kubeadm_scripts [simp]:
  "\<not> is_kubeadm (YString (''bash '' @ preScriptPath))"
  "\<not> is_kubeadm (YString (''bash '' @ postScriptPath))"
  by (simp_all add: is_kubeadm_def preScriptPath_def postScriptPath_def)

lemma injectAroundKubeadm_split:
  assumes "injectAroundKubeadm runcmd = Inr out"
  obtains before cmd rest where "runcmd = before @ cmd # rest"
    and "\<forall>c \<in> set before. \<not> is_kubeadm c" and "is_kubeadm cmd"
    and "out = before @ [YString (''bash '' @ preScriptPath), cmd,
                         YString (''bash '' @ postScriptPath)] @ rest"
proof -
  from assms obtain i where i: "kubeadm_index runcmd = Some i"
    and out: "out = take i runcmd @ [YString (''bash '' @ preScriptPath)] @ [runcmd ! i] @
               [YString (''bash '' @ postScriptPath)] @ drop (i + 1) runcmd"
    by (auto simp: injectAroundKubeadm_def split: option.splits)
  note ix = kubeadm_index_Some[OF i]
  show ?thesis
  proof (rule that)
    show "runcmd = take i runcmd @ runcmd ! i # drop (Suc i) runcmd"
      using ix by (simp add: id_take_nth_drop)
    show "\<forall>c \<in> set (take i runcmd). \<not> is_kubeadm c"
      using ix by (auto simp: in_set_conv_nth)
    show "out = take i runcmd @ [YString (''bash '' @ preScriptPath), runcmd ! i,
                         YString (''bash '' @ postScriptPath)] @ drop (Suc i) runcmd"
      using out by simp
  qed (use ix in simp)
qed

section \<open>Properties\<close>

text \<open>
  C29: \<open>injectAroundKubeadm\<close> succeeds exactly when some command is a kubeadm init or join; then
  the pre script runs directly before the first such command, the post script directly after it,
  and every other command keeps its place.
\<close>

theorem injectAroundKubeadm_correct:
  "case injectAroundKubeadm runcmd of
     Inl err \<Rightarrow> \<forall>c \<in> set runcmd. \<not> is_kubeadm c
   | Inr out \<Rightarrow> \<exists>before cmd rest. runcmd = before @ cmd # rest \<and> is_kubeadm cmd \<and>
       (\<forall>c \<in> set before. \<not> is_kubeadm c) \<and>
       out = before @ [YString (''bash '' @ preScriptPath), cmd,
                       YString (''bash '' @ postScriptPath)] @ rest"
proof (cases "injectAroundKubeadm runcmd")
  case (Inl err)
  then show ?thesis
    by (simp add: injectAroundKubeadm_def kubeadm_index_None split: option.splits)
next
  case (Inr out)
  from injectAroundKubeadm_split[OF Inr] show ?thesis unfolding Inr sum.case by metis
qed

theorem injectAroundKubeadm_correct_witness:
  "case injectAroundKubeadm [YString ''swapoff -a'', YString ''kubeadm init''] of
     Inl err \<Rightarrow> \<forall>c \<in> set [YString ''swapoff -a'', YString ''kubeadm init'']. \<not> is_kubeadm c
   | Inr out \<Rightarrow> \<exists>before cmd rest. [YString ''swapoff -a'', YString ''kubeadm init''] = before @ cmd # rest \<and>
       is_kubeadm cmd \<and> (\<forall>c \<in> set before. \<not> is_kubeadm c) \<and>
       out = before @ [YString (''bash '' @ preScriptPath), cmd,
                       YString (''bash '' @ postScriptPath)] @ rest"
  by (rule injectAroundKubeadm_correct)

text \<open>The files the user's document writes.\<close>

definition user_files :: "(string \<rightharpoonup> yaml) \<Rightarrow> yaml list" where
  "user_files m = (case m ''write_files'' of Some (YSeq fs) \<Rightarrow> fs | _ \<Rightarrow> [])"

text \<open>What an accepted document has become, entry by entry.\<close>

lemma Inject_Inr:
  assumes "Inject L cloudConfig cfg = Inr out" and "cloudConfig \<noteq> []"
  obtains m runcmd new doc where "l_yaml_unmarshal L cloudConfig = Inr (Some m)"
    and "m ''runcmd'' = Some (YSeq runcmd)" and "injectAroundKubeadm runcmd = Inr new"
    and "l_yaml_marshal L (m(''write_files'' \<mapsto>
             YSeq (user_files m @ [script_file preScriptPath preScript,
                                   script_file postScriptPath (postScript cfg)]),
           ''runcmd'' \<mapsto> YSeq new)) = Inr doc"
    and "out = ''#cloud-config'' @ [CHR 0x0A] @ doc"
  using assms
  by (auto simp: Inject_def seq_entry_def user_files_def Let_def split: sum.splits option.splits yaml.splits)

text \<open>
  Kube-vip's injection keeps the user's document: when it succeeds on a non-empty
  cloud-config, what is written back is the decoded document with exactly two entries changed,
  \<open>write_files\<close> extended by the two scripts and \<open>runcmd\<close> with the calls around kubeadm.
\<close>

theorem Inject_preserves:
  assumes "Inject L cloudConfig cfg = Inr out" and "cloudConfig \<noteq> []"
  shows "\<exists>m m'. l_yaml_unmarshal L cloudConfig = Inr (Some m) \<and>
     (\<exists>doc. l_yaml_marshal L m' = Inr doc \<and> out = ''#cloud-config'' @ [CHR 0x0A] @ doc) \<and>
     (\<forall>k. k \<noteq> ''write_files'' \<and> k \<noteq> ''runcmd'' \<longrightarrow> m' k = m k) \<and>
     (\<exists>runcmd new. m ''runcmd'' = Some (YSeq runcmd) \<and> m' ''runcmd'' = Some (YSeq new) \<and>
        injectAroundKubeadm runcmd = Inr new) \<and>
     m' ''write_files'' = Some (YSeq (user_files m @ [script_file preScriptPath preScript,
                                                     script_file postScriptPath (postScript cfg)]))"
proof -
  from assms obtain m runcmd new doc where 1: "l_yaml_unmarshal L cloudConfig = Inr (Some m)"
    "m ''runcmd'' = Some (YSeq runcmd)" "injectAroundKubeadm runcmd = Inr new"
    and 2: "l_yaml_marshal L (m(''write_files'' \<mapsto>
             YSeq (user_files m @ [script_file preScriptPath preScript,
                                   script_file postScriptPath (postScript cfg)]),
           ''runcmd'' \<mapsto> YSeq new)) = Inr doc"
      "out = ''#cloud-config'' @ [CHR 0x0A] @ doc"
    by (rule Inject_Inr)
  let ?m' = "m(''write_files'' \<mapsto>
             YSeq (user_files m @ [script_file preScriptPath preScript,
                                   script_file postScriptPath (postScript cfg)]),
           ''runcmd'' \<mapsto> YSeq new)"
  show ?thesis
    by (rule exI[of _ m], rule exI[of _ ?m']) (use 1 2 in simp)
qed

text \<open>A YAML library that knows one document, for the witnesses.\<close>

definition one_document :: "(string \<rightharpoonup> yaml) \<Rightarrow> lib" where
  "one_document m = ref_lib\<lparr>l_yaml_unmarshal := \<lambda>t. Inr (Some m), l_yaml_marshal := \<lambda>m'. Inr ''written''\<rparr>"

theorem Inject_preserves_witness:
  "\<exists>m m'. l_yaml_unmarshal (one_document [''runcmd'' \<mapsto> YSeq [YString ''kubeadm init'']]) ''doc'' = Inr (Some m) \<and>
     (\<exists>doc. l_yaml_marshal (one_document [''runcmd'' \<mapsto> YSeq [YString ''kubeadm init'']]) m' = Inr doc \<and>
        ''#cloud-config'' @ [CHR 0x0A] @ ''written'' = ''#cloud-config'' @ [CHR 0x0A] @ doc) \<and>
     (\<forall>k. k \<noteq> ''write_files'' \<and> k \<noteq> ''runcmd'' \<longrightarrow> m' k = m k) \<and>
     (\<exists>runcmd new. m ''runcmd'' = Some (YSeq runcmd) \<and> m' ''runcmd'' = Some (YSeq new) \<and>
        injectAroundKubeadm runcmd = Inr new) \<and>
     m' ''write_files'' = Some (YSeq (user_files m @
        [script_file preScriptPath preScript,
         script_file postScriptPath (postScript \<lparr>kv_vip = ''10.0.0.1'', kv_subnet = None\<rparr>)]))"
  by (rule Inject_preserves)
     (simp_all add: Inject_def one_document_def seq_entry_def injectAroundKubeadm_def is_kubeadm_def)

text \<open>
  On a cloud-config that is not empty but decodes to nothing, such as one that holds only its
  \<open>#cloud-config\<close> comment, \<open>Inject\<close> panics on a write to a nil map where it should report that
  there is no \<open>runcmd\<close>.
\<close>

theorem Inject_comment_only_panics:
  assumes "cloudConfig \<noteq> []" and "l_yaml_unmarshal L cloudConfig = Inr None"
  shows "\<exists>err. Inject L cloudConfig cfg = Inl err \<and> is_panic err"
  using assms by (simp add: Inject_def nil_map_write_def)

theorem Inject_comment_only_panics_witness:
  "\<exists>err. Inject ref_lib ''#cloud-config'' \<lparr>kv_vip = ''10.0.0.1'', kv_subnet = None\<rparr> = Inl err \<and> is_panic err"
  by (rule Inject_comment_only_panics) (simp_all add: ref_lib_def)

end
