(* ===== verification/Bootstrap.thy ===== *)
theory Bootstrap
  imports Kubevip K8s_Helpers
begin

text \<open>
  From the bootstrap data secret to the VM's payloads (\<open>internal/bootstrap\<close>): where the data
  comes from (\<open>resolve.go\<close>), SSH keys and kube-vip on a cloud-init payload (\<open>cloudinit.go\<close>) and
  the declared behaviour that decides (\<open>bootstrap.go\<close>). The reconciled XOMachine is the object
  of the state.
\<close>

section \<open>Bootstrap data\<close>

record bootstrap_data_result =
  rbd_machine :: "machine option"
  rbd_data :: string
  rbd_requeue :: bool

definition GetBootstrapData :: "'s env \<Rightarrow> machine \<Rightarrow> ('o, 's, error + string) prog" where
  "GetBootstrapData E mach =
     (case mach_data_secret mach of
        None \<Rightarrow> ret (Inl (Plain ''bootstrap data secret name is not set''))
      | Some name \<Rightarrow>
          do { r \<leftarrow> query (k_get_secret (kube E)
                     \<lparr>nn_namespace = om_namespace (mach_meta mach), nn_name = name\<rparr>);
               (case r of
                  Inl err \<Rightarrow> ret (Inl (Wrapped ''failed to get bootstrap data secret: '' err))
                | Inr sec \<Rightarrow>
                    (case sec_data sec ''value'' of
                       None \<Rightarrow> ret (Inl (Plain (''bootstrap data secret does not contain key 'value'' @ [CHR 0x27])))
                     | Some d \<Rightarrow> ret (Inr d))) })"

definition ResolveBootstrapData :: "'s env \<Rightarrow> (xomachine, 's, error + bootstrap_data_result) prog" where
  "ResolveBootstrapData E =
     do { m \<leftarrow> get_obj;
          r \<leftarrow> GetOwnerMachine E m;
          (case r of
             Inl err \<Rightarrow> ret (Inl err)
           | Inr (Some mach) \<Rightarrow>
               (if mach_data_secret mach = None then
                  ret (Inr \<lparr>rbd_machine = Some mach, rbd_data = [], rbd_requeue = True\<rparr>)
                else do { d \<leftarrow> GetBootstrapData E mach;
                          (case d of
                             Inl err \<Rightarrow> ret (Inl err)
                           | Inr bs \<Rightarrow> ret (Inr \<lparr>rbd_machine = Some mach, rbd_data = bs, rbd_requeue = False\<rparr>)) })
           | Inr None \<Rightarrow>
               (if ms_bootstrap_data (xm_spec m) \<noteq> [] then
                  ret (Inr \<lparr>rbd_machine = None, rbd_data = ms_bootstrap_data (xm_spec m), rbd_requeue = False\<rparr>)
                else ret (Inr \<lparr>rbd_machine = None, rbd_data = [], rbd_requeue = True\<rparr>))) }"

section \<open>SSH keys\<close>

text \<open>The strings of the document's key list, and the loop that appends the missing keys.\<close>

definition authorized :: "(string \<rightharpoonup> yaml) option \<Rightarrow> yaml list" where
  "authorized config = (case seq_entry config ''ssh_authorized_keys'' of None \<Rightarrow> [] | Some xs \<Rightarrow> xs)"

fun existing_keys :: "yaml list \<Rightarrow> string list" where
  "existing_keys [] = []"
| "existing_keys (YString s # xs) = s # existing_keys xs"
| "existing_keys (_ # xs) = existing_keys xs"

fun mergeKeys :: "string list \<Rightarrow> yaml list \<Rightarrow> string list \<Rightarrow> yaml list" where
  "mergeKeys existing merged [] = merged"
| "mergeKeys existing merged (k # ks) =
     (if k \<in> set existing then mergeKeys existing merged ks
      else mergeKeys (k # existing) (merged @ [YString k]) ks)"

definition MergeSSHKeysIntoCloudConfig :: "lib \<Rightarrow> string \<Rightarrow> string list \<Rightarrow> error + string" where
  "MergeSSHKeysIntoCloudConfig L cloudConfig sshKeys =
     (if sshKeys = [] then Inr cloudConfig
      else (case l_yaml_unmarshal L cloudConfig of
              Inl err \<Rightarrow> Inl (Wrapped ''failed to parse cloud-config: '' err)
            | Inr config \<Rightarrow>
                (let merged = mergeKeys (existing_keys (authorized config)) (authorized config) sshKeys;
                     m = (case config of None \<Rightarrow> Map.empty | Some m0 \<Rightarrow> m0)
                 in (case l_yaml_marshal L (m(''ssh_authorized_keys'' \<mapsto> YSeq merged)) of
                       Inl err \<Rightarrow> Inl (Wrapped ''failed to marshal cloud-config: '' err)
                     | Inr out \<Rightarrow> Inr (''#cloud-config'' @ [CHR 0x0A] @ out)))))"

definition BuildCloudInitWithSSHKeys ::
  "'s env \<Rightarrow> xo_client \<Rightarrow> string \<Rightarrow> bool \<Rightarrow> ('o, 's, error + string) prog" where
  "BuildCloudInitWithSSHKeys E c bootstrapData injectSSHKeys =
     (if \<not> injectSSHKeys then ret (Inr bootstrapData)
      else if v1_is_nil (xo_v1 c) then ret (Inl (Plain ''v1 client not available''))
      else do { r \<leftarrow> query (x_v1_ssh_keys (xo E) c);
                (case r of
                   Inl err \<Rightarrow> ret (Inl (Wrapped ''failed to get current XO user: '' err))
                 | Inr sshKeys \<Rightarrow>
                     (if bootstrapData \<noteq> [] then
                        ret (MergeSSHKeysIntoCloudConfig (libs E) bootstrapData sshKeys)
                      else ret (Inr (unlines ([''#cloud-config'', ''ssh_authorized_keys:''] @
                                              map (\<lambda>key. ''  - '' @ key) sshKeys))))) })"

definition resolveInjectSSHKeys :: "'s env \<Rightarrow> machine option \<Rightarrow> (xomachine, 's, bool) prog" where
  "resolveInjectSSHKeys E machine =
     (case machine of
        None \<Rightarrow> ret False
      | Some mach \<Rightarrow>
          (let clusterName = go_get (om_labels (mach_meta mach)) ''cluster.x-k8s.io/cluster-name''
           in if clusterName = [] then ret False
              else do { m \<leftarrow> get_obj;
                        r \<leftarrow> GetXOCluster E (om_namespace (xm_meta m)) clusterName;
                        (case r of
                           Inl err \<Rightarrow> ret False
                         | Inr None \<Rightarrow> ret False
                         | Inr (Some xc) \<Rightarrow> ret (cs_inject_ssh_keys (xc_spec xc))) }))"

section \<open>kube-vip\<close>

definition InjectKubeVIP ::
  "'s env \<Rightarrow> machine option \<Rightarrow> xocluster \<Rightarrow> string \<Rightarrow> (xomachine, 's, error + string) prog" where
  "InjectKubeVIP E machine xc cloudConfig =
     (case machine of
        None \<Rightarrow> ret (Inr cloudConfig)
      | Some mach \<Rightarrow>
          (if om_labels (mach_meta mach) MachineControlPlaneLabel = None then ret (Inr cloudConfig)
           else (case cs_control_plane_endpoint (xc_spec xc) of
                   None \<Rightarrow> ret (Inr cloudConfig)
                 | Some ep \<Rightarrow>
                     (if ep_host ep = [] then ret (Inr cloudConfig)
                      else (case Inject (libs E) cloudConfig
                                   \<lparr>kv_vip = ep_host ep, kv_subnet = ep_subnet ep\<rparr> of
                              Inl err \<Rightarrow>
                                (if is_panic err then ret (Inl err)
                                 else do { ue \<leftarrow> UpdateCondition E ConditionFalse
                                                   ''KubeVIPInjectionFailed'' (error_text err);
                                           (case ue of
                                              Some e \<Rightarrow> ret (Inl e)
                                            | None \<Rightarrow> ret (Inr cloudConfig)) })
                            | Inr out \<Rightarrow> ret (Inr out))))))"

definition injectKubeVIPIfNeeded ::
  "'s env \<Rightarrow> string \<Rightarrow> machine option \<Rightarrow> (xomachine, 's, error + string) prog" where
  "injectKubeVIPIfNeeded E cloudConfig machine =
     (case machine of
        None \<Rightarrow> ret (Inr cloudConfig)
      | Some mach \<Rightarrow>
          (if om_labels (mach_meta mach) MachineControlPlaneLabel = None then ret (Inr cloudConfig)
           else (let clusterName = go_get (om_labels (mach_meta mach)) ''cluster.x-k8s.io/cluster-name''
                 in if clusterName = [] then ret (Inr cloudConfig)
                    else do { m \<leftarrow> get_obj;
                              r \<leftarrow> GetXOCluster E (om_namespace (xm_meta m)) clusterName;
                              (case r of
                                 Inl err \<Rightarrow> ret (Inr cloudConfig)
                               | Inr None \<Rightarrow> ret (Inr cloudConfig)
                               | Inr (Some xc) \<Rightarrow>
                                   (if cs_control_plane_lb (xc_spec xc) = Some ''kube-vip''
                                    then InjectKubeVIP E machine xc cloudConfig
                                    else ret (Inr cloudConfig))) })))"

section \<open>Build\<close>

record behavior =
  bh_format :: string

record build_result =
  br_cloud_config :: string
  br_network_config :: "string option"

definition networkConfig :: "xomachine \<Rightarrow> behavior \<Rightarrow> string option" where
  "networkConfig m b =
     (let guestConfig = (case ms_network_config (xm_spec m) of None \<Rightarrow> [] | Some nc \<Rightarrow> nc_guest_config nc)
      in if guestConfig \<noteq> [] then Some guestConfig
         else if bh_format b = BootstrapFormatCloudInit then None
         else Some ''#'')"

definition Build ::
  "'s env \<Rightarrow> xo_client \<Rightarrow> machine option \<Rightarrow> string \<Rightarrow> behavior \<Rightarrow> (xomachine, 's, error + build_result) prog" where
  "Build E c machine bootstrapData b =
     do { cc \<leftarrow>
            (if bh_format b = BootstrapFormatCloudInit then
               do { injectSSHKeys \<leftarrow> resolveInjectSSHKeys E machine;
                    r \<leftarrow> BuildCloudInitWithSSHKeys E c bootstrapData injectSSHKeys;
                    (case r of
                       Inl err \<Rightarrow> ret (Inl err)
                     | Inr cloudConfig \<Rightarrow> injectKubeVIPIfNeeded E cloudConfig machine) }
             else ret (Inr bootstrapData));
          (case cc of
             Inl err \<Rightarrow> ret (Inl err)
           | Inr cloudConfig \<Rightarrow>
               do { m \<leftarrow> get_obj;
                    ret (Inr \<lparr>br_cloud_config = cloudConfig, br_network_config = networkConfig m b\<rparr>) }) }"

section \<open>Effects\<close>

lemma GetBootstrapData_emits [effects]: "emits P (GetBootstrapData E mach)"
  unfolding GetBootstrapData_def by (intro effects)

lemma GetBootstrapData_keeps [frames]: "keeps obj (GetBootstrapData E mach)"
  unfolding GetBootstrapData_def by (intro frames)

lemma ResolveBootstrapData_emits [effects]: "emits P (ResolveBootstrapData E)"
  unfolding ResolveBootstrapData_def by (intro effects)

lemma ResolveBootstrapData_keeps [frames]: "keeps obj (ResolveBootstrapData E)"
  unfolding ResolveBootstrapData_def by (intro frames)

lemma BuildCloudInit_emits [effects]: "emits P (BuildCloudInitWithSSHKeys E c d keys)"
  unfolding BuildCloudInitWithSSHKeys_def by (intro effects)

lemma BuildCloudInit_keeps [frames]: "keeps obj (BuildCloudInitWithSSHKeys E c d keys)"
  unfolding BuildCloudInitWithSSHKeys_def by (intro frames)

lemma resolveInjectSSHKeys_emits [effects]: "emits P (resolveInjectSSHKeys E mach)"
  unfolding resolveInjectSSHKeys_def by (intro effects)

lemma resolveInjectSSHKeys_keeps [frames]: "keeps obj (resolveInjectSSHKeys E mach)"
  unfolding resolveInjectSSHKeys_def by (intro frames)

lemma InjectKubeVIP_emits [effects]:
  "(\<And>m r. P (EvStatusUpdateXOMachine m r)) \<Longrightarrow> emits P (InjectKubeVIP E mach xc cc)"
  unfolding InjectKubeVIP_def by (intro effects)

lemma injectKubeVIPIfNeeded_emits [effects]:
  "(\<And>m r. P (EvStatusUpdateXOMachine m r)) \<Longrightarrow> emits P (injectKubeVIPIfNeeded E cc mach)"
  unfolding injectKubeVIPIfNeeded_def by (intro effects)

lemma Build_emits [effects]:
  "(\<And>m r. P (EvStatusUpdateXOMachine m r)) \<Longrightarrow> emits P (Build E c mach d b)"
  unfolding Build_def by (intro effects)

section \<open>Properties\<close>

lemma existing_keys_set: "set (existing_keys xs) = {s. YString s \<in> set xs}"
  by (induction xs rule: existing_keys.induct) auto

lemma mergeKeys_appends:
  "\<exists>new. mergeKeys existing merged ks = merged @ map YString new \<and> distinct new \<and>
     set new = set ks - set existing"
proof (induction ks arbitrary: existing merged)
  case (Cons k ks)
  show ?case
  proof (cases "k \<in> set existing")
    case True
    with Cons[of existing merged] show ?thesis by auto
  next
    case False
    from Cons[of "k # existing" "merged @ [YString k]"] obtain new where
      new: "mergeKeys (k # existing) (merged @ [YString k]) ks = merged @ [YString k] @ map YString new"
        "distinct new" "set new = set ks - set (k # existing)"
      by auto
    show ?thesis
      by (rule exI[of _ "k # new"]) (use new False in auto)
  qed
qed simp



text \<open>
  A behaviour other than cloud-init is a full pass-through: the payload is the bootstrap data
  byte for byte, nothing is read or written, and a network payload is always present so that the
  guest finds its drive; a cloud-init payload has one only when the machine sets a guest config.
\<close>

theorem Build_network_payload:
  "(bh_format b \<noteq> BootstrapFormatCloudInit \<longrightarrow>
      run_state (Build E c mach d b) w =
        (Inr \<lparr>br_cloud_config = d, br_network_config = networkConfig (obj w) b\<rparr>, w)) \<and>
   (networkConfig m b = None \<longleftrightarrow>
      bh_format b = BootstrapFormatCloudInit \<and>
      (\<forall>nc. ms_network_config (xm_spec m) = Some nc \<longrightarrow> nc_guest_config nc = [])) \<and>
   networkConfig m b \<noteq> Some []"
  by (auto simp: Build_def networkConfig_def Let_def split: option.split)

theorem Build_network_payload_witness:
  "run_state (Build ref_env ref_client None ''machine: {}'' \<lparr>bh_format = ''passthrough''\<rparr>) (start_state ref_machine ()) =
     (Inr \<lparr>br_cloud_config = ''machine: {}'', br_network_config = networkConfig ref_machine \<lparr>bh_format = ''passthrough''\<rparr>\<rparr>,
      start_state ref_machine ()) \<and>
   networkConfig ref_machine \<lparr>bh_format = ''passthrough''\<rparr> \<noteq> None"
  using Build_network_payload[of "\<lparr>bh_format = ''passthrough''\<rparr>" ref_env ref_client None "''machine: {}''"
      "start_state ref_machine ()" ref_machine]
  by (simp add: BootstrapFormatCloudInit_def start_state_def)

text \<open>
  A kube-vip injection that fails is recorded in the condition and then reported as a success
  with the unchanged payload: the control plane VM is created without kube-vip.
\<close>

theorem InjectKubeVIP_failure_is_success:
  assumes "om_labels (mach_meta mach) MachineControlPlaneLabel \<noteq> None"
    and "cs_control_plane_endpoint (xc_spec xc) = Some ep" and "ep_host ep \<noteq> []"
    and "Inject (libs E) cloudConfig \<lparr>kv_vip = ep_host ep, kv_subnet = ep_subnet ep\<rparr> = Inl err"
    and "\<not> is_panic err"
    and "fst (run_state (UpdateCondition E ConditionFalse ''KubeVIPInjectionFailed'' (error_text err)) w) = None"
  shows "fst (run_state (InjectKubeVIP E (Some mach) xc cloudConfig) w) = Inr cloudConfig"
  using assms by (auto simp: InjectKubeVIP_def split: prod.splits)

theorem InjectKubeVIP_failure_is_success_witness:
  "fst (run_state (InjectKubeVIP (ref_env\<lparr>libs := one_document Map.empty\<rparr>)
      (Some (ref_owner_machine\<lparr>mach_meta := (ref_meta ''demo-cp-7n62g'')\<lparr>om_labels :=
          [MachineControlPlaneLabel \<mapsto> []]\<rparr>\<rparr>)) ref_xocluster ''users: []'') (start_state ref_machine ())) =
   Inr ''users: []''"
  by (rule InjectKubeVIP_failure_is_success[where err = "Plain (''cloud-config has no runcmd section, '' @
          ''cannot inject kube-vip commands'')" and ep = "\<lparr>ep_host = ''10.0.0.1'', ep_port = 6443, ep_subnet = None\<rparr>"])
     (simp_all add: ref_defs Inject_def one_document_def seq_entry_def UpdateCondition_def status_update_def)

end
