(* ===== verification/Ipam.thy ===== *)
theory Ipam
  imports Conditions
begin

text \<open>
  Addresses from IPAM pools (\<open>xomachine/ipam.go\<close>): the claim of a machine, and the netplan
  document that puts the granted address on the node.
\<close>

record address =
  a_ip :: string
  a_prefix :: int
  a_gateway :: string

text \<open>The claim the code builds before it sets the owner reference.\<close>

definition new_claim :: "xomachine \<Rightarrow> pool_ref \<Rightarrow> ip_claim" where
  "new_claim m pool =
     \<lparr>claim_meta = \<lparr>om_name = om_name (xm_meta m), om_namespace = om_namespace (xm_meta m),
                     om_uid = [], om_resource_version = [], om_labels = Map.empty,
                     om_finalizers = [], om_owners = [], om_deletion = None\<rparr>,
      claim_cluster = go_get (om_labels (xm_meta m)) ClusterNameLabel,
      claim_pool = pool, claim_address_ref = []\<rparr>"

text \<open>The part after the claim is known: the address it refers to, if the pool has answered.\<close>

definition claim_answer :: "'s env \<Rightarrow> ip_claim \<Rightarrow> ('o, 's, error + address option) prog" where
  "claim_answer E claim =
     (if claim_address_ref claim = [] then ret (Inr None)
      else do { r \<leftarrow> query (k_get_ip_address (kube E)
                         \<lparr>nn_namespace = om_namespace (claim_meta claim), nn_name = claim_address_ref claim\<rparr>);
                (case r of
                   Inl err \<Rightarrow> ret (Inl (Wrapped ''reading the IPAddress: '' err))
                 | Inr ipa \<Rightarrow>
                     ret (Inr (Some \<lparr>a_ip = ipa_address ipa,
                                     a_prefix = (case ipa_prefix ipa of Some p \<Rightarrow> p | None \<Rightarrow> 0),
                                     a_gateway = ipa_gateway ipa\<rparr>))) })"

definition ClaimedAddress :: "'s env \<Rightarrow> xomachine \<Rightarrow> ('o, 's, error + address option) prog" where
  "ClaimedAddress E m =
     (case ms_network_config (xm_spec m) of
        None \<Rightarrow> ret (Inr None)
      | Some nc \<Rightarrow>
          (case nc_addresses_from_pools nc of
             [] \<Rightarrow> ret (Inr None)
           | pool # pools \<Rightarrow>
               do { r \<leftarrow> query (k_get_claim (kube E)
                          \<lparr>nn_namespace = om_namespace (xm_meta m), nn_name = om_name (xm_meta m)\<rparr>);
                    (case r of
                       Inl err \<Rightarrow>
                         (if api_not_found err then
                            (case l_set_controller_reference (libs E) m (new_claim m pool) of
                               Inl e \<Rightarrow> ret (Inl (Wrapped ''owning the IPAddressClaim: '' e))
                             | Inr claim \<Rightarrow>
                                 do { c \<leftarrow> act (\<lambda>r. EvCreateClaim claim (failure_of r))
                                          (k_create_claim (kube E) claim);
                                      (case c of
                                         Inl e \<Rightarrow>
                                           (if \<not> api_already_exists e
                                            then ret (Inl (Wrapped ''creating the IPAddressClaim: '' e))
                                            else claim_answer E claim)
                                       | Inr created \<Rightarrow> claim_answer E created) })
                          else ret (Inl (Wrapped ''reading the IPAddressClaim: '' err)))
                     | Inr claim \<Rightarrow> claim_answer E claim) }))"

definition nl :: string where
  "nl = [CHR 0x0A]"

definition Netplan :: "address \<Rightarrow> string \<Rightarrow> string" where
  "Netplan addr iface =
     ''version: 2'' @ nl @ ''ethernets:'' @ nl @
     ''  '' @ iface @ '':'' @ nl @
     ''    dhcp4: false'' @ nl @
     ''    addresses:'' @ nl @
     ''      - '' @ a_ip addr @ ''/'' @ int_str (a_prefix addr) @ nl @
     (if a_gateway addr \<noteq> [] then
        ''    routes:'' @ nl @
        ''      - to: default'' @ nl @
        ''        via: '' @ a_gateway addr @ nl @
        ''    nameservers:'' @ nl @
        ''      addresses:'' @ nl @
        ''        - '' @ a_gateway addr @ nl
      else [])"

section \<open>Lemmas\<close>

lemma claim_answer_emits [effects]: "emits P (claim_answer E claim)"
  unfolding claim_answer_def by (intro effects)

lemma claim_answer_keeps [frames]: "keeps obj (claim_answer E claim)"
  unfolding claim_answer_def by (intro frames)

lemma ClaimedAddress_emits [effects]:
  "(\<And>c r. P (EvCreateClaim c r)) \<Longrightarrow> emits P (ClaimedAddress E m)"
  unfolding ClaimedAddress_def by (intro effects)

lemma ClaimedAddress_keeps [frames]: "keeps obj (ClaimedAddress E m)"
  unfolding ClaimedAddress_def by (intro frames)

text \<open>
  An address is only ever the one an existing claim refers to: until the claim carries a
  reference the result is \<open>None\<close>, so nothing is invented.
\<close>

lemma claim_answer_waits: "claim_address_ref c = [] \<Longrightarrow> run_state (claim_answer E c) w = (Inr None, w)"
  by (simp add: claim_answer_def)

lemma claim_answer_grants:
  "wp (claim_answer E c)
      (\<lambda>r w'. \<forall>a. r = Inr (Some a) \<longrightarrow>
         claim_address_ref c \<noteq> [] \<and>
         (\<exists>ipa. fst (k_get_ip_address (kube E)
                    \<lparr>nn_namespace = om_namespace (claim_meta c), nn_name = claim_address_ref c\<rparr> (ext w)) = Inr ipa \<and>
                a_ip a = ipa_address ipa \<and> a_gateway a = ipa_gateway ipa \<and>
                a_prefix a = (case ipa_prefix ipa of Some p \<Rightarrow> p | None \<Rightarrow> 0))) w"
  by (auto simp: claim_answer_def split: sum.split)

end
