(* ===== verification/Machine_Reconcile.thy ===== *)
theory Machine_Reconcile
  imports Vm_Ready Bootstrap Ipam
begin

text \<open>
  The XOMachine reconciler (\<open>controller/xomachine_reconcile.go\<close> and \<open>xomachine_controller.go\<close>):
  the handlers in the order the code has them, composed as the code composes them. The
  reconciled object is what the \<open>xoMachine\<close> pointer points to; a write replaces it by the
  server's answer. A run answers \<open>Inr\<close> with the delay of the next run, or \<open>Inl\<close> with the error.
\<close>

section \<open>Small parts\<close>

definition xoMachineFinalizer :: string where
  "xoMachineFinalizer = ''vates.infrastructure.cluster.x-k8s.io/xomachine''"

definition nodeInterface :: string where
  "nodeInterface = ''eth0''"

text \<open>The provider ID of the status, empty when there is none: the code always tests both.\<close>

definition provider_id :: "xomachine \<Rightarrow> string" where
  "provider_id m = (case mst_provider_id (xm_status m) of None \<Rightarrow> [] | Some p \<Rightarrow> p)"

text \<open>A failure noted in the condition; an error of the note itself is only logged.\<close>

definition note_failure :: "'s env \<Rightarrow> string \<Rightarrow> error \<Rightarrow> (xomachine, 's, unit) prog" where
  "note_failure E reason err =
     do { _ \<leftarrow> UpdateCondition E ConditionFalse reason (error_text err); ret () }"

definition set_finalizers :: "string list \<Rightarrow> xomachine \<Rightarrow> xomachine" where
  "set_finalizers fs m = m\<lparr>xm_meta := (xm_meta m)\<lparr>om_finalizers := fs\<rparr>\<rparr>"

text \<open>\<open>controllerutil.AddFinalizer\<close> on the reconciled object: whether it changed it.\<close>

definition add_finalizer :: "'s env \<Rightarrow> (xomachine, 's, bool) prog" where
  "add_finalizer E =
     do { m \<leftarrow> get_obj;
          let (added, fs) = l_add_finalizer (libs E) xoMachineFinalizer (om_finalizers (xm_meta m));
          set_obj (set_finalizers fs m);
          ret added }"

definition ensureFinalizer :: "'s env \<Rightarrow> (xomachine, 's, error option) prog" where
  "ensureFinalizer E =
     do { added \<leftarrow> add_finalizer E;
          (if \<not> added then ret None
           else do { r \<leftarrow> update_machine E;
                     (case r of
                        None \<Rightarrow> ret None
                      | Some err \<Rightarrow>
                          (if \<not> api_conflict err then ret (Some err)
                           else do { g \<leftarrow> refetch_machine E;
                                     (case g of
                                        Some err2 \<Rightarrow> ret (Some err2)
                                      | None \<Rightarrow>
                                          do { again \<leftarrow> add_finalizer E;
                                               (if again then update_machine E else ret None) }) })) }) }"

definition removeFinalizer :: "'s env \<Rightarrow> (xomachine, 's, error option) prog" where
  "removeFinalizer E =
     do { modify_obj (\<lambda>m. set_finalizers
            (l_remove_finalizer (libs E) xoMachineFinalizer (om_finalizers (xm_meta m))) m);
          r \<leftarrow> update_machine E;
          (case r of
             None \<Rightarrow> ret None
           | Some err \<Rightarrow> (if \<not> api_not_found err then ret (Some err) else ret None)) }"

definition bootstrapBehavior :: "xomachine \<Rightarrow> behavior" where
  "bootstrapBehavior m =
     (case ms_bootstrap (xm_spec m) of
        None \<Rightarrow> \<lparr>bh_format = []\<rparr>
      | Some bb \<Rightarrow>
          (if bb_format bb = [] \<and> bb_cloud_init bb then \<lparr>bh_format = BootstrapFormatCloudInit\<rparr>
           else \<lparr>bh_format = bb_format bb\<rparr>))"

section \<open>Credentials\<close>

text \<open>The identity reference of the owner cluster, found through the owner Machine's label.\<close>

definition ownerClusterIdentity :: "'s env \<Rightarrow> xomachine \<Rightarrow> ('o, 's, string option) prog" where
  "ownerClusterIdentity E m =
     (case l_get_controller_of (libs E) (om_owners (xm_meta m)) of
        None \<Rightarrow> ret None
      | Some ownerRef \<Rightarrow>
          (if or_kind ownerRef \<noteq> ''Machine'' then ret None
           else do { r \<leftarrow> query (k_get_machine (kube E)
                       \<lparr>nn_namespace = om_namespace (xm_meta m), nn_name = or_name ownerRef\<rparr>);
                     (case r of
                        Inl err \<Rightarrow> ret None
                      | Inr mach \<Rightarrow>
                          (let clusterName = go_get (om_labels (mach_meta mach)) ClusterNameLabel
                           in if clusterName = [] then ret None
                              else do { xc \<leftarrow> GetXOCluster E (om_namespace (xm_meta m)) clusterName;
                                        (case xc of
                                           Inl err \<Rightarrow> ret None
                                         | Inr None \<Rightarrow> ret None
                                         | Inr (Some c) \<Rightarrow> ret (cs_identity_ref (xc_spec c))) })) }))"

definition resolveMachineCredentials :: "'s env \<Rightarrow> (xomachine, 's, error + xo_config option) prog" where
  "resolveMachineCredentials E =
     do { m \<leftarrow> get_obj;
          (case ms_identity_ref (xm_spec m) of
             Some name \<Rightarrow> ResolveXOConfig E (om_namespace (xm_meta m)) (Some name) None
           | None \<Rightarrow>
               do { identity \<leftarrow> ownerClusterIdentity E m;
                    (case identity of
                       Some name \<Rightarrow> ResolveXOConfig E (om_namespace (xm_meta m)) (Some name) None
                     | None \<Rightarrow> ret (Inr (e_global_creds E))) }) }"

definition newXOClient :: "'s env \<Rightarrow> xo_config option \<Rightarrow> ('o, 's, error + xo_client option) prog" where
  "newXOClient E creds = NewXOClientFromConfig E creds"

section \<open>The VM's name\<close>

definition isControlPlane :: "xomachine \<Rightarrow> machine option \<Rightarrow> bool" where
  "isControlPlane m machine \<longleftrightarrow>
     om_labels (xm_meta m) MachineControlPlaneLabel \<noteq> None \<or>
     (case machine of None \<Rightarrow> False
      | Some mach \<Rightarrow> om_labels (mach_meta mach) MachineControlPlaneLabel \<noteq> None)"

definition clusterNameOf :: "xomachine \<Rightarrow> machine option \<Rightarrow> string" where
  "clusterNameOf m machine =
     (let own = go_get (om_labels (xm_meta m)) ClusterNameLabel
      in if own = [] then
           (case machine of None \<Rightarrow> own
            | Some mach \<Rightarrow> go_get (om_labels (mach_meta mach)) ClusterNameLabel)
         else own)"

text \<open>The name, once the naming configuration is known.\<close>

definition nameFor :: "xomachine \<Rightarrow> machine option \<Rightarrow> string \<Rightarrow> vm_naming_spec option \<Rightarrow> error + string" where
  "nameFor m machine clusterName naming =
     (case machine of
        None \<Rightarrow>
          (case naming of
             Some n \<Rightarrow> Inl (Plain (''the XOCluster spec.vmNaming names the VM after its owner Machine, '' @
                                  ''and the XOMachine has none''))
           | None \<Rightarrow> Inr (om_name (xm_meta m)))
      | Some mach \<Rightarrow>
          (case naming of
             Some n \<Rightarrow> VMNameFromNaming n (isControlPlane m machine) (om_name (mach_meta mach))
           | None \<Rightarrow>
               (if clusterName = [] then
                  Inl (Plain ''the Machine has no cluster name label to name the VM after'')
                else Inr (DefaultVMName (mach_config_kind mach) clusterName (isControlPlane m machine)
                                        (om_name (mach_meta mach))))))"

definition computeVMName :: "'s env \<Rightarrow> machine option \<Rightarrow> (xomachine, 's, error + string) prog" where
  "computeVMName E machine =
     do { m \<leftarrow> get_obj;
          let clusterName = clusterNameOf m machine;
          (if clusterName = [] then ret (nameFor m machine clusterName None)
           else do { r \<leftarrow> GetXOCluster E (om_namespace (xm_meta m)) clusterName;
                     (case r of
                        Inl err \<Rightarrow> ret (Inl (Wrapped ''failed to read the XOCluster to name the VM: '' err))
                      | Inr xc \<Rightarrow>
                          ret (nameFor m machine clusterName
                                 (case xc of None \<Rightarrow> None | Some c \<Rightarrow> cs_vm_naming (xc_spec c)))) }) }"

definition set_vm_name :: "string \<Rightarrow> xomachine \<Rightarrow> xomachine" where
  "set_vm_name n m = m\<lparr>xm_status := (xm_status m)\<lparr>mst_vm_name := n\<rparr>\<rparr>"

definition resolveVMName :: "'s env \<Rightarrow> machine option \<Rightarrow> (xomachine, 's, error + string) prog" where
  "resolveVMName E machine =
     do { m \<leftarrow> get_obj;
          (if mst_vm_name (xm_status m) \<noteq> [] then ret (Inr (mst_vm_name (xm_status m)))
           else do { r \<leftarrow> computeVMName E machine;
                     (case r of
                        Inl err \<Rightarrow>
                          do { e \<leftarrow> WithConditionUpdate E err ConditionFalse ''VMNameUnresolved'';
                               ret (Inl e) }
                      | Inr vmName \<Rightarrow>
                          do { modify_obj (set_vm_name vmName);
                               u \<leftarrow> status_update E;
                               (case u of
                                  Some err \<Rightarrow> ret (Inl err)
                                | None \<Rightarrow> ret (Inr vmName)) }) }) }"

definition warn :: "'s env \<Rightarrow> string \<Rightarrow> string \<Rightarrow> ('o, 's, unit) prog" where
  "warn E reason note = (if e_has_recorder E then emit (EvWarning reason note) else ret ())"

definition duplicateNameWarning :: "'s env \<Rightarrow> string \<Rightarrow> nat \<Rightarrow> ('o, 's, unit) prog" where
  "duplicateNameWarning E vmName count =
     warn E ''DuplicateVMName''
       (nat_str count @ '' other VM(s) in Xen Orchestra are already named '' @ go_quote vmName @
        ''; the VM is created anyway'')"

definition createVM ::
  "'s env \<Rightarrow> machine option \<Rightarrow> xo_client \<Rightarrow> uuid \<Rightarrow> uuid \<Rightarrow> string \<Rightarrow> string option \<Rightarrow>
   (xomachine, 's, error + vm) prog" where
  "createVM E machine c poolID templateID cloudConfig netCfg =
     do { r \<leftarrow> resolveVMName E machine;
          (case r of
             Inl err \<Rightarrow> ret (Inl err)
           | Inr vmName \<Rightarrow>
               do { m \<leftarrow> get_obj;
                    CreateVM E c poolID templateID cloudConfig netCfg vmName
                      (ms_bootstrap_provider (xm_spec m)) (Some (duplicateNameWarning E)) }) }"

section \<open>IPAM\<close>

text \<open>A netplan document, or the result to return while the pool has not answered.\<close>

definition ipamNetworkConfig :: "'s env \<Rightarrow> (xomachine, 's, error + string \<times> reconcile_result option) prog" where
  "ipamNetworkConfig E =
     do { m \<leftarrow> get_obj;
          r \<leftarrow> ClaimedAddress E m;
          (case r of
             Inl err \<Rightarrow> do { note_failure E ''AddressClaimFailed'' err; ret (Inl err) }
           | Inr None \<Rightarrow>
               do { u \<leftarrow> UpdateCondition E ConditionFalse ''WaitingForAddress''
                          ''the IPAM pool has not answered the address claim yet'';
                    (case u of
                       Some e \<Rightarrow> ret (Inl e)
                     | None \<Rightarrow> ret (Inr ([], Some \<lparr>requeue_after = 5000\<rparr>))) }
           | Inr (Some addr) \<Rightarrow> ret (Inr (Netplan addr nodeInterface, None))) }"

section \<open>Ready and existing machines\<close>

definition nil_dereference :: error where
  "nil_dereference = Panic ''invalid memory address or nil pointer dereference''"

text \<open>The address as Xen Orchestra reports it now, written only when it changes something.\<close>

definition recordAddress :: "'s env \<Rightarrow> xo_client \<Rightarrow> xomachine \<Rightarrow> vm \<Rightarrow> (xomachine, 's, error option) prog" where
  "recordAddress E c m v =
     do { addr \<leftarrow> ResolveVMIPNow E c v;
          let (changed, m') = SetNodeAddress addr m;
          set_obj m';
          (if \<not> changed then ret None
           else do { _ \<leftarrow> status_update E; ret None }) }"

definition refreshVM :: "'s env \<Rightarrow> xo_client \<Rightarrow> xomachine \<Rightarrow> string \<Rightarrow> (xomachine, 's, error option) prog" where
  "refreshVM E c m p =
     (case l_get_vm_id (libs E) p of
        Inl err \<Rightarrow> ret None
      | Inr vmID \<Rightarrow>
          do { SetVMTags E m vmID (Some c) (ms_bootstrap_provider (xm_spec m));
               r \<leftarrow> get_vm E c vmID;
               (case r of
                  Inl err \<Rightarrow> ret None
                | Inr v \<Rightarrow> recordAddress E c m v) })"

text \<open>
  Both updates are best effort. The pointer to the provider ID is read again after calls that
  replace the object, hence the branch for a nil one.
\<close>

definition refreshReadyMachine :: "'s env \<Rightarrow> (xomachine, 's, error option) prog" where
  "refreshReadyMachine E =
     do { creds \<leftarrow> resolveMachineCredentials E;
          (case creds of
             Inl err \<Rightarrow> ret None
           | Inr xoCreds \<Rightarrow>
               do { cl \<leftarrow> newXOClient E xoCreds;
                    (case cl of
                       Inl err \<Rightarrow> ret None
                     | Inr None \<Rightarrow> ret None
                     | Inr (Some c) \<Rightarrow>
                         do { m \<leftarrow> get_obj;
                              (case mst_provider_id (xm_status m) of
                                 None \<Rightarrow> ret (Some nil_dereference)
                               | Some p \<Rightarrow> refreshVM E c m p) }) }) }"

definition reconcileExistingVM :: "'s env \<Rightarrow> xo_client \<Rightarrow> vm \<Rightarrow> (xomachine, 's, error + reconcile_result) prog" where
  "reconcileExistingVM E c v0 =
     do { m \<leftarrow> get_obj;
          (if mst_ready (xm_status m) then ret (Inr done_result)
           else do { r \<leftarrow> StartVM E c v0;
                     (case r of
                        Inl err \<Rightarrow> ret (Inl err)
                      | Inr (v, started) \<Rightarrow>
                          do { ip \<leftarrow> ResolveVMIP E c v;
                               (case ip of
                                  None \<Rightarrow> ret (Inl out_of_fuel)
                                | Some vmIP \<Rightarrow>
                                    (if vmIP = [] then
                                       do { ue \<leftarrow> UpdateCondition E ConditionFalse ''WaitingForIPAddress''
                                              ''VM is running, waiting for IP address from Xen guest tools'';
                                            (case ue of
                                               Some e \<Rightarrow> ret (Inl e)
                                             | None \<Rightarrow> ret (Inr \<lparr>requeue_after = 3000\<rparr>)) }
                                     else
                                       do { k \<leftarrow> ManageVIFs E c v;
                                            (case k of
                                               Some err \<Rightarrow>
                                                 do { ue \<leftarrow> UpdateCondition E ConditionFalse
                                                               ''VifManagementFailed'' (error_text err);
                                                      (case ue of
                                                         Some e \<Rightarrow> ret (Inl e)
                                                       | None \<Rightarrow> ret (Inl err)) }
                                             | None \<Rightarrow>
                                                 do { modify_obj (mark_ready vmIP);
                                                      ue \<leftarrow> UpdateCondition E ConditionTrue ''VmReady''
                                                             ''VM is created, running and has an IP address'';
                                                      (case ue of
                                                         Some e \<Rightarrow> ret (Inl e)
                                                       | None \<Rightarrow> ret (Inr done_result)) }) })) }) }) }"

text \<open>The fast path for a machine that is Ready, and for one whose VM is known.\<close>

definition readyPath :: "'s env \<Rightarrow> (xomachine, 's, error + reconcile_result) prog" where
  "readyPath E =
     do { m \<leftarrow> get_obj;
          u \<leftarrow> (if \<not> isConditionTrue m ''VmReady'' then
                  UpdateCondition E ConditionTrue ''VmReady'' ''VM is created, running and has an IP address''
                else ret None);
          (case u of
             Some e \<Rightarrow> ret (Inl e)
           | None \<Rightarrow>
               do { p \<leftarrow> refreshReadyMachine E;
                    (case p of
                       Some panic \<Rightarrow> ret (Inl panic)
                     | None \<Rightarrow> ret (Inr done_result)) }) }"

text \<open>\<open>None\<close>: no result, the full reconcile goes on.\<close>

definition tryFastPath :: "'s env \<Rightarrow> (xomachine, 's, (error + reconcile_result) option) prog" where
  "tryFastPath E =
     do { m \<leftarrow> get_obj;
          (if provider_id m = [] then ret None
           else if mst_ready (xm_status m) then do { r \<leftarrow> readyPath E; ret (Some r) }
           else (case l_get_vm_id (libs E) (provider_id m) of
                   Inl err \<Rightarrow> ret None
                 | Inr vmID \<Rightarrow>
                     do { creds \<leftarrow> resolveMachineCredentials E;
                          (case creds of
                             Inl err \<Rightarrow> ret None
                           | Inr xoCreds \<Rightarrow>
                               do { cl \<leftarrow> newXOClient E xoCreds;
                                    (case cl of
                                       Inl err \<Rightarrow> ret None
                                     | Inr None \<Rightarrow> ret None
                                     | Inr (Some c) \<Rightarrow>
                                         do { r \<leftarrow> get_vm E c vmID;
                                              (case r of
                                                 Inl err \<Rightarrow> ret None
                                               | Inr v \<Rightarrow>
                                                   do { res \<leftarrow> reconcileExistingVM E c v;
                                                        ret (Some res) }) }) }) })) }"

section \<open>reconcileNormal\<close>

text \<open>The VM of the machine: looked up when it is known, created or adopted otherwise.\<close>

definition obtainVM ::
  "'s env \<Rightarrow> machine option \<Rightarrow> xo_client \<Rightarrow> uuid \<Rightarrow> uuid \<Rightarrow> string \<Rightarrow> string option \<Rightarrow>
   (xomachine, 's, error + vm) prog" where
  "obtainVM E machine c poolID templateID cloudConfig netCfg =
     do { m \<leftarrow> get_obj;
          (if provider_id m \<noteq> [] then
             (case l_get_vm_id (libs E) (provider_id m) of
                Inl err \<Rightarrow> do { note_failure E ''InvalidProviderID'' err; ret (Inl err) }
              | Inr vmID \<Rightarrow> LookupExistingVM E c vmID)
           else createVM E machine c poolID templateID cloudConfig netCfg) }"

text \<open>From the VM on: its tags, and the wait until it is Ready.\<close>

definition finishVM :: "'s env \<Rightarrow> xo_client \<Rightarrow> vm \<Rightarrow> (xomachine, 's, error + reconcile_result) prog" where
  "finishVM E c v =
     do { m \<leftarrow> get_obj;
          SetVMTags E m (vm_id v) (Some c) (ms_bootstrap_provider (xm_spec m));
          m' \<leftarrow> get_obj;
          (if \<not> mst_ready (xm_status m') then WaitForVMReady E c v else ret (Inr done_result)) }"

text \<open>From the payloads on: template, pool, VM.\<close>

definition placeVM ::
  "'s env \<Rightarrow> machine option \<Rightarrow> xo_client \<Rightarrow> string \<Rightarrow> string option \<Rightarrow>
   (xomachine, 's, error + reconcile_result) prog" where
  "placeVM E machine c cloudConfig netCfg =
     do { m \<leftarrow> get_obj;
          t \<leftarrow> ResolveTemplateID E c (ms_template_id (xm_spec m)) (ms_template_name (xm_spec m));
          (case t of
             Inl err \<Rightarrow> do { note_failure E ''TemplateNotFound'' err; ret (Inl err) }
           | Inr templateID \<Rightarrow>
               do { p \<leftarrow> ResolvePoolID E c (ms_pool_id (xm_spec m)) (ms_pool_name (xm_spec m));
                    (case p of
                       Inl err \<Rightarrow> do { note_failure E ''PoolNotFound'' err; ret (Inl err) }
                     | Inr poolID \<Rightarrow>
                         do { r \<leftarrow> obtainVM E machine c poolID templateID cloudConfig netCfg;
                              (case r of
                                 Inl err \<Rightarrow> ret (Inl err)
                               | Inr v \<Rightarrow> finishVM E c v) }) }) }"

definition claims_address :: "xomachine \<Rightarrow> bool" where
  "claims_address m \<longleftrightarrow>
     (case ms_network_config (xm_spec m) of None \<Rightarrow> False | Some nc \<Rightarrow> nc_addresses_from_pools nc \<noteq> [])"

text \<open>With a client: the payloads, and the address of an IPAM pool in place of the network one.\<close>

definition provision ::
  "'s env \<Rightarrow> bootstrap_data_result \<Rightarrow> xo_client \<Rightarrow> (xomachine, 's, error + reconcile_result) prog" where
  "provision E bs c =
     do { m \<leftarrow> get_obj;
          b \<leftarrow> Build E c (rbd_machine bs) (rbd_data bs) (bootstrapBehavior m);
          (case b of
             Inl err \<Rightarrow> do { note_failure E ''CloudConfigBuildFailed'' err; ret (Inl err) }
           | Inr result \<Rightarrow>
               do { m' \<leftarrow> get_obj;
                    (if claims_address m' then
                       do { a \<leftarrow> ipamNetworkConfig E;
                            (case a of
                               Inl err \<Rightarrow> ret (Inl err)
                             | Inr (doc, Some wait) \<Rightarrow> ret (Inr wait)
                             | Inr (doc, None) \<Rightarrow>
                                 placeVM E (rbd_machine bs) c (br_cloud_config result) (Some doc)) }
                     else placeVM E (rbd_machine bs) c (br_cloud_config result) (br_network_config result)) }) }"

text \<open>What follows the fast path.\<close>

definition fullReconcile :: "'s env \<Rightarrow> (xomachine, 's, error + reconcile_result) prog" where
  "fullReconcile E =
     do { b \<leftarrow> ResolveBootstrapData E;
          (case b of
             Inl err \<Rightarrow> ret (Inl err)
           | Inr bs \<Rightarrow>
               (if rbd_requeue bs then ret (Inr \<lparr>requeue_after = 3000\<rparr>)
                else do { creds \<leftarrow> resolveMachineCredentials E;
                          (case creds of
                             Inl err \<Rightarrow> do { note_failure E ''CredentialsResolutionFailed'' err; ret (Inl err) }
                           | Inr xoCreds \<Rightarrow>
                               do { cl \<leftarrow> newXOClient E xoCreds;
                                    (case cl of
                                       Inl err \<Rightarrow> do { note_failure E ''XOConnectionFailed'' err; ret (Inl err) }
                                     | Inr None \<Rightarrow> ret (Inr done_result)
                                     | Inr (Some c) \<Rightarrow> provision E bs c) }) })) }"

definition reconcileNormal :: "'s env \<Rightarrow> (xomachine, 's, error + reconcile_result) prog" where
  "reconcileNormal E =
     do { f \<leftarrow> ensureFinalizer E;
          (case f of
             Some err \<Rightarrow> ret (Inl err)
           | None \<Rightarrow>
               do { fast \<leftarrow> tryFastPath E;
                    (case fast of
                       Some res \<Rightarrow> ret res
                     | None \<Rightarrow> fullReconcile E) }) }"

section \<open>reconcileDelete\<close>

definition removed_then_done :: "'s env \<Rightarrow> (xomachine, 's, error + reconcile_result) prog" where
  "removed_then_done E =
     do { r \<leftarrow> removeFinalizer E;
          (case r of Some err \<Rightarrow> ret (Inl err) | None \<Rightarrow> ret (Inr done_result)) }"

text \<open>The removal of the VM, in the order that keeps persistent volumes.\<close>

definition deleteVM :: "'s env \<Rightarrow> xo_client \<Rightarrow> uuid \<Rightarrow> (xomachine, 's, error option) prog" where
  "deleteVM E c vmID =
     do { s \<leftarrow> StopVMIfNotDetachable E c vmID;
          (case s of
             Some err \<Rightarrow> ret (Some err)
           | None \<Rightarrow>
               do { d \<leftarrow> DetachPersistentVolumes E c vmID;
                    (case d of
                       Some err \<Rightarrow> ret (Some err)
                     | None \<Rightarrow>
                         do { _ \<leftarrow> HardShutdownVM E c vmID;
                              r \<leftarrow> act (\<lambda>r. EvDeleteVM vmID (failure_of r)) (x_vm_delete (xo E) c vmID);
                              (case r of
                                 Inr u \<Rightarrow> ret None
                               | Inl delErr \<Rightarrow>
                                   (if IsNotFoundError delErr then ret None
                                    else if contains_str (error_text delErr) ''unmarshal'' then ret None
                                    else ret (Some delErr))) }) }) }"

definition reconcileDelete :: "'s env \<Rightarrow> (xomachine, 's, error + reconcile_result) prog" where
  "reconcileDelete E =
     do { m \<leftarrow> get_obj;
          (if \<not> l_contains_finalizer (libs E) xoMachineFinalizer (om_finalizers (xm_meta m)) then
             ret (Inr done_result)
           else if provider_id m = [] then removed_then_done E
           else (case l_get_vm_id (libs E) (provider_id m) of
                   Inl err \<Rightarrow> removed_then_done E
                 | Inr vmID \<Rightarrow>
                     do { creds \<leftarrow> resolveMachineCredentials E;
                          (case creds of
                             Inl err \<Rightarrow> ret (Inl err)
                           | Inr xoCreds \<Rightarrow>
                               do { cl \<leftarrow> newXOClient E xoCreds;
                                    (case cl of
                                       Inl err \<Rightarrow> ret (Inl err)
                                     | Inr None \<Rightarrow> removed_then_done E
                                     | Inr (Some c) \<Rightarrow>
                                         do { r \<leftarrow> deleteVM E c vmID;
                                              (case r of
                                                 Some err \<Rightarrow> ret (Inl err)
                                               | None \<Rightarrow> removed_then_done E) }) }) })) }"

section \<open>The controller\<close>

definition Reconcile :: "'s env \<Rightarrow> nn \<Rightarrow> (xomachine, 's, error + reconcile_result) prog" where
  "Reconcile E req =
     do { r \<leftarrow> query (k_get_xomachine (kube E) req);
          (case r of
             Inl err \<Rightarrow> (if api_not_found err then ret (Inr done_result) else ret (Inl err))
           | Inr m \<Rightarrow>
               do { set_obj m;
                    (if om_deletion (xm_meta m) \<noteq> None then reconcileDelete E else reconcileNormal E) }) }"

text \<open>The requests a changed Machine or Secret leads to.\<close>

definition machineToXOMachine :: "machine \<Rightarrow> nn list" where
  "machineToXOMachine mach =
     (if mach_infra_kind mach \<noteq> KindXOMachine then []
      else [\<lparr>nn_namespace = om_namespace (mach_meta mach), nn_name = mach_infra_name mach\<rparr>])"

fun ownersToXOMachine :: "'s env \<Rightarrow> string \<Rightarrow> owner_ref list \<Rightarrow> ('o, 's, nn list) prog" where
  "ownersToXOMachine E ns [] = ret []"
| "ownersToXOMachine E ns (ref # refs) =
     (if or_kind ref = ''Machine'' \<and> or_api_version ref = ClusterGroupVersion then
        do { r \<leftarrow> query (k_get_machine (kube E) \<lparr>nn_namespace = ns, nn_name = or_name ref\<rparr>);
             (case r of
                Inl err \<Rightarrow> ret []
              | Inr mach \<Rightarrow>
                  (if mach_infra_kind mach = KindXOMachine
                   then ret [\<lparr>nn_namespace = om_namespace (mach_meta mach), nn_name = mach_infra_name mach\<rparr>]
                   else ownersToXOMachine E ns refs)) }
      else ownersToXOMachine E ns refs)"

definition secretToXOMachine :: "'s env \<Rightarrow> secret \<Rightarrow> ('o, 's, nn list) prog" where
  "secretToXOMachine E sec = ownersToXOMachine E (sec_namespace sec) (sec_owners sec)"

section \<open>Effects and frames\<close>

lemma note_failure_emits [effects]:
  "(\<And>m r. P (EvStatusUpdateXOMachine m r)) \<Longrightarrow> emits P (note_failure E reason err)"
  unfolding note_failure_def by (intro effects)

lemma add_finalizer_emits [effects]: "emits P (add_finalizer E)"
  unfolding add_finalizer_def Let_def by (intro effects)

lemma ensureFinalizer_emits [effects]:
  "(\<And>m r. P (EvUpdateXOMachine m r)) \<Longrightarrow> emits P (ensureFinalizer E)"
  unfolding ensureFinalizer_def by (intro effects)

lemma removeFinalizer_emits [effects]:
  "(\<And>m r. P (EvUpdateXOMachine m r)) \<Longrightarrow> emits P (removeFinalizer E)"
  unfolding removeFinalizer_def by (intro effects)

lemma ownerClusterIdentity_emits [effects]: "emits P (ownerClusterIdentity E m)"
  unfolding ownerClusterIdentity_def by (intro effects)

lemma ownerClusterIdentity_keeps [frames]: "keeps obj (ownerClusterIdentity E m)"
  unfolding ownerClusterIdentity_def by (intro frames)

lemma resolveMachineCredentials_emits [effects]: "emits P (resolveMachineCredentials E)"
  unfolding resolveMachineCredentials_def by (intro effects)

lemma resolveMachineCredentials_keeps [frames]: "keeps obj (resolveMachineCredentials E)"
  unfolding resolveMachineCredentials_def by (intro frames)

lemma newXOClient_emits [effects]: "emits P (newXOClient E creds)"
  unfolding newXOClient_def by (intro effects)

lemma newXOClient_keeps [frames]: "keeps obj (newXOClient E creds)"
  unfolding newXOClient_def by (intro frames)

lemma computeVMName_emits [effects]: "emits P (computeVMName E machine)"
  unfolding computeVMName_def Let_def by (intro effects)

lemma computeVMName_keeps [frames]: "keeps obj (computeVMName E machine)"
  unfolding computeVMName_def Let_def by (intro frames)

lemma resolveVMName_emits [effects]:
  "(\<And>m r. P (EvStatusUpdateXOMachine m r)) \<Longrightarrow> emits P (resolveVMName E machine)"
  unfolding resolveVMName_def by (intro effects)

lemma duplicateNameWarning_emits [effects]:
  "(\<And>a b. P (EvWarning a b)) \<Longrightarrow> emits P (duplicateNameWarning E n k)"
  unfolding duplicateNameWarning_def warn_def by (intro effects)

lemma bring_up_provisioning: "bring_up e \<Longrightarrow> provisioning e"
  by (cases e) simp_all

lemma StartVM_provisioning [effects]: "emits provisioning (StartVM E c v)"
  by (intro effects) simp_all

lemma SetVMTags_provisioning [effects]: "emits provisioning (SetVMTags E m i c p)"
  by (intro effects) simp_all

lemma ManageVIFs_provisioning [effects]: "emits provisioning (ManageVIFs E c v)"
  by (intro effects) simp_all

lemma WaitForVMReady_provisioning [effects]: "emits provisioning (WaitForVMReady E c v)"
  by (intro effects) (rule bring_up_provisioning)

lemma refreshVM_emits [effects]:
  "(\<And>m r. P (EvStatusUpdateXOMachine m r)) \<Longrightarrow> (\<And>i t r. P (EvAddTag i t r)) \<Longrightarrow>
   (\<And>i r. P (EvGetVM i r)) \<Longrightarrow> (\<And>i. P (EvV1GetVM i)) \<Longrightarrow> emits P (refreshVM E c m p)"
  unfolding refreshVM_def recordAddress_def Let_def by (intro effects)

lemma refreshReadyMachine_emits [effects]:
  "(\<And>m r. P (EvStatusUpdateXOMachine m r)) \<Longrightarrow> (\<And>i t r. P (EvAddTag i t r)) \<Longrightarrow>
   (\<And>i r. P (EvGetVM i r)) \<Longrightarrow> (\<And>i. P (EvV1GetVM i)) \<Longrightarrow> emits P (refreshReadyMachine E)"
  unfolding refreshReadyMachine_def by (intro effects)

lemma readyPath_emits [effects]:
  "(\<And>m r. P (EvStatusUpdateXOMachine m r)) \<Longrightarrow> (\<And>i t r. P (EvAddTag i t r)) \<Longrightarrow>
   (\<And>i r. P (EvGetVM i r)) \<Longrightarrow> (\<And>i. P (EvV1GetVM i)) \<Longrightarrow> emits P (readyPath E)"
  unfolding readyPath_def by (intro effects)

lemma reconcileExistingVM_emits [effects]: "emits provisioning (reconcileExistingVM E c v)"
  unfolding reconcileExistingVM_def by (intro effects) simp_all

lemma tryFastPath_emits [effects]: "emits provisioning (tryFastPath E)"
  unfolding tryFastPath_def by (intro effects) simp_all

lemma finishVM_emits [effects]: "emits provisioning (finishVM E c v)"
  unfolding finishVM_def by (intro effects)

lemma LookupExistingVM_provisioning [effects]: "emits provisioning (LookupExistingVM E c i)"
  by (intro effects) simp_all

lemma ipamNetworkConfig_emits [effects]: "emits provisioning (ipamNetworkConfig E)"
  unfolding ipamNetworkConfig_def by (intro effects) simp_all

lemma Build_provisioning [effects]: "emits provisioning (Build E c mach d b)"
  by (intro effects) simp

lemma note_failure_provisioning [effects]: "emits provisioning (note_failure E reason err)"
  by (intro effects) simp

section \<open>At most one creation per run\<close>

lemma createVM_makes: "makes (\<lambda>e. True) 1 (createVM E machine c p t cc nc)"
  unfolding createVM_def
proof (rule makes_bind_0)
  show "emits provisioning (resolveVMName E machine)" by (intro effects) simp
  have "makes (\<lambda>e. True) 1 (CreateVM E c p t cc nc n prov (Some (duplicateNameWarning E)))" for n prov
    unfolding makes_def
  proof
    fix w
    have "wp (CreateVM E c p t cc nc n prov (Some (duplicateNameWarning E)))
     (\<lambda>r w'. \<exists>es. log w' = log w @ es \<and> log_ok (creates_as (obj w) t n) 1 es) w"
      by (rule CreateVM_makes) (auto intro!: effects)
    then show "\<exists>es. log (snd (run_state (CreateVM E c p t cc nc n prov (Some (duplicateNameWarning E))) w)) =
        log w @ es \<and> log_ok (\<lambda>e. True) 1 es"
      by (auto simp: wp_def log_ok_def split: prod.splits)
  qed
  note create = this
  show "makes (\<lambda>e. True) 1 (case r of Inl err \<Rightarrow> ret (Inl err)
      | Inr vmName \<Rightarrow> do { m \<leftarrow> get_obj;
          CreateVM E c p t cc nc vmName (ms_bootstrap_provider (xm_spec m)) (Some (duplicateNameWarning E)) })" for r
    by (rule makes_cases(2), rule makes_emits, intro effects, rule makes_bind_0, intro effects, rule create)
qed

lemma obtainVM_makes: "makes (\<lambda>e. True) 1 (obtainVM E machine c p t cc nc)"
proof -
  have known: "emits provisioning (case r of Inl err \<Rightarrow> do { note_failure E ''InvalidProviderID'' err; ret (Inl err) }
      | Inr vmID \<Rightarrow> LookupExistingVM E c vmID)" for r
    by (intro effects)
  show ?thesis
    unfolding obtainVM_def
    by (rule makes_bind_0, intro effects, rule makes_cases(1), rule makes_emits[OF known], rule createVM_makes)
qed

lemma placeVM_makes: "makes (\<lambda>e. True) 1 (placeVM E machine c cc nc)"
proof -
  have finish: "emits provisioning (case r of Inl err \<Rightarrow> ret (Inl err) | Inr v \<Rightarrow> finishVM E c v)" for r
    by (intro effects)
  have failed: "makes (\<lambda>e. True) 1 (do { note_failure E reason err; ret (Inl err) })" for reason err
    by (rule makes_emits, intro effects)
  show ?thesis
    unfolding placeVM_def
    by (rule makes_bind_0, intro effects, rule makes_bind_0, intro effects, rule makes_cases(2), rule failed,
        rule makes_bind_0, intro effects, rule makes_cases(2), rule failed,
        rule makes_bind_1[OF obtainVM_makes finish])
qed

lemma makes_option_pair:
  "(\<And>d x. makes C k (f d x)) \<Longrightarrow> (\<And>d. makes C k (g d)) \<Longrightarrow>
   makes C k (case y of (d, None) \<Rightarrow> g d | (d, Some x) \<Rightarrow> f d x)"
  by (auto split: prod.split option.split)

lemma provision_makes: "makes (\<lambda>e. True) 1 (provision E bs c)"
proof -
  have failed: "makes (\<lambda>e. True) 1 (do { note_failure E reason err; ret (Inl err) })" for reason err
    by (rule makes_emits, intro effects)
  have stop: "makes (\<lambda>e. True) 1 (ret x)" for x
    by (rule makes_emits, intro effects)
  show ?thesis
    unfolding provision_def
    by (rule makes_bind_0, intro effects, rule makes_bind_0, intro effects, rule makes_cases(2), rule failed,
        rule makes_bind_0, intro effects, rule makes_cases(1), rule makes_bind_0, intro effects,
        rule makes_cases(2), rule stop, rule makes_option_pair, rule stop, rule placeVM_makes, rule placeVM_makes)
qed

lemma fullReconcile_makes: "makes (\<lambda>e. True) 1 (fullReconcile E)"
proof -
  have failed: "makes (\<lambda>e. True) 1 (do { note_failure E reason err; ret (Inl err) })" for reason err
    by (rule makes_emits, intro effects)
  have stop: "makes (\<lambda>e. True) 1 (ret x)" for x
    by (rule makes_emits, intro effects)
  show ?thesis
    unfolding fullReconcile_def
    by (rule makes_bind_0, intro effects, rule makes_cases(2), rule stop, rule makes_cases(1), rule stop,
        rule makes_bind_0, intro effects, rule makes_cases(2), rule failed,
        rule makes_bind_0, intro effects, rule makes_cases(2), rule failed,
        rule makes_cases(3), rule stop, rule provision_makes)
qed

lemma reconcileNormal_makes: "makes (\<lambda>e. True) 1 (reconcileNormal E)"
proof -
  have stop: "makes (\<lambda>e. True) 1 (ret x)" for x
    by (rule makes_emits, intro effects)
  have first: "emits provisioning (ensureFinalizer E)" by (intro effects) simp
  show ?thesis
    unfolding reconcileNormal_def
    by (rule makes_bind_0[OF first], rule makes_cases(3), rule makes_bind_0, intro effects,
        rule makes_cases(3), rule fullReconcile_makes, rule stop, rule stop)
qed

text \<open>
  C6: a run of \<open>reconcileNormal\<close>, whatever the two services answer, asks for at most one VM and
  never stops or deletes a VM or detaches a disk.
\<close>

theorem reconcileNormal_once:
  "\<exists>es. log (snd (run_state (reconcileNormal E) w)) = log w @ es \<and>
     (\<forall>e \<in> set es. (provisioning e \<or> is_create e) \<and> \<not> destructive e) \<and> length (filter is_create es) \<le> 1"
proof -
  obtain es where es: "log (snd (run_state (reconcileNormal E) w)) = log w @ es" "log_ok (\<lambda>e. True) 1 es"
    using reconcileNormal_makes unfolding makes_def by blast
  have "is_create e \<Longrightarrow> \<not> destructive e" for e by (cases e) simp_all
  with es show ?thesis
    by (intro exI[of _ es]) (auto simp: log_ok_def dest: provisioning_harmless)
qed

theorem reconcileNormal_once_witness:
  "\<exists>es. log (snd (run_state (reconcileNormal ref_env) (start_state ref_machine ()))) =
        log (start_state ref_machine ()) @ es \<and>
     (\<forall>e \<in> set es. (provisioning e \<or> is_create e) \<and> \<not> destructive e) \<and> length (filter is_create es) \<le> 1"
  by (rule reconcileNormal_once)

section \<open>A known VM is never created again\<close>

text \<open>
  The API server keeps a recorded provider ID: what it answers to a read or a write of the
  machine carries one.
\<close>

definition provider_kept :: "'s env \<Rightarrow> bool" where
  "provider_kept E \<longleftrightarrow>
     (\<forall>m s m' s'. k_update_xomachine (kube E) m s = (Inr m', s') \<longrightarrow> provider_id m \<noteq> [] \<longrightarrow> provider_id m' \<noteq> []) \<and>
     (\<forall>m s m' s'. k_status_update_xomachine (kube E) m s = (Inr m', s') \<longrightarrow> provider_id m \<noteq> [] \<longrightarrow>
        provider_id m' \<noteq> []) \<and>
     (\<forall>n s m' s'. k_get_xomachine (kube E) n s = (Inr m', s') \<longrightarrow> provider_id m' \<noteq> [])"

abbreviation known :: "xomachine \<Rightarrow> bool" where
  "known m \<equiv> provider_id m \<noteq> []"

lemma provider_id_frames [simp]:
  "provider_id (SetCondition now t st reason msg m) = provider_id m"
  "provider_id (mark_ready ip m) = provider_id m"
  "provider_id (set_finalizers fs m) = provider_id m"
  "provider_id (set_addresses as m) = provider_id m"
  "provider_id (set_vm_name n m) = provider_id m"
  by (simp_all add: provider_id_def mark_ready_def set_finalizers_def set_addresses_def set_vm_name_def)

lemma provider_id_SetNodeAddress: "SetNodeAddress addr m = (ch, m') \<Longrightarrow> provider_id m' = provider_id m"
  by (auto simp: SetNodeAddress_def split: if_splits prod.splits)

named_theorems knows "programs that keep a known provider ID and only provision"

lemma status_update_knows [knows]: "provider_kept E \<Longrightarrow> guards known provisioning (status_update E)"
  unfolding steps_in_def guarded_def grows_def
proof (intro allI impI)
  fix w :: "(xomachine, 'a) st"
  assume K: "provider_kept E" and J: "known (obj w)"
  obtain r s where rs: "k_status_update_xomachine (kube E) (obj w) (ext w) = (r, s)" by fastforce
  have "known m'" if "r = Inr m'" for m'
    using K J rs that unfolding provider_kept_def by blast
  with rs J show "known (obj (snd (run_state (status_update E) w))) \<and>
      (\<exists>es. log (snd (run_state (status_update E) w)) = log w @ es \<and> list_all provisioning es)"
    by (cases r) (auto simp: status_update_def)
qed

lemma update_machine_knows [knows]: "provider_kept E \<Longrightarrow> guards known provisioning (update_machine E)"
  unfolding steps_in_def guarded_def grows_def
proof (intro allI impI)
  fix w :: "(xomachine, 'a) st"
  assume K: "provider_kept E" and J: "known (obj w)"
  obtain r s where rs: "k_update_xomachine (kube E) (obj w) (ext w) = (r, s)" by fastforce
  have "known m'" if "r = Inr m'" for m'
    using K J rs that unfolding provider_kept_def by blast
  with rs J show "known (obj (snd (run_state (update_machine E) w))) \<and>
      (\<exists>es. log (snd (run_state (update_machine E) w)) = log w @ es \<and> list_all provisioning es)"
    by (cases r) (auto simp: update_machine_def)
qed

lemma refetch_machine_knows [knows]: "provider_kept E \<Longrightarrow> guards known provisioning (refetch_machine E)"
  unfolding steps_in_def guarded_def grows_def
proof (intro allI impI)
  fix w :: "(xomachine, 'a) st"
  assume K: "provider_kept E" and J: "known (obj w)"
  obtain r s where rs: "k_get_xomachine (kube E)
     \<lparr>nn_namespace = om_namespace (xm_meta (obj w)), nn_name = om_name (xm_meta (obj w))\<rparr> (ext w) = (r, s)"
    by fastforce
  have "known m'" if "r = Inr m'" for m'
    using K rs that unfolding provider_kept_def by blast
  with rs J show "known (obj (snd (run_state (refetch_machine E) w))) \<and>
      (\<exists>es. log (snd (run_state (refetch_machine E) w)) = log w @ es \<and> list_all provisioning es)"
    by (cases r) (auto simp: refetch_machine_def)
qed

lemma modify_knows [knows]: "(\<And>x. provider_id (h x) = provider_id x) \<Longrightarrow> guards known P (modify_obj h)"
  by (rule guards_modify_obj) simp

lemma query_knows [knows]: "guards known P (query op)"
  by (intro guards_keeps frames effects)

lemma UpdateCondition_knows [knows]:
  "provider_kept E \<Longrightarrow> guards known provisioning (UpdateCondition E st reason msg)"
  unfolding UpdateCondition_def by (intro grd.steps_bind knows) simp_all

lemma WithConditionUpdate_knows [knows]:
  "provider_kept E \<Longrightarrow> guards known provisioning (WithConditionUpdate E e st reason)"
  unfolding WithConditionUpdate_def by (intro grd.steps_struct knows)

lemma note_failure_knows [knows]:
  "provider_kept E \<Longrightarrow> guards known provisioning (note_failure E reason err)"
  unfolding note_failure_def by (intro grd.steps_struct knows)

lemma act_knows [knows]: "(\<And>r. P (ev r)) \<Longrightarrow> guards known P (act ev op)"
  by (intro guards_keeps frames effects)

lemma quiet_knows [knows]:
  "guards known P (resolveMachineCredentials E)" "guards known P (newXOClient E creds)"
  "guards known P (ResolveTemplateID E c a b)" "guards known P (ResolvePoolID E c a b)"
  "guards known P (ResolveBootstrapData E)" "guards known P (BuildCloudInitWithSSHKeys E c d inject)"
  "guards known P (resolveInjectSSHKeys E mach)" "guards known P (GetXOCluster E ns n)"
  "guards known provisioning (get_vm E c i)" "guards known provisioning (task_wait E c p)"
  "guards known provisioning (ResolveVMIP E c v)" "guards known provisioning (ResolveVMIPNow E c v)"
  "guards known provisioning (ManageVIFs E c v)" "guards known provisioning (SetVMTags E m i cl p)"
  "guards known provisioning (ClaimedAddress E m)"
  unfolding get_vm_def task_wait_def
  by (intro guards_keeps frames effects; simp)+

lemma add_finalizer_knows [knows]: "guards known P (add_finalizer E)"
  unfolding add_finalizer_def Let_def
  by (rule guards_get_obj) (intro grd.steps_struct guards_set_obj; simp)

lemma ensureFinalizer_knows [knows]:
  "provider_kept E \<Longrightarrow> guards known provisioning (ensureFinalizer E)"
  unfolding ensureFinalizer_def by (intro grd.steps_struct knows)

lemma StartVM_knows [knows]: "provider_kept E \<Longrightarrow> guards known provisioning (StartVM E c v)"
  unfolding StartVM_def Let_def by (intro grd.steps_struct knows) simp_all

lemma get_obj_knows [knows]: "guards known P get_obj"
  by (intro guards_keeps frames effects)

lemma WaitForVMReady_knows [knows]: "provider_kept E \<Longrightarrow> guards known provisioning (WaitForVMReady E c v)"
  unfolding WaitForVMReady_def by (intro grd.steps_struct knows) simp_all

lemma reconcileExistingVM_knows [knows]:
  "provider_kept E \<Longrightarrow> guards known provisioning (reconcileExistingVM E c v)"
  unfolding reconcileExistingVM_def by (intro grd.steps_struct knows) simp_all

lemma recordAddress_knows:
  assumes "provider_kept E" and "known m"
  shows "guards known provisioning (recordAddress E c m v)"
  unfolding recordAddress_def
proof (intro grd.steps_bind knows)
  fix addr
  obtain ch m' where e: "SetNodeAddress addr m = (ch, m')" by fastforce
  have "guards known provisioning (do { set_obj m';
            (if \<not> ch then ret None else do { _ \<leftarrow> status_update E; ret None }) })"
    using assms provider_id_SetNodeAddress[OF e]
    by (intro grd.steps_struct knows guards_set_obj) simp_all
  then show "guards known provisioning (let (changed, m') = SetNodeAddress addr m in
            do { set_obj m';
            (if \<not> changed then ret None else do { _ \<leftarrow> status_update E; ret None }) })"
    by (simp add: e)
qed

lemma refreshVM_knows:
  assumes "provider_kept E" and "known m" shows "guards known provisioning (refreshVM E c m p)"
  unfolding refreshVM_def by (intro grd.steps_struct knows recordAddress_knows[OF assms])

lemma refreshReadyMachine_knows [knows]:
  assumes "provider_kept E" shows "guards known provisioning (refreshReadyMachine E)"
  unfolding refreshReadyMachine_def
  by ((rule guards_get_obj refreshVM_knows[OF assms] grd.steps_struct knows | assumption)+)

lemma readyPath_knows [knows]: "provider_kept E \<Longrightarrow> guards known provisioning (readyPath E)"
  unfolding readyPath_def by (intro grd.steps_struct knows)

lemma tryFastPath_knows [knows]: "provider_kept E \<Longrightarrow> guards known provisioning (tryFastPath E)"
  unfolding tryFastPath_def by (intro grd.steps_struct knows)

lemma InjectKubeVIP_knows [knows]: "provider_kept E \<Longrightarrow> guards known provisioning (InjectKubeVIP E mach xc cc)"
  unfolding InjectKubeVIP_def by (intro grd.steps_struct knows)

lemma injectKubeVIPIfNeeded_knows [knows]:
  "provider_kept E \<Longrightarrow> guards known provisioning (injectKubeVIPIfNeeded E cc mach)"
  unfolding injectKubeVIPIfNeeded_def by (intro grd.steps_struct knows)

lemma Build_knows [knows]: "provider_kept E \<Longrightarrow> guards known provisioning (Build E c mach d b)"
  unfolding Build_def by (intro grd.steps_struct knows)

lemma ipamNetworkConfig_knows [knows]: "provider_kept E \<Longrightarrow> guards known provisioning (ipamNetworkConfig E)"
  unfolding ipamNetworkConfig_def by (intro grd.steps_struct knows)

lemma LookupExistingVM_knows [knows]: "provider_kept E \<Longrightarrow> guards known provisioning (LookupExistingVM E c i)"
  unfolding LookupExistingVM_def by (intro grd.steps_struct knows)

lemma obtainVM_knows [knows]: "provider_kept E \<Longrightarrow> guards known provisioning (obtainVM E mach c p t cc nc)"
  unfolding obtainVM_def by (rule guards_get_obj) (simp, intro grd.steps_struct knows)

lemma finishVM_knows [knows]: "provider_kept E \<Longrightarrow> guards known provisioning (finishVM E c v)"
  unfolding finishVM_def by (intro grd.steps_struct knows)

lemma placeVM_knows [knows]: "provider_kept E \<Longrightarrow> guards known provisioning (placeVM E mach c cc nc)"
  unfolding placeVM_def by (intro grd.steps_struct knows)

lemma provision_knows [knows]: "provider_kept E \<Longrightarrow> guards known provisioning (provision E bs c)"
  unfolding provision_def by (intro grd.steps_struct knows)

lemma fullReconcile_knows [knows]: "provider_kept E \<Longrightarrow> guards known provisioning (fullReconcile E)"
  unfolding fullReconcile_def by (intro grd.steps_struct knows)

lemma reconcileNormal_knows: "provider_kept E \<Longrightarrow> guards known provisioning (reconcileNormal E)"
  unfolding reconcileNormal_def by (intro grd.steps_struct knows)

text \<open>
  Once the machine's provider ID is recorded, no reconcile ever asks for another VM: every run
  of \<open>reconcileNormal\<close> keeps the provider ID and none of its calls is a creation.
\<close>

theorem reconcileNormal_known_never_creates:
  assumes "provider_kept E" and "provider_id (obj w) \<noteq> []"
  shows "provider_id (obj (snd (run_state (reconcileNormal E) w))) \<noteq> [] \<and>
    (\<exists>es. log (snd (run_state (reconcileNormal E) w)) = log w @ es \<and> (\<forall>e \<in> set es. \<not> is_create e))"
proof -
  have "known (obj (snd (run_state (reconcileNormal E) w))) \<and>
    (\<exists>es. log (snd (run_state (reconcileNormal E) w)) = log w @ es \<and> (\<forall>e \<in> set es. provisioning e))"
    using guards_log[OF reconcileNormal_knows[OF assms(1)] assms(2) prod.collapse[symmetric]] .
  then show ?thesis by (auto dest: provisioning_harmless)
qed

definition known_machine :: xomachine where
  "known_machine = set_status_provider_id ''xenorchestra://1/7'' ref_machine"

definition known_env :: "'s env" where
  "known_env = ref_env\<lparr>kube := ref_kube\<lparr>k_get_xomachine := \<lambda>n s. (Inr known_machine, s)\<rparr>\<rparr>"

theorem reconcileNormal_known_never_creates_witness:
  "provider_id (obj (snd (run_state (reconcileNormal known_env) (start_state known_machine ())))) \<noteq> [] \<and>
    (\<exists>es. log (snd (run_state (reconcileNormal known_env) (start_state known_machine ()))) =
        log (start_state known_machine ()) @ es \<and> (\<forall>e \<in> set es. \<not> is_create e))"
  by (rule reconcileNormal_known_never_creates)
     (simp_all add: provider_kept_def known_env_def known_machine_def ref_env_def ref_kube_def
        start_state_def provider_id_def set_status_provider_id_def)

end
