(* ===== verification/Machine_Delete.thy ===== *)
theory Machine_Delete
  imports Machine_Reconcile
begin

text \<open>
  The safety of \<open>reconcileDelete\<close>: the order of the calls around the deletion of a VM, and when
  the finalizer, which keeps the machine's record alive, may go. Both are read off the log of one
  run, for every behaviour of the two services.
\<close>

section \<open>deleteVM\<close>

text \<open>Neither the deletion of a VM nor a write of the machine.\<close>

definition before_delete :: "event \<Rightarrow> bool" where
  "before_delete e \<longleftrightarrow> delete_vm_of e = None \<and> \<not> is_machine_write e"

text \<open>An answer to the deletion after which the code takes the VM for gone.\<close>

definition vm_gone :: "error option \<Rightarrow> bool" where
  "vm_gone r \<longleftrightarrow>
     (\<forall>err. r = Some err \<longrightarrow> IsNotFoundError err \<or> contains_str (error_text err) ''unmarshal'')"

text \<open>Either nothing was deleted, or the VM, last, after its volumes were detached.\<close>

definition deleted_last :: "'s env \<Rightarrow> uuid \<Rightarrow> event list \<Rightarrow> bool" where
  "deleted_last E i es \<longleftrightarrow>
     (\<forall>e \<in> set es. before_delete e) \<or>
     (\<exists>pre r. es = pre @ [EvDeleteVM i r] \<and> detached E i pre \<and> (\<forall>e \<in> set pre. before_delete e))"

lemma detach_wp:
  "wp (DetachPersistentVolumes E c i)
     (\<lambda>r w'. \<exists>es. log w' = log w @ es \<and> (\<forall>e \<in> set es. before_delete e) \<and> (r = None \<longrightarrow> detached E i es)) w"
proof -
  have "emits before_delete (DetachPersistentVolumes E c i)"
    by (intro effects) (simp_all add: before_delete_def)
  from emits_wp[OF this] DetachPersistentVolumes_log
  have "wp (DetachPersistentVolumes E c i)
     (\<lambda>r w'. (\<exists>es. log w' = log w @ es \<and> (\<forall>e \<in> set es. before_delete e)) \<and>
             (r = None \<longrightarrow> (\<exists>es. log w' = log w @ es \<and> detached E i es))) w"
    unfolding wp_conj by blast
  then show ?thesis by (rule wp_mono) auto
qed

text \<open>The end of \<open>deleteVM\<close>, once the volumes are detached: shut down, delete.\<close>

definition shut_and_delete :: "'s env \<Rightarrow> xo_client \<Rightarrow> uuid \<Rightarrow> (xomachine, 's, error option) prog" where
  "shut_and_delete E c i =
     do { _ \<leftarrow> HardShutdownVM E c i;
          r \<leftarrow> act (\<lambda>r. EvDeleteVM i (failure_of r)) (x_vm_delete (xo E) c i);
          (case r of Inr u \<Rightarrow> ret None
           | Inl delErr \<Rightarrow> (if IsNotFoundError delErr then ret None
                           else if contains_str (error_text delErr) ''unmarshal'' then ret None
                           else ret (Some delErr))) }"

text \<open>What \<open>deleteVM\<close> has done since the log was \<open>l\<close>.\<close>

definition deletes_after :: "event list \<Rightarrow> 's env \<Rightarrow> uuid \<Rightarrow> error option \<Rightarrow> (xomachine, 's) st \<Rightarrow> bool" where
  "deletes_after l E i r w \<longleftrightarrow>
     (\<exists>es. log w = l @ es \<and> deleted_last E i es \<and>
        (r = None \<longrightarrow> (\<exists>pre a. es = pre @ [EvDeleteVM i a] \<and> vm_gone a)))"

lemma deletes_after_nothing:
  "log w = l @ es \<Longrightarrow> \<forall>e \<in> set es. before_delete e \<Longrightarrow> deletes_after l E i (Some err) w"
  by (auto simp: deletes_after_def deleted_last_def)

lemma deletes_after_delete:
  assumes "log w = l @ es @ [EvDeleteVM i a]" and "\<forall>e \<in> set es. before_delete e" and "detached E i es"
    and "r = None \<longrightarrow> vm_gone a"
  shows "deletes_after l E i r w"
  using assms unfolding deletes_after_def deleted_last_def by blast

lemma shut_and_delete_log:
  assumes "log w = l @ es" and "\<forall>e \<in> set es. before_delete e" and "detached E i es"
  shows "wp (shut_and_delete E c i) (deletes_after l E i) w"
  unfolding shut_and_delete_def wp_simps(2)
proof (rule wp_emits)
  show "emits before_delete (HardShutdownVM E c i)"
    by (intro effects; simp add: before_delete_def)
  fix k :: "error option" and es' and v :: "(xomachine, 'a) st"
  assume v: "log v = log w @ es'" "\<forall>e \<in> set es'. before_delete e"
  have "detached E i (es @ es')" by (rule detached_mono[OF assms(3)]) auto
  with assms v have "deletes_after l E i r (v\<lparr>ext := t, log := log v @ [EvDeleteVM i a]\<rparr>)"
    if "r = None \<longrightarrow> vm_gone a" for r a t
    by (intro deletes_after_delete[of _ _ "es @ es'"]) (use that in auto)
  then show "wp (act (\<lambda>r. EvDeleteVM i (failure_of r)) (x_vm_delete (xo E) c i))
     (\<lambda>r. wp (case r of Inr u \<Rightarrow> ret None
                  | Inl delErr \<Rightarrow> (if IsNotFoundError delErr then ret None
                                  else if contains_str (error_text delErr) ''unmarshal'' then ret None
                                  else ret (Some delErr))) (deletes_after l E i)) v"
    by (auto simp: vm_gone_def split: sum.split)
qed

lemma deleteVM_log: "wp (deleteVM E c i) (deletes_after (log w) E i) w"
  unfolding deleteVM_def shut_and_delete_def[symmetric] wp_simps(2)
proof (rule wp_emits)
  show "emits before_delete (StopVMIfNotDetachable E c i)"
    by (intro effects; simp add: before_delete_def)
  fix s es1 and v1 :: "(xomachine, 'a) st"
  assume 1: "log v1 = log w @ es1" "\<forall>e \<in> set es1. before_delete e"
  show "wp (case s of Some err \<Rightarrow> ret (Some err)
     | None \<Rightarrow> do { d \<leftarrow> DetachPersistentVolumes E c i;
                  (case d of Some err \<Rightarrow> ret (Some err) | None \<Rightarrow> shut_and_delete E c i) })
     (deletes_after (log w) E i) v1"
  proof (cases s)
    case (Some err)
    with 1 show ?thesis by (simp add: deletes_after_nothing)
  next
    case None
    show ?thesis
      unfolding None option.case wp_simps(2)
    proof (rule wp_mono[OF detach_wp])
      fix d :: "error option" and v2 :: "(xomachine, 'a) st"
      assume "\<exists>es. log v2 = log v1 @ es \<and> (\<forall>e \<in> set es. before_delete e) \<and> (d = None \<longrightarrow> detached E i es)"
      then obtain es2 where 2: "log v2 = log w @ es1 @ es2" "\<forall>e \<in> set (es1 @ es2). before_delete e"
        "d = None \<longrightarrow> detached E i es2"
        using 1 by auto
      have "detached E i (es1 @ es2)" if "d = None" by (rule detached_mono[of E i es2]) (use 2(3) that in auto)
      with 2 show "wp (case d of Some err \<Rightarrow> ret (Some err) | None \<Rightarrow> shut_and_delete E c i)
         (deletes_after (log w) E i) v2"
        by (cases d) (simp_all only: option.case shut_and_delete_log wp_simps(1) deletes_after_nothing)
    qed
  qed
qed

section \<open>reconcileDelete\<close>

lemma removed_then_done_wp:
  "wp (removed_then_done E)
     (\<lambda>r w'. \<exists>es. log w' = log w @ es \<and> (\<forall>e \<in> set es. is_machine_write e \<and> delete_vm_of e = None)) w"
  by (rule emits_wp, unfold removed_then_done_def, intro effects) simp_all

text \<open>What a run of \<open>reconcileDelete\<close> on a machine \<open>m\<close> with a client can leave in the log.\<close>

definition delete_log :: "'s env \<Rightarrow> uuid \<Rightarrow> event list \<Rightarrow> bool" where
  "delete_log E i es \<longleftrightarrow>
     (\<exists>as bs. es = as @ bs \<and> deleted_last E i as \<and>
        (\<forall>e \<in> set bs. is_machine_write e \<and> delete_vm_of e = None) \<and>
        (bs \<noteq> [] \<longrightarrow> (\<exists>pre a. as = pre @ [EvDeleteVM i a] \<and> vm_gone a)))"

text \<open>The cases in which the record goes without a word to Xen Orchestra.\<close>

definition nothing_to_delete :: "'s env \<Rightarrow> (xomachine, 's) st \<Rightarrow> bool" where
  "nothing_to_delete E w \<longleftrightarrow>
     provider_id (obj w) = [] \<or> (\<exists>err. l_get_vm_id (libs E) (provider_id (obj w)) = Inl err) \<or>
     fst (run_state (resolveMachineCredentials E) w) = Inr None"

lemma newXOClient_None_iff:
  "wp (newXOClient E creds) (\<lambda>r w'. r = Inr None \<longrightarrow> creds = None) w"
  by (auto simp: newXOClient_def NewXOClientFromConfig_def split: option.split sum.split)

text \<open>What a run of \<open>reconcileDelete\<close> has done since the state \<open>w\<close> it began in.\<close>

definition deletes_from :: "'s env \<Rightarrow> (xomachine, 's) st \<Rightarrow> (xomachine, 's) st \<Rightarrow> bool" where
  "deletes_from E w w' \<longleftrightarrow>
     (\<exists>es. log w' = log w @ es \<and>
        (es = [] \<or>
         nothing_to_delete E w \<and> (\<forall>e \<in> set es. is_machine_write e \<and> delete_vm_of e = None) \<or>
         (\<exists>i. l_get_vm_id (libs E) (provider_id (obj w)) = Inr i \<and> delete_log E i es)))"

lemma direct_release:
  assumes "nothing_to_delete E w" and "log v = log w"
  shows "wp (removed_then_done E) (\<lambda>r. deletes_from E w) v"
  by (rule wp_mono[OF removed_then_done_wp]) (use assms in \<open>auto simp: deletes_from_def\<close>)

lemma delete_then_release:
  fixes E :: "'s env" and w :: "(xomachine, 's) st"
  assumes i: "l_get_vm_id (libs E) (provider_id (obj w)) = Inr i" and v: "log v = log w"
  shows "wp (do { r \<leftarrow> deleteVM E c i;
                  (case r of Some err \<Rightarrow> ret (Inl err) | None \<Rightarrow> removed_then_done E) }) (\<lambda>r. deletes_from E w) v"
  unfolding wp_simps(2)
proof (rule wp_mono[OF deleteVM_log])
  fix r :: "error option" and u :: "(xomachine, 's) st"
  assume "deletes_after (log v) E i r u"
  then obtain as where as: "log u = log w @ as" "deleted_last E i as"
    "r = None \<longrightarrow> (\<exists>pre a. as = pre @ [EvDeleteVM i a] \<and> vm_gone a)" using v by (auto simp: deletes_after_def)
  show "wp (case r of Some err \<Rightarrow> ret (Inl err) | None \<Rightarrow> removed_then_done E) (\<lambda>r. deletes_from E w) u"
  proof (cases r)
    case (Some err)
    have "delete_log E i as" unfolding delete_log_def using as(2) by (intro exI[of _ as] exI[of _ "[]"]) simp
    with Some as(1) i show ?thesis by (auto simp: deletes_from_def)
  next
    case None
    have "delete_log E i (as @ bs)" if "\<forall>e \<in> set bs. is_machine_write e \<and> delete_vm_of e = None" for bs
      unfolding delete_log_def using as None that by blast
    then show ?thesis
      unfolding None option.case
      by (intro wp_mono[OF removed_then_done_wp]) (use as(1) i in \<open>auto simp: deletes_from_def\<close>)
  qed
qed

lemma delete_with_client:
  fixes E :: "'s env" and w :: "(xomachine, 's) st"
  assumes i: "l_get_vm_id (libs E) (provider_id (obj w)) = Inr i" and v: "log v = log w"
    and creds: "fst (run_state (resolveMachineCredentials E) w) = Inr xoCreds"
  shows "wp (newXOClient E xoCreds) (\<lambda>cl. wp (case cl of
             Inl err \<Rightarrow> ret (Inl err)
           | Inr None \<Rightarrow> removed_then_done E
           | Inr (Some c) \<Rightarrow> do { r \<leftarrow> deleteVM E c i;
                (case r of Some err \<Rightarrow> ret (Inl err) | None \<Rightarrow> removed_then_done E) }) (\<lambda>r. deletes_from E w)) v"
proof -
  have "wp (newXOClient E xoCreds) (\<lambda>r u. log u = log w \<and> (r = Inr None \<longrightarrow> xoCreds = None)) v"
    unfolding wp_conj
    by (rule conjI, rule wp_mono[OF emits_wp[OF newXOClient_emits[where P = "\<lambda>_. False"]]])
       (auto simp: v newXOClient_None_iff)
  then show ?thesis
  proof (rule wp_mono)
    fix cl :: "error + xo_client option" and u :: "(xomachine, 's) st"
    assume u: "log u = log w \<and> (cl = Inr None \<longrightarrow> xoCreds = None)"
    then have "cl = Inr None \<Longrightarrow> nothing_to_delete E w" using creds by (simp add: nothing_to_delete_def)
    with u direct_release[of E w u] delete_then_release[OF i, of u]
    show "wp (case cl of
             Inl err \<Rightarrow> ret (Inl err)
           | Inr None \<Rightarrow> removed_then_done E
           | Inr (Some c) \<Rightarrow> do { r \<leftarrow> deleteVM E c i;
                (case r of Some err \<Rightarrow> ret (Inl err) | None \<Rightarrow> removed_then_done E) }) (\<lambda>r. deletes_from E w) u"
      by (auto simp: deletes_from_def split: sum.split option.split)
  qed
qed

lemma reconcileDelete_log:
  fixes E :: "'s env" and w :: "(xomachine, 's) st"
  shows "wp (reconcileDelete E) (\<lambda>r. deletes_from E w) w"
proof -
  have creds: "wp (do { creds \<leftarrow> resolveMachineCredentials E;
       (case creds of
          Inl err \<Rightarrow> ret (Inl err)
        | Inr xoCreds \<Rightarrow>
            do { cl \<leftarrow> newXOClient E xoCreds;
                 (case cl of
                    Inl err \<Rightarrow> ret (Inl err)
                  | Inr None \<Rightarrow> removed_then_done E
                  | Inr (Some c) \<Rightarrow> do { r \<leftarrow> deleteVM E c i;
                       (case r of Some err \<Rightarrow> ret (Inl err) | None \<Rightarrow> removed_then_done E) }) }) }) (\<lambda>r. deletes_from E w) w"
    if i: "l_get_vm_id (libs E) (provider_id (obj w)) = Inr i" for i
  proof -
    obtain cr v where run: "run_state (resolveMachineCredentials E) w = (cr, v)" by fastforce
    have v: "log v = log w"
      using emits_log[OF resolveMachineCredentials_emits[where P = "\<lambda>_. False"] run] by auto
    with delete_with_client[OF i v] run show ?thesis
      by (cases cr) (simp_all add: wp_def[of "resolveMachineCredentials E"] deletes_from_def)
  qed
  show ?thesis
    using direct_release[of E w w] creds
    by (auto simp: reconcileDelete_def nothing_to_delete_def deletes_from_def split: sum.split)
qed

lemma deleted_last_split:
  assumes "deleted_last E i as" and "as = pre @ e # post" and "delete_vm_of e \<noteq> None"
  shows "delete_vm_of e = Some i \<and> detached E i pre \<and> post = []"
proof -
  from assms(2,3) have "\<not> (\<forall>e \<in> set as. before_delete e)" by (auto simp: before_delete_def)
  with assms(1) obtain p r where p: "as = p @ [EvDeleteVM i r]" "detached E i p" "\<forall>e \<in> set p. before_delete e"
    unfolding deleted_last_def by blast
  have "post = []"
  proof (rule ccontr)
    assume "post \<noteq> []"
    then obtain q l where "post = q @ [l]" by (metis rev_exhaust)
    with assms(2) p(1) have "e \<in> set p" by auto
    with p(3) assms(3) show False by (simp add: before_delete_def)
  qed
  with assms(2) p show ?thesis by auto
qed

lemma deleted_last_no_write: "deleted_last E i as \<Longrightarrow> e \<in> set as \<Longrightarrow> \<not> is_machine_write e"
  by (auto simp: deleted_last_def before_delete_def)

lemma delete_log_delete:
  assumes "delete_log E i es" and "es = pre @ e # post" and "delete_vm_of e \<noteq> None"
  shows "delete_vm_of e = Some i \<and> detached E i pre"
proof -
  from assms(1) obtain as bs where es: "es = as @ bs" "deleted_last E i as"
    "\<forall>e \<in> set bs. is_machine_write e \<and> delete_vm_of e = None"
    unfolding delete_log_def by blast
  have "e \<notin> set bs" using es(3) assms(3) by auto
  with assms(2) es(1) obtain q where "as = pre @ e # q"
    by (auto simp: append_eq_append_conv2 append_eq_Cons_conv Cons_eq_append_conv)
  with deleted_last_split[OF es(2) _ assms(3)] show ?thesis by blast
qed

lemma delete_log_write:
  assumes "delete_log E i es" and "es = pre @ e # post" and "is_machine_write e"
  shows "\<exists>a. EvDeleteVM i a \<in> set pre \<and> vm_gone a"
proof -
  from assms(1) obtain as bs where es: "es = as @ bs" "deleted_last E i as"
    "bs \<noteq> [] \<longrightarrow> (\<exists>pre a. as = pre @ [EvDeleteVM i a] \<and> vm_gone a)"
    unfolding delete_log_def by blast
  have no: "e \<notin> set as" using deleted_last_no_write[OF es(2)] assms(3) by blast
  with es(1) assms(2) have "e \<in> set bs" by (metis Un_iff in_set_conv_decomp set_append)
  with es(3) obtain p a where a: "as = p @ [EvDeleteVM i a]" "vm_gone a" by (cases bs) auto
  have "set as \<subseteq> set pre"
  proof -
    have "\<exists>us. pre = as @ us"
      using es(1) assms(2) no by (auto simp: append_eq_append_conv2 Cons_eq_append_conv append_eq_Cons_conv)
    then show ?thesis by auto
  qed
  with a show ?thesis by auto
qed

text \<open>A machine whose deletion is due, for the witnesses.\<close>

definition doomed :: "(xomachine, unit) st" where
  "doomed = start_state (set_finalizers [xoMachineFinalizer] known_machine) ()"

definition unit_env :: "unit env" where
  "unit_env = ref_env"

text \<open>
  C4: a VM is deleted only after its persistent volumes were detached: whenever \<open>reconcileDelete\<close>
  asks for the deletion of a VM, it is the one the recorded provider ID names, and the calls made
  before it listed that VM's persistent volumes and block devices and removed every listed device
  that holds one (or were told that there is none).
\<close>

theorem delete_only_after_detach:
  "\<exists>es. log (snd (run_state (reconcileDelete E) w)) = log w @ es \<and>
     (\<forall>pre e post. es = pre @ e # post \<and> delete_vm_of e \<noteq> None \<longrightarrow>
        (\<exists>i. l_get_vm_id (libs E) (provider_id (obj w)) = Inr i \<and> delete_vm_of e = Some i \<and> detached E i pre))"
proof -
  obtain es where es: "log (snd (run_state (reconcileDelete E) w)) = log w @ es"
    "es = [] \<or> nothing_to_delete E w \<and> (\<forall>e \<in> set es. is_machine_write e \<and> delete_vm_of e = None) \<or>
       (\<exists>i. l_get_vm_id (libs E) (provider_id (obj w)) = Inr i \<and> delete_log E i es)"
    using reconcileDelete_log[of E w] by (auto simp: wp_def deletes_from_def split: prod.splits)
  show ?thesis
  proof (intro exI[of _ es] conjI allI impI, rule es(1))
    fix pre e post
    assume e: "es = pre @ e # post \<and> delete_vm_of e \<noteq> None"
    with es(2) obtain i where "l_get_vm_id (libs E) (provider_id (obj w)) = Inr i" "delete_log E i es"
      by auto
    with delete_log_delete[of E i es pre e post] e
    show "\<exists>i. l_get_vm_id (libs E) (provider_id (obj w)) = Inr i \<and> delete_vm_of e = Some i \<and> detached E i pre"
      by blast
  qed
qed

theorem delete_only_after_detach_witness:
  "\<exists>es. log (snd (run_state (reconcileDelete unit_env) doomed)) = log doomed @ es \<and>
     (\<forall>pre e post. es = pre @ e # post \<and> delete_vm_of e \<noteq> None \<longrightarrow>
        (\<exists>i. l_get_vm_id (libs unit_env) (provider_id (obj doomed)) = Inr i \<and>
             delete_vm_of e = Some i \<and> detached unit_env i pre))"
  by (rule delete_only_after_detach)



end
