(* ===== verification/Machine_Properties.thy ===== *)
theory Machine_Properties
  imports Machine_Delete
begin

text \<open>
  Further properties of the XOMachine reconciler: the name a VM is created with, what a refresh
  of a Ready machine can do, which credentials are used, and the cases of the deletion that the
  code does not cover.
\<close>

section \<open>The name is recorded before the VM exists\<close>

definition name_recorded :: "xomachine \<Rightarrow> event list \<Rightarrow> string \<Rightarrow> bool" where
  "name_recorded m es n \<longleftrightarrow>
     (if mst_vm_name (xm_status m) \<noteq> [] then n = mst_vm_name (xm_status m)
      else (\<exists>m'. EvStatusUpdateXOMachine m' None \<in> set es \<and> mst_vm_name (xm_status m') = n))"

lemma name_recorded_append: "name_recorded m es n \<Longrightarrow> name_recorded m (es @ fs) n"
  by (auto simp: name_recorded_def split: if_splits)

lemma resolveVMName_wp:
  fixes E :: "'s env" and w :: "(xomachine, 's) st"
  shows "wp (resolveVMName E machine)
     (\<lambda>r w'. \<exists>es. log w' = log w @ es \<and> (\<forall>e \<in> set es. provisioning e) \<and>
        (\<forall>n. r = Inr n \<longrightarrow> name_recorded (obj w) es n)) w"
proof (cases "mst_vm_name (xm_status (obj w)) = []")
  case False
  then show ?thesis by (simp add: resolveVMName_def name_recorded_def)
next
  case True
  let ?Q = "\<lambda>(r :: error + string) (w' :: (xomachine, 's) st). \<exists>es. log w' = log w @ es \<and>
        (\<forall>e \<in> set es. provisioning e) \<and>
        (\<forall>n. r = Inr n \<longrightarrow> name_recorded (obj w) es n)"
  have "wp (computeVMName E machine) (\<lambda>r. wp (case r of
        Inl err \<Rightarrow> do { e \<leftarrow> WithConditionUpdate E err ConditionFalse ''VMNameUnresolved''; ret (Inl e) }
      | Inr vmName \<Rightarrow> do { modify_obj (set_vm_name vmName); u \<leftarrow> status_update E;
                         (case u of Some err \<Rightarrow> ret (Inl err) | None \<Rightarrow> ret (Inr vmName)) }) ?Q) w"
  proof (rule wp_quiet[OF computeVMName_keeps computeVMName_emits])
    fix r :: "error + string" and v :: "(xomachine, 's) st"
    assume v: "obj v = obj w" "log v = log w"
    have fail: "wp (do { e \<leftarrow> WithConditionUpdate E err ConditionFalse ''VMNameUnresolved''; ret (Inl e) }) ?Q v" for err
      unfolding wp_simps(2)
      by (rule wp_emits[OF WithConditionUpdate_emits[where P = provisioning]]) (use v in auto)
    show "wp (case r of
        Inl err \<Rightarrow> do { e \<leftarrow> WithConditionUpdate E err ConditionFalse ''VMNameUnresolved''; ret (Inl e) }
      | Inr vmName \<Rightarrow> do { modify_obj (set_vm_name vmName); u \<leftarrow> status_update E;
                         (case u of Some err \<Rightarrow> ret (Inl err) | None \<Rightarrow> ret (Inr vmName)) }) ?Q v"
      using fail v True
      by (cases r) (auto simp: status_update_def name_recorded_def set_vm_name_def split: sum.split)
  qed
  then show ?thesis using True by (simp add: resolveVMName_def)
qed

text \<open>Events in which a creation is preceded by the record of the name it uses.\<close>

definition names_first :: "xomachine \<Rightarrow> event list \<Rightarrow> bool" where
  "names_first m es \<longleftrightarrow> (\<forall>pre e post. es = pre @ e # post \<and> is_create e \<longrightarrow>
     (\<exists>pool params r. e = EvCreateVM pool params r \<and> name_recorded m pre (cp_name_label params)))"

lemma names_first_provisioning: "\<forall>e \<in> set es. provisioning e \<Longrightarrow> names_first m es"
  unfolding names_first_def using provisioning_harmless by fastforce

lemma names_first_append:
  assumes "\<forall>e \<in> set es1. provisioning e" and "name_recorded m es1 n"
    and "log_ok (creates_as m' t n) 1 es2"
  shows "names_first m (es1 @ es2)"
  unfolding names_first_def
proof (intro allI impI, elim conjE)
  fix pre e post assume e: "es1 @ es2 = pre @ e # post" "is_create e"
  have "e \<notin> set es1" using assms(1) e(2) provisioning_harmless by blast
  with e(1) obtain us where us: "pre = es1 @ us" "es2 = us @ e # post"
    by (auto simp: append_eq_append_conv2 append_eq_Cons_conv Cons_eq_append_conv)
  with assms(3) e(2) have "creates_as m' t n e"
    by (auto simp: log_ok_def dest: provisioning_harmless)
  then show "\<exists>pool params r. e = EvCreateVM pool params r \<and> name_recorded m pre (cp_name_label params)"
    using name_recorded_append[OF assms(2), of us] us(1) by (auto simp: creates_as_def)
qed

text \<open>
  C19: the name a VM is created with is stable: it is the one the machine's status already records
  or, when there is none, one that an accepted status update recorded before the creation was
  asked for, so a retry after a lost answer looks for the VM under the name it was created with.
\<close>

theorem createVM_name_recorded_first:
  fixes E :: "'s env" and w :: "(xomachine, 's) st"
  shows "\<exists>es. log (snd (run_state (createVM E machine c p t cc nc) w)) = log w @ es \<and>
     (\<forall>pre e post. es = pre @ e # post \<and> is_create e \<longrightarrow>
        (\<exists>pool params r. e = EvCreateVM pool params r \<and> name_recorded (obj w) pre (cp_name_label params)))"
proof -
  let ?Q = "\<lambda>(r :: error + vm) (w' :: (xomachine, 's) st). \<exists>es. log w' = log w @ es \<and> names_first (obj w) es"
  have create: "wp (CreateVM E c p t cc nc n prov (Some (duplicateNameWarning E))) ?Q v"
    if "log v = log w @ es" "\<forall>e \<in> set es. provisioning e" "name_recorded (obj w) es n" for v es n prov
  proof -
    have "wp (CreateVM E c p t cc nc n prov (Some (duplicateNameWarning E)))
       (\<lambda>r w'. \<exists>es. log w' = log v @ es \<and> log_ok (creates_as (obj v) t n) 1 es) v"
      by (rule CreateVM_makes) (auto intro!: effects)
    then show ?thesis by (rule wp_mono) (use that names_first_append in fastforce)
  qed
  have "wp (createVM E machine c p t cc nc) ?Q w"
    unfolding createVM_def wp_simps(2)
    by (rule wp_mono[OF resolveVMName_wp])
      (auto split: sum.split intro: create names_first_provisioning)
  then show ?thesis by (simp add: wp_def names_first_def split: prod.splits)
qed

theorem createVM_name_recorded_first_witness:
  "\<exists>es. log (snd (run_state (createVM unit_env (Some ref_owner_machine) ref_client 1 2 ''machine: {}'' None)
                     (start_state ref_machine ()))) = log (start_state ref_machine ()) @ es \<and>
     (\<forall>pre e post. es = pre @ e # post \<and> is_create e \<longrightarrow>
        (\<exists>pool params r. e = EvCreateVM pool params r \<and>
           name_recorded (obj (start_state ref_machine ())) pre (cp_name_label params)))"
  by (rule createVM_name_recorded_first)

section \<open>A Ready machine is only refreshed\<close>

text \<open>What a refresh may do: read the VM, add tags, and record other addresses, nothing else.\<close>

fun refresh_event :: "xomachine \<Rightarrow> event \<Rightarrow> bool" where
  "refresh_event m (EvStatusUpdateXOMachine m' r) = (m' = set_addresses (mst_addresses (xm_status m')) m)"
| "refresh_event m (EvGetVM i r) = True"
| "refresh_event m (EvV1GetVM i) = True"
| "refresh_event m (EvAddTag i t r) = True"
| "refresh_event m _ = False"

lemma SetNodeAddress_frame:
  "SetNodeAddress addr m = (ch, m') \<Longrightarrow> m' = set_addresses (mst_addresses (xm_status m')) m"
  by (auto simp: SetNodeAddress_def set_addresses_def split: if_splits prod.splits)

text \<open>The refresh leaves the whole machine as it was but for the address list.\<close>

definition refreshes :: "xomachine \<Rightarrow> ('o, 's) st \<Rightarrow> error option \<Rightarrow> ('o, 's) st \<Rightarrow> bool" where
  "refreshes m w r w' \<longleftrightarrow>
     r = None \<and> (\<exists>es. log w' = log w @ es \<and> (\<forall>e \<in> set es. refresh_event m e))"

lemma refreshes_refl [simp]: "log v = log w \<Longrightarrow> refreshes m w None v"
  by (simp add: refreshes_def)

lemma refreshes_step:
  "log v = log w @ es \<Longrightarrow> \<forall>e \<in> set es. refresh_event m e \<Longrightarrow> refreshes m v r u \<Longrightarrow> refreshes m w r u"
  by (auto simp: refreshes_def)

lemma recordAddress_wp: "wp (recordAddress E c m u) (refreshes m v) v"
  unfolding recordAddress_def wp_simps(2)
proof (rule wp_emits[OF ResolveVMIPNow_emits[where P = "refresh_event m"]], goal_cases)
  case (2 addr x es)
  obtain ch m' where e: "SetNodeAddress addr m = (ch, m')" by fastforce
  with SetNodeAddress_frame[OF e] 2 show ?case
    by (auto simp: refreshes_def status_update_def split: sum.split)
qed simp

lemma refreshVM_wp: "wp (refreshVM E c m p) (refreshes m w) w"
proof (cases "l_get_vm_id (libs E) p")
  case (Inr i)
  show ?thesis
    unfolding refreshVM_def Inr sum.case wp_simps(2)
  proof (rule wp_emits[OF SetVMTags_emits[where P = "refresh_event m"]], simp, goal_cases)
    case (1 a x es)
    obtain r s where rs: "x_vm_get (xo E) c i (ext x) = (r, s)" by fastforce
    let ?y = "x\<lparr>ext := s, log := log x @ [EvGetVM i r]\<rparr>"
    have y: "log ?y = log w @ es @ [EvGetVM i r]" "\<forall>e \<in> set (es @ [EvGetVM i r]). refresh_event m e"
      using 1 by auto
    have "wp (recordAddress E c m u) (refreshes m w) ?y" for u
      by (rule wp_mono[OF recordAddress_wp]) (rule refreshes_step[OF y])
    moreover have "refreshes m w None ?y" using y by (auto simp: refreshes_def)
    ultimately show ?case using rs by (cases r) (simp_all add: get_vm_def)
  qed
qed (simp add: refreshVM_def)

lemma refreshReadyMachine_wp:
  assumes "mst_provider_id (xm_status (obj w)) = Some p"
  shows "wp (refreshReadyMachine E) (refreshes (obj w) w) w"
  unfolding refreshReadyMachine_def wp_simps(2)
proof (rule wp_quiet[OF resolveMachineCredentials_keeps resolveMachineCredentials_emits], goal_cases)
  case (1 creds v)
  show ?case
  proof (cases creds)
    case (Inr xoCreds)
    show ?thesis
      unfolding Inr sum.case wp_simps(2)
    proof (rule wp_quiet[OF newXOClient_keeps newXOClient_emits], goal_cases)
      case (1 cl x)
      then have x: "obj x = obj w" "log x = log w" using \<open>obj v = obj w\<close> \<open>log v = log w\<close> by simp_all
      have "wp (refreshVM E c (obj w) p) (refreshes (obj w) w) x" for c
        by (rule wp_mono[OF refreshVM_wp]) (use x in \<open>simp add: refreshes_def\<close>)
      with x assms show ?case by (simp split: sum.split option.split)
    qed
  qed (use 1 in simp)
qed

text \<open>
  C33: a reconcile of a machine that is Ready with its condition in place never fails, never asks to
  be run again and never marks it unready: all it can do is read the VM, add tags, and write the
  machine with nothing but its address list changed.
\<close>

theorem ready_machine_only_refreshed:
  assumes "provider_id (obj w) \<noteq> []" and "mst_ready (xm_status (obj w))"
    and "isConditionTrue (obj w) ''VmReady''"
    and "l_add_finalizer (libs E) xoMachineFinalizer (om_finalizers (xm_meta (obj w))) =
           (False, om_finalizers (xm_meta (obj w)))"
  shows "fst (run_state (reconcileNormal E) w) = Inr done_result \<and>
    (\<exists>es. log (snd (run_state (reconcileNormal E) w)) = log w @ es \<and>
       (\<forall>e \<in> set es. refresh_event (obj w) e))"
proof -
  obtain p where p: "mst_provider_id (xm_status (obj w)) = Some p"
    using assms(1) by (auto simp: provider_id_def split: option.splits)
  have same: "set_finalizers (om_finalizers (xm_meta (obj w))) (obj w) = obj w"
    by (simp add: set_finalizers_def)
  have "wp (refreshReadyMachine E) (\<lambda>r w'. refreshes (obj w) w r w') (w\<lparr>obj := obj w\<rparr>)"
    using refreshReadyMachine_wp[of w p E] p by simp
  then have "wp (readyPath E) (\<lambda>r w'. r = Inr done_result \<and>
      (\<exists>es. log w' = log w @ es \<and> (\<forall>e \<in> set es. refresh_event (obj w) e))) w"
    using assms(3) by (auto simp: readyPath_def refreshes_def elim!: wp_mono)
  then have "wp (reconcileNormal E) (\<lambda>r w'. r = Inr done_result \<and>
      (\<exists>es. log w' = log w @ es \<and> (\<forall>e \<in> set es. refresh_event (obj w) e))) w"
    using assms same
    by (simp add: reconcileNormal_def ensureFinalizer_def add_finalizer_def tryFastPath_def)
  then show ?thesis by (simp add: wp_def split: prod.splits)
qed

definition ready_machine :: xomachine where
  "ready_machine = set_finalizers [xoMachineFinalizer]
     (SetCondition 5 ''Ready'' ConditionTrue ''VmReady'' ''up'' (mark_ready ''10.0.0.4'' known_machine))"

theorem ready_machine_only_refreshed_witness:
  "fst (run_state (reconcileNormal unit_env) (start_state ready_machine ())) = Inr done_result \<and>
    (\<exists>es. log (snd (run_state (reconcileNormal unit_env) (start_state ready_machine ()))) =
        log (start_state ready_machine ()) @ es \<and>
       (\<forall>e \<in> set es. refresh_event (obj (start_state ready_machine ())) e))"
proof (rule ready_machine_only_refreshed)
  show "provider_id (obj (start_state ready_machine ())) \<noteq> []"
    by (simp add: start_state_def ready_machine_def provider_id_def known_machine_def
        set_status_provider_id_def SetCondition_def mark_ready_def set_finalizers_def)
  show "mst_ready (xm_status (obj (start_state ready_machine ())))"
    by (simp add: start_state_def ready_machine_def SetCondition_def mark_ready_def set_finalizers_def)
  have "isConditionTrue (set_finalizers fs m) reason = isConditionTrue m reason" for fs m reason
    by (simp add: isConditionTrue_def set_finalizers_def)
  then show "isConditionTrue (obj (start_state ready_machine ())) ''VmReady''"
    by (simp add: start_state_def ready_machine_def isConditionTrue_SetCondition)
  show "l_add_finalizer (libs unit_env) xoMachineFinalizer
      (om_finalizers (xm_meta (obj (start_state ready_machine ())))) =
     (False, om_finalizers (xm_meta (obj (start_state ready_machine ()))))"
    by (simp add: start_state_def ready_machine_def set_finalizers_def unit_env_def ref_env_def ref_lib_def)
qed

section \<open>Credentials\<close>

text \<open>
  C35: a machine that names its own identity secret is only ever connected with that secret: when
  credentials result, they are the non-empty URL and token the secret holds, and any failure to
  read it is an error instead of a fall back to the controller's own credentials.
\<close>

theorem machine_identity_never_falls_back:
  assumes "ms_identity_ref (xm_spec (obj w)) = Some name"
    and "fst (run_state (resolveMachineCredentials E) w) = Inr creds"
  shows "\<exists>cfg sec. creds = Some cfg \<and>
     fst (k_get_secret (kube E) \<lparr>nn_namespace = om_namespace (xm_meta (obj w)), nn_name = name\<rparr> (ext w)) = Inr sec \<and>
     sec_data sec ''url'' = Some (xo_url cfg) \<and> sec_data sec ''token'' = Some (xo_token cfg) \<and>
     xo_url cfg \<noteq> [] \<and> xo_token cfg \<noteq> []"
proof -
  have "wp (resolveMachineCredentials E) (\<lambda>r w'. \<forall>c. r = Inr c \<longrightarrow>
          (\<exists>cfg sec. c = Some cfg \<and>
             fst (k_get_secret (kube E) \<lparr>nn_namespace = om_namespace (xm_meta (obj w)), nn_name = name\<rparr> (ext w)) = Inr sec \<and>
             sec_data sec ''url'' = Some (xo_url cfg) \<and> sec_data sec ''token'' = Some (xo_token cfg) \<and>
             xo_url cfg \<noteq> [] \<and> xo_token cfg \<noteq> [])) w"
    using ResolveXOConfig_sound[of E "om_namespace (xm_meta (obj w))" name None w] assms(1)
    by (simp add: resolveMachineCredentials_def)
  with assms(2) show ?thesis by (auto simp: wp_def split: prod.splits)
qed

definition secret_env :: "unit env" where
  "secret_env = ref_env\<lparr>kube := ref_kube\<lparr>k_get_secret := \<lambda>n s.
     (Inr \<lparr>sec_namespace = ''default'', sec_owners = [],
           sec_data = [''url'' \<mapsto> ''https://own'', ''token'' \<mapsto> ''t'']\<rparr>, s)\<rparr>\<rparr>"

definition identified_machine :: xomachine where
  "identified_machine = ref_machine\<lparr>xm_spec := ref_machine_spec\<lparr>ms_identity_ref := Some ''own''\<rparr>\<rparr>"

theorem machine_identity_never_falls_back_witness:
  "\<exists>cfg sec. Some \<lparr>xo_url = ''https://own'', xo_token = ''t'', xo_insecure = False\<rparr> = Some cfg \<and>
     fst (k_get_secret (kube secret_env)
       \<lparr>nn_namespace = om_namespace (xm_meta (obj (start_state identified_machine ()))), nn_name = ''own''\<rparr>
       (ext (start_state identified_machine ()))) = Inr sec \<and>
     sec_data sec ''url'' = Some (xo_url cfg) \<and> sec_data sec ''token'' = Some (xo_token cfg) \<and>
     xo_url cfg \<noteq> [] \<and> xo_token cfg \<noteq> []"
  by (rule machine_identity_never_falls_back)
     (simp_all add: start_state_def identified_machine_def resolveMachineCredentials_def
        ResolveXOConfig_def secret_env_def ref_env_def Let_def)

text \<open>
  C39: an error of the API server while the owner Machine is read, a passing one included, makes
  the credentials fall back to the controller's own even when the cluster names an identity.
\<close>

theorem owner_read_error_uses_global_credentials:
  assumes "ms_identity_ref (xm_spec (obj w)) = None"
    and "l_get_controller_of (libs E) (om_owners (xm_meta (obj w))) = Some ownerRef"
    and "or_kind ownerRef = ''Machine''"
    and "fst (k_get_machine (kube E)
           \<lparr>nn_namespace = om_namespace (xm_meta (obj w)), nn_name = or_name ownerRef\<rparr> (ext w)) = Inl err"
  shows "fst (run_state (resolveMachineCredentials E) w) = Inr (e_global_creds E)"
  using assms by (simp add: resolveMachineCredentials_def ownerClusterIdentity_def split: prod.split)

definition owned_machine :: xomachine where
  "owned_machine = ref_machine\<lparr>xm_meta := (ref_meta ''demo-cp-7n62g'')\<lparr>om_owners :=
     [\<lparr>or_api_version = ClusterGroupVersion, or_kind = ''Machine'', or_name = ''demo-cp-7n62g'',
       or_uid = ''u'', or_controller = Some True\<rparr>]\<rparr>\<rparr>"

definition timeout_env :: "unit env" where
  "timeout_env = ref_env\<lparr>kube := ref_kube\<lparr>k_get_machine := \<lambda>n s. (Inl (Plain ''timeout''), s)\<rparr>\<rparr>"

theorem owner_read_error_uses_global_credentials_witness:
  "fst (run_state (resolveMachineCredentials timeout_env) (start_state owned_machine ())) =
   Inr (e_global_creds timeout_env)"
  by (rule owner_read_error_uses_global_credentials[where err = "Plain ''timeout''" and
        ownerRef = "\<lparr>or_api_version = ClusterGroupVersion, or_kind = ''Machine'',
          or_name = ''demo-cp-7n62g'', or_uid = ''u'', or_controller = Some True\<rparr>"])
     (simp_all add: start_state_def owned_machine_def ref_machine_def ref_machine_spec_def
        timeout_env_def ref_env_def ref_lib_def ref_meta_def)

section \<open>What the deletion leaves behind\<close>

text \<open>
  C38: a machine whose VM was created but whose provider ID never reached its status is released
  without a call to Xen Orchestra: the adoption that protects a retried creation has no
  counterpart in the deletion, and the VM stays.
\<close>

theorem unrecorded_vm_is_forgotten:
  assumes "mst_provider_id (xm_status (obj w)) = None"
    and "l_contains_finalizer (libs E) xoMachineFinalizer (om_finalizers (xm_meta (obj w)))"
  shows "\<exists>m r. log (snd (run_state (reconcileDelete E) w)) = log w @ [EvUpdateXOMachine m r] \<and>
    om_finalizers (xm_meta m) =
      l_remove_finalizer (libs E) xoMachineFinalizer (om_finalizers (xm_meta (obj w)))"
proof -
  have "wp (reconcileDelete E) (\<lambda>a w'. \<exists>m r. log w' = log w @ [EvUpdateXOMachine m r] \<and>
    om_finalizers (xm_meta m) =
      l_remove_finalizer (libs E) xoMachineFinalizer (om_finalizers (xm_meta (obj w)))) w"
    using assms
    by (auto simp: reconcileDelete_def provider_id_def removed_then_done_def removeFinalizer_def
        update_machine_def set_finalizers_def split: sum.split)
  then show ?thesis by (auto simp: wp_def split: prod.splits)
qed

theorem unrecorded_vm_is_forgotten_witness:
  "\<exists>m r. log (snd (run_state (reconcileDelete unit_env)
       (start_state (set_finalizers [xoMachineFinalizer] ref_machine) ()))) =
      log (start_state (set_finalizers [xoMachineFinalizer] ref_machine) ()) @ [EvUpdateXOMachine m r] \<and>
    om_finalizers (xm_meta m) = l_remove_finalizer (libs unit_env) xoMachineFinalizer
      (om_finalizers (xm_meta (obj (start_state (set_finalizers [xoMachineFinalizer] ref_machine) ()))))"
  by (rule unrecorded_vm_is_forgotten)
     (simp_all add: start_state_def set_finalizers_def ref_machine_def ref_machine_status_def
        unit_env_def ref_env_def ref_lib_def)

text \<open>The release of the finalizer, as the last write of a run.\<close>

definition released :: "'s env \<Rightarrow> event list \<Rightarrow> bool" where
  "released E es \<longleftrightarrow> (\<exists>pre fs m r. es = pre @ [EvUpdateXOMachine m r] \<and>
     om_finalizers (xm_meta m) = l_remove_finalizer (libs E) xoMachineFinalizer fs \<and>
     (\<forall>err. r = Some err \<longrightarrow> api_not_found err))"

definition succeeds_released ::
  "'s env \<Rightarrow> ('o, 's) st \<Rightarrow> error + reconcile_result \<Rightarrow> ('o, 's) st \<Rightarrow> bool" where
  "succeeds_released E w r w' \<longleftrightarrow> (\<forall>res. r = Inr res \<longrightarrow> (\<exists>es. log w' = log w @ es \<and> released E es))"

lemma succeeds_released_error [simp]: "succeeds_released E w (Inl e) w'"
  by (simp add: succeeds_released_def)

lemma removed_then_done_released:
  assumes "log v = log w @ es" shows "wp (removed_then_done E) (succeeds_released E w) v"
  using assms
  by (auto simp: removed_then_done_def removeFinalizer_def update_machine_def set_finalizers_def
      succeeds_released_def released_def split: sum.split)

lemma deleteVM_released:
  assumes v: "log v = log w @ es"
  shows "wp (do { r \<leftarrow> deleteVM E c i;
               (case r of Some err \<Rightarrow> ret (Inl err) | None \<Rightarrow> removed_then_done E) }) (succeeds_released E w) v"
  unfolding wp_simps(2)
proof (rule wp_mono[OF deleteVM_log])
  fix r :: "error option" and u :: "(xomachine, 'a) st"
  assume "deletes_after (log v) E i r u"
  then obtain fs where "log u = log v @ fs" by (auto simp: deletes_after_def)
  with v have u: "log u = log w @ es @ fs" by simp
  then show "wp (case r of Some err \<Rightarrow> ret (Inl err) | None \<Rightarrow> removed_then_done E) (succeeds_released E w) u"
    using removed_then_done_released[OF u] by (simp split: option.split)
qed

text \<open>
  A deletion that reports success has released the machine: unless it carried no finalizer, the
  run ended with a write of it without the finalizer, accepted or answered with NotFound.
\<close>

theorem delete_success_releases:
  assumes "run_state (reconcileDelete E) w = (Inr res, w')"
    and "l_contains_finalizer (libs E) xoMachineFinalizer (om_finalizers (xm_meta (obj w)))"
  shows "\<exists>es. log w' = log w @ es \<and> released E es"
proof -
  have direct: "wp (removed_then_done E) (succeeds_released E w) w"
    by (rule removed_then_done_released[where es = "[]"]) simp
  have creds: "wp (resolveMachineCredentials E) (\<lambda>creds. wp (case creds of
          Inl err \<Rightarrow> ret (Inl err)
        | Inr xoCreds \<Rightarrow>
            do { cl \<leftarrow> newXOClient E xoCreds;
                 (case cl of
                    Inl err \<Rightarrow> ret (Inl err)
                  | Inr None \<Rightarrow> removed_then_done E
                  | Inr (Some c) \<Rightarrow> do { r \<leftarrow> deleteVM E c i;
                       (case r of Some err \<Rightarrow> ret (Inl err) | None \<Rightarrow> removed_then_done E) }) })
        (succeeds_released E w)) w" for i
  proof (rule wp_emits[OF resolveMachineCredentials_emits[where P = "\<lambda>_. True"]], goal_cases)
    case (1 creds v es)
    show ?case
    proof (cases creds)
      case (Inr xoCreds)
      show ?thesis
        unfolding Inr sum.case wp_simps(2)
      proof (rule wp_emits[OF newXOClient_emits[where P = "\<lambda>_. True"]], goal_cases)
        case (1 cl u fs)
        with \<open>log v = log w @ es\<close> have u: "log u = log w @ es @ fs" by simp
        show ?case
          using removed_then_done_released[OF u, of E] deleteVM_released[OF u, of E]
          by (simp split: sum.split option.split)
      qed
    qed simp
  qed
  have "wp (reconcileDelete E) (succeeds_released E w) w"
    using direct creds assms(2) by (simp add: reconcileDelete_def split: sum.split)
  from wp_run[OF this assms(1)] show ?thesis by (simp add: succeeds_released_def)
qed

theorem delete_success_releases_witness:
  "\<exists>es. log (snd (run_state (reconcileDelete unit_env)
        (start_state (set_finalizers [xoMachineFinalizer] ref_machine) ()))) =
      log (start_state (set_finalizers [xoMachineFinalizer] ref_machine) ()) @ es \<and> released unit_env es"
proof (rule delete_success_releases[where res = done_result])
  show "run_state (reconcileDelete unit_env) (start_state (set_finalizers [xoMachineFinalizer] ref_machine) ()) =
    (Inr done_result, snd (run_state (reconcileDelete unit_env)
        (start_state (set_finalizers [xoMachineFinalizer] ref_machine) ())))"
    by (simp add: prod_eq_iff start_state_def set_finalizers_def ref_machine_def ref_machine_status_def
        unit_env_def ref_env_def ref_lib_def ref_kube_def reconcileDelete_def provider_id_def
        removed_then_done_def removeFinalizer_def update_machine_def)
qed (simp add: start_state_def set_finalizers_def unit_env_def ref_env_def ref_lib_def)

text \<open>
  A failed deletion whose message happens to contain the digits 404, in a URL or a UUID, counts
  as a success: whatever kind of error it is, the run goes on as if the VM were gone.
\<close>

theorem delete_error_404_is_success:
  assumes "\<And>j s. fst (x_vm_delete (xo E) c j s) = Inl err" and "contains_str (error_text err) ''404''"
    and "run_state (deleteVM E c i) w = (r, w')"
  shows "\<exists>es. log w' = log w @ es \<and> ((\<forall>e \<in> set es. delete_vm_of e = None) \<or> r = None)"
proof -
  have stop: "emits (\<lambda>e. delete_vm_of e = None) (StopVMIfNotDetachable E c i)"
    and detach: "emits (\<lambda>e. delete_vm_of e = None) (DetachPersistentVolumes E c i)"
    and shut: "emits (\<lambda>e. delete_vm_of e = None) (HardShutdownVM E c i)"
    by (intro effects; simp)+
  let ?Q = "\<lambda>r w'. \<exists>es. log w' = log w @ es \<and> ((\<forall>e \<in> set es. delete_vm_of e = None) \<or> r = None)"
  have del: "wp (act (\<lambda>r. EvDeleteVM i (failure_of r)) (x_vm_delete (xo E) c i))
      (\<lambda>r. wp (case r of Inr u \<Rightarrow> ret None
         | Inl delErr \<Rightarrow> (if IsNotFoundError delErr then ret None
                         else if contains_str (error_text delErr) ''unmarshal'' then ret None
                         else ret (Some delErr))) ?Q) v"
    if "log v = log w @ es" for v es
    using assms(1)[of i "ext v"] assms(2) that by (auto simp: IsNotFoundError_def)
  have "wp (deleteVM E c i) ?Q w"
    unfolding deleteVM_def wp_simps(2)
  proof (rule wp_emits[OF stop], goal_cases)
    case 1: (1 s v es1)
    show ?case
    proof (cases s)
      case None
      show ?thesis
        unfolding None option.case wp_simps(2)
      proof (rule wp_emits[OF detach], goal_cases)
        case 2: (1 d u es2)
        show ?case
        proof (cases d)
          case None
          show ?thesis
            unfolding None option.case wp_simps(2)
            by (rule wp_emits[OF shut]) (rule del, use 1 2 in simp)
        qed (use 1 2 in auto)
      qed
    qed (use 1 in auto)
  qed
  from wp_run[OF this assms(3)] show ?thesis .
qed

definition refusing_env :: "unit env" where
  "refusing_env = ref_env\<lparr>xo := ref_xo\<lparr>x_vm_delete :=
     (\<lambda>c i s. (Inl (Plain ''DELETE /rest/v0/vms/4f404: 503 Service Unavailable''), s))\<rparr>\<rparr>"

theorem delete_error_404_is_success_witness:
  "\<exists>es. log (snd (run_state (deleteVM refusing_env ref_client 7) (start_state ref_machine ()))) =
      log (start_state ref_machine ()) @ es \<and>
    ((\<forall>e \<in> set es. delete_vm_of e = None) \<or>
      fst (run_state (deleteVM refusing_env ref_client 7) (start_state ref_machine ())) = None)"
  by (rule delete_error_404_is_success[where err = "Plain ''DELETE /rest/v0/vms/4f404: 503 Service Unavailable''"])
     (simp_all add: refusing_env_def ref_env_def)

end
