(* ===== verification/Machine_Invariant.thy ===== *)
theory Machine_Invariant
  imports Machine_Reconcile
begin

text \<open>
  Invariants of the XOMachine object over a whole reconcile, deletion included. The code changes the
  object in seven ways only; the locale \<open>machine_invariant\<close> states what an invariant has to
  satisfy, and follows it through every operation of the controller. It is interpreted twice: for
  the type of the condition list, which Kubernetes keys by condition type, and for the part of the
  object that belongs to the user.
\<close>

section \<open>The contract\<close>

text \<open>The API server keeps the invariant in what it answers.\<close>

definition status_keeps :: "(xomachine \<Rightarrow> bool) \<Rightarrow> 's env \<Rightarrow> bool" where
  "status_keeps J E \<longleftrightarrow>
     (\<forall>m s m' s'. k_status_update_xomachine (kube E) m s = (Inr m', s') \<longrightarrow> J m \<longrightarrow> J m')"

definition api_keeps :: "(xomachine \<Rightarrow> bool) \<Rightarrow> 's env \<Rightarrow> bool" where
  "api_keeps J E \<longleftrightarrow>
     (\<forall>m s m' s'. k_update_xomachine (kube E) m s = (Inr m', s') \<longrightarrow> J m \<longrightarrow> J m') \<and>
     (\<forall>m s m' s'. k_status_update_xomachine (kube E) m s = (Inr m', s') \<longrightarrow> J m \<longrightarrow> J m') \<and>
     (\<forall>n s m' s'. k_get_xomachine (kube E) n s = (Inr m', s') \<longrightarrow> J m')"

text \<open>Or at least in its answers about the object in hand.\<close>

abbreviation machine_key :: "xomachine \<Rightarrow> nn" where
  "machine_key m \<equiv> \<lparr>nn_namespace = om_namespace (xm_meta m), nn_name = om_name (xm_meta m)\<rparr>"

definition own_keeps :: "(xomachine \<Rightarrow> bool) \<Rightarrow> 's env \<Rightarrow> bool" where
  "own_keeps J E \<longleftrightarrow>
     (\<forall>m s m' s'. k_update_xomachine (kube E) m s = (Inr m', s') \<longrightarrow> J m \<longrightarrow> J m') \<and>
     status_keeps J E \<and>
     (\<forall>m s m' s'. k_get_xomachine (kube E) (machine_key m) s = (Inr m', s') \<longrightarrow> J m \<longrightarrow> J m')"

lemma api_keeps_own: "api_keeps J E \<Longrightarrow> own_keeps J E"
  by (simp add: api_keeps_def own_keeps_def status_keeps_def)

lemma own_keeps_status: "own_keeps J E \<Longrightarrow> status_keeps J E"
  by (simp add: own_keeps_def)

text \<open>
  What is sent to the API server satisfies it, and a VM is created with the marker of a machine that does.
\<close>

fun sends :: "(xomachine \<Rightarrow> bool) \<Rightarrow> event \<Rightarrow> bool" where
  "sends J (EvUpdateXOMachine m r) = J m"
| "sends J (EvStatusUpdateXOMachine m r) = J m"
| "sends J (EvCreateVM p ps r) = (\<exists>m. J m \<and> cp_name_description ps = vmMarker (Some m))"
| "sends J _ = True"

named_theorems kept "programs that keep an invariant of the machine"

locale machine_invariant =
  fixes J :: "xomachine \<Rightarrow> bool"
  assumes J_condition: "J m \<Longrightarrow> J (SetCondition now t st reason msg m)"
    and J_ready: "J m \<Longrightarrow> J (mark_ready ip m)"
    and J_finalizers: "J m \<Longrightarrow> J (set_finalizers fs m)"
    and J_addresses: "J m \<Longrightarrow> J (set_addresses as m)"
    and J_vm_name: "J m \<Longrightarrow> J (set_vm_name n m)"
    and J_spec_provider: "J m \<Longrightarrow> J (set_spec_provider_id p m)"
    and J_status_provider: "J m \<Longrightarrow> J (set_status_provider_id p m)"
begin

lemma status_update_kept [kept]:
  fixes E :: "'s env" assumes "status_keeps J E" shows "guards J (sends J) (status_update E)"
  unfolding steps_in_def guarded_def grows_def
proof (intro allI impI)
  fix w :: "(xomachine, 's) st"
  assume J: "J (obj w)"
  obtain r s where rs: "k_status_update_xomachine (kube E) (obj w) (ext w) = (r, s)" by fastforce
  have "J m'" if "r = Inr m'" for m' using assms J rs that unfolding status_keeps_def by blast
  with rs J show "J (obj (snd (run_state (status_update E) w))) \<and>
      (\<exists>es. log (snd (run_state (status_update E) w)) = log w @ es \<and> list_all (sends J) es)"
    by (cases r) (auto simp: status_update_def)
qed

lemma update_machine_kept [kept]:
  fixes E :: "'s env" assumes "own_keeps J E" shows "guards J (sends J) (update_machine E)"
  unfolding steps_in_def guarded_def grows_def
proof (intro allI impI)
  fix w :: "(xomachine, 's) st"
  assume J: "J (obj w)"
  obtain r s where rs: "k_update_xomachine (kube E) (obj w) (ext w) = (r, s)" by fastforce
  have "J m'" if "r = Inr m'" for m' using assms J rs that unfolding own_keeps_def by blast
  with rs J show "J (obj (snd (run_state (update_machine E) w))) \<and>
      (\<exists>es. log (snd (run_state (update_machine E) w)) = log w @ es \<and> list_all (sends J) es)"
    by (cases r) (auto simp: update_machine_def)
qed

lemma refetch_machine_kept [kept]:
  fixes E :: "'s env" assumes "own_keeps J E" shows "guards J (sends J) (refetch_machine E)"
  unfolding steps_in_def guarded_def grows_def
proof (intro allI impI)
  fix w :: "(xomachine, 's) st"
  assume J: "J (obj w)"
  obtain r s where rs: "k_get_xomachine (kube E)
     \<lparr>nn_namespace = om_namespace (xm_meta (obj w)), nn_name = om_name (xm_meta (obj w))\<rparr> (ext w) = (r, s)"
    by fastforce
  have "J m'" if "r = Inr m'" for m' using assms J rs that unfolding own_keeps_def by blast
  with rs J show "J (obj (snd (run_state (refetch_machine E) w))) \<and>
      (\<exists>es. log (snd (run_state (refetch_machine E) w)) = log w @ es \<and> list_all (sends J) es)"
    by (cases r) (auto simp: refetch_machine_def)
qed

lemma prims_kept [kept]:
  "(\<And>m. J m \<Longrightarrow> J (h m)) \<Longrightarrow> guards J P (modify_obj h)"
  "guards J P (query op)" "guards J P get_obj"
  "(\<And>r. P (ev r)) \<Longrightarrow> guards J P (act ev op')"
  "P e \<Longrightarrow> guards J P (emit e)"
  by (rule guards_modify_obj, assumption) (intro guards_keeps frames effects; simp)+

lemma quiet_kept [kept]:
  "guards J P (resolveMachineCredentials E)" "guards J P (newXOClient E creds)"
  "guards J P (ResolveTemplateID E c a b)" "guards J P (ResolvePoolID E c a b)"
  "guards J P (ResolveBootstrapData E)" "guards J P (BuildCloudInitWithSSHKeys E c d inject)"
  "guards J P (resolveInjectSSHKeys E mach)" "guards J P (GetXOCluster E ns n)"
  "guards J P (computeVMName E mach)" "guards J P (addVIFsToParams E c m ps p)"
  by (intro guards_keeps frames effects)+

lemma calls_kept [kept]:
  "guards J (sends J) (get_vm E c i)" "guards J (sends J) (task_wait E c p)"
  "guards J (sends J) (ResolveVMIP E c v)" "guards J (sends J) (ResolveVMIPNow E c v)"
  "guards J (sends J) (ManageVIFs E c v)" "guards J (sends J) (SetVMTags E m i cl p)"
  "guards J (sends J) (ClaimedAddress E m)" "guards J (sends J) (findAdoptableVM E c n marker)"
  "guards J (sends J) (resizeDiskIfNeeded E c m v)" "guards J (sends J) (setCPUsIfNeeded E c m v)"
  "guards J (sends J) (setBootOrder E c v)" "guards J (sends J) (handleV2BareTaskResponse E c err)"
  "guards J (sends J) (duplicateNameWarning E n k)"
  "guards J (sends J) (StopVMIfNotDetachable E c i)" "guards J (sends J) (DetachPersistentVolumes E c i)"
  "guards J (sends J) (HardShutdownVM E c i)"
  unfolding get_vm_def task_wait_def duplicateNameWarning_def warn_def
  by (intro guards_keeps frames effects; simp)+

text \<open>Through the operations.\<close>

lemma UpdateCondition_kept [kept]: "status_keeps J E \<Longrightarrow> guards J (sends J) (UpdateCondition E st reason msg)"
  unfolding UpdateCondition_def by (intro grd.steps_bind kept J_condition)

lemma WithConditionUpdate_kept [kept]:
  "status_keeps J E \<Longrightarrow> guards J (sends J) (WithConditionUpdate E e st reason)"
  unfolding WithConditionUpdate_def by (intro grd.steps_struct kept)

lemma note_failure_kept [kept]: "status_keeps J E \<Longrightarrow> guards J (sends J) (note_failure E reason err)"
  unfolding note_failure_def by (intro grd.steps_struct kept)

lemma add_finalizer_kept [kept]: "guards J P (add_finalizer E)"
  unfolding add_finalizer_def Let_def
  by (rule guards_get_obj) (intro grd.steps_struct guards_set_obj J_finalizers)

lemma ensureFinalizer_kept [kept]: "own_keeps J E \<Longrightarrow> guards J (sends J) (ensureFinalizer E)"
  unfolding ensureFinalizer_def by (intro grd.steps_struct kept own_keeps_status)

lemma removeFinalizer_kept [kept]: "own_keeps J E \<Longrightarrow> guards J (sends J) (removeFinalizer E)"
  unfolding removeFinalizer_def by (intro grd.steps_struct kept own_keeps_status J_finalizers)

lemma StartVM_kept [kept]: "own_keeps J E \<Longrightarrow> guards J (sends J) (StartVM E c v)"
  unfolding StartVM_def Let_def by (intro grd.steps_struct kept own_keeps_status) simp_all

lemma WaitForVMReady_kept [kept]: "own_keeps J E \<Longrightarrow> guards J (sends J) (WaitForVMReady E c v)"
  unfolding WaitForVMReady_def by (intro grd.steps_struct kept own_keeps_status J_ready)

lemma reconcileExistingVM_kept [kept]: "own_keeps J E \<Longrightarrow> guards J (sends J) (reconcileExistingVM E c v)"
  unfolding reconcileExistingVM_def by (intro grd.steps_struct kept own_keeps_status J_ready)

lemma J_node_address: "SetNodeAddress addr m = (ch, m') \<Longrightarrow> J m \<Longrightarrow> J m'"
  by (auto simp: SetNodeAddress_def J_addresses split: if_splits prod.splits)

lemma recordAddress_kept:
  assumes "status_keeps J E" and "J m"
  shows "guards J (sends J) (recordAddress E c m v)"
  unfolding recordAddress_def
proof (intro grd.steps_bind kept)
  fix addr
  obtain ch m' where e: "SetNodeAddress addr m = (ch, m')" by fastforce
  have "guards J (sends J) (do { set_obj m';
            (if \<not> ch then ret None else do { _ \<leftarrow> status_update E; ret None }) })"
    using assms J_node_address[OF e] by (intro grd.steps_struct kept guards_set_obj)
  then show "guards J (sends J) (let (changed, m') = SetNodeAddress addr m in
            do { set_obj m';
            (if \<not> changed then ret None else do { _ \<leftarrow> status_update E; ret None }) })"
    by (simp add: e)
qed

lemma refreshVM_kept:
  assumes "status_keeps J E" and "J m" shows "guards J (sends J) (refreshVM E c m p)"
  unfolding refreshVM_def by (intro grd.steps_struct kept recordAddress_kept[OF assms])

lemma refreshReadyMachine_kept [kept]:
  assumes "status_keeps J E" shows "guards J (sends J) (refreshReadyMachine E)"
  unfolding refreshReadyMachine_def
  by ((rule guards_get_obj refreshVM_kept[OF assms] grd.steps_struct kept | assumption)+)

lemma readyPath_kept [kept]: "status_keeps J E \<Longrightarrow> guards J (sends J) (readyPath E)"
  unfolding readyPath_def by (intro grd.steps_struct kept)

lemma tryFastPath_kept [kept]: "own_keeps J E \<Longrightarrow> guards J (sends J) (tryFastPath E)"
  unfolding tryFastPath_def by (intro grd.steps_struct kept own_keeps_status)

lemma InjectKubeVIP_kept [kept]: "own_keeps J E \<Longrightarrow> guards J (sends J) (InjectKubeVIP E mach xc cc)"
  unfolding InjectKubeVIP_def by (intro grd.steps_struct kept own_keeps_status)

lemma injectKubeVIPIfNeeded_kept [kept]:
  "own_keeps J E \<Longrightarrow> guards J (sends J) (injectKubeVIPIfNeeded E cc mach)"
  unfolding injectKubeVIPIfNeeded_def by (intro grd.steps_struct kept own_keeps_status)

lemma Build_kept [kept]: "own_keeps J E \<Longrightarrow> guards J (sends J) (Build E c mach d b)"
  unfolding Build_def by (intro grd.steps_struct kept own_keeps_status)

lemma ipamNetworkConfig_kept [kept]: "own_keeps J E \<Longrightarrow> guards J (sends J) (ipamNetworkConfig E)"
  unfolding ipamNetworkConfig_def by (intro grd.steps_struct kept own_keeps_status)

lemma LookupExistingVM_kept [kept]: "own_keeps J E \<Longrightarrow> guards J (sends J) (LookupExistingVM E c i)"
  unfolding LookupExistingVM_def by (intro grd.steps_struct kept own_keeps_status)

lemma resolveVMName_kept [kept]: "own_keeps J E \<Longrightarrow> guards J (sends J) (resolveVMName E mach)"
  unfolding resolveVMName_def by (intro grd.steps_struct kept own_keeps_status J_vm_name)

lemma write_with_retry_kept [kept]:
  "own_keeps J E \<Longrightarrow> (\<And>m. J m \<Longrightarrow> J (change m)) \<Longrightarrow> guards J (sends J) write \<Longrightarrow>
   guards J (sends J) (write_with_retry E change write)"
  unfolding write_with_retry_def by (intro grd.steps_struct kept own_keeps_status)

lemma saveProviderID_kept [kept]: "own_keeps J E \<Longrightarrow> guards J (sends J) (saveProviderID E p)"
  unfolding saveProviderID_def by (intro grd.steps_struct kept own_keeps_status J_spec_provider J_status_provider)

lemma recoverCreate_kept [kept]: "own_keeps J E \<Longrightarrow> guards J (sends J) (recoverCreate E c n marker err)"
  unfolding recoverCreate_def by (intro grd.steps_struct kept own_keeps_status)

lemma createOrAdopt_kept [kept]:
  "own_keeps J E \<Longrightarrow> (\<And>f n k. onDup = Some f \<Longrightarrow> guards J (sends J) (f n k)) \<Longrightarrow>
   \<exists>m. J m \<and> cp_name_description ps = vmMarker (Some m) \<Longrightarrow>
   guards J (sends J) (createOrAdopt E c p ps n marker onDup)"
  unfolding createOrAdopt_def by (intro grd.steps_struct kept own_keeps_status) simp_all

lemma configureVM_kept [kept]: "own_keeps J E \<Longrightarrow> guards J (sends J) (configureVM E c p prov v)"
  unfolding configureVM_def by (intro grd.steps_struct kept own_keeps_status)

lemma CreateVM_kept [kept]:
  assumes "own_keeps J E" and "\<And>f n k. onDup = Some f \<Longrightarrow> guards J (sends J) (f n k)"
  shows "guards J (sends J) (CreateVM E c p t cc nc n prov onDup)"
  unfolding CreateVM_def Let_def
proof (rule guards_get_obj)
  fix m assume J: "J m"
  have tail: "guards J (sends J) (do { r \<leftarrow> createOrAdopt E c p ps n (vmMarker (Some m)) onDup;
      (case r of Inl err \<Rightarrow> ret (Inl err) | Inr v \<Rightarrow> configureVM E c p prov v) })"
    if "cp_name_description ps = vmMarker (Some m)" for ps
    using J that by (intro grd.steps_struct kept assms exI[of _ m] conjI)
  show "guards J (sends J) (case memoryParam E m (buildCreateParams t n cc nc (vmMarker (Some m))) of
      Inl err \<Rightarrow> do { e \<leftarrow> WithConditionUpdate E err ConditionFalse ''InvalidMemoryQuantity''; ret (Inl e) }
    | Inr params0 \<Rightarrow> do { ps \<leftarrow> addVIFsToParams E c m params0 p;
        r \<leftarrow> createOrAdopt E c p ps n (vmMarker (Some m)) onDup;
        (case r of Inl err \<Rightarrow> ret (Inl err) | Inr v \<Rightarrow> configureVM E c p prov v) })"
  proof (rule grd.steps_sum)
    fix params0 assume "memoryParam E m (buildCreateParams t n cc nc (vmMarker (Some m))) = Inr params0"
    from memoryParam_identity[OF this]
    show "guards J (sends J) (do { ps \<leftarrow> addVIFsToParams E c m params0 p;
        r \<leftarrow> createOrAdopt E c p ps n (vmMarker (Some m)) onDup;
        (case r of Inl err \<Rightarrow> ret (Inl err) | Inr v \<Rightarrow> configureVM E c p prov v) })"
      by (intro grd.steps_bind_result[OF quiet_kept(10) addVIFsToParams_identity] tail)
         (simp add: same_identity_def buildCreateParams_def)
  qed (intro grd.steps_struct kept own_keeps_status assms(1))
qed

lemma createVM_kept [kept]: "own_keeps J E \<Longrightarrow> guards J (sends J) (createVM E mach c p t cc nc)"
  unfolding createVM_def by (intro grd.steps_struct kept own_keeps_status) (auto intro: kept)

lemma obtainVM_kept [kept]: "own_keeps J E \<Longrightarrow> guards J (sends J) (obtainVM E mach c p t cc nc)"
  unfolding obtainVM_def by (intro grd.steps_struct kept own_keeps_status)

lemma finishVM_kept [kept]: "own_keeps J E \<Longrightarrow> guards J (sends J) (finishVM E c v)"
  unfolding finishVM_def by (intro grd.steps_struct kept own_keeps_status)

lemma placeVM_kept [kept]: "own_keeps J E \<Longrightarrow> guards J (sends J) (placeVM E mach c cc nc)"
  unfolding placeVM_def by (intro grd.steps_struct kept own_keeps_status)

lemma provision_kept [kept]: "own_keeps J E \<Longrightarrow> guards J (sends J) (provision E bs c)"
  unfolding provision_def by (intro grd.steps_struct kept own_keeps_status)

lemma fullReconcile_kept [kept]: "own_keeps J E \<Longrightarrow> guards J (sends J) (fullReconcile E)"
  unfolding fullReconcile_def by (intro grd.steps_struct kept own_keeps_status)

lemma reconcileNormal_kept [kept]: "own_keeps J E \<Longrightarrow> guards J (sends J) (reconcileNormal E)"
  unfolding reconcileNormal_def by (intro grd.steps_struct kept own_keeps_status)

lemma removed_then_done_kept [kept]: "own_keeps J E \<Longrightarrow> guards J (sends J) (removed_then_done E)"
  unfolding removed_then_done_def by (intro grd.steps_struct kept own_keeps_status)

lemma deleteVM_kept [kept]: "own_keeps J E \<Longrightarrow> guards J (sends J) (deleteVM E c i)"
  unfolding deleteVM_def by (intro grd.steps_struct kept own_keeps_status) simp_all

lemma reconcileDelete_kept [kept]: "own_keeps J E \<Longrightarrow> guards J (sends J) (reconcileDelete E)"
  unfolding reconcileDelete_def by (intro grd.steps_struct kept own_keeps_status)

text \<open>A whole run: the object it reads satisfies the invariant, and so does all it sends.\<close>

lemma Reconcile_sends_own:
  fixes w :: "(xomachine, 's) st"
  assumes "own_keeps J E" and "\<And>m s'. k_get_xomachine (kube E) req (ext w) = (Inr m, s') \<Longrightarrow> J m"
  shows "\<exists>es. log (snd (run_state (Reconcile E req) w)) = log w @ es \<and> (\<forall>e \<in> set es. sends J e)"
proof -
  obtain r s where rs: "k_get_xomachine (kube E) req (ext w) = (r, s)" by fastforce
  show ?thesis
  proof (cases r)
    case (Inl err)
    with rs show ?thesis by (simp add: Reconcile_def)
  next
    case (Inr m)
    let ?v = "w\<lparr>ext := s, obj := m\<rparr>"
    have "J (obj ?v)" using assms(2) rs Inr by simp
    from guards_log[OF reconcileDelete_kept[OF assms(1)] this prod.collapse[symmetric]]
      guards_log[OF reconcileNormal_kept[OF assms(1)] this prod.collapse[symmetric]]
    show ?thesis using rs Inr by (auto simp: Reconcile_def)
  qed
qed

lemma Reconcile_sends:
  assumes "api_keeps J E"
  shows "\<exists>es. log (snd (run_state (Reconcile E req) w)) = log w @ es \<and> (\<forall>e \<in> set es. sends J e)"
  using assms unfolding api_keeps_def by (intro Reconcile_sends_own api_keeps_own[OF assms]) blast

end

section \<open>The condition list\<close>

definition conditions_typed :: "xomachine \<Rightarrow> bool" where
  "conditions_typed m \<longleftrightarrow> distinct (map cond_type (mst_conditions (xm_status m)))"

interpretation typed: machine_invariant conditions_typed
  by unfold_locales
     (simp_all add: conditions_typed_def SetCondition_def machine_conds.store_unique mark_ready_def
        set_finalizers_def set_addresses_def set_vm_name_def set_spec_provider_id_def set_status_provider_id_def)

text \<open>
  C23: The type of the condition list is kept: Kubernetes stores the conditions as a list keyed by
  condition type, and when the API server answers with well-typed lists only, every object a run of
  the XOMachine controller sends, on any path through creation, readiness, errors or deletion, has at
  most one condition of each type.
\<close>

theorem written_conditions_typed:
  assumes "api_keeps conditions_typed E"
  shows "\<exists>es. log (snd (run_state (Reconcile E req) w)) = log w @ es \<and>
    (\<forall>e \<in> set es. sends conditions_typed e)"
  using assms by (rule typed.Reconcile_sends)

text \<open>A server that holds the machine.\<close>

definition live_env :: "unit env" where
  "live_env = ref_env\<lparr>kube := ref_kube\<lparr>k_get_xomachine := (\<lambda>n s. (Inr ref_machine, s))\<rparr>\<rparr>"

theorem written_conditions_typed_witness:
  "\<exists>es. log (snd (run_state (Reconcile live_env \<lparr>nn_namespace = ''default'', nn_name = ''cp-1''\<rparr>)
      (start_state ref_machine ()))) = log (start_state ref_machine ()) @ es \<and>
    list_all (sends conditions_typed) es"
proof -
  have "api_keeps conditions_typed live_env"
    by (auto simp: api_keeps_def live_env_def ref_env_def ref_kube_def conditions_typed_def ref_machine_def ref_machine_status_def)
  from written_conditions_typed[OF this] show ?thesis by (simp add: list_all_iff)
qed

section \<open>The user's part of the object\<close>

text \<open>Everything but the finalizers, the provider ID and the status.\<close>

definition user_part :: "xomachine \<Rightarrow> object_meta \<times> xomachine_spec" where
  "user_part m = ((xm_meta m)\<lparr>om_finalizers := []\<rparr>, (xm_spec m)\<lparr>ms_provider_id := None\<rparr>)"

definition from_parts :: "(object_meta \<times> xomachine_spec) set \<Rightarrow> xomachine \<Rightarrow> bool" where
  "from_parts U m \<longleftrightarrow> user_part m \<in> U"

text \<open>The parts of the objects the API server answers with.\<close>

definition answered_parts :: "'s env \<Rightarrow> (object_meta \<times> xomachine_spec) set" where
  "answered_parts E =
     {user_part m' | m' n s s'. k_get_xomachine (kube E) n s = (Inr m', s')} \<union>
     {user_part m' | m' m s s'. k_update_xomachine (kube E) m s = (Inr m', s')} \<union>
     {user_part m' | m' m s s'. k_status_update_xomachine (kube E) m s = (Inr m', s')}"

lemma user_part_frames:
  "user_part (SetCondition now t st reason msg m) = user_part m"
  "user_part (mark_ready ip m) = user_part m"
  "user_part (set_finalizers fs m) = user_part m"
  "user_part (set_addresses as m) = user_part m"
  "user_part (set_vm_name n m) = user_part m"
  "user_part (set_spec_provider_id p m) = user_part m"
  "user_part (set_status_provider_id p m) = user_part m"
  by (simp_all add: user_part_def SetCondition_def mark_ready_def set_finalizers_def set_addresses_def
      set_vm_name_def set_spec_provider_id_def set_status_provider_id_def)

interpretation owned: machine_invariant "from_parts U" for U
  by unfold_locales (simp_all add: from_parts_def user_part_frames)

lemma api_keeps_answered: "api_keeps (from_parts (answered_parts E)) E"
  unfolding api_keeps_def from_parts_def answered_parts_def by blast



end
