(* ===== verification/Machine_Ledger.thy ===== *)
theory Machine_Ledger
  imports Vm_Retry Machine_Invariant
begin

text \<open>
  One machine as the two services see it across runs of the controller: the name, the version and the
  earlier names the API server holds of it, and the VMs in Xen Orchestra that carry its marker. The
  contract of the services over this ledger, and what every operation of the XOMachine controller that
  creates nothing does to it: the recorded name stays, and no VM comes into being. \<open>Machine_Runs\<close> builds
  on it.
\<close>

section \<open>Calls that disturb nothing\<close>

text \<open>
  A part \<open>f\<close> of the external state that only writes of the machine, creations and deletions of VMs can
  change.
\<close>

definition quiet_calls :: "'s env \<Rightarrow> ('s \<Rightarrow> 'x) \<Rightarrow> bool" where
  "quiet_calls E f \<longleftrightarrow>
     (\<forall>n s. f (snd (k_get_xocluster (kube E) n s)) = f s) \<and>
     (\<forall>n s. f (snd (k_get_machine (kube E) n s)) = f s) \<and>
     (\<forall>n s. f (snd (k_get_cluster (kube E) n s)) = f s) \<and>
     (\<forall>n s. f (snd (k_get_secret (kube E) n s)) = f s) \<and>
     (\<forall>n s. f (snd (k_get_claim (kube E) n s)) = f s) \<and>
     (\<forall>n s. f (snd (k_get_ip_address (kube E) n s)) = f s) \<and>
     (\<forall>m s. f (snd (k_create_claim (kube E) m s)) = f s) \<and>
     (\<forall>s. f (snd (e_now E s)) = f s) \<and>
     (\<forall>d s. f (snd (e_new_timer E d s)) = f s) \<and>
     (\<forall>t b s. f (snd (e_select E t b s)) = f s) \<and>
     (\<forall>cfg s. f (snd (x_new_client (xo E) cfg s)) = f s) \<and>
     (\<forall>c s. f (snd (x_check_client (xo E) c s)) = f s) \<and>
     (\<forall>c i s. f (snd (x_vm_get (xo E) c i s)) = f s) \<and>
     (\<forall>c n s. f (snd (x_vm_get_all (xo E) c n s)) = f s) \<and>
     (\<forall>c i s. f (snd (x_vm_start (xo E) c i s)) = f s) \<and>
     (\<forall>c i s. f (snd (x_vm_hard_shutdown (xo E) c i s)) = f s) \<and>
     (\<forall>c i n s. f (snd (x_vm_vdis (xo E) c i n s)) = f s) \<and>
     (\<forall>c n s. f (snd (x_vbd_get_all (xo E) c n s)) = f s) \<and>
     (\<forall>c i s. f (snd (x_vbd_delete (xo E) c i s)) = f s) \<and>
     (\<forall>c p s. f (snd (x_task_wait (xo E) c p s)) = f s) \<and>
     (\<forall>c i s. f (snd (x_v1_get_vm (xo E) c i s)) = f s) \<and>
     (\<forall>c i s. f (snd (x_v1_get_disks (xo E) c i s)) = f s) \<and>
     (\<forall>c i s. f (snd (x_v1_get_vifs (xo E) c i s)) = f s) \<and>
     (\<forall>c v s. f (snd (x_v1_connect_vif (xo E) c v s)) = f s) \<and>
     (\<forall>c m a s. f (snd (x_v1_call (xo E) c m a s)) = f s) \<and>
     (\<forall>c i t s. f (snd (x_v1_add_tag (xo E) c i t s)) = f s) \<and>
     (\<forall>c n s. f (snd (x_v1_templates (xo E) c n s)) = f s) \<and>
     (\<forall>c n s. f (snd (x_v1_pools (xo E) c n s)) = f s) \<and>
     (\<forall>c n p s. f (snd (x_v1_network (xo E) c n p s)) = f s) \<and>
     (\<forall>c s. f (snd (x_v1_ssh_keys (xo E) c s)) = f s)"

lemma quiet_ops:
  assumes "quiet_calls E f"
  shows "f (snd (k_get_xocluster (kube E) n s)) = f s" "f (snd (k_get_machine (kube E) n s)) = f s"
    "f (snd (k_get_cluster (kube E) n s)) = f s" "f (snd (k_get_secret (kube E) n s)) = f s"
    "f (snd (k_get_claim (kube E) n s)) = f s" "f (snd (k_get_ip_address (kube E) n s)) = f s"
    "f (snd (k_create_claim (kube E) cl s)) = f s" "f (snd (e_now E s)) = f s"
    "f (snd (e_new_timer E d s)) = f s" "f (snd (e_select E t b s)) = f s"
    "f (snd (x_new_client (xo E) cfg s)) = f s" "f (snd (x_check_client (xo E) c s)) = f s"
    "f (snd (x_vm_get (xo E) c i s)) = f s" "f (snd (x_vm_get_all (xo E) c l s)) = f s"
    "f (snd (x_vm_start (xo E) c i s)) = f s" "f (snd (x_vm_hard_shutdown (xo E) c i s)) = f s"
    "f (snd (x_vm_vdis (xo E) c i l s)) = f s" "f (snd (x_vbd_get_all (xo E) c l s)) = f s"
    "f (snd (x_vbd_delete (xo E) c i s)) = f s" "f (snd (x_task_wait (xo E) c p s)) = f s"
    "f (snd (x_v1_get_vm (xo E) c i' s)) = f s" "f (snd (x_v1_get_disks (xo E) c i' s)) = f s"
    "f (snd (x_v1_get_vifs (xo E) c i' s)) = f s" "f (snd (x_v1_connect_vif (xo E) c v s)) = f s"
    "f (snd (x_v1_call (xo E) c mt a s)) = f s" "f (snd (x_v1_add_tag (xo E) c i' tg s)) = f s"
    "f (snd (x_v1_templates (xo E) c l s)) = f s" "f (snd (x_v1_pools (xo E) c l s)) = f s"
    "f (snd (x_v1_network (xo E) c l p s)) = f s" "f (snd (x_v1_ssh_keys (xo E) c s)) = f s"
  using assms unfolding quiet_calls_def by simp_all

named_theorems undisturbed "programs that leave alone what only writes, creations and deletions change"

text \<open>The programs without writes, in the order of their calls.\<close>

lemma quiet_lookups [undisturbed]:
  assumes "quiet_calls E f"
  shows "keeps (\<lambda>w. f (ext w)) (GetXOCluster E ns n)" "keeps (\<lambda>w. f (ext w)) (ResolveXOConfig E ns ref fb)"
    "keeps (\<lambda>w. f (ext w)) (NewXOClientFromConfig E cfg)" "keeps (\<lambda>w. f (ext w)) (ResolveTemplateID E c a l)"
    "keeps (\<lambda>w. f (ext w)) (ResolvePoolID E c a l)" "keeps (\<lambda>w. f (ext w)) (ResolveNetworkID E c nw p)"
    "keeps (\<lambda>w. f (ext w)) (get_vm E c i)" "keeps (\<lambda>w. f (ext w)) (task_wait E c tp)"
    "keeps (\<lambda>w. f (ext w)) (GetBootstrapData E mach)" "keeps (\<lambda>w. f (ext w)) (v1_get_vm E c i')"
    "keeps (\<lambda>w. f (ext w)) (claim_answer E claim)" "keeps (\<lambda>w. f (ext w)) (findAdoptableVM E c vn marker)"
    "keeps (\<lambda>w. f (ext w)) (add_tag E c i' tg)" "keeps (\<lambda>w. f (ext w)) (v1_call E c mt args)"
    "keeps (\<lambda>w. f (ext w)) (connectVIF E c v)" "keeps (\<lambda>w. f (ext w)) (warn E reason note)"
    "keeps (\<lambda>w. f (ext w)) (GetOwnerMachine E m)"
  unfolding GetOwnerMachine_def GetXOCluster_def ResolveXOConfig_def NewXOClientFromConfig_def ResolveTemplateID_def
    ResolvePoolID_def ResolveNetworkID_def get_vm_def task_wait_def GetBootstrapData_def v1_get_vm_def
    claim_answer_def findAdoptableVM_def add_tag_def v1_call_def connectVIF_def warn_def Let_def
  by (intro frames; simp add: quiet_ops[OF assms])+

lemma quiet_parts [undisturbed]:
  assumes "quiet_calls E f"
  shows "keeps (\<lambda>w. f (ext w)) (clusterTags E m)" "keeps (\<lambda>w. f (ext w)) (removeVBD E c pv b)"
    "keeps (\<lambda>w. f (ext w)) (resizeDiskIfNeeded E c m v)" "keeps (\<lambda>w. f (ext w)) (setCPUsIfNeeded E c m v)"
    "keeps (\<lambda>w. f (ext w)) (setBootOrder E c v)" "keeps (\<lambda>w. f (ext w)) (handleV2BareTaskResponse E c err)"
    "keeps (\<lambda>w. f (ext w)) (ResolveVMIPNow E c v)" "keeps (\<lambda>w. f (ext w)) (setAllowedRange E c a vi)"
    "keeps (\<lambda>w. f (ext w)) (ClaimedAddress E m)" "keeps (\<lambda>w. f (ext w)) (ResolveBootstrapData E)"
    "keeps (\<lambda>w. f (ext w)) (BuildCloudInitWithSSHKeys E c d keys)"
    "keeps (\<lambda>w. f (ext w)) (resolveInjectSSHKeys E mach)" "keeps (\<lambda>w. f (ext w)) (ownerClusterIdentity E m)"
    "keeps (\<lambda>w. f (ext w)) (newXOClient E cfg)" "keeps (\<lambda>w. f (ext w)) (computeVMName E mach)"
    "keeps (\<lambda>w. f (ext w)) (duplicateNameWarning E vn k)" "keeps (\<lambda>w. f (ext w)) (HardShutdownVM E c i)"
  unfolding clusterTags_def removeVBD_def resizeDiskIfNeeded_def setCPUsIfNeeded_def setBootOrder_def
    handleV2BareTaskResponse_def ResolveVMIPNow_def setAllowedRange_def ClaimedAddress_def
    ResolveBootstrapData_def BuildCloudInitWithSSHKeys_def resolveInjectSSHKeys_def ownerClusterIdentity_def
    newXOClient_def computeVMName_def duplicateNameWarning_def HardShutdownVM_def Let_def
  by (intro frames undisturbed[OF assms]; simp add: quiet_ops[OF assms])+

lemma resolve_loop_undisturbed:
  "quiet_calls E f \<Longrightarrow> keeps (\<lambda>w. f (ext w)) (resolve_loop n E c i d b)"
  by (induction n arbitrary: b) (auto intro!: frames undisturbed steps_wake simp: quiet_ops)

lemma addVIFs_undisturbed: "quiet_calls E f \<Longrightarrow> keeps (\<lambda>w. f (ext w)) (addVIFs E c p i ns ps)"
  by (induction ns arbitrary: i ps) (auto intro!: frames undisturbed)

lemma quiet_wholes [undisturbed]:
  assumes "quiet_calls E f"
  shows "keeps (\<lambda>w. f (ext w)) (SetVMTags E m i cl p)" "keeps (\<lambda>w. f (ext w)) (ManageVIFs E c v)"
    "keeps (\<lambda>w. f (ext w)) (ResolveVMIP E c v)" "keeps (\<lambda>w. f (ext w)) (addVIFsToParams E c m ps pl)"
    "keeps (\<lambda>w. f (ext w)) (resolveMachineCredentials E)" "keeps (\<lambda>w. f (ext w)) (DetachPersistentVolumes E c i)"
    "keeps (\<lambda>w. f (ext w)) (StopVMIfNotDetachable E c i)"
  unfolding SetVMTags_def ManageVIFs_def ResolveVMIP_def addVIFsToParams_def resolveMachineCredentials_def
    DetachPersistentVolumes_def StopVMIfNotDetachable_def Let_def
  by (intro frames undisturbed[OF assms] resolve_loop_undisturbed[OF assms] addVIFs_undisturbed[OF assms];
      simp add: quiet_ops[OF assms])+

section \<open>The services as a ledger\<close>

text \<open>
  One machine, by key and UID, with what is recorded of it: the VM name in the status the API server
  holds, the version of the object, the names earlier versions had, and the VMs in Xen Orchestra that
  carry the machine's marker.
\<close>

record 's ledger =
  lg_key :: nn
  lg_uid :: string
  lg_name :: "'s \<Rightarrow> string"
  lg_version :: "'s \<Rightarrow> string"
  lg_past :: "'s \<Rightarrow> string set"
  lg_vms :: "'s \<Rightarrow> vm set"

abbreviation status_name :: "xomachine \<Rightarrow> string" where
  "status_name m \<equiv> mst_vm_name (xm_status m)"

abbreviation version :: "xomachine \<Rightarrow> string" where
  "version m \<equiv> om_resource_version (xm_meta m)"

definition is_machine :: "'s ledger \<Rightarrow> xomachine \<Rightarrow> bool" where
  "is_machine L m \<longleftrightarrow>
     \<lparr>nn_namespace = om_namespace (xm_meta m), nn_name = om_name (xm_meta m)\<rparr> = lg_key L \<and> om_uid (xm_meta m) = lg_uid L"

definition lg_marker :: "'s ledger \<Rightarrow> string" where
  "lg_marker L = ''vates-capi-machine:'' @ lg_uid L"

definition named_vms :: "'s ledger \<Rightarrow> string \<Rightarrow> 's \<Rightarrow> vm set" where
  "named_vms L n s = {v \<in> lg_vms L s. vm_name_label v = n}"

definition lg_view :: "'s ledger \<Rightarrow> 's \<Rightarrow> string \<times> string \<times> string set \<times> vm set" where
  "lg_view L s = (lg_name L s, lg_version L s, lg_past L s, lg_vms L s)"

text \<open>
  The contract of the API server. A write is applied only if it was prepared on the recorded version,
  and may have been applied when its answer is an error; a write of the status records its name, a
  write of the rest leaves the name. A read may answer with an earlier version, as one from the
  manager's cache does.
\<close>

definition update_ledger :: "'s env \<Rightarrow> 's ledger \<Rightarrow> bool" where
  "update_ledger E L \<longleftrightarrow>
     (\<forall>m s r s'. k_update_xomachine (kube E) m s = (r, s') \<longrightarrow> lg_vms L s' = lg_vms L s \<and>
        (is_machine L m \<longrightarrow>
           lg_name L s' = lg_name L s \<and> lg_past L s' = lg_past L s \<and>
           (lg_version L s' = lg_version L s \<or> version m = lg_version L s) \<and>
           (\<forall>m'. r = Inr m' \<longrightarrow> is_machine L m' \<and> status_name m' = lg_name L s')))"

definition status_ledger :: "'s env \<Rightarrow> 's ledger \<Rightarrow> bool" where
  "status_ledger E L \<longleftrightarrow>
     (\<forall>m s r s'. k_status_update_xomachine (kube E) m s = (r, s') \<longrightarrow> lg_vms L s' = lg_vms L s \<and>
        (is_machine L m \<longrightarrow>
           (\<exists>e. r = Inl e \<and> lg_view L s' = lg_view L s) \<or>
           (version m = lg_version L s \<and> lg_name L s' = status_name m \<and>
            lg_past L s' \<subseteq> insert (status_name m) (lg_past L s) \<and>
            (\<forall>m'. r = Inr m' \<longrightarrow> is_machine L m' \<and> status_name m' = status_name m))))"

definition read_ledger :: "'s env \<Rightarrow> 's ledger \<Rightarrow> bool" where
  "read_ledger E L \<longleftrightarrow>
     (\<forall>k s r s'. k_get_xomachine (kube E) k s = (r, s') \<longrightarrow>
        lg_view L s' = lg_view L s \<and>
        (\<forall>m. r = Inr m \<longrightarrow> k = lg_key L \<longrightarrow> is_machine L m \<and> status_name m \<in> insert (lg_name L s) (lg_past L s) \<and>
           (version m = lg_version L s \<longrightarrow> status_name m = lg_name L s)))"

text \<open>
  The contract of Xen Orchestra. A listing by name is complete; a creation brings at most one VM, with
  the name it was asked for, into being, whatever it answers; a deletion brings none.
\<close>

definition listing_ledger :: "'s env \<Rightarrow> 's ledger \<Rightarrow> bool" where
  "listing_ledger E L \<longleftrightarrow>
     (\<forall>c n s r s'. x_vm_get_all (xo E) c (nameLabelFilter n) s = (r, s') \<longrightarrow>
        (\<exists>vms. r = Inr vms \<and>
           named_vms L n s = {v. Some v \<in> set vms \<and> vm_name_label v = n \<and> vm_name_description v = lg_marker L}))"

definition creation_ledger :: "'s env \<Rightarrow> 's ledger \<Rightarrow> bool" where
  "creation_ledger E L \<longleftrightarrow>
     (\<forall>c p ps s r s'. x_vm_create (xo E) c p ps s = (r, s') \<longrightarrow>
        lg_name L s' = lg_name L s \<and> lg_version L s' = lg_version L s \<and> lg_past L s' = lg_past L s \<and>
        (lg_vms L s' = lg_vms L s \<or>
         (\<exists>v. vm_name_label v = cp_name_label ps \<and> lg_vms L s' = insert v (lg_vms L s))))"

definition deletion_ledger :: "'s env \<Rightarrow> 's ledger \<Rightarrow> bool" where
  "deletion_ledger E L \<longleftrightarrow>
     (\<forall>c i s r s'. x_vm_delete (xo E) c i s = (r, s') \<longrightarrow>
        lg_name L s' = lg_name L s \<and> lg_version L s' = lg_version L s \<and> lg_past L s' = lg_past L s \<and>
        lg_vms L s' \<subseteq> lg_vms L s)"

definition keeps_ledger :: "'s env \<Rightarrow> 's ledger \<Rightarrow> bool" where
  "keeps_ledger E L \<longleftrightarrow>
     update_ledger E L \<and> status_ledger E L \<and> read_ledger E L \<and>
     listing_ledger E L \<and> creation_ledger E L \<and> deletion_ledger E L \<and>
     quiet_calls E (lg_view L) \<and> lg_uid L \<noteq> [] \<and> nn_name (lg_key L) \<noteq> []"

lemma keeps_ledgerD:
  assumes "keeps_ledger E L"
  shows "update_ledger E L" "status_ledger E L" "read_ledger E L" "listing_ledger E L"
    "creation_ledger E L" "deletion_ledger E L" "quiet_calls E (lg_view L)"
  using assms by (simp_all add: keeps_ledger_def)

section \<open>Steps that keep the name\<close>

text \<open>
  The name \<open>n\<close> is recorded, and no other before it; the object in hand has it too, or is of an earlier
  version without it. A steady program keeps it so, and the VMs it brings into being
  have their name in \<open>N\<close>.
\<close>

definition settled :: "'s ledger \<Rightarrow> string \<Rightarrow> 's \<Rightarrow> bool" where
  "settled L n s \<longleftrightarrow> lg_name L s = n \<and> lg_past L s \<subseteq> {[], n}"

definition in_line :: "'s ledger \<Rightarrow> string \<Rightarrow> xomachine \<Rightarrow> 's \<Rightarrow> bool" where
  "in_line L n m s \<longleftrightarrow>
     is_machine L m \<and> status_name m \<in> {[], n} \<and> (version m = lg_version L s \<longrightarrow> status_name m = n)"

definition at_name :: "'s ledger \<Rightarrow> string \<Rightarrow> (xomachine, 's) st \<Rightarrow> bool" where
  "at_name L n w \<longleftrightarrow> settled L n (ext w) \<and> in_line L n (obj w) (ext w)"

definition steady :: "string set \<Rightarrow> 's ledger \<Rightarrow> string \<Rightarrow> (xomachine, 's) st \<Rightarrow> (xomachine, 's) st \<Rightarrow> bool" where
  "steady N L n w w' \<longleftrightarrow>
     (at_name L n w \<longrightarrow>
      at_name L n w' \<and> (\<forall>v \<in> lg_vms L (ext w'). v \<in> lg_vms L (ext w) \<or> vm_name_label v \<in> N))"

interpretation std: discipline "steady N L n" for N L n
proof
  show "steady N L n w w" for w by (simp add: steady_def)
  show "steady N L n w u" if "steady N L n w v" "steady N L n v u" for w v u
    using that unfolding steady_def by blast
qed

named_theorems steadies "programs that keep the recorded name"

text \<open>An object that agrees with another on what the ledger looks at.\<close>

definition like :: "xomachine \<Rightarrow> xomachine \<Rightarrow> bool" where
  "like m m' \<longleftrightarrow> om_name (xm_meta m') = om_name (xm_meta m) \<and> om_namespace (xm_meta m') = om_namespace (xm_meta m) \<and>
     om_uid (xm_meta m') = om_uid (xm_meta m) \<and> version m' = version m \<and> status_name m' = status_name m"

lemma like_in_line: "like m m' \<Longrightarrow> in_line L n m s \<Longrightarrow> in_line L n m' s"
  by (simp add: like_def in_line_def is_machine_def)

lemma like_setters [simp]:
  "like m (SetCondition now t st reason msg m)" "like m (mark_ready ip m)" "like m (set_finalizers fs m)"
  "like m (set_addresses as m)" "like m (set_spec_provider_id p m)" "like m (set_status_provider_id p m)"
  by (simp_all add: like_def mark_ready_def set_finalizers_def set_addresses_def
      set_spec_provider_id_def set_status_provider_id_def)

lemma like_node_address: "SetNodeAddress addr m = (ch, m') \<Longrightarrow> like m m'"
  by (auto simp: SetNodeAddress_def like_def set_addresses_def split: if_splits prod.splits)

lemma steady_quiet:
  assumes "keeps_ledger E L" and "keeps obj m"
    and "quiet_calls E (lg_view L) \<Longrightarrow> keeps (\<lambda>w. lg_view L (ext w)) m"
  shows "steps_in (steady N L n) m"
proof -
  have "keeps (\<lambda>w. lg_view L (ext w)) m" using assms(1,3) by (simp add: keeps_ledger_def)
  with assms(2) show ?thesis
    by (auto simp: steps_in_def same_def steady_def at_name_def settled_def in_line_def lg_view_def)
qed

lemma steady_modify [steadies]: "(\<And>m. like m (h m)) \<Longrightarrow> steps_in (steady N L n) (modify_obj h)"
  by (auto simp: steps_in_def steady_def at_name_def intro: like_in_line)

lemma steady_get_obj [steadies]: "steps_in (steady N L n) get_obj"
  by (simp add: steps_in_def steady_def)

lemma steady_emit [steadies]: "steps_in (steady N L n) (emit e)"
  by (simp add: steps_in_def steady_def at_name_def)

text \<open>
  A program that stores a variant of an object it has read: steady as long as that object is still
  the one in hand.
\<close>

definition steady_on :: "xomachine \<Rightarrow> string set \<Rightarrow> 's ledger \<Rightarrow> string \<Rightarrow> (xomachine, 's, 'a) prog \<Rightarrow> bool" where
  "steady_on m N L n p \<longleftrightarrow> (\<forall>w. obj w = m \<longrightarrow> steady N L n w (snd (run_state p w)))"

lemma steady_read: "(\<And>m. steady_on m N L n (f m)) \<Longrightarrow> steps_in (steady N L n) (get_obj \<bind> f)"
  by (simp add: steps_in_def steady_on_def)

lemma steady_on_steady: "steps_in (steady N L n) p \<Longrightarrow> steady_on m N L n p"
  by (simp add: steps_in_def steady_on_def)

lemma steady_on_bind:
  assumes "keeps obj p" and "steps_in (steady N L n) p" and "\<And>x. steady_on m N L n (f x)"
  shows "steady_on m N L n (p \<bind> f)"
  unfolding steady_on_def
proof (intro allI impI)
  fix w :: "(xomachine, 'a) st" assume w: "obj w = m"
  obtain x v where run: "run_state p w = (x, v)" by fastforce
  have "obj v = m" using keeps_run[OF assms(1) run] w by simp
  moreover have "steady N L n w v" using assms(2) run unfolding steps_in_def by (metis snd_conv)
  ultimately show "steady N L n w (snd (run_state (p \<bind> f) w))"
    using assms(3)[of x] run std.discipline_trans unfolding steady_on_def by fastforce
qed

lemma steady_on_set:
  assumes "like m m'" and "steps_in (steady N L n) p"
  shows "steady_on m N L n (do { set_obj m'; p })"
  unfolding steady_on_def
proof (intro allI impI)
  fix w :: "(xomachine, 'a) st" assume w: "obj w = m"
  have "steady N L n w (w\<lparr>obj := m'\<rparr>)"
    using like_in_line[OF assms(1)] w by (auto simp: steady_def at_name_def)
  with assms(2) show "steady N L n w (snd (run_state (do { set_obj m'; p }) w))"
    using std.discipline_trans unfolding steps_in_def by fastforce
qed

section \<open>The three calls on the object\<close>

lemma steadyI:
  "(\<And>w a w'. settled L n (ext w) \<Longrightarrow> in_line L n (obj w) (ext w) \<Longrightarrow> run_state m w = (a, w') \<Longrightarrow>
     at_name L n w' \<and> lg_vms L (ext w') = lg_vms L (ext w)) \<Longrightarrow> steps_in (steady N L n) m"
  unfolding steps_in_def steady_def at_name_def by (metis prod.collapse)

text \<open>A write or read that answers an object stores it; one that fails leaves the object.\<close>

lemma run_writes:
  "k_status_update_xomachine (kube E) (obj w) (ext w) = (r, s) \<Longrightarrow> run_state (status_update E) w = (a, w') \<Longrightarrow>
   ext w' = s \<and> a = failure_of r \<and> obj w' = (case r of Inl e \<Rightarrow> obj w | Inr m \<Rightarrow> m)"
  "k_update_xomachine (kube E) (obj w) (ext w) = (r, s) \<Longrightarrow> run_state (update_machine E) w = (a, w') \<Longrightarrow>
   ext w' = s \<and> a = failure_of r \<and> obj w' = (case r of Inl e \<Rightarrow> obj w | Inr m \<Rightarrow> m)"
  "k_get_xomachine (kube E) \<lparr>nn_namespace = om_namespace (xm_meta (obj w)), nn_name = om_name (xm_meta (obj w))\<rparr> (ext w) =
     (r, s) \<Longrightarrow> run_state (refetch_machine E) w = (a, w') \<Longrightarrow>
   ext w' = s \<and> a = failure_of r \<and> obj w' = (case r of Inl e \<Rightarrow> obj w | Inr m \<Rightarrow> m)"
  by (cases r; auto simp: status_update_def update_machine_def refetch_machine_def)+

text \<open>What an accepted status write, and one that may have been lost, leave behind.\<close>

lemma status_write:
  assumes "keeps_ledger E L" and "is_machine L (obj w)" and "run_state (status_update E) w = (a, w')"
  shows "(\<exists>e. a = Some e \<and> obj w' = obj w \<and> lg_view L (ext w') = lg_view L (ext w)) \<or>
    (version (obj w) = lg_version L (ext w) \<and> lg_name L (ext w') = status_name (obj w) \<and>
     lg_past L (ext w') \<subseteq> insert (status_name (obj w)) (lg_past L (ext w)) \<and> lg_vms L (ext w') = lg_vms L (ext w) \<and>
     is_machine L (obj w') \<and> status_name (obj w') = status_name (obj w))"
proof -
  obtain r s where rs: "k_status_update_xomachine (kube E) (obj w) (ext w) = (r, s)" by fastforce
  have "status_ledger E L" using assms(1) by (simp add: keeps_ledger_def)
  from this rs assms(2) have
    "(\<exists>e. r = Inl e \<and> lg_view L s = lg_view L (ext w)) \<or>
        (version (obj w) = lg_version L (ext w) \<and> lg_name L s = status_name (obj w) \<and>
         lg_past L s \<subseteq> insert (status_name (obj w)) (lg_past L (ext w)) \<and>
         (\<forall>m'. r = Inr m' \<longrightarrow> is_machine L m' \<and> status_name m' = status_name (obj w)))"
    unfolding status_ledger_def by blast
  moreover have "lg_vms L s = lg_vms L (ext w)" using \<open>status_ledger E L\<close> rs unfolding status_ledger_def by blast
  ultimately show ?thesis using run_writes(1)[OF rs assms(3)] assms(2) by (cases r) auto
qed

lemma status_update_steady [steadies]:
  assumes "keeps_ledger E L" shows "steps_in (steady N L n) (status_update E)"
proof (rule steadyI)
  fix w a w'
  assume w: "settled L n (ext w)" "in_line L n (obj w) (ext w)" "run_state (status_update E) w = (a, w')"
  have "is_machine L (obj w)" using w(2) by (simp add: in_line_def)
  from status_write[OF assms this w(3)] w(1,2)
  show "at_name L n w' \<and> lg_vms L (ext w') = lg_vms L (ext w)"
    by (auto simp: at_name_def settled_def in_line_def lg_view_def)
qed

lemma update_machine_steady [steadies]:
  assumes "keeps_ledger E L" shows "steps_in (steady N L n) (update_machine E)"
proof (rule steadyI)
  fix w a w'
  assume w: "settled L n (ext w)" "in_line L n (obj w) (ext w)" "run_state (update_machine E) w = (a, w')"
  obtain r s where rs: "k_update_xomachine (kube E) (obj w) (ext w) = (r, s)" by fastforce
  have "update_ledger E L" "is_machine L (obj w)" using assms w(2) by (simp_all add: keeps_ledger_def in_line_def)
  with rs have u: "lg_name L s = lg_name L (ext w)" "lg_past L s = lg_past L (ext w)" "lg_vms L s = lg_vms L (ext w)"
    "lg_version L s = lg_version L (ext w) \<or> version (obj w) = lg_version L (ext w)"
    "\<And>m'. r = Inr m' \<Longrightarrow> is_machine L m' \<and> status_name m' = lg_name L s"
    unfolding update_ledger_def by blast+
  from run_writes(2)[OF rs w(3)] u w(1,2) show "at_name L n w' \<and> lg_vms L (ext w') = lg_vms L (ext w)"
    by (cases r) (auto simp: at_name_def settled_def in_line_def)
qed

lemma refetch_machine_steady [steadies]:
  assumes "keeps_ledger E L" shows "steps_in (steady N L n) (refetch_machine E)"
proof (rule steadyI)
  fix w a w'
  assume w: "settled L n (ext w)" "in_line L n (obj w) (ext w)" "run_state (refetch_machine E) w = (a, w')"
  let ?k = "\<lparr>nn_namespace = om_namespace (xm_meta (obj w)), nn_name = om_name (xm_meta (obj w))\<rparr>"
  have k: "?k = lg_key L" using w(2) by (simp add: in_line_def is_machine_def)
  obtain r s where rs: "k_get_xomachine (kube E) ?k (ext w) = (r, s)" by fastforce
  have "read_ledger E L" using assms by (simp add: keeps_ledger_def)
  with rs k have u: "lg_view L s = lg_view L (ext w)"
    "\<And>m. r = Inr m \<Longrightarrow> is_machine L m \<and> status_name m \<in> insert (lg_name L (ext w)) (lg_past L (ext w)) \<and>
       (version m = lg_version L (ext w) \<longrightarrow> status_name m = lg_name L (ext w))"
    unfolding read_ledger_def by metis+
  from run_writes(3)[OF rs w(3)] u w(1,2) show "at_name L n w' \<and> lg_vms L (ext w') = lg_vms L (ext w)"
    by (cases r) (auto simp: at_name_def settled_def in_line_def lg_view_def)
qed

section \<open>The operations that bring no VM into being\<close>

lemma bare_calls [frames]:
  "keeps obj (get_vm E c i)" "keeps obj (task_wait E c tp)" "keeps obj (warn E reason note)"
  "keeps obj (duplicateNameWarning E nm k)"
  unfolding get_vm_def task_wait_def warn_def duplicateNameWarning_def by (intro frames)+

lemma quiet_steady [steadies]:
  assumes "keeps_ledger E L"
  shows "steps_in (steady N L n) (get_vm E c i)" "steps_in (steady N L n) (task_wait E c tp)"
    "steps_in (steady N L n) (resolveMachineCredentials E)" "steps_in (steady N L n) (newXOClient E creds)"
    "steps_in (steady N L n) (ResolveTemplateID E c a b)" "steps_in (steady N L n) (ResolvePoolID E c a b)"
    "steps_in (steady N L n) (ResolveBootstrapData E)"
    "steps_in (steady N L n) (BuildCloudInitWithSSHKeys E c d inject)"
    "steps_in (steady N L n) (resolveInjectSSHKeys E mach)" "steps_in (steady N L n) (GetXOCluster E ns nm)"
    "steps_in (steady N L n) (computeVMName E mach)" "steps_in (steady N L n) (addVIFsToParams E c m ps p)"
    "steps_in (steady N L n) (ResolveVMIP E c v)" "steps_in (steady N L n) (ResolveVMIPNow E c v)"
    "steps_in (steady N L n) (ManageVIFs E c v)" "steps_in (steady N L n) (SetVMTags E m i cl prov)"
    "steps_in (steady N L n) (ClaimedAddress E m)" "steps_in (steady N L n) (findAdoptableVM E c nm marker)"
    "steps_in (steady N L n) (resizeDiskIfNeeded E c m v)" "steps_in (steady N L n) (setCPUsIfNeeded E c m v)"
    "steps_in (steady N L n) (setBootOrder E c v)" "steps_in (steady N L n) (handleV2BareTaskResponse E c err)"
    "steps_in (steady N L n) (duplicateNameWarning E nm k)"
    "steps_in (steady N L n) (StopVMIfNotDetachable E c i)" "steps_in (steady N L n) (DetachPersistentVolumes E c i)"
    "steps_in (steady N L n) (HardShutdownVM E c i)" "steps_in (steady N L n) (warn E reason note)"
  by (intro steady_quiet[OF assms] frames undisturbed; assumption)+

lemma clock_steady [steadies]: "keeps_ledger E L \<Longrightarrow> steps_in (steady N L n) (query (e_now E))"
  by (rule steady_quiet) (auto intro!: frames simp: quiet_ops)

lemma UpdateCondition_steady [steadies]: "keeps_ledger E L \<Longrightarrow> steps_in (steady N L n) (UpdateCondition E st reason msg)"
  unfolding UpdateCondition_def by (intro std.steps_bind steadies like_setters)

lemma WithConditionUpdate_steady [steadies]:
  "keeps_ledger E L \<Longrightarrow> steps_in (steady N L n) (WithConditionUpdate E e st reason)"
  unfolding WithConditionUpdate_def by (intro std.steps_struct steadies)

lemma note_failure_steady [steadies]: "keeps_ledger E L \<Longrightarrow> steps_in (steady N L n) (note_failure E reason err)"
  unfolding note_failure_def by (intro std.steps_struct steadies)

lemma add_finalizer_steady [steadies]: "steps_in (steady N L n) (add_finalizer E)"
  unfolding add_finalizer_def Let_def
  by (rule steady_read) (auto split: prod.split intro!: steady_on_set std.steps_struct)

lemma ensureFinalizer_steady [steadies]: "keeps_ledger E L \<Longrightarrow> steps_in (steady N L n) (ensureFinalizer E)"
  unfolding ensureFinalizer_def by (intro std.steps_struct steadies)

lemma removeFinalizer_steady [steadies]: "keeps_ledger E L \<Longrightarrow> steps_in (steady N L n) (removeFinalizer E)"
  unfolding removeFinalizer_def by (intro std.steps_struct steadies like_setters)

lemma start_steady [steadies]:
  "keeps_ledger E L \<Longrightarrow> steps_in (steady N L n) (act ev (x_vm_start (xo E) c i))"
  by (rule steady_quiet) (auto intro!: frames simp: quiet_ops)

lemma StartVM_steady [steadies]: "keeps_ledger E L \<Longrightarrow> steps_in (steady N L n) (StartVM E c v)"
  unfolding StartVM_def Let_def by (intro std.steps_struct steadies)

lemma WaitForVMReady_steady [steadies]: "keeps_ledger E L \<Longrightarrow> steps_in (steady N L n) (WaitForVMReady E c v)"
  unfolding WaitForVMReady_def by (intro std.steps_struct steadies like_setters)

lemma reconcileExistingVM_steady [steadies]:
  "keeps_ledger E L \<Longrightarrow> steps_in (steady N L n) (reconcileExistingVM E c v)"
  unfolding reconcileExistingVM_def by (intro std.steps_struct steadies like_setters)

lemma recordAddress_steady:
  assumes "keeps_ledger E L" shows "steady_on m N L n (recordAddress E c m v)"
  unfolding recordAddress_def
proof (rule steady_on_bind)
  fix addr
  obtain ch m' where e: "SetNodeAddress addr m = (ch, m')" by fastforce
  have "steady_on m N L n (do { set_obj m';
            (if \<not> ch then ret None else do { _ \<leftarrow> status_update E; ret None }) })"
    by (rule steady_on_set[OF like_node_address[OF e]]) (use assms in \<open>intro std.steps_struct steadies\<close>)
  then show "steady_on m N L n (let (changed, m') = SetNodeAddress addr m in
            do { set_obj m';
            (if \<not> changed then ret None else do { _ \<leftarrow> status_update E; ret None }) })"
    by (simp add: e)
qed (use assms in \<open>intro frames steadies\<close>)+

lemma refreshVM_steady:
  assumes "keeps_ledger E L" shows "steady_on m N L n (refreshVM E c m p)"
proof -
  have keep: "keeps obj (SetVMTags E m i (Some c) prov)" "keeps obj (get_vm E c i)" for i prov
    by (intro frames)+
  have "steady_on m N L n (do { r \<leftarrow> get_vm E c i;
               (case r of Inl err \<Rightarrow> ret None | Inr v \<Rightarrow> recordAddress E c m v) })" for i
    by (rule steady_on_bind[OF keep(2) quiet_steady(1)[OF assms]])
       (auto split: sum.split intro: recordAddress_steady[OF assms] steady_on_steady std.steps_ret)
  then show ?thesis
    unfolding refreshVM_def
    by (auto split: sum.split intro!: steady_on_steady[OF std.steps_ret] steady_on_bind[OF keep(1)] steadies assms)
qed

lemma refreshReadyMachine_steady [steadies]:
  assumes "keeps_ledger E L" shows "steps_in (steady N L n) (refreshReadyMachine E)"
proof -
  have refresh: "steps_in (steady N L n) (do { m \<leftarrow> get_obj;
          (case mst_provider_id (xm_status m) of
             None \<Rightarrow> ret (Some nil_dereference) | Some p \<Rightarrow> refreshVM E c m p) })" for c
    by (rule steady_read)
       (auto split: option.split intro: refreshVM_steady[OF assms] steady_on_steady std.steps_ret)
  show ?thesis
    unfolding refreshReadyMachine_def by (rule refresh std.steps_struct steadies assms)+
qed

lemma readyPath_steady [steadies]: "keeps_ledger E L \<Longrightarrow> steps_in (steady N L n) (readyPath E)"
  unfolding readyPath_def by (intro std.steps_struct steadies)

lemma tryFastPath_steady [steadies]: "keeps_ledger E L \<Longrightarrow> steps_in (steady N L n) (tryFastPath E)"
  unfolding tryFastPath_def by (intro std.steps_struct steadies)

lemma InjectKubeVIP_steady [steadies]: "keeps_ledger E L \<Longrightarrow> steps_in (steady N L n) (InjectKubeVIP E mach xc cc)"
  unfolding InjectKubeVIP_def by (intro std.steps_struct steadies)

lemma injectKubeVIPIfNeeded_steady [steadies]:
  "keeps_ledger E L \<Longrightarrow> steps_in (steady N L n) (injectKubeVIPIfNeeded E cc mach)"
  unfolding injectKubeVIPIfNeeded_def by (intro std.steps_struct steadies)

lemma Build_steady [steadies]: "keeps_ledger E L \<Longrightarrow> steps_in (steady N L n) (Build E c mach d b)"
  unfolding Build_def by (intro std.steps_struct steadies)

lemma ipamNetworkConfig_steady [steadies]: "keeps_ledger E L \<Longrightarrow> steps_in (steady N L n) (ipamNetworkConfig E)"
  unfolding ipamNetworkConfig_def by (intro std.steps_struct steadies)

lemma LookupExistingVM_steady [steadies]: "keeps_ledger E L \<Longrightarrow> steps_in (steady N L n) (LookupExistingVM E c i)"
  unfolding LookupExistingVM_def by (intro std.steps_struct steadies)

lemma write_with_retry_steady [steadies]:
  "keeps_ledger E L \<Longrightarrow> (\<And>m. like m (change m)) \<Longrightarrow> steps_in (steady N L n) write \<Longrightarrow>
   steps_in (steady N L n) (write_with_retry E change write)"
  unfolding write_with_retry_def by (intro std.steps_struct steadies)

lemma saveProviderID_steady [steadies]: "keeps_ledger E L \<Longrightarrow> steps_in (steady N L n) (saveProviderID E p)"
  unfolding saveProviderID_def by (intro std.steps_struct steadies like_setters)

lemma recoverCreate_steady [steadies]: "keeps_ledger E L \<Longrightarrow> steps_in (steady N L n) (recoverCreate E c nm marker err)"
  unfolding recoverCreate_def by (intro std.steps_struct steadies)

lemma configureVM_steady [steadies]: "keeps_ledger E L \<Longrightarrow> steps_in (steady N L n) (configureVM E c p prov v)"
  unfolding configureVM_def by (intro std.steps_struct steadies)

lemma finishVM_steady [steadies]: "keeps_ledger E L \<Longrightarrow> steps_in (steady N L n) (finishVM E c v)"
  unfolding finishVM_def by (intro std.steps_struct steadies)

lemma removed_then_done_steady [steadies]: "keeps_ledger E L \<Longrightarrow> steps_in (steady N L n) (removed_then_done E)"
  unfolding removed_then_done_def by (intro std.steps_struct steadies)

lemma delete_act_steady [steadies]:
  assumes "keeps_ledger E L" shows "steps_in (steady N L n) (act ev (x_vm_delete (xo E) c i))"
proof -
  have "deletion_ledger E L" using assms by (simp add: keeps_ledger_def)
  then have "lg_name L s' = lg_name L s \<and> lg_version L s' = lg_version L s \<and> lg_past L s' = lg_past L s \<and>
        lg_vms L s' \<subseteq> lg_vms L s" if "s' = snd (x_vm_delete (xo E) c i s)" for s s'
    using that prod.collapse[of "x_vm_delete (xo E) c i s"] unfolding deletion_ledger_def by metis
  from this[OF refl] show ?thesis
    by (auto simp: steps_in_def steady_def at_name_def settled_def in_line_def split: prod.split)
qed

lemma deleteVM_steady [steadies]: "keeps_ledger E L \<Longrightarrow> steps_in (steady N L n) (deleteVM E c i)"
  unfolding deleteVM_def by (intro std.steps_struct steadies)

lemma reconcileDelete_steady [steadies]: "keeps_ledger E L \<Longrightarrow> steps_in (steady N L n) (reconcileDelete E)"
  unfolding reconcileDelete_def by (intro std.steps_struct steadies)

end
