(* ===== verification/Machine_Runs.thy ===== *)
theory Machine_Runs
  imports Machine_Ledger
begin

text \<open>
  Whole runs of the XOMachine controller against an API server and a Xen Orchestra that keep state:
  however many reconciles a machine goes through, in whatever order creation, loss of answers,
  readiness, errors and deletion occur, it never owns two VMs. The recorded name carries the argument
  from one run to the next: a VM exists only under the name the API server has recorded.
\<close>

section \<open>Creation\<close>

text \<open>A bind whose first part establishes something its second part needs.\<close>

context discipline begin

lemma steps_bind_post:
  assumes "steps_in R m" and "\<And>w. wp m (\<lambda>x w'. P x) w" and "\<And>x. P x \<Longrightarrow> steps_in R (f x)"
  shows "steps_in R (m \<bind> f)"
  unfolding steps_in_def
proof
  fix w
  obtain x v where run: "run_state m w = (x, v)" by fastforce
  have "R w v" using assms(1) run unfolding steps_in_def by (metis snd_conv)
  moreover have "P x" using assms(2)[of w] run by (simp add: wp_def)
  ultimately show "R w (snd (run_state (m \<bind> f) w))"
    using assms(3) run discipline_trans unfolding steps_in_def by fastforce
qed

end

lemma create_act_steady:
  assumes "keeps_ledger E L" and "cp_name_label ps = n"
  shows "steps_in (steady {n} L n) (act ev (x_vm_create (xo E) c p ps))"
proof -
  have "creation_ledger E L" using assms by (simp add: keeps_ledger_def)
  then have "lg_name L s' = lg_name L s \<and> lg_version L s' = lg_version L s \<and> lg_past L s' = lg_past L s \<and>
        (\<forall>v \<in> lg_vms L s'. v \<in> lg_vms L s \<or> vm_name_label v = n)" if "s' = snd (x_vm_create (xo E) c p ps s)" for s s'
    using that prod.collapse[of "x_vm_create (xo E) c p ps s"] assms(2) unfolding creation_ledger_def
    by (metis insert_iff)
  from this[OF refl] show ?thesis
    by (auto simp: steps_in_def steady_def at_name_def settled_def in_line_def split: prod.split)
qed

lemma createOrAdopt_steady:
  assumes "keeps_ledger E L" and "cp_name_label ps = n"
  shows "steps_in (steady {n} L n) (createOrAdopt E c p ps n marker (Some (duplicateNameWarning E)))"
  unfolding createOrAdopt_def option.case by (intro std.steps_struct steadies create_act_steady assms)

lemma CreateVM_steady:
  assumes "keeps_ledger E L"
  shows "steps_in (steady {n} L n) (CreateVM E c p t cc nc n prov (Some (duplicateNameWarning E)))"
proof -
  have tail: "steps_in (steady {n} L n) (do { ps \<leftarrow> addVIFsToParams E c m ps0 p;
       r \<leftarrow> createOrAdopt E c p ps n marker (Some (duplicateNameWarning E));
       (case r of Inl err \<Rightarrow> ret (Inl err) | Inr v \<Rightarrow> configureVM E c p prov v) })"
    if "cp_name_label ps0 = n" for m ps0 marker
  proof (rule std.steps_bind_post[OF quiet_steady(12)[OF assms]])
    show "wp (addVIFsToParams E c m ps0 p) (\<lambda>ps w'. cp_name_label ps = n) w" for w :: "(xomachine, 'a) st"
      by (rule wp_mono[OF addVIFsToParams_identity]) (use that in \<open>simp add: same_identity_def\<close>)
  qed (intro std.steps_struct steadies createOrAdopt_steady assms)
  have named: "cp_name_label ps = n" if "memoryParam E m (buildCreateParams t n cc nc marker) = Inr ps" for m ps marker
    using memoryParam_identity[OF that] by (simp add: same_identity_def buildCreateParams_def)
  show ?thesis
    unfolding CreateVM_def Let_def
    by ((rule tail, erule named) | rule std.steps_struct steadies assms)+
qed

text \<open>The VMs of the machine under one name, as the store \<open>Vm_Retry\<close> speaks of.\<close>

lemma ledger_quiet:
  assumes "keeps_ledger E L" shows "quiet_calls E (named_vms L n)"
proof -
  have q: "quiet_calls E (lg_view L)" using assms by (simp add: keeps_ledger_def)
  have view: "lg_view L s' = lg_view L s \<Longrightarrow> named_vms L n s' = named_vms L n s" for s s'
    by (simp add: named_vms_def lg_view_def)
  show ?thesis unfolding quiet_calls_def by (intro conjI allI view; simp add: quiet_ops[OF q])
qed

lemma ledger_leaves_alone:
  assumes "keeps_ledger E L" shows "leaves_alone E c (named_vms L n)"
proof -
  have u: "update_ledger E L" and st: "status_ledger E L" and rd: "read_ledger E L"
    using assms by (simp_all add: keeps_ledger_def)
  have view: "lg_view L s' = lg_view L s \<Longrightarrow> named_vms L n s' = named_vms L n s" for s s'
    by (simp add: named_vms_def lg_view_def)
  have vms: "lg_vms L s' = lg_vms L s \<Longrightarrow> named_vms L n s' = named_vms L n s" for s s'
    by (simp add: named_vms_def)
  have update: "named_vms L n (snd (k_update_xomachine (kube E) m s)) = named_vms L n s" for m s
  proof -
    obtain r s' where "k_update_xomachine (kube E) m s = (r, s')" by fastforce
    with u have "lg_vms L s' = lg_vms L s" unfolding update_ledger_def by blast
    with \<open>k_update_xomachine (kube E) m s = (r, s')\<close> show ?thesis using vms[of s' s] by simp
  qed
  have status: "named_vms L n (snd (k_status_update_xomachine (kube E) m s)) = named_vms L n s" for m s
  proof -
    obtain r s' where "k_status_update_xomachine (kube E) m s = (r, s')" by fastforce
    with st have "lg_vms L s' = lg_vms L s" unfolding status_ledger_def by blast
    with \<open>k_status_update_xomachine (kube E) m s = (r, s')\<close> show ?thesis using vms[of s' s] by simp
  qed
  have read: "named_vms L n (snd (k_get_xomachine (kube E) k s)) = named_vms L n s" for k s
  proof -
    obtain r s' where "k_get_xomachine (kube E) k s = (r, s')" by fastforce
    with rd have "lg_view L s' = lg_view L s" unfolding read_ledger_def by blast
    with \<open>k_get_xomachine (kube E) k s = (r, s')\<close> show ?thesis using view[of s' s] by simp
  qed
  show ?thesis
    unfolding leaves_alone_def by (simp add: update status read quiet_ops[OF ledger_quiet[OF assms]])
qed

lemma ledger_store:
  assumes "keeps_ledger E L" shows "vm_store E c n (lg_marker L) (named_vms L n)"
proof -
  have ls: "listing_ledger E L" and cr: "creation_ledger E L"
    using assms by (simp_all add: keeps_ledger_def)
  have listing: "named_vms L n s' = named_vms L n s" if "x_vm_get_all (xo E) c f s = (r, s')" for f s r s'
    using quiet_ops(14)[OF ledger_quiet[OF assms], of n c f s] that by simp
  have create: "named_vms L n s' = named_vms L n s \<or> (\<exists>v. named_vms L n s' = insert v (named_vms L n s))"
    if "x_vm_create (xo E) c p ps s = (r, s')" for p ps s r s'
  proof -
    from cr that consider "lg_vms L s' = lg_vms L s" | v where "lg_vms L s' = insert v (lg_vms L s)"
      unfolding creation_ledger_def by blast
    then show ?thesis
    proof cases
      case 2
      then show ?thesis by (cases "vm_name_label v = n") (auto simp: named_vms_def)
    qed (simp add: named_vms_def)
  qed
  show ?thesis
    unfolding vm_store_def using ledger_leaves_alone[OF assms] listing create ls unfolding listing_ledger_def by blast
qed

section \<open>A whole run\<close>

text \<open>
  \<open>sound\<close> is the invariant between runs: at most one VM, under the recorded name, which is \<open>N\<close> if \<open>N\<close> is
  not empty. \<open>in_order\<close> adds the object in hand, during a run.
\<close>

definition sole :: "'s ledger \<Rightarrow> string \<Rightarrow> 's \<Rightarrow> bool" where
  "sole L n s \<longleftrightarrow> at_most_one (lg_vms L s) \<and> (\<forall>v \<in> lg_vms L s. vm_name_label v = n \<and> n \<noteq> [])"

definition sound :: "string \<Rightarrow> 's ledger \<Rightarrow> 's \<Rightarrow> bool" where
  "sound N L s \<longleftrightarrow> (N \<noteq> [] \<longrightarrow> lg_name L s = N) \<and> lg_past L s \<subseteq> {[], lg_name L s} \<and> sole L (lg_name L s) s"

definition in_order :: "string \<Rightarrow> 's ledger \<Rightarrow> (xomachine, 's) st \<Rightarrow> bool" where
  "in_order N L w \<longleftrightarrow> (N \<noteq> [] \<longrightarrow> lg_name L (ext w) = N) \<and> at_name L (lg_name L (ext w)) w \<and> sole L (lg_name L (ext w)) (ext w)"

lemma in_order_sound: "in_order N L w \<Longrightarrow> sound N L (ext w)"
  by (simp add: in_order_def sound_def at_name_def settled_def)

lemma at_name_name: "at_name L n w \<Longrightarrow> lg_name L (ext w) = n"
  by (simp add: at_name_def settled_def)

lemma sole_subset: "sole L n s \<Longrightarrow> lg_vms L s' \<subseteq> lg_vms L s \<Longrightarrow> sole L n s'"
  unfolding sole_def at_most_one_def by blast

lemma steady_wp:
  assumes "steps_in (steady {} L (lg_name L (ext w))) m" and "in_order N L w"
    and "\<And>a w'. in_order N L w' \<Longrightarrow> Q a w'"
  shows "wp m Q w"
proof (rule wpI)
  fix a w' assume run: "run_state m w = (a, w')"
  let ?n = "lg_name L (ext w)"
  have "at_name L ?n w'" "lg_vms L (ext w') \<subseteq> lg_vms L (ext w)"
    using assms(1,2) run unfolding steps_in_def steady_def in_order_def by (fastforce dest: spec[of _ w])+
  then have "in_order N L w'"
    using assms(2) sole_subset at_name_name[of L ?n w'] unfolding in_order_def by metis
  then show "Q a w'" by (rule assms(3))
qed

text \<open>The name a machine is given is never empty.\<close>

lemma nameFor_nonempty:
  "nameFor m mach cn naming = Inr n \<Longrightarrow> om_name (xm_meta m) \<noteq> [] \<Longrightarrow> n \<noteq> []"
  by (auto simp: nameFor_def VMNameFromNaming_def DefaultVMName_def Let_def split: option.splits if_splits)

lemma computeVMName_wp:
  assumes "om_name (xm_meta (obj w)) \<noteq> []"
  shows "wp (computeVMName E mach) (\<lambda>r w'. \<forall>n. r = Inr n \<longrightarrow> n \<noteq> []) w"
proof -
  have "wp (GetXOCluster E ns cn) (\<lambda>r. wp (case r of
          Inl err \<Rightarrow> ret (Inl (Wrapped msg err))
        | Inr xc \<Rightarrow> ret (nameFor (obj w) mach cn (naming xc))) (\<lambda>r w'. \<forall>n. r = Inr n \<longrightarrow> n \<noteq> [])) w"
    for ns cn msg and naming :: "xocluster option \<Rightarrow> vm_naming_spec option"
    by (rule wp_emits[OF GetXOCluster_emits[where P = "\<lambda>_. True"]])
       (auto split: sum.split dest: nameFor_nonempty[OF _ assms])
  then show ?thesis
    using nameFor_nonempty[OF _ assms] by (auto simp: computeVMName_def Let_def)
qed

lemma is_machine_name: "is_machine L m \<Longrightarrow> om_name (xm_meta m) = nn_name (lg_key L)"
  unfolding is_machine_def by (metis nn.select_convs(2))

text \<open>Recording a name for an object without one. A write on an old version is refused, so none was recorded.\<close>

lemma record_name:
  assumes L: "keeps_ledger E L" and w: "in_order N L w" "status_name (obj w) = []" and n: "n \<noteq> []"
    and run: "run_state (status_update E) (w\<lparr>obj := set_vm_name n (obj w)\<rparr>) = (u, w')"
  shows "sound N L (ext w') \<and> (u = None \<longrightarrow> in_order N L w' \<and> lg_name L (ext w') = n)"
proof -
  let ?w = "w\<lparr>obj := set_vm_name n (obj w)\<rparr>"
  have m: "is_machine L (obj ?w)" "status_name (obj ?w) = n" "version (obj ?w) = version (obj w)"
    using w by (simp_all add: in_order_def at_name_def in_line_def is_machine_def set_vm_name_def)
  show ?thesis
    using status_write[OF L m(1) run]
  proof (elim disjE exE conjE)
    fix e assume "u = Some e" "lg_view L (ext w') = lg_view L (ext ?w)"
    with in_order_sound[OF w(1)] show ?thesis by (simp add: sound_def sole_def lg_view_def)
  next
    assume u: "version (obj ?w) = lg_version L (ext ?w)" "lg_name L (ext w') = status_name (obj ?w)"
      "lg_past L (ext w') \<subseteq> insert (status_name (obj ?w)) (lg_past L (ext ?w))" "lg_vms L (ext w') = lg_vms L (ext ?w)"
      "is_machine L (obj w')" "status_name (obj w') = status_name (obj ?w)"
    have "lg_name L (ext w) = []" "lg_past L (ext w) \<subseteq> {[]}" "lg_vms L (ext w) = {}" "N = []"
      using w u(1) m(3) by (auto simp: in_order_def at_name_def in_line_def settled_def sole_def)
    then have "in_order N L w'"
      using u m(2) by (auto simp: in_order_def at_name_def in_line_def settled_def sole_def at_most_one_def)
    with in_order_sound[OF this] u(2) m(2) show ?thesis by simp
  qed
qed

text \<open>Once the name is resolved, it is recorded, and nothing was created under another.\<close>

lemma resolveVMName_in_order:
  assumes L: "keeps_ledger E L" and w: "in_order N L w"
  shows "wp (resolveVMName E mach)
    (\<lambda>r w'. sound N L (ext w') \<and> (\<forall>n. r = Inr n \<longrightarrow> in_order N L w' \<and> lg_name L (ext w') = n \<and> n \<noteq> [])) w"
    (is "wp _ ?Q w")
proof (cases "status_name (obj w) = []")
  case False
  with w have "lg_name L (ext w) = status_name (obj w)"
    by (simp add: in_order_def at_name_def in_line_def)
  with False w in_order_sound[OF w] show ?thesis by (simp add: resolveVMName_def)
next
  case True
  have "is_machine L (obj w)" using w by (simp add: in_order_def at_name_def in_line_def)
  then have name: "om_name (xm_meta (obj w)) \<noteq> []"
    using L is_machine_name[of L "obj w"] by (simp add: keeps_ledger_def)
  have failed: "wp (do { e \<leftarrow> WithConditionUpdate E err ConditionFalse ''VMNameUnresolved''; ret (Inl e) }) ?Q v"
    if "in_order N L v" for err v
    unfolding wp_simps by (rule steady_wp[OF WithConditionUpdate_steady[OF L] that]) (simp add: in_order_sound)
  have stored: "wp (do { modify_obj (set_vm_name n);
                  u \<leftarrow> status_update E;
                  (case u of Some err \<Rightarrow> ret (Inl err) | None \<Rightarrow> ret (Inr n)) }) ?Q v"
    if v: "in_order N L v" "status_name (obj v) = []" and n: "n \<noteq> []" for v n
    using record_name[OF L v n] n
    by (cases "run_state (status_update E) (v\<lparr>obj := set_vm_name n (obj v)\<rparr>)") (auto simp: wp_def split: option.splits)
  have "wp (computeVMName E mach)
     (\<lambda>r w'. (in_order N L w' \<and> status_name (obj w') = []) \<and> (\<forall>n. r = Inr n \<longrightarrow> n \<noteq> [])) w"
    unfolding wp_conj
    using steady_wp[OF quiet_steady(11)[OF L] w, of "\<lambda>r w'. in_order N L w'"] computeVMName_wp[OF name]
      wp_keeps[OF computeVMName_keeps, of w "\<lambda>r w'. status_name (obj w') = []"] True by simp
  then have "wp (computeVMName E mach) (\<lambda>r. wp (case r of
        Inl err \<Rightarrow> do { e \<leftarrow> WithConditionUpdate E err ConditionFalse ''VMNameUnresolved''; ret (Inl e) }
      | Inr n \<Rightarrow> do { modify_obj (set_vm_name n); u \<leftarrow> status_update E;
           (case u of Some err \<Rightarrow> ret (Inl err) | None \<Rightarrow> ret (Inr n)) }) ?Q) w"
    by (rule wp_mono) (use failed stored in \<open>auto split: sum.split\<close>)
  with True show ?thesis unfolding resolveVMName_def by simp
qed

text \<open>The creation itself: its register has the recorded name, and there is nothing beside it.\<close>

lemma CreateVM_wp:
  assumes L: "keeps_ledger E L" and w: "in_order N L w" and n: "lg_name L (ext w) = n" "n \<noteq> []"
  shows "wp (CreateVM E c p t cc nc n prov (Some (duplicateNameWarning E))) (\<lambda>r w'. in_order N L w') w"
proof (rule wpI)
  fix r w'
  assume run: "run_state (CreateVM E c p t cc nc n prov (Some (duplicateNameWarning E))) w = (r, w')"
  have marker: "lg_marker L = vmMarker (Some (obj w))" "lg_marker L \<noteq> []"
    using L w by (auto simp: keeps_ledger_def in_order_def at_name_def in_line_def is_machine_def lg_marker_def vmMarker_def)
  have "keeps (\<lambda>w. named_vms L n (ext w)) (duplicateNameWarning E n k)" for k
    unfolding duplicateNameWarning_def warn_def by (intro frames)
  then have "wp (CreateVM E c p t cc nc n prov (Some (duplicateNameWarning E)))
     (\<lambda>r w'. register_step (named_vms L n (ext w)) (named_vms L n (ext w'))) w"
    by (intro CreateVM_own[OF ledger_store[OF L] marker]) auto
  from wp_run[OF this run] have reg: "register_step (named_vms L n (ext w)) (named_vms L n (ext w'))" .
  have "at_name L n w'" and new: "\<forall>v \<in> lg_vms L (ext w'). v \<in> lg_vms L (ext w) \<or> vm_name_label v = n"
    using CreateVM_steady[OF L, of n c p t cc nc prov] w n run unfolding steps_in_def steady_def in_order_def
    by (fastforce dest: spec[of _ w])+
  moreover have labels: "\<forall>v \<in> lg_vms L (ext w'). vm_name_label v = n"
    using new w n by (auto simp: in_order_def sole_def)
  moreover have "at_most_one (lg_vms L (ext w'))"
  proof -
    have "at_most_one (named_vms L n (ext w))" using w by (auto simp: in_order_def sole_def named_vms_def at_most_one_def)
    from register_step_at_most_one[OF reg this] labels show ?thesis by (auto simp: named_vms_def at_most_one_def)
  qed
  ultimately show "in_order N L w'"
    using at_name_name[of L n w'] n w by (simp add: in_order_def sole_def)
qed

text \<open>From there on, a run that goes on is in order, and one that stops is sound.\<close>

definition goes_well :: "string \<Rightarrow> 's ledger \<Rightarrow> (xomachine, 's, error + 'a) prog \<Rightarrow> bool" where
  "goes_well N L m \<longleftrightarrow>
     (\<forall>w. in_order N L w \<longrightarrow> wp m (\<lambda>r w'. sound N L (ext w') \<and> (\<forall>x. r = Inr x \<longrightarrow> in_order N L w')) w)"

lemma goes_well_run: "goes_well N L m \<Longrightarrow> in_order N L w \<Longrightarrow> sound N L (ext (snd (run_state m w)))"
  by (cases "run_state m w") (auto simp: goes_well_def wp_def)

lemma goes_well_steady: "(\<And>n. steps_in (steady {} L n) m) \<Longrightarrow> goes_well N L m"
  unfolding goes_well_def by (intro allI impI, erule steady_wp[rotated]) (simp_all add: in_order_sound)

lemma goes_well_bind:
  assumes "\<And>n. steps_in (steady {} L n) m" and "\<And>x. goes_well N L (f x)"
  shows "goes_well N L (m \<bind> f)"
  unfolding goes_well_def wp_simps
  by (intro allI impI steady_wp[OF assms(1)]) (use assms(2) in \<open>auto simp: goes_well_def\<close>)

lemma goes_well_try:
  assumes "goes_well N L m" and "\<And>x. goes_well N L (g x)"
  shows "goes_well N L (do { r \<leftarrow> m; (case r of Inl err \<Rightarrow> ret (Inl err) | Inr x \<Rightarrow> g x) })"
  unfolding goes_well_def wp_simps
proof (intro allI impI)
  fix w assume "in_order N L w"
  with assms(1) have "wp m (\<lambda>r w'. sound N L (ext w') \<and> (\<forall>x. r = Inr x \<longrightarrow> in_order N L w')) w"
    by (simp add: goes_well_def)
  then show "wp m (\<lambda>r. wp (case r of Inl err \<Rightarrow> ret (Inl err) | Inr x \<Rightarrow> g x)
        (\<lambda>r w'. sound N L (ext w') \<and> (\<forall>x. r = Inr x \<longrightarrow> in_order N L w'))) w"
    by (rule wp_mono) (use assms(2) in \<open>auto simp: goes_well_def split: sum.split\<close>)
qed

lemma goes_well_cases:
  "goes_well N L m \<Longrightarrow> goes_well N L n \<Longrightarrow> goes_well N L (if b then m else n)"
  "(\<And>e. goes_well N L (f e)) \<Longrightarrow> (\<And>y. goes_well N L (g y)) \<Longrightarrow> goes_well N L (case x of Inl e \<Rightarrow> f e | Inr y \<Rightarrow> g y)"
  "goes_well N L m \<Longrightarrow> (\<And>y. goes_well N L (h y)) \<Longrightarrow> goes_well N L (case z of None \<Rightarrow> m | Some y \<Rightarrow> h y)"
  "(\<And>a b. goes_well N L (j a b)) \<Longrightarrow> goes_well N L (case p of (a, b) \<Rightarrow> j a b)"
  by (auto split: sum.split option.split prod.split)

lemma goes_well_ret: "goes_well N L (ret r)"
  by (simp add: goes_well_def in_order_sound)

lemma createVM_goes_well:
  assumes "keeps_ledger E L" shows "goes_well N L (createVM E mach c p t cc nc)"
  unfolding goes_well_def
proof (intro allI impI)
  fix w assume w: "in_order N L w"
  let ?Q = "\<lambda>r w'. sound N L (ext w') \<and> (\<forall>x. r = Inr x \<longrightarrow> in_order N L w')"
  have named: "wp (do { m \<leftarrow> get_obj; CreateVM E c p t cc nc n (ms_bootstrap_provider (xm_spec m))
      (Some (duplicateNameWarning E)) }) ?Q v" if "in_order N L v" "lg_name L (ext v) = n" "n \<noteq> []" for n v
    unfolding wp_simps(2,3)
    by (rule wp_mono[OF CreateVM_wp[OF assms that]]) (simp add: in_order_sound)
  have "wp (case r of Inl err \<Rightarrow> ret (Inl err) | Inr n \<Rightarrow> do { m \<leftarrow> get_obj; CreateVM E c p t cc nc n
      (ms_bootstrap_provider (xm_spec m)) (Some (duplicateNameWarning E)) }) ?Q v"
    if "sound N L (ext v)" "\<forall>n. r = Inr n \<longrightarrow> in_order N L v \<and> lg_name L (ext v) = n \<and> n \<noteq> []" for r v
    using that named by (cases r) (simp_all only: sum.case wp_simps(1), blast+)
  then show "wp (createVM E mach c p t cc nc) ?Q w"
    unfolding createVM_def wp_simps(2)
    by (intro wp_mono[OF resolveVMName_in_order[OF assms w]]) blast
qed

lemma obtainVM_goes_well:
  assumes "keeps_ledger E L" shows "goes_well N L (obtainVM E mach c p t cc nc)"
  unfolding obtainVM_def
  by (intro goes_well_bind goes_well_cases goes_well_ret createVM_goes_well assms)
     (intro goes_well_steady std.steps_struct steadies assms)+

lemma placeVM_goes_well:
  assumes "keeps_ledger E L" shows "goes_well N L (placeVM E mach c cc nc)"
  unfolding placeVM_def
  by (intro goes_well_try goes_well_bind goes_well_cases goes_well_ret obtainVM_goes_well assms)
     (intro goes_well_steady std.steps_struct steadies assms)+

lemma provision_goes_well:
  assumes "keeps_ledger E L" shows "goes_well N L (provision E bs c)"
  unfolding provision_def
  by (intro goes_well_bind goes_well_cases goes_well_ret placeVM_goes_well assms)
     (intro goes_well_steady std.steps_struct steadies assms)+

lemma fullReconcile_goes_well:
  assumes "keeps_ledger E L" shows "goes_well N L (fullReconcile E)"
  unfolding fullReconcile_def
  by (intro goes_well_bind goes_well_cases goes_well_ret provision_goes_well assms)
     (intro goes_well_steady std.steps_struct steadies assms)+

lemma reconcileNormal_goes_well:
  assumes "keeps_ledger E L" shows "goes_well N L (reconcileNormal E)"
  unfolding reconcileNormal_def
  by (intro goes_well_bind goes_well_cases goes_well_ret fullReconcile_goes_well assms)
     (intro goes_well_steady std.steps_struct steadies assms)+

lemma Reconcile_sound:
  assumes "keeps_ledger E L" and "sound N L (ext w)"
  shows "sound N L (ext (snd (run_state (Reconcile E (lg_key L)) w)))"
proof -
  obtain r s where rs: "k_get_xomachine (kube E) (lg_key L) (ext w) = (r, s)" by fastforce
  have "read_ledger E L" using assms(1) by (simp add: keeps_ledger_def)
  with rs have view: "lg_view L s = lg_view L (ext w)"
    and read: "\<And>m. r = Inr m \<Longrightarrow> is_machine L m \<and> status_name m \<in> insert (lg_name L (ext w)) (lg_past L (ext w)) \<and>
       (version m = lg_version L (ext w) \<longrightarrow> status_name m = lg_name L (ext w))"
    unfolding read_ledger_def by blast+
  have s: "sound N L s" using assms(2) view by (simp add: sound_def sole_def lg_view_def)
  show ?thesis
  proof (cases r)
    case (Inl err)
    with rs s show ?thesis by (simp add: Reconcile_def)
  next
    case (Inr m)
    let ?v = "w\<lparr>ext := s, obj := m\<rparr>"
    have v: "in_order N L ?v"
      using read[OF Inr] s view
      by (auto simp: in_order_def at_name_def settled_def in_line_def sound_def lg_view_def)
    have "sound N L (ext (snd (run_state (reconcileNormal E) ?v)))"
      by (rule goes_well_run[OF reconcileNormal_goes_well[OF assms(1)] v])
    moreover have "wp (reconcileDelete E) (\<lambda>r w'. sound N L (ext w')) ?v"
      by (rule steady_wp[OF reconcileDelete_steady[OF assms(1)] v]) (rule in_order_sound)
    then have "sound N L (ext (snd (run_state (reconcileDelete E) ?v)))"
      by (auto simp: wp_def split: prod.splits)
    ultimately show ?thesis using rs Inr by (simp add: Reconcile_def)
  qed
qed

section \<open>Any number of runs\<close>

text \<open>
  The states the services go through while the controller works on the machine: runs of
  \<open>Reconcile\<close>, whatever object is in memory when they start, and steps of others, which may change
  anything but the recorded name, and remove VMs.
\<close>

inductive machine_runs :: "'s env \<Rightarrow> 's ledger \<Rightarrow> 's \<Rightarrow> 's \<Rightarrow> bool" for E L where
  start: "machine_runs E L s s"
| run: "machine_runs E L s s' \<Longrightarrow> ext w = s' \<Longrightarrow>
    machine_runs E L s (ext (snd (run_state (Reconcile E (lg_key L)) w)))"
| other: "machine_runs E L s s' \<Longrightarrow> lg_name L s'' = lg_name L s' \<Longrightarrow> lg_past L s'' \<subseteq> lg_past L s' \<Longrightarrow>
    lg_vms L s'' \<subseteq> lg_vms L s' \<Longrightarrow> machine_runs E L s s''"

lemma machine_runs_sound:
  assumes "keeps_ledger E L" and "machine_runs E L s s'" and "sound N L s"
  shows "sound N L s'"
  using assms(2,3)
proof (induction rule: machine_runs.induct)
  case (run s s' w)
  then show ?case using Reconcile_sound[OF assms(1)] by blast
next
  case (other s s' s'')
  then have "sound N L s'" by blast
  with other sole_subset show ?case unfolding sound_def by (metis subset_trans)
qed



text \<open>
  Services that keep such a ledger: an API server with one object and its versions, and a Xen Orchestra
  that creates the VM it is asked for and then answers with a timeout.
\<close>

definition kept_ledger :: "(xomachine \<times> vm list) ledger" where
  "kept_ledger = \<lparr>lg_key = \<lparr>nn_namespace = ''default'', nn_name = ''demo-cp-7n62g''\<rparr>, lg_uid = ''uid-1'',
     lg_name = (\<lambda>s. status_name (fst s)), lg_version = (\<lambda>s. version (fst s)),
     lg_past = (\<lambda>s. {[], status_name (fst s)}),
     lg_vms = (\<lambda>s. {v \<in> set (snd s). vm_name_description v = ''vates-capi-machine:uid-1''})\<rparr>"

definition next_version :: "xomachine \<Rightarrow> xomachine" where
  "next_version m = m\<lparr>xm_meta := (xm_meta m)\<lparr>om_resource_version := version m @ ''i''\<rparr>\<rparr>"

definition ledger_write ::
  "(xomachine \<Rightarrow> xomachine \<Rightarrow> xomachine) \<Rightarrow> xomachine \<Rightarrow> xomachine \<times> vm list \<Rightarrow>
   (error + xomachine) \<times> (xomachine \<times> vm list)" where
  "ledger_write merge m s =
     (if is_machine kept_ledger m \<and> version m = version (fst s)
      then (Inr (next_version (merge m (fst s))), (next_version (merge m (fst s)), snd s))
      else (Inl (ApiStatus Conflict ''the object has been modified''), s))"

definition ledger_env :: "(xomachine \<times> vm list) env" where
  "ledger_env = ref_env\<lparr>
     kube := ref_kube\<lparr>
       k_get_xomachine := (\<lambda>k s. if is_machine kept_ledger (fst s) then (Inr (fst s), s)
                                 else (Inl (ApiStatus NotFound ''xomachine not found''), s)),
       k_update_xomachine := ledger_write (\<lambda>m old. m\<lparr>xm_status := xm_status old\<rparr>),
       k_status_update_xomachine := ledger_write (\<lambda>m old. old\<lparr>xm_meta := xm_meta m, xm_status := xm_status m\<rparr>)\<rparr>,
     xo := ref_xo\<lparr>
       x_vm_get_all := (\<lambda>c f s. (Inr (map Some (snd s)), s)),
       x_vm_create := (\<lambda>c p ps s. (Inl (Plain ''timeout''), (fst s,
          snd s @ [ref_vm\<lparr>vm_name_label := cp_name_label ps, vm_name_description := cp_name_description ps\<rparr>]))),
       x_vm_delete := (\<lambda>c i s. (Inr (), (fst s, filter (\<lambda>v. vm_id v \<noteq> i) (snd s))))\<rparr>\<rparr>"

definition run_once :: "xomachine \<times> vm list \<Rightarrow> xomachine \<times> vm list" where
  "run_once s = ext (snd (run_state (Reconcile ledger_env (lg_key kept_ledger)) (start_state ref_machine s)))"

lemma is_machine_next: "is_machine L (next_version m) = is_machine L m"
  by (simp add: is_machine_def next_version_def)

lemma ledger_write_run:
  "ledger_write merge m s = (r, s') \<Longrightarrow>
   (\<exists>e. r = Inl e) \<and> s' = s \<or>
   is_machine kept_ledger m \<and> version m = version (fst s) \<and>
     r = Inr (next_version (merge m (fst s))) \<and> s' = (next_version (merge m (fst s)), snd s)"
  by (auto simp: ledger_write_def split: if_splits)

lemma ledger_kube:
  "k_update_xomachine (kube ledger_env) = ledger_write (\<lambda>m old. m\<lparr>xm_status := xm_status old\<rparr>)"
  "k_status_update_xomachine (kube ledger_env) =
     ledger_write (\<lambda>m old. old\<lparr>xm_meta := xm_meta m, xm_status := xm_status m\<rparr>)"
  by (simp_all add: ledger_env_def)

lemma kept_append:
  "lg_vms kept_ledger (m, vs @ [v]) =
     (if vm_name_description v = ''vates-capi-machine:uid-1'' then insert v (lg_vms kept_ledger (m, vs))
      else lg_vms kept_ledger (m, vs))"
  by (auto simp: kept_ledger_def)

lemma kept_parts:
  "lg_name kept_ledger s = status_name (fst s)" "lg_version kept_ledger s = version (fst s)"
  "lg_past kept_ledger s = {[], status_name (fst s)}"
  by (simp_all add: kept_ledger_def)

lemma ledger_env_keeps: "keeps_ledger ledger_env kept_ledger"
proof -
  have "update_ledger ledger_env kept_ledger"
    unfolding update_ledger_def
    by (intro allI impI, drule ledger_write_run[of "\<lambda>m old. m\<lparr>xm_status := xm_status old\<rparr>", folded ledger_kube(1)])
       (auto simp: kept_ledger_def next_version_def is_machine_def)
  moreover have "status_ledger ledger_env kept_ledger"
    unfolding status_ledger_def
    by (intro allI impI, drule ledger_write_run[of "\<lambda>m old. old\<lparr>xm_meta := xm_meta m, xm_status := xm_status m\<rparr>", folded ledger_kube(2)])
       (auto simp: kept_ledger_def next_version_def is_machine_def lg_view_def)
  moreover have "read_ledger ledger_env kept_ledger"
    by (auto simp: read_ledger_def ledger_env_def lg_view_def kept_ledger_def split: if_splits)
  moreover have "listing_ledger ledger_env kept_ledger"
    by (auto simp: listing_ledger_def ledger_env_def kept_ledger_def named_vms_def lg_marker_def)
  moreover have "creation_ledger ledger_env kept_ledger"
    unfolding creation_ledger_def
  proof (intro allI impI)
    fix c p ps s r s' assume "x_vm_create (xo ledger_env) c p ps s = (r, s')"
    moreover define v where "v = ref_vm\<lparr>vm_name_label := cp_name_label ps, vm_name_description := cp_name_description ps\<rparr>"
    ultimately have s': "s' = (fst s, snd s @ [v])" by (simp add: ledger_env_def)
    have "vm_name_label v = cp_name_label ps" by (simp add: v_def)
    with kept_append[of "fst s" "snd s" v]
    show "lg_name kept_ledger s' = lg_name kept_ledger s \<and> lg_version kept_ledger s' = lg_version kept_ledger s \<and>
      lg_past kept_ledger s' = lg_past kept_ledger s \<and>
      (lg_vms kept_ledger s' = lg_vms kept_ledger s \<or>
       (\<exists>v. vm_name_label v = cp_name_label ps \<and> lg_vms kept_ledger s' = insert v (lg_vms kept_ledger s)))"
      unfolding s' kept_parts fst_conv prod.collapse by (metis (full_types))
  qed
  moreover have "deletion_ledger ledger_env kept_ledger"
    by (auto simp: deletion_ledger_def ledger_env_def kept_ledger_def)
  moreover have "quiet_calls ledger_env (lg_view kept_ledger)"
    by (simp add: quiet_calls_def ledger_env_def ref_env_def ref_kube_def ref_xo_def)
  ultimately show ?thesis
    by (simp add: keeps_ledger_def kept_ledger_def)
qed

definition solo_machine :: xomachine where
  "solo_machine = ref_machine\<lparr>xm_meta := (xm_meta ref_machine)\<lparr>om_labels := Map.empty\<rparr>\<rparr>"

definition named_machine :: xomachine where
  "named_machine = set_vm_name ''demo-cp-7n62g'' solo_machine"

text \<open>Two runs, of which the first creates the VM.\<close>

lemma run_once_creates: "length (snd (run_once (solo_machine, []))) = 1"
  by code_simp



end
