(* ===== verification/Machine_Progress.thy ===== *)
theory Machine_Progress
  imports Machine_Ledger
begin

text \<open>
  The XOMachine controller gets there: once the services cooperate, one run of \<open>Reconcile\<close> is enough to
  bring a machine up, from whatever point earlier runs have reached: no finalizer, a name recorded, a VM
  created whose provider ID was never saved, a provider ID saved and the VM not running or not ready.
\<close>

section \<open>The services\<close>

text \<open>What the user asks for: the object without the parts the controller and the API server write.\<close>

definition request :: "xomachine \<Rightarrow> object_meta \<times> xomachine_spec" where
  "request m = ((xm_meta m)\<lparr>om_finalizers := [], om_resource_version := []\<rparr>, (xm_spec m)\<lparr>ms_provider_id := None\<rparr>)"

text \<open>
  The API server, with the object it stores: it accepts writes of the machine with the request \<open>u\<close>, one
  of the object leaving the stored status and one of the status leaving the rest, as the status
  subresource does, and answers with what it stores. No other call changes the object.
\<close>

definition accepts :: "'s env \<Rightarrow> ('s \<Rightarrow> xomachine) \<Rightarrow> object_meta \<times> xomachine_spec \<Rightarrow> bool" where
  "accepts E S u \<longleftrightarrow>
     (\<forall>m s. request m = u \<longrightarrow>
        (\<exists>m' s'. k_update_xomachine (kube E) m s = (Inr m', s') \<and> S s' = m' \<and>
           request m' = u \<and> xm_status m' = xm_status (S s))) \<and>
     (\<forall>m s. request m = u \<and> request (S s) = u \<longrightarrow>
        (\<exists>m' s'. k_status_update_xomachine (kube E) m s = (Inr m', s') \<and> S s' = m' \<and>
           request m' = u \<and> xm_status m' = xm_status m)) \<and>
     (\<forall>c p ps s. S (snd (x_vm_create (xo E) c p ps s)) = S s) \<and>
     quiet_calls E S"

text \<open>
  Xen Orchestra: clients connect, VMs are created and started, the guest tools report a usable address,
  interfaces connect. What listings answer is left open.
\<close>

definition serves :: "'s env \<Rightarrow> bool" where
  "serves E \<longleftrightarrow>
     (\<forall>cfg s. \<exists>c s'. x_new_client (xo E) cfg s = (Inr c, s') \<and> \<not> v1_is_nil (xo_v1 c)) \<and>
     (\<forall>c s. fst (x_check_client (xo E) c s) = Inr ()) \<and>
     (\<forall>c i s. \<exists>v s'. x_vm_get (xo E) c i s = (Inr v, s') \<and> nodeIPv4 (vm_main_ip v)) \<and>
     (\<forall>c p ps s. \<exists>v. fst (x_vm_create (xo E) c p ps s) = Inr v) \<and>
     (\<forall>c i s. \<exists>t. fst (x_vm_start (xo E) c i s) = Inr t) \<and>
     (\<forall>c p s. \<exists>t. fst (x_task_wait (xo E) c p s) = Inr t \<and> task_stat t = TaskSuccess) \<and>
     (\<forall>c i s. \<exists>vs. fst (x_v1_get_vifs (xo E) c i s) = Inr vs) \<and>
     (\<forall>c v s. fst (x_v1_connect_vif (xo E) c v s) = Inr ())"

text \<open>
  What the request refers to can be resolved: the bootstrap data, a payload and a name from it, the
  credentials, the address, the template, the pool, the amount of memory.
\<close>

definition usable_bootstrap :: "'s env \<Rightarrow> object_meta \<times> xomachine_spec \<Rightarrow> bootstrap_data_result \<Rightarrow> bool" where
  "usable_bootstrap E u bs \<longleftrightarrow>
     \<not> rbd_requeue bs \<and>
     (\<forall>w. request (obj w) = u \<longrightarrow>
        (\<forall>c. \<not> v1_is_nil (xo_v1 c) \<longrightarrow>
           wp (Build E c (rbd_machine bs) (rbd_data bs) (bootstrapBehavior (obj w))) (\<lambda>r w'. \<exists>x. r = Inr x) w) \<and>
        wp (computeVMName E (rbd_machine bs)) (\<lambda>r w'. \<exists>n. r = Inr n) w)"

definition resolvable :: "'s env \<Rightarrow> object_meta \<times> xomachine_spec \<Rightarrow> bool" where
  "resolvable E u \<longleftrightarrow>
     (\<forall>w. request (obj w) = u \<longrightarrow>
        wp (ResolveBootstrapData E) (\<lambda>r w'. \<exists>bs. r = Inr bs \<and> usable_bootstrap E u bs) w \<and>
        wp (resolveMachineCredentials E) (\<lambda>r w'. \<exists>cfg. r = Inr (Some cfg)) w \<and>
        (claims_address (obj w) \<longrightarrow> wp (ClaimedAddress E (obj w)) (\<lambda>r w'. \<exists>a. r = Inr (Some a)) w) \<and>
        (\<forall>c. \<not> v1_is_nil (xo_v1 c) \<longrightarrow>
           wp (ResolveTemplateID E c (ms_template_id (snd u)) (ms_template_name (snd u))) (\<lambda>r w'. \<exists>t. r = Inr t) w \<and>
           wp (ResolvePoolID E c (ms_pool_id (snd u)) (ms_pool_name (snd u))) (\<lambda>r w'. \<exists>p. r = Inr p) w)) \<and>
     (\<forall>m ps. request m = u \<longrightarrow> (\<exists>ps'. memoryParam E m ps = Inr ps'))"

section \<open>Steps that succeed\<close>

text \<open>
  The object in hand and the one stored agree on the request and the status, and the machine is not
  Ready yet; with \<open>new\<close>, no provider ID is recorded.
\<close>

definition waiting :: "bool \<Rightarrow> object_meta \<times> xomachine_spec \<Rightarrow> xomachine \<Rightarrow> xomachine \<Rightarrow> bool" where
  "waiting new u m k \<longleftrightarrow>
     request m = u \<and> request k = u \<and> xm_status k = xm_status m \<and> \<not> mst_ready (xm_status m) \<and>
     (new \<longrightarrow> provider_id m = [])"

definition leads ::
  "('s \<Rightarrow> xomachine) \<Rightarrow> (xomachine \<Rightarrow> xomachine \<Rightarrow> bool) \<Rightarrow> (xomachine, 's, 'a) prog \<Rightarrow>
   ('a \<Rightarrow> xomachine \<Rightarrow> xomachine \<Rightarrow> bool) \<Rightarrow> bool" where
  "leads S J m Q \<longleftrightarrow> (\<forall>w. J (obj w) (S (ext w)) \<longrightarrow> wp m (\<lambda>a w'. Q a (obj w') (S (ext w'))) w)"

lemma leads_ret: "(\<And>m k. J m k \<Longrightarrow> Q a m k) \<Longrightarrow> leads S J (ret a) Q"
  by (simp add: leads_def)

lemma leads_bind: "leads S J m K \<Longrightarrow> (\<And>a. leads S (K a) (f a) Q) \<Longrightarrow> leads S J (m \<bind> f) Q"
  unfolding leads_def wp_simps by (intro allI impI, rule wp_mono) blast+

lemma leads_get: "(\<And>m. leads S (\<lambda>m' k. m' = m \<and> J m' k) (f m) Q) \<Longrightarrow> leads S J (get_obj \<bind> f) Q"
  by (simp add: leads_def)

lemma leads_weaken:
  "leads S J' m Q' \<Longrightarrow> (\<And>m k. J m k \<Longrightarrow> J' m k) \<Longrightarrow> (\<And>a m k. Q' a m k \<Longrightarrow> Q a m k) \<Longrightarrow> leads S J m Q"
  unfolding leads_def by (intro allI impI, rule wp_mono) blast+

lemma leads_quiet_fact:
  assumes "keeps obj m" and "keeps (\<lambda>w. S (ext w)) m"
    and "\<And>w. J (obj w) (S (ext w)) \<Longrightarrow> wp m (\<lambda>a w'. P a) w"
  shows "leads S J m (\<lambda>a m k. P a \<and> J m k)"
  unfolding leads_def
proof (intro allI impI wpI)
  fix w a w' assume J: "J (obj w) (S (ext w))" and run: "run_state m w = (a, w')"
  from keeps_run[OF assms(1) run] keeps_run[OF assms(2) run] J wp_run[OF assms(3)[OF J] run]
  show "P a \<and> J (obj w') (S (ext w'))" by simp
qed

lemma leads_quiet:
  assumes "keeps obj m" and "keeps (\<lambda>w. S (ext w)) m" shows "leads S J m (\<lambda>a. J)"
  using leads_quiet_fact[OF assms, where P = "\<lambda>_. True"] by (auto simp: wp_def elim: leads_weaken)

text \<open>The outcome is known to be a success: the other branch is not taken.\<close>

lemma leads_cases:
  "(\<And>x. leads S (\<lambda>m k. r = Inr x \<and> J m k) (g x) Q) \<Longrightarrow>
   leads S (\<lambda>m k. (\<exists>x. r = Inr x) \<and> J m k) (case r of Inl e \<Rightarrow> f e | Inr x \<Rightarrow> g x) Q"
  "leads S J n Q \<Longrightarrow> leads S (\<lambda>m k. z = None \<and> J m k) (case z of None \<Rightarrow> n | Some y \<Rightarrow> h y) Q"
  by (auto simp: leads_def)

text \<open>The writes.\<close>

lemma status_leads:
  assumes "accepts E S u"
    and "\<And>m k. J m k \<Longrightarrow> request m = u \<and> request k = u \<and>
      (\<forall>m'. request m' = u \<longrightarrow> xm_status m' = xm_status m \<longrightarrow> Q m' m')"
  shows "leads S J (status_update E) (\<lambda>r m k. r = None \<and> Q m k)"
  unfolding leads_def
proof (intro allI impI)
  fix w :: "(xomachine, 'a) st" assume "J (obj w) (S (ext w))"
  then have J: "request (obj w) = u" "request (S (ext w)) = u"
    "\<And>m'. request m' = u \<Longrightarrow> xm_status m' = xm_status (obj w) \<Longrightarrow> Q m' m'" using assms(2) by blast+
  with assms(1) obtain m' s' where
    "k_status_update_xomachine (kube E) (obj w) (ext w) = (Inr m', s')" "S s' = m'" "request m' = u"
    "xm_status m' = xm_status (obj w)" unfolding accepts_def by blast
  with J(3) show "wp (status_update E) (\<lambda>r w'. r = None \<and> Q (obj w') (S (ext w'))) w"
    by (simp add: status_update_def)
qed

lemma update_leads:
  assumes "accepts E S u"
    and "\<And>m k. J m k \<Longrightarrow> request m = u \<and> (\<forall>m'. request m' = u \<longrightarrow> xm_status m' = xm_status k \<longrightarrow> Q m' m')"
  shows "leads S J (update_machine E) (\<lambda>r m k. r = None \<and> Q m k)"
  unfolding leads_def
proof (intro allI impI)
  fix w :: "(xomachine, 'a) st" assume "J (obj w) (S (ext w))"
  then have J: "request (obj w) = u"
    "\<And>m'. request m' = u \<Longrightarrow> xm_status m' = xm_status (S (ext w)) \<Longrightarrow> Q m' m'" using assms(2) by blast+
  with assms(1) obtain m' s' where
    "k_update_xomachine (kube E) (obj w) (ext w) = (Inr m', s')" "S s' = m'" "request m' = u"
    "xm_status m' = xm_status (S (ext w))" unfolding accepts_def by blast
  with J(2) show "wp (update_machine E) (\<lambda>r w'. r = None \<and> Q (obj w') (S (ext w'))) w"
    by (simp add: update_machine_def)
qed

lemma modify_leads: "(\<And>m k. J m k \<Longrightarrow> Q (h m) k) \<Longrightarrow> leads S J (modify_obj h) (\<lambda>r. Q)"
  by (simp add: leads_def)

lemma request_frames [simp]:
  "request (SetCondition now t st reason msg m) = request m" "request (mark_ready ip m) = request m"
  "request (set_finalizers fs m) = request m" "request (set_addresses as m) = request m"
  "request (set_vm_name n m) = request m" "request (set_spec_provider_id p m) = request m"
  "request (set_status_provider_id p m) = request m"
  by (simp_all add: request_def mark_ready_def set_finalizers_def set_addresses_def
      set_vm_name_def set_spec_provider_id_def set_status_provider_id_def)

lemma UpdateCondition_leads:
  assumes "accepts E S u"
    and "\<And>m k now. J m k \<Longrightarrow> request m = u \<and> request k = u \<and>
      (\<forall>m'. request m' = u \<longrightarrow> xm_status m' = xm_status (SetCondition now ''Ready'' st reason msg m) \<longrightarrow> Q m' m')"
  shows "leads S J (UpdateCondition E st reason msg) (\<lambda>r m k. r = None \<and> Q m k)"
proof -
  let ?K = "\<lambda>m k. request m = u \<and> request k = u \<and> (\<forall>m'. request m' = u \<longrightarrow> xm_status m' = xm_status m \<longrightarrow> Q m' m')"
  have quiet: "quiet_calls E S" using assms(1) by (simp add: accepts_def)
  have "leads S J (query (e_now E)) (\<lambda>now. J)"
    by (rule leads_quiet) (auto intro!: frames simp: quiet_ops[OF quiet])
  moreover have "leads S J (modify_obj (SetCondition now ''Ready'' st reason msg)) (\<lambda>r. ?K)" for now
    by (rule modify_leads) (use assms(2) in auto)
  moreover have "leads S ?K (status_update E) (\<lambda>r m k. r = None \<and> Q m k)"
    by (rule status_leads[OF assms(1)]) blast
  ultimately show ?thesis unfolding UpdateCondition_def by (blast intro: leads_bind)
qed

lemma waiting_condition:
  assumes "accepts E S u"
  shows "leads S (waiting new u) (UpdateCondition E st reason msg) (\<lambda>r m k. r = None \<and> waiting new u m k)"
  by (rule UpdateCondition_leads[OF assms]) (auto simp: waiting_def provider_id_def)

lemma waiting_request: "waiting new u m k \<Longrightarrow> request m = u"
  by (simp add: waiting_def)

lemma ensureFinalizer_leads:
  assumes "accepts E S u"
  shows "leads S (\<lambda>m k. T (xm_status m) \<and> waiting new u m k) (ensureFinalizer E)
    (\<lambda>r m k. r = None \<and> T (xm_status m) \<and> waiting new u m k)"
proof -
  let ?J = "\<lambda>m k. T (xm_status m) \<and> waiting new u m k"
  have "leads S ?J (add_finalizer E) (\<lambda>added. ?J)"
    by (auto simp: leads_def add_finalizer_def waiting_def set_finalizers_def provider_id_def request_def split: prod.split)
  moreover have "leads S ?J (update_machine E) (\<lambda>r m k. r = None \<and> ?J m k)"
    by (rule update_leads[OF assms]) (auto simp: waiting_def provider_id_def)
  ultimately show ?thesis
    unfolding ensureFinalizer_def
    by (intro leads_bind[where K = "\<lambda>added. ?J"])
       (auto simp: leads_def elim!: wp_mono)
qed

text \<open>What \<open>serves\<close> says of one call.\<close>

lemma servesD:
  assumes "serves E" and "accepts E S u"
  shows "x_vm_start (xo E) c i s = (r, s') \<Longrightarrow> \<exists>t. r = Inr t \<and> S s' = S s"
    and "x_task_wait (xo E) c p s = (rt, s') \<Longrightarrow> \<exists>t. rt = Inr t \<and> task_stat t = TaskSuccess \<and> S s' = S s"
    and "x_vm_get (xo E) c i s = (rv, s') \<Longrightarrow> \<exists>v. rv = Inr v \<and> nodeIPv4 (vm_main_ip v) \<and> S s' = S s"
    and "x_vm_create (xo E) c p' ps s = (rv, s') \<Longrightarrow> \<exists>v. rv = Inr v \<and> S s' = S s"
proof -
  have q: "quiet_calls E S" using assms(2) by (simp add: accepts_def)
  show "x_vm_start (xo E) c i s = (r, s') \<Longrightarrow> \<exists>t. r = Inr t \<and> S s' = S s"
    using assms(1) quiet_ops(15)[OF q, of c i s] unfolding serves_def by (metis fst_conv snd_conv)
  show "x_task_wait (xo E) c p s = (rt, s') \<Longrightarrow> \<exists>t. rt = Inr t \<and> task_stat t = TaskSuccess \<and> S s' = S s"
    using assms(1) quiet_ops(20)[OF q, of c p s] unfolding serves_def by (metis fst_conv snd_conv)
  show "x_vm_get (xo E) c i s = (rv, s') \<Longrightarrow> \<exists>v. rv = Inr v \<and> nodeIPv4 (vm_main_ip v) \<and> S s' = S s"
    using assms(1) quiet_ops(13)[OF q, of c i s] unfolding serves_def by (metis fst_conv snd_conv)
  show "x_vm_create (xo E) c p' ps s = (rv, s') \<Longrightarrow> \<exists>v. rv = Inr v \<and> S s' = S s"
    using assms unfolding serves_def accepts_def by (metis fst_conv snd_conv)
qed

lemma StartVM_leads:
  assumes "serves E" and "accepts E S u"
  shows "leads S J (StartVM E c v) (\<lambda>r m k. (\<exists>x. r = Inr x \<and> nodeIPv4 (vm_main_ip (fst x))) \<and> J m k)"
  unfolding leads_def StartVM_def get_vm_def task_wait_def
  by (auto dest!: servesD[OF assms] split: sum.split)

lemma ManageVIFs_leads:
  assumes "serves E" and "accepts E S u" and "\<not> v1_is_nil (xo_v1 c)"
  shows "leads S J (ManageVIFs E c v) (\<lambda>r m k. r = None \<and> J m k)"
proof (rule leads_quiet_fact)
  have q: "quiet_calls E S" using assms(2) by (simp add: accepts_def)
  show "keeps (\<lambda>w. S (ext w)) (ManageVIFs E c v)" by (intro undisturbed q)
  have connect: "x_v1_connect_vif (xo E) c f s = (r, s') \<Longrightarrow> r = Inr ()" for f s r s'
    using assms(1) unfolding serves_def by (metis fst_conv)
  have vifs: "\<exists>vs. r = Inr vs" if "x_v1_get_vifs (xo E) c i s = (r, s')" for i s r s'
    using assms(1) that unfolding serves_def by (metis fst_conv)
  have one: "wp (for_each (connectVIF E c) fs) (\<lambda>r w'. r = None) w" for fs and w :: "(xomachine, 'a) st"
    by (rule for_each_wp[where I = "\<lambda>pre w. True"]) (auto simp: connectVIF_def dest: connect split: sum.split)
  have range: "wp (for_each (setAllowedRange E c a) fs) (\<lambda>r w'. r = None) w" for a fs and w :: "(xomachine, 'a) st"
    by (rule for_each_wp[where I = "\<lambda>pre w. True"]) (auto simp: setAllowedRange_def v1_call_def)
  show "wp (ManageVIFs E c v) (\<lambda>r w'. r = None) w" for w :: "(xomachine, 'a) st"
    using assms(3) range
    by (auto simp: ManageVIFs_def dest!: vifs split: option.split sum.split intro!: wp_mono[OF one])
qed (intro frames)

section \<open>Ready\<close>

text \<open>The stored object says that the machine is up.\<close>

definition recorded_up :: "object_meta \<times> xomachine_spec \<Rightarrow> xomachine \<Rightarrow> bool" where
  "recorded_up u k \<longleftrightarrow>
     request k = u \<and> mst_ready (xm_status k) \<and> mst_initialization (xm_status k) = Some \<lparr>provisioned = True\<rparr> \<and>
     isConditionTrue k ''VmReady'' \<and>
     (\<exists>ip. nodeIPv4 ip \<and> mst_addresses (xm_status k) = [\<lparr>na_type = NodeInternalIP, na_address = ip\<rparr>])"

lemma condition_of_status: "xm_status m' = xm_status m \<Longrightarrow> isConditionTrue m' r = isConditionTrue m r"
  by (simp add: isConditionTrue_def)

lemma ready_leads:
  assumes "accepts E S u" and "nodeIPv4 ip"
  shows "leads S (waiting new u) (do { modify_obj (mark_ready ip);
             ue \<leftarrow> UpdateCondition E ConditionTrue ''VmReady'' msg;
             (case ue of Some e \<Rightarrow> ret (Inl e) | None \<Rightarrow> ret (Inr done_result)) })
     (\<lambda>r m k. r = Inr done_result \<and> recorded_up u k)"
proof (rule leads_bind, rule modify_leads[where Q = "\<lambda>m k. (\<exists>x. m = mark_ready ip x \<and> waiting new u x k)"])
  fix a
  have "recorded_up u m'" if "request m' = u"
    "xm_status m' = xm_status (SetCondition now ''Ready'' ConditionTrue ''VmReady'' msg (mark_ready ip x))" for m' now x
    using that assms(2) condition_of_status[OF that(2)]
    by (auto simp: recorded_up_def isConditionTrue_SetCondition)
  then have "leads S (\<lambda>m k. \<exists>x. m = mark_ready ip x \<and> waiting new u x k) (UpdateCondition E ConditionTrue ''VmReady'' msg)
     (\<lambda>r m k. r = None \<and> recorded_up u k)"
    by (intro UpdateCondition_leads[OF assms(1)]) (auto simp: waiting_def)
  then show "leads S (\<lambda>m k. \<exists>x. m = mark_ready ip x \<and> waiting new u x k)
     (do { ue \<leftarrow> UpdateCondition E ConditionTrue ''VmReady'' msg;
           (case ue of Some e \<Rightarrow> ret (Inl e) | None \<Rightarrow> ret (Inr done_result)) })
     (\<lambda>r m k. r = Inr done_result \<and> recorded_up u k)"
    by (rule leads_bind) (auto simp: leads_def)
qed blast

text \<open>From a started VM with an address on.\<close>

lemma usable_address: "nodeIPv4 ip \<Longrightarrow> ip \<noteq> []"
  by (simp add: nodeIPv4_def)

lemma ResolveVMIP_leads:
  "nodeIPv4 (vm_main_ip v) \<Longrightarrow> ResolveVMIP E c v = ret (Some (vm_main_ip v))"
  by (simp add: ResolveVMIP_def)

lemma leads_if_waiting:
  assumes "leads S (waiting new u) n Q"
  shows "leads S (\<lambda>m' k. m' = m \<and> waiting new u m' k) (if mst_ready (xm_status m) then n' else n) Q"
  using leads_weaken[OF assms] by (auto simp: leads_def waiting_def)

lemma started_leads:
  assumes "serves E" and "accepts E S u"
    and "\<And>v' b. nodeIPv4 (vm_main_ip v') \<Longrightarrow> leads S J (g v' b) Q"
  shows "leads S J (do { r \<leftarrow> StartVM E c v; (case r of Inl err \<Rightarrow> f err | Inr (v', b) \<Rightarrow> g v' b) }) Q"
proof (rule leads_bind[OF StartVM_leads[OF assms(1,2)]])
  fix r
  show "leads S (\<lambda>m k. (\<exists>x. r = Inr x \<and> nodeIPv4 (vm_main_ip (fst x))) \<and> J m k)
     (case r of Inl err \<Rightarrow> f err | Inr (v', b) \<Rightarrow> g v' b) Q"
    using assms(3) by (cases r) (auto simp: leads_def)
qed

lemma managed_leads:
  assumes "serves E" and "accepts E S u" and "\<not> v1_is_nil (xo_v1 c)" and "leads S J n Q"
  shows "leads S J (do { k \<leftarrow> ManageVIFs E c v; (case k of Some err \<Rightarrow> h err | None \<Rightarrow> n) }) Q"
  by (rule leads_bind[OF ManageVIFs_leads[OF assms(1-3)]]) (rule leads_cases(2)[OF assms(4)])

lemma WaitForVMReady_leads:
  assumes "serves E" and "accepts E S u" and "\<not> v1_is_nil (xo_v1 c)"
  shows "leads S (waiting new u) (WaitForVMReady E c v) (\<lambda>r m k. r = Inr done_result \<and> recorded_up u k)"
  unfolding WaitForVMReady_def
proof (rule started_leads[OF assms(1,2)], goal_cases)
  case (1 v' b)
  show ?case
    unfolding ResolveVMIP_leads[OF 1] bind_left_identity option.case if_not_P[OF usable_address[OF 1]]
    by (rule managed_leads[OF assms ready_leads[OF assms(2) 1]])
qed

lemma reconcileExistingVM_leads:
  assumes "serves E" and "accepts E S u" and "\<not> v1_is_nil (xo_v1 c)"
  shows "leads S (waiting new u) (reconcileExistingVM E c v) (\<lambda>r m k. r = Inr done_result \<and> recorded_up u k)"
  unfolding reconcileExistingVM_def
proof (rule leads_get, rule leads_if_waiting, rule started_leads[OF assms(1,2)], goal_cases)
  case (1 m v' b)
  show ?case
    unfolding ResolveVMIP_leads[OF 1] bind_left_identity option.case if_not_P[OF usable_address[OF 1]]
    by (rule managed_leads[OF assms ready_leads[OF assms(2) 1]])
qed

section \<open>Creation\<close>

text \<open>Programs that leave the object and what is stored alone, or write conditions only.\<close>

lemma quiet_leads:
  assumes "accepts E S u" and "keeps obj m" and "quiet_calls E S \<Longrightarrow> keeps (\<lambda>w. S (ext w)) m"
  shows "leads S J m (\<lambda>a. J)"
  using assms by (intro leads_quiet) (simp_all add: accepts_def)

lemma quiet_fact:
  assumes "accepts E S u" and "keeps obj m" and "quiet_calls E S \<Longrightarrow> keeps (\<lambda>w. S (ext w)) m"
    and "\<And>w. J (obj w) (S (ext w)) \<Longrightarrow> wp m (\<lambda>a w'. P a) w"
  shows "leads S J m (\<lambda>a m k. P a \<and> J m k)"
  using assms by (intro leads_quiet_fact) (simp_all add: accepts_def)

lemma leads_both: "leads S J m (\<lambda>a. K) \<Longrightarrow> (\<And>w. J (obj w) (S (ext w)) \<Longrightarrow> wp m (\<lambda>a w'. P a) w) \<Longrightarrow>
  leads S J m (\<lambda>a m k. P a \<and> K m k)"
  unfolding leads_def wp_conj by blast

lemma resolveVMName_leads:
  assumes "accepts E S u" and "usable_bootstrap E u bs"
  shows "leads S (waiting new u) (resolveVMName E (rbd_machine bs)) (\<lambda>r m k. (\<exists>n. r = Inr n) \<and> waiting new u m k)"
  unfolding resolveVMName_def
proof (rule leads_get)
  fix m
  let ?J = "\<lambda>m' k. m' = m \<and> waiting new u m' k"
  let ?Q = "\<lambda>r m k. (\<exists>n. r = Inr n) \<and> waiting new u m k"
  have stored: "leads S ?J (do { modify_obj (set_vm_name n); r \<leftarrow> status_update E;
       (case r of Some err \<Rightarrow> ret (Inl err) | None \<Rightarrow> ret (Inr n)) }) ?Q" for n
  proof (rule leads_bind[OF modify_leads[where Q = "\<lambda>m' k. m' = set_vm_name n m \<and> waiting new u m k"]])
    show "leads S (\<lambda>m' k. m' = set_vm_name n m \<and> waiting new u m k)
       (do { r \<leftarrow> status_update E; (case r of Some err \<Rightarrow> ret (Inl err) | None \<Rightarrow> ret (Inr n)) }) ?Q"
      by (rule leads_bind[OF status_leads[OF assms(1), where Q = "waiting new u"]])
         (auto simp: leads_def waiting_def provider_id_def set_vm_name_def request_def)
  qed simp
  have "leads S ?J (computeVMName E (rbd_machine bs)) (\<lambda>r m k. (\<exists>n. r = Inr n) \<and> ?J m k)"
    by (rule quiet_fact[OF assms(1)])
       (use assms(2) in \<open>auto simp: usable_bootstrap_def waiting_def intro!: frames undisturbed\<close>)
  then have "leads S ?J (do { r \<leftarrow> computeVMName E (rbd_machine bs);
       (case r of
          Inl err \<Rightarrow> do { e \<leftarrow> WithConditionUpdate E err ConditionFalse ''VMNameUnresolved''; ret (Inl e) }
        | Inr vmName \<Rightarrow> do { modify_obj (set_vm_name vmName); r \<leftarrow> status_update E;
             (case r of Some err \<Rightarrow> ret (Inl err) | None \<Rightarrow> ret (Inr vmName)) }) }) ?Q"
    by (rule leads_bind) (rule leads_cases(1), rule leads_weaken[OF stored], auto)
  then show "leads S ?J (if status_name m \<noteq> [] then ret (Inr (status_name m)) else do { r \<leftarrow> computeVMName E (rbd_machine bs);
       (case r of
          Inl err \<Rightarrow> do { e \<leftarrow> WithConditionUpdate E err ConditionFalse ''VMNameUnresolved''; ret (Inl e) }
        | Inr vmName \<Rightarrow> do { modify_obj (set_vm_name vmName); r \<leftarrow> status_update E;
             (case r of Some err \<Rightarrow> ret (Inl err) | None \<Rightarrow> ret (Inr vmName)) }) }) ?Q"
    by (cases "status_name m = []") (auto intro: leads_ret)
qed

lemma createOrAdopt_leads:
  assumes "serves E" and "accepts E S u"
  shows "leads S (waiting new u) (createOrAdopt E c p ps n marker (Some (duplicateNameWarning E)))
    (\<lambda>r m k. (\<exists>v. r = Inr v) \<and> waiting new u m k)"
  unfolding createOrAdopt_def option.case
proof (rule leads_bind[OF quiet_leads[OF assms(2)]], rule findAdoptableVM_keeps, rule undisturbed, assumption,
    rule leads_bind[OF quiet_leads[OF assms(2)]])
  fix found :: "vm option \<times> nat"
  show "keeps obj (if fst found = None \<and> 0 < snd found then duplicateNameWarning E n (snd found) else ret ())"
    "quiet_calls E S \<Longrightarrow>
     keeps (\<lambda>w. S (ext w)) (if fst found = None \<and> 0 < snd found then duplicateNameWarning E n (snd found) else ret ())"
    by (intro frames undisturbed)+
  show "leads S (waiting new u) (case fst found of None \<Rightarrow>
         do { r \<leftarrow> act (EvCreateVM p ps) (x_vm_create (xo E) c p ps);
              (case r of Inl err \<Rightarrow> recoverCreate E c n marker err | Inr v \<Rightarrow> ret (Inr v)) }
       | Some v \<Rightarrow> ret (Inr v)) (\<lambda>r m k. (\<exists>v. r = Inr v) \<and> waiting new u m k)"
    by (cases "fst found") (auto simp: leads_def dest!: servesD(4)[OF assms])
qed

lemma saveProviderID_leads:
  assumes "accepts E S u"
  shows "leads S (waiting new u) (saveProviderID E p) (\<lambda>r m k. r = None \<and> waiting False u m k)"
proof -
  have ok: "leads S J (write_with_retry E change wr) (\<lambda>r m k. r = None \<and> Q m k)"
    if "leads S J (modify_obj change) (\<lambda>r. K)" "leads S K wr (\<lambda>r m k. r = None \<and> Q m k)" for J change K wr Q
    unfolding write_with_retry_def
    by (rule leads_bind[OF that(1)], rule leads_bind[OF that(2)]) (auto simp: leads_def)
  have "leads S (waiting new u) (write_with_retry E (set_spec_provider_id p) (update_machine E))
     (\<lambda>r m k. r = None \<and> waiting False u m k)"
    by (rule ok[where K = "waiting False u"], rule modify_leads, simp add: waiting_def set_spec_provider_id_def request_def,
        rule update_leads[OF assms]) (auto simp: waiting_def)
  moreover have "leads S (waiting False u) (write_with_retry E (set_status_provider_id p) (status_update E))
     (\<lambda>r m k. r = None \<and> waiting False u m k)"
    by (rule ok[where K = "\<lambda>m k. request m = u \<and> request k = u \<and> \<not> mst_ready (xm_status m)"], rule modify_leads,
        simp add: waiting_def set_status_provider_id_def request_def, rule status_leads[OF assms]) (auto simp: waiting_def)
  ultimately show ?thesis
    unfolding saveProviderID_def by (intro leads_bind[OF _ leads_cases(2)])
qed

lemma configureVM_leads:
  assumes "accepts E S u"
  shows "leads S (waiting new u) (configureVM E c p prov v) (\<lambda>r m k. (\<exists>v. r = Inr v) \<and> waiting False u m k)"
  unfolding configureVM_def
proof (rule leads_get)
  fix m
  let ?J = "\<lambda>m' k. m' = m \<and> waiting new u m' k"
  have tail: "leads S (waiting False u) (do { m' \<leftarrow> get_obj; SetVMTags E m' (vm_id v) (Some c) prov; ret (Inr v) })
     (\<lambda>r m k. (\<exists>v. r = Inr v) \<and> waiting False u m k)"
    by (rule leads_get, rule leads_bind[OF quiet_leads[OF assms]]) (intro frames undisturbed leads_ret; simp)+
  have save: "leads S ?J (do { r \<leftarrow> saveProviderID E pid;
         (case r of Some err \<Rightarrow> ret (Inl err)
          | None \<Rightarrow> do { m' \<leftarrow> get_obj; SetVMTags E m' (vm_id v) (Some c) prov; ret (Inr v) }) })
     (\<lambda>r m k. (\<exists>v. r = Inr v) \<and> waiting False u m k)" for pid
    by (rule leads_weaken[OF leads_bind[OF saveProviderID_leads[OF assms] leads_cases(2)[OF tail]]]) simp_all
  show "leads S ?J (do { resizeDiskIfNeeded E c m v; setCPUsIfNeeded E c m v; setBootOrder E c v;
       r \<leftarrow> saveProviderID E (l_get_provider_id (libs E) p v);
       (case r of Some err \<Rightarrow> ret (Inl err)
          | None \<Rightarrow> do { m' \<leftarrow> get_obj; SetVMTags E m' (vm_id v) (Some c) prov; ret (Inr v) }) })
     (\<lambda>r m k. (\<exists>v. r = Inr v) \<and> waiting False u m k)"
    by (rule leads_bind[OF quiet_leads[OF assms]], rule resizeDiskIfNeeded_keeps, rule undisturbed, assumption,
        rule leads_bind[OF quiet_leads[OF assms]], rule setCPUsIfNeeded_keeps, rule undisturbed, assumption,
        rule leads_bind[OF quiet_leads[OF assms]], rule setBootOrder_keeps, rule undisturbed, assumption, rule save)
qed

lemma CreateVM_leads:
  assumes "serves E" and "accepts E S u" and "resolvable E u"
  shows "leads S (waiting new u) (CreateVM E c p t cc nc n prov (Some (duplicateNameWarning E)))
    (\<lambda>r m k. (\<exists>v. r = Inr v) \<and> waiting False u m k)"
  unfolding CreateVM_def Let_def
proof (rule leads_get)
  fix m
  let ?J = "\<lambda>m' k. m' = m \<and> waiting new u m' k"
  let ?rest = "\<lambda>params0. do { params \<leftarrow> addVIFsToParams E c m params0 p;
       r \<leftarrow> createOrAdopt E c p params n (vmMarker (Some m)) (Some (duplicateNameWarning E));
       (case r of Inl err \<Rightarrow> ret (Inl err) | Inr v \<Rightarrow> configureVM E c p prov v) }"
  let ?Q = "\<lambda>r m k. (\<exists>v. r = Inr v) \<and> waiting False u m k"
  have rest: "leads S (waiting new u) (?rest ps) ?Q" for ps
  proof (rule leads_bind[OF quiet_leads[OF assms(2)]], rule addVIFsToParams_keeps, rule undisturbed, assumption,
      rule leads_bind[OF createOrAdopt_leads[OF assms(1,2)]], rule leads_cases(1))
    show "leads S (\<lambda>m k. r = Inr v \<and> waiting new u m k) (configureVM E c p prov v) ?Q" for r :: "error + vm" and v
      by (rule leads_weaken[OF configureVM_leads[OF assms(2), where new = new]]) simp_all
  qed
  have "\<exists>ps. memoryParam E m (buildCreateParams t n cc nc (vmMarker (Some m))) = Inr ps" if "request m = u"
    using assms(3) that by (simp add: resolvable_def)
  then show "leads S ?J (case memoryParam E m (buildCreateParams t n cc nc (vmMarker (Some m))) of
       Inl err \<Rightarrow> do { e \<leftarrow> WithConditionUpdate E err ConditionFalse ''InvalidMemoryQuantity''; ret (Inl e) }
     | Inr params0 \<Rightarrow> ?rest params0) ?Q"
    using rest by (fastforce simp: leads_def dest: waiting_request split: sum.split)
qed

lemma createVM_leads:
  assumes "serves E" and "accepts E S u" and "resolvable E u" and "usable_bootstrap E u bs"
  shows "leads S (waiting new u) (createVM E (rbd_machine bs) c p t cc nc) (\<lambda>r m k. (\<exists>v. r = Inr v) \<and> waiting False u m k)"
  unfolding createVM_def
proof (rule leads_bind[OF resolveVMName_leads[OF assms(2,4)]], rule leads_cases(1), rule leads_get)
  show "leads S (\<lambda>m' k. m' = m \<and> r = Inr n \<and> waiting new u m' k)
     (CreateVM E c p t cc nc n prov (Some (duplicateNameWarning E)))
     (\<lambda>r m k. (\<exists>v. r = Inr v) \<and> waiting False u m k)"
    for m n prov and r :: "error + string"
    by (rule leads_weaken[OF CreateVM_leads[OF assms(1-3), where new = new]]) simp_all
qed

section \<open>A whole run\<close>

text \<open>A payload may note a condition on its way; the machine goes on waiting.\<close>

definition goes_on :: "('s \<Rightarrow> xomachine) \<Rightarrow> bool \<Rightarrow> object_meta \<times> xomachine_spec \<Rightarrow> (xomachine, 's) st \<Rightarrow> (xomachine, 's) st \<Rightarrow> bool" where
  "goes_on S new u w w' \<longleftrightarrow> (waiting new u (obj w) (S (ext w)) \<longrightarrow> waiting new u (obj w') (S (ext w')))"

interpretation wtg: discipline "goes_on S new u" for S new u
  by unfold_locales (auto simp: goes_on_def)

lemma goes_on_leads:
  assumes "steps_in (goes_on S new u) m" and "\<And>w. request (obj w) = u \<Longrightarrow> wp m (\<lambda>a w'. P a) w"
  shows "leads S (waiting new u) m (\<lambda>a m k. P a \<and> waiting new u m k)"
  unfolding leads_def
proof (intro allI impI wpI)
  fix w a w' assume w: "waiting new u (obj w) (S (ext w))" and run: "run_state m w = (a, w')"
  have "goes_on S new u w w'" using assms(1) run unfolding steps_in_def by (metis snd_conv)
  with w wp_run[OF assms(2)[OF waiting_request[OF w]] run]
  show "P a \<and> waiting new u (obj w') (S (ext w'))" by (simp add: goes_on_def)
qed

lemma leads_goes_on: "leads S (waiting new u) m (\<lambda>a. waiting new u) \<Longrightarrow> steps_in (goes_on S new u) m"
  by (auto simp: leads_def steps_in_def goes_on_def wp_def split: prod.splits) (metis prod.collapse)

lemma Build_goes_on:
  assumes "accepts E S u" shows "steps_in (goes_on S new u) (Build E c mach d b)"
proof -
  have get: "steps_in (goes_on S new u) get_obj" by (simp add: steps_in_def goes_on_def)
  have quiet: "steps_in (goes_on S new u) (resolveInjectSSHKeys E mach)"
    "steps_in (goes_on S new u) (BuildCloudInitWithSSHKeys E c d inject)"
    "steps_in (goes_on S new u) (GetXOCluster E ns n)" for inject ns n
    by (intro leads_goes_on quiet_leads[OF assms] frames undisturbed; assumption)+
  have cond: "steps_in (goes_on S new u) (UpdateCondition E st reason msg)" for st reason msg
    by (rule leads_goes_on, rule leads_weaken[OF waiting_condition[OF assms]]) simp_all
  show ?thesis
    unfolding Build_def injectKubeVIPIfNeeded_def InjectKubeVIP_def Let_def
    by (intro wtg.steps_struct get quiet cond)
qed

text \<open>The reads of a new machine, each with what it finds.\<close>

lemma finds_leads:
  assumes "accepts E S u" and "resolvable E u"
  shows "leads S (waiting new u) (ResolveBootstrapData E)
           (\<lambda>r m k. (\<exists>bs. r = Inr bs \<and> usable_bootstrap E u bs) \<and> waiting new u m k)"
    and "leads S (waiting new u) (resolveMachineCredentials E) (\<lambda>r m k. (\<exists>cfg. r = Inr (Some cfg)) \<and> waiting new u m k)"
    and "\<not> v1_is_nil (xo_v1 c) \<Longrightarrow>
         leads S (waiting new u) (ResolveTemplateID E c (ms_template_id (snd u)) (ms_template_name (snd u)))
           (\<lambda>r m k. (\<exists>t. r = Inr t) \<and> waiting new u m k)"
    and "\<not> v1_is_nil (xo_v1 c) \<Longrightarrow>
         leads S (waiting new u) (ResolvePoolID E c (ms_pool_id (snd u)) (ms_pool_name (snd u)))
           (\<lambda>r m k. (\<exists>p. r = Inr p) \<and> waiting new u m k)"
proof -
  have R: "request m = u" if "waiting new u m k" for m k using that by (rule waiting_request)
  note found = assms(2)[unfolded resolvable_def, THEN conjunct1, rule_format, OF R]
  show "leads S (waiting new u) (ResolveBootstrapData E)
     (\<lambda>r m k. (\<exists>bs. r = Inr bs \<and> usable_bootstrap E u bs) \<and> waiting new u m k)"
    by (rule quiet_fact[OF assms(1) ResolveBootstrapData_keeps], rule undisturbed, assumption) (use found in blast)
  show "leads S (waiting new u) (resolveMachineCredentials E) (\<lambda>r m k. (\<exists>cfg. r = Inr (Some cfg)) \<and> waiting new u m k)"
    by (rule quiet_fact[OF assms(1) resolveMachineCredentials_keeps], rule undisturbed, assumption) (use found in blast)
  show "leads S (waiting new u) (ResolveTemplateID E c (ms_template_id (snd u)) (ms_template_name (snd u)))
     (\<lambda>r m k. (\<exists>t. r = Inr t) \<and> waiting new u m k)" if "\<not> v1_is_nil (xo_v1 c)"
    by (rule quiet_fact[OF assms(1) ResolveTemplateID_keeps], rule undisturbed, assumption) (use found that in blast)
  show "leads S (waiting new u) (ResolvePoolID E c (ms_pool_id (snd u)) (ms_pool_name (snd u)))
     (\<lambda>r m k. (\<exists>p. r = Inr p) \<and> waiting new u m k)" if "\<not> v1_is_nil (xo_v1 c)"
    by (rule quiet_fact[OF assms(1) ResolvePoolID_keeps], rule undisturbed, assumption) (use found that in blast)
qed

lemma Build_leads:
  assumes "accepts E S u" and "usable_bootstrap E u bs" and "\<not> v1_is_nil (xo_v1 c)" and "request m = u"
  shows "leads S (waiting new u) (Build E c (rbd_machine bs) (rbd_data bs) (bootstrapBehavior m))
     (\<lambda>r m k. (\<exists>x. r = Inr x) \<and> waiting new u m k)"
proof (rule goes_on_leads[OF Build_goes_on[OF assms(1)]])
  fix w :: "(xomachine, 'a) st" assume w: "request (obj w) = u"
  then have "ms_bootstrap (snd (request (obj w))) = ms_bootstrap (snd (request m))" using assms(4) by simp
  then have "bootstrapBehavior m = bootstrapBehavior (obj w)" by (simp add: request_def bootstrapBehavior_def)
  with assms(2,3) w show "wp (Build E c (rbd_machine bs) (rbd_data bs) (bootstrapBehavior m)) (\<lambda>r w'. \<exists>x. r = Inr x) w"
    by (simp add: usable_bootstrap_def)
qed

lemma newXOClient_leads:
  assumes "accepts E S u" and "serves E"
  shows "leads S J (newXOClient E (Some cfg)) (\<lambda>r m k. (\<exists>c. r = Inr (Some c) \<and> \<not> v1_is_nil (xo_v1 c)) \<and> J m k)"
proof (rule quiet_fact[OF assms(1)], rule newXOClient_keeps, rule undisturbed, assumption)
  fix w :: "(xomachine, 'a) st"
  have new: "\<exists>c. r = Inr c \<and> \<not> v1_is_nil (xo_v1 c)" if "x_new_client (xo E) cfg s = (r, s')" for s r s'
    using assms(2) that unfolding serves_def by (metis fst_conv)
  have check: "r = Inr ()" if "x_check_client (xo E) c s = (r, s')" for c s r s'
    using assms(2) that unfolding serves_def by (metis fst_conv)
  show "wp (newXOClient E (Some cfg)) (\<lambda>a w'. \<exists>c. a = Inr (Some c) \<and> \<not> v1_is_nil (xo_v1 c)) w"
    by (auto simp: newXOClient_def NewXOClientFromConfig_def dest!: new check split: sum.split)
qed

abbreviation comes_up ::
  "('s \<Rightarrow> xomachine) \<Rightarrow> bool \<Rightarrow> object_meta \<times> xomachine_spec \<Rightarrow> (xomachine, 's, error + reconcile_result) prog \<Rightarrow> bool" where
  "comes_up S new u m \<equiv> leads S (waiting new u) m (\<lambda>r m k. r = Inr done_result \<and> recorded_up u k)"

lemma comes_up_after:
  assumes "leads S (waiting new u) m (\<lambda>r m k. P r \<and> waiting new' u m k)" and "\<And>r. P r \<Longrightarrow> comes_up S new' u (f r)"
  shows "comes_up S new u (m \<bind> f)"
  by (rule leads_bind[OF assms(1)]) (use assms(2) in \<open>auto simp: leads_def\<close>)

lemma comes_up_quiet:
  assumes "accepts E S u" and "keeps obj m" and "quiet_calls E S \<Longrightarrow> keeps (\<lambda>w. S (ext w)) m"
    and "\<And>r. comes_up S new u (f r)"
  shows "comes_up S new u (m \<bind> f)"
  by (rule leads_bind[OF quiet_leads[OF assms(1-3)] assms(4)])

lemma comes_up_get:
  assumes "\<And>m. request m = u \<Longrightarrow> \<not> mst_ready (xm_status m) \<Longrightarrow> (new \<longrightarrow> provider_id m = []) \<Longrightarrow> comes_up S new u (f m)"
  shows "comes_up S new u (get_obj \<bind> f)"
  using assms by (auto simp: leads_def waiting_def)

lemma finishVM_comes_up:
  assumes "serves E" and "accepts E S u" and "\<not> v1_is_nil (xo_v1 c)"
  shows "comes_up S new u (finishVM E c v)"
  unfolding finishVM_def
  by (rule comes_up_get, rule comes_up_quiet[OF assms(2)], rule SetVMTags_keeps, rule undisturbed, assumption,
      rule comes_up_get) (simp add: WaitForVMReady_leads[OF assms])

lemma placeVM_comes_up:
  assumes "serves E" and "accepts E S u" and "resolvable E u" and "usable_bootstrap E u bs" and "\<not> v1_is_nil (xo_v1 c)"
  shows "comes_up S True u (placeVM E (rbd_machine bs) c cc nc)"
  unfolding placeVM_def
proof (rule comes_up_get, goal_cases)
  case (1 m)
  then have spec: "ms_template_id (xm_spec m) = ms_template_id (snd u)" "ms_template_name (xm_spec m) = ms_template_name (snd u)"
    "ms_pool_id (xm_spec m) = ms_pool_id (snd u)" "ms_pool_name (xm_spec m) = ms_pool_name (snd u)"
    by (auto simp: request_def)
  have obtain_vm: "leads S (waiting True u) (obtainVM E (rbd_machine bs) c p t cc nc)
     (\<lambda>r m k. (\<exists>v. r = Inr v) \<and> waiting False u m k)" for p t
    using createVM_leads[OF assms(1-4), of True c p t cc nc] by (auto simp: obtainVM_def leads_def waiting_def)
  show ?case
    unfolding spec
    by (rule comes_up_after[OF finds_leads(3)[OF assms(2,3,5)]], elim exE, simp only: sum.case,
        rule comes_up_after[OF finds_leads(4)[OF assms(2,3,5)]], elim exE, simp only: sum.case,
        rule comes_up_after[OF obtain_vm], elim exE, simp only: sum.case, rule finishVM_comes_up[OF assms(1,2,5)])
qed

lemma claims_request:
  assumes "request m = request m'" shows "claims_address m = claims_address m'"
proof -
  have "ms_network_config (snd (request m)) = ms_network_config (snd (request m'))" using assms by simp
  then show ?thesis by (simp add: request_def claims_address_def)
qed

lemma ipamNetworkConfig_leads:
  assumes "accepts E S u" and "resolvable E u" and "request m0 = u" and "claims_address m0"
  shows "leads S (waiting new u) (ipamNetworkConfig E) (\<lambda>r m k. (\<exists>doc. r = Inr (doc, None)) \<and> waiting new u m k)"
  unfolding ipamNetworkConfig_def
proof (rule leads_get)
  fix m
  let ?J = "\<lambda>m' k. m' = m \<and> waiting new u m' k"
  have claims: "claims_address m" if "request m = u"
    using claims_request[of m m0] that assms(3,4) by simp
  have "leads S ?J (ClaimedAddress E m) (\<lambda>r m' k. (\<exists>a. r = Inr (Some a)) \<and> ?J m' k)"
  proof (rule quiet_fact[OF assms(1) ClaimedAddress_keeps], rule undisturbed, assumption)
    fix w :: "(xomachine, 'a) st" assume "obj w = m \<and> waiting new u (obj w) (S (ext w))"
    with waiting_request[of new u "obj w"] have w: "obj w = m" "request (obj w) = u" by auto
    with claims assms(2) show "wp (ClaimedAddress E m) (\<lambda>r w'. \<exists>a. r = Inr (Some a)) w"
      unfolding resolvable_def by blast
  qed
  then show "leads S ?J (do { r \<leftarrow> ClaimedAddress E m;
       (case r of
          Inl err \<Rightarrow> do { note_failure E ''AddressClaimFailed'' err; ret (Inl err) }
        | Inr None \<Rightarrow>
            do { u \<leftarrow> UpdateCondition E ConditionFalse ''WaitingForAddress''
                       ''the IPAM pool has not answered the address claim yet'';
                 (case u of Some e \<Rightarrow> ret (Inl e) | None \<Rightarrow> ret (Inr ([], Some \<lparr>requeue_after = 5000\<rparr>))) }
        | Inr (Some addr) \<Rightarrow> ret (Inr (Netplan addr nodeInterface, None))) })
     (\<lambda>r m k. (\<exists>doc. r = Inr (doc, None)) \<and> waiting new u m k)"
    by (rule leads_bind) (auto simp: leads_def)
qed

lemma provision_comes_up:
  assumes "serves E" and "accepts E S u" and "resolvable E u" and "usable_bootstrap E u bs" and "\<not> v1_is_nil (xo_v1 c)"
  shows "comes_up S True u (provision E bs c)"
  unfolding provision_def
proof (rule comes_up_get, rule comes_up_after[OF Build_leads[OF assms(2,4,5)]], assumption, elim exE, simp only: sum.case,
    rule comes_up_get, goal_cases)
  case (1 m r x m')
  note place = placeVM_comes_up[OF assms]
  show ?case
  proof (cases "claims_address m'")
    case True
    show ?thesis
      unfolding if_P[OF True]
      by (rule comes_up_after[OF ipamNetworkConfig_leads[OF assms(2,3) _ True]]) (use 1 place in auto)
  next
    case False
    then show ?thesis using place by simp
  qed
qed

lemma fullReconcile_comes_up:
  assumes "serves E" and "accepts E S u" and "resolvable E u"
  shows "comes_up S True u (fullReconcile E)"
  unfolding fullReconcile_def
proof (rule comes_up_after[OF finds_leads(1)[OF assms(2,3)]], elim exE conjE, goal_cases)
  case (1 r bs)
  then have "\<not> rbd_requeue bs" by (simp add: usable_bootstrap_def)
  show ?case
    unfolding 1(1) sum.case if_not_P[OF \<open>\<not> rbd_requeue bs\<close>]
    by (rule comes_up_after[OF finds_leads(2)[OF assms(2,3)]], elim exE, simp only: sum.case,
        rule comes_up_after[OF newXOClient_leads[OF assms(2,1)]])
       (use provision_comes_up[OF assms 1(2)] in auto)
qed

text \<open>
  The fast path takes a machine whose VM is known there, and leaves a new one to the full reconcile.
  Its tail, from the client and from the VM on.
\<close>

lemma fastVM_leads:
  assumes "serves E" and "accepts E S u" and "\<not> v1_is_nil (xo_v1 c)"
  shows "leads S (waiting False u) (do { r \<leftarrow> get_vm E c i;
       (case r of Inl err \<Rightarrow> ret None | Inr v \<Rightarrow> do { res \<leftarrow> reconcileExistingVM E c v; ret (Some res) }) })
     (\<lambda>r m k. r = Some (Inr done_result) \<and> recorded_up u k)"
proof (rule leads_bind[where K = "\<lambda>r m k. (\<exists>v. r = Inr v) \<and> waiting False u m k"])
  show "leads S (waiting False u) (get_vm E c i) (\<lambda>r m k. (\<exists>v. r = Inr v) \<and> waiting False u m k)"
    by (auto simp: leads_def get_vm_def dest!: servesD(3)[OF assms(1,2)])
  fix r
  have "leads S (waiting False u) (do { res \<leftarrow> reconcileExistingVM E c v; ret (Some res) })
     (\<lambda>r m k. r = Some (Inr done_result) \<and> recorded_up u k)" for v
    by (rule leads_bind[OF reconcileExistingVM_leads[OF assms]]) (auto simp: leads_def)
  then show "leads S (\<lambda>m k. (\<exists>v. r = Inr v) \<and> waiting False u m k)
     (case r of Inl err \<Rightarrow> ret None | Inr v \<Rightarrow> do { res \<leftarrow> reconcileExistingVM E c v; ret (Some res) })
     (\<lambda>r m k. r = Some (Inr done_result) \<and> recorded_up u k)"
    by (auto simp: leads_def)
qed

lemma fastClient_leads:
  assumes "serves E" and "accepts E S u"
  shows "leads S (waiting False u) (do { cl \<leftarrow> newXOClient E (Some cfg);
       (case cl of
          Inl err \<Rightarrow> ret None
        | Inr None \<Rightarrow> ret None
        | Inr (Some c) \<Rightarrow> do { r \<leftarrow> get_vm E c i;
             (case r of Inl err \<Rightarrow> ret None | Inr v \<Rightarrow> do { res \<leftarrow> reconcileExistingVM E c v; ret (Some res) }) }) })
   (\<lambda>r m k. r = Some (Inr done_result) \<and> recorded_up u k)"
  by (rule leads_bind[OF newXOClient_leads[OF assms(2,1)]])
    (use fastVM_leads[OF assms] in \<open>auto simp: leads_def\<close>)

lemma tryFastPath_leads:
  assumes "serves E" and "accepts E S u" and "resolvable E u" and "l_get_vm_id (libs E) p = Inr i" and "p \<noteq> []"
  shows "leads S (\<lambda>m k. provider_id m = p \<and> waiting False u m k) (tryFastPath E)
    (\<lambda>r m k. r = Some (Inr done_result) \<and> recorded_up u k)"
proof -
  have "leads S (waiting False u) (do { creds \<leftarrow> resolveMachineCredentials E;
       (case creds of
          Inl err \<Rightarrow> ret None
        | Inr xoCreds \<Rightarrow> do { cl \<leftarrow> newXOClient E xoCreds;
             (case cl of
                Inl err \<Rightarrow> ret None
              | Inr None \<Rightarrow> ret None
              | Inr (Some c) \<Rightarrow> do { r \<leftarrow> get_vm E c i;
                   (case r of Inl err \<Rightarrow> ret None | Inr v \<Rightarrow> do { res \<leftarrow> reconcileExistingVM E c v; ret (Some res) }) }) }) })
     (\<lambda>r m k. r = Some (Inr done_result) \<and> recorded_up u k)"
    by (rule leads_bind[OF finds_leads(2)[OF assms(2,3)]])
      (use fastClient_leads[OF assms(1,2)] in \<open>auto simp: leads_def\<close>)
  then show ?thesis
    using assms(4,5) by (auto simp: tryFastPath_def leads_def waiting_def)
qed

lemma reconcileNormal_comes_up:
  assumes "serves E" and "accepts E S u" and "resolvable E u"
    and "p = [] \<or> (\<exists>i. l_get_vm_id (libs E) p = Inr i)"
  shows "leads S (\<lambda>m k. provider_id m = p \<and> waiting False u m k) (reconcileNormal E)
    (\<lambda>r m k. r = Inr done_result \<and> recorded_up u k)"
proof -
  let ?J = "\<lambda>m k. provider_id m = p \<and> waiting False u m k"
  have finalizer: "leads S ?J (ensureFinalizer E) (\<lambda>r m k. r = None \<and> ?J m k)"
    using ensureFinalizer_leads[OF assms(2), where T = "\<lambda>st. (case mst_provider_id st of None \<Rightarrow> [] | Some q \<Rightarrow> q) = p" and new = False]
    by (simp add: provider_id_def)
  have rest: "leads S ?J (do { fast \<leftarrow> tryFastPath E; (case fast of Some res \<Rightarrow> ret res | None \<Rightarrow> fullReconcile E) })
     (\<lambda>r m k. r = Inr done_result \<and> recorded_up u k)"
  proof (cases "p = []")
    case True
    have "leads S (waiting True u) (tryFastPath E) (\<lambda>r m k. r = None \<and> waiting True u m k)"
      by (auto simp: tryFastPath_def leads_def waiting_def)
    from leads_bind[OF this leads_cases(2)[OF fullReconcile_comes_up[OF assms(1-3)]]]
    show ?thesis by (rule leads_weaken) (auto simp: True waiting_def)
  next
    case False
    then obtain i where i: "l_get_vm_id (libs E) p = Inr i" using assms(4) by blast
    show ?thesis
      by (rule leads_bind[OF tryFastPath_leads[OF assms(1-3) i False]]) (auto simp: leads_def)
  qed
  show ?thesis
    unfolding reconcileNormal_def by (rule leads_bind[OF finalizer leads_cases(2)[OF rest]])
qed

lemma Reconcile_comes_up:
  assumes "serves E" and "accepts E S (request m)" and "resolvable E (request m)"
    and "k_get_xomachine (kube E) key (ext w) = (Inr m, s)" and "S s = m"
    and "om_deletion (xm_meta m) = None" and "\<not> mst_ready (xm_status m)"
    and "provider_id m = [] \<or> (\<exists>i. l_get_vm_id (libs E) (provider_id m) = Inr i)"
  shows "wp (Reconcile E key) (\<lambda>r w'. r = Inr done_result \<and> recorded_up (request m) (S (ext w'))) w"
proof -
  let ?w = "w\<lparr>ext := s, obj := m\<rparr>"
  have "provider_id (obj ?w) = provider_id m \<and> waiting False (request m) (obj ?w) (S (ext ?w))"
    using assms(5,7) by (simp add: waiting_def)
  with reconcileNormal_comes_up[OF assms(1-3,8)]
  have "wp (reconcileNormal E) (\<lambda>r w'. r = Inr done_result \<and> recorded_up (request m) (S (ext w'))) ?w"
    unfolding leads_def by blast
  then show ?thesis using assms(4,6) by (simp add: Reconcile_def)
qed


text \<open>
  An API server that stores one machine, with what it answers about clusters, and a machine that asks for
  nothing by name.
\<close>

definition stored_env :: "error + xocluster \<Rightarrow> error + cluster \<Rightarrow> machine list \<Rightarrow> xomachine env" where
  "stored_env xc cl ms = ref_env\<lparr>kube := ref_kube\<lparr>
     k_get_xocluster := (\<lambda>k s. (xc, s)), k_get_cluster := (\<lambda>k s. (cl, s)), k_list_machines := (\<lambda>n l s. (Inr ms, s)),
     k_get_xomachine := (\<lambda>k s. (Inr s, s)),
     k_update_xomachine := (\<lambda>m s. (Inr (m\<lparr>xm_status := xm_status s\<rparr>), m\<lparr>xm_status := xm_status s\<rparr>)),
     k_status_update_xomachine := (\<lambda>m s. (Inr (s\<lparr>xm_status := xm_status m\<rparr>), s\<lparr>xm_status := xm_status m\<rparr>))\<rparr>\<rparr>"

abbreviation alone_env :: "xomachine env" where
  "alone_env \<equiv> stored_env (Inl (ApiStatus NotFound [])) (Inl (ApiStatus NotFound [])) []"

definition plain_machine :: xomachine where
  "plain_machine = ref_machine\<lparr>xm_meta := (ref_meta ''demo-cp-7n62g'')\<lparr>om_labels := Map.empty\<rparr>\<rparr>"

lemma request_parts:
  assumes "request m = u"
  shows "om_labels (xm_meta m) = om_labels (fst u)" "om_owners (xm_meta m) = om_owners (fst u)"
    "ms_identity_ref (xm_spec m) = ms_identity_ref (snd u)" "ms_bootstrap (xm_spec m) = ms_bootstrap (snd u)"
    "ms_bootstrap_data (xm_spec m) = ms_bootstrap_data (snd u)" "ms_network_config (xm_spec m) = ms_network_config (snd u)"
    "ms_resource_set (xm_spec m) = ms_resource_set (snd u)"
  using assms by (auto simp: request_def)

lemma plain_parts:
  "om_labels (fst (request plain_machine)) = Map.empty" "om_owners (fst (request plain_machine)) = []"
  "ms_identity_ref (snd (request plain_machine)) = None" "ms_bootstrap (snd (request plain_machine)) = None"
  "ms_bootstrap_data (snd (request plain_machine)) = ''machine: {}''"
  "ms_network_config (snd (request plain_machine)) = None" "ms_resource_set (snd (request plain_machine)) = None"
  "ms_template_id (snd (request plain_machine)) = ''2''" "ms_pool_id (snd (request plain_machine)) = ''1''"
  by (simp_all add: request_def plain_machine_def ref_machine_def ref_machine_spec_def ref_meta_def)

lemma stored_env_serves: "serves (stored_env xc cl ms)"
  by (simp add: serves_def stored_env_def ref_env_def ref_xo_def ref_vm_def nodeIPv4_def has_prefix_def)

lemma stored_env_accepts: "accepts (stored_env xc cl ms) (\<lambda>s. s) u"
  by (simp add: accepts_def stored_env_def ref_env_def ref_xo_def ref_kube_def quiet_calls_def request_def)

lemma stored_env_resolves: "resolvable (stored_env xc cl ms) (request plain_machine)"
  unfolding resolvable_def
proof (intro conjI allI impI)
  fix w :: "(xomachine, xomachine) st" and c
  assume u: "request (obj w) = request plain_machine"
  let ?bs = "\<lparr>rbd_machine = None, rbd_data = ''machine: {}'', rbd_requeue = False\<rparr>"
  have "usable_bootstrap (stored_env xc cl ms) (request plain_machine) ?bs"
    using request_parts plain_parts
    by (auto simp: usable_bootstrap_def Build_def bootstrapBehavior_def BootstrapFormatCloudInit_def computeVMName_def
        clusterNameOf_def nameFor_def go_get_def)
  then show "wp (ResolveBootstrapData (stored_env xc cl ms)) (\<lambda>r w'. \<exists>bs. r = Inr bs \<and> usable_bootstrap (stored_env xc cl ms) (request plain_machine) bs) w"
    using request_parts[OF u] plain_parts
    by (simp add: ResolveBootstrapData_def GetOwnerMachine_def stored_env_def ref_env_def ref_lib_def)
  show "wp (resolveMachineCredentials (stored_env xc cl ms)) (\<lambda>r w'. \<exists>cfg. r = Inr (Some cfg)) w"
    using request_parts[OF u] plain_parts
    by (simp add: resolveMachineCredentials_def ownerClusterIdentity_def stored_env_def ref_env_def ref_lib_def)
  show "wp (ClaimedAddress (stored_env xc cl ms) (obj w)) (\<lambda>r w'. \<exists>a. r = Inr (Some a)) w" if "claims_address (obj w)"
    using that request_parts[OF u] plain_parts by (simp add: claims_address_def)
  show "wp (ResolveTemplateID (stored_env xc cl ms) c (ms_template_id (snd (request plain_machine)))
      (ms_template_name (snd (request plain_machine)))) (\<lambda>r w'. \<exists>t. r = Inr t) w"
    "wp (ResolvePoolID (stored_env xc cl ms) c (ms_pool_id (snd (request plain_machine)))
      (ms_pool_name (snd (request plain_machine)))) (\<lambda>r w'. \<exists>p. r = Inr p) w"
    by (simp_all add: plain_parts ResolveTemplateID_def ResolvePoolID_def stored_env_def ref_env_def ref_lib_def is_digit_def)
next
  fix m ps assume "request m = request plain_machine"
  from request_parts[OF this] plain_parts show "\<exists>ps'. memoryParam (stored_env xc cl ms) m ps = Inr ps'"
    by (simp add: memoryParam_def)
qed


end
