(* ===== verification/Cluster_Addons.thy ===== *)
theory Cluster_Addons
  imports K8s_Helpers Reference_Env
begin

text \<open>
  The addons of a workload cluster (\<open>controller/xocluster_controller.go\<close>, lines 368 to 686): the
  effective selection, the values the three manifests are rendered with, and the ConfigMap and
  ClusterResourceSet that carry each manifest. The text templates are third-party renderings of
  embedded files: \<open>l_render_ccm\<close>, \<open>l_render_csi\<close> and \<open>l_render_cilium\<close>, whose error is that of the
  parse or of the execution, wrapped as the code wraps it.
\<close>

section \<open>Manifest values\<close>

definition ccmControllers :: "bool \<Rightarrow> string" where
  "ccmControllers outOfService =
     join_str ([''cloud-node'', ''cloud-node-lifecycle'', ''cloud-node-label-sync''] @
               (if outOfService then [''cloud-node-out-of-service''] else [])) '',''"

definition cniCilium :: string where
  "cniCilium = ''cilium''"

definition cniNone :: string where
  "cniNone = ''none''"

definition kubePrismHost :: string where
  "kubePrismHost = ''localhost''"

definition kubePrismPort :: int where
  "kubePrismPort = 7445"

definition talosControlPlaneKind :: string where
  "talosControlPlaneKind = ''TalosControlPlane''"

definition isTalosCluster :: "cluster \<Rightarrow> bool" where
  "isTalosCluster cl \<longleftrightarrow> cl_cp_kind cl = talosControlPlaneKind"

text \<open>The endpoint of the spec, or of the status when the spec has none: \<open>None\<close> when unusable.\<close>

definition api_endpoint_of :: "xocluster \<Rightarrow> api_endpoint option" where
  "api_endpoint_of xc =
     (let ep = (case cs_control_plane_endpoint (xc_spec xc) of
                  None \<Rightarrow> cst_control_plane_endpoint (xc_status xc)
                | Some e \<Rightarrow> (if ep_host e = [] then cst_control_plane_endpoint (xc_status xc) else Some e))
      in (case ep of
            None \<Rightarrow> None
          | Some e \<Rightarrow> (if ep_host e = [] \<or> ep_port e = 0 then None else Some e)))"

definition no_endpoint :: error where
  "no_endpoint = Plain (''cilium kube-proxy replacement requires an API server endpoint: set '' @
     ''spec.addons.cilium.k8sServiceHost/k8sServicePort or spec.controlPlaneEndpoint'')"

definition ciliumData :: "xocluster \<Rightarrow> cilium_spec option \<Rightarrow> bool \<Rightarrow> error + cilium_manifest_data" where
  "ciliumData xc cilium talos =
     (let d = \<lparr>cmd_talos = talos, cmd_kube_proxy_replacement = False,
               cmd_k8s_service_host = [], cmd_k8s_service_port = 0\<rparr>
      in (case cilium of
            None \<Rightarrow> Inr d
          | Some c \<Rightarrow>
              (if ci_kube_proxy_replacement c \<noteq> Some True then Inr d
               else (let data = d\<lparr>cmd_kube_proxy_replacement := True\<rparr>
                     in if ci_k8s_service_host c \<noteq> [] \<and> ci_k8s_service_port c \<noteq> 0 then
                          Inr (data\<lparr>cmd_k8s_service_host := ci_k8s_service_host c,
                                    cmd_k8s_service_port := ci_k8s_service_port c\<rparr>)
                        else if talos then
                          Inr (data\<lparr>cmd_k8s_service_host := kubePrismHost,
                                    cmd_k8s_service_port := kubePrismPort\<rparr>)
                        else (case api_endpoint_of xc of
                                None \<Rightarrow> Inl no_endpoint
                              | Some e \<Rightarrow> Inr (data\<lparr>cmd_k8s_service_host := ep_host e,
                                                    cmd_k8s_service_port := ep_port e\<rparr>))))))"

definition renderCiliumManifest :: "'s env \<Rightarrow> cilium_manifest_data \<Rightarrow> error + string" where
  "renderCiliumManifest E d = l_render_cilium (libs E) d"

section \<open>The selection\<close>

definition no_addons :: addons_spec where
  "no_addons = \<lparr>ad_ccm = None, ad_csi = None, ad_cni = None, ad_cilium = None, ad_node_out_of_service = None\<rparr>"

definition defaultAddons :: "addons_spec option \<Rightarrow> addons_spec" where
  "defaultAddons a0 =
     (let a = (case a0 of None \<Rightarrow> no_addons | Some x \<Rightarrow> x);
          a1 = (if ad_ccm a = None then a\<lparr>ad_ccm := Some True\<rparr> else a);
          a2 = (if ad_csi a1 = None then a1\<lparr>ad_csi := Some True\<rparr> else a1)
      in (if ad_cni a2 = None then a2\<lparr>ad_cni := Some cniNone\<rparr> else a2))"

section \<open>The objects of an addon\<close>

text \<open>The mutation functions handed to \<open>CreateOrUpdate\<close>.\<close>

definition set_manifest :: "string \<Rightarrow> string \<Rightarrow> config_map \<Rightarrow> config_map" where
  "set_manifest addon manifest cm =
     cm\<lparr>cm_data := Some ((case cm_data cm of None \<Rightarrow> Map.empty | Some d \<Rightarrow> d)(addon @ ''.yaml'' \<mapsto> manifest))\<rparr>"

definition set_resources :: "string \<Rightarrow> string \<Rightarrow> string \<Rightarrow> resource_set \<Rightarrow> resource_set" where
  "set_resources clusterName cmName strategy crs =
     crs\<lparr>crs_match_labels := [''cluster.x-k8s.io/cluster-name'' \<mapsto> clusterName],
         crs_resources := [(''ConfigMap'', cmName)], crs_strategy := strategy\<rparr>"

definition new_config_map :: "nn \<Rightarrow> config_map" where
  "new_config_map n = \<lparr>cm_nn = n, cm_data = None\<rparr>"

definition new_resource_set :: "nn \<Rightarrow> resource_set" where
  "new_resource_set n = \<lparr>crs_nn = n, crs_match_labels = Map.empty, crs_resources = [], crs_strategy = []\<rparr>"

definition ensureAddon ::
  "'s env \<Rightarrow> string \<Rightarrow> string \<Rightarrow> string \<Rightarrow> string \<Rightarrow> string \<Rightarrow> string \<Rightarrow> string \<Rightarrow>
   ('o, 's, error option) prog" where
  "ensureAddon E namespace clusterName addon crsName cmName strategy manifest =
     (let cm = \<lparr>nn_namespace = namespace, nn_name = cmName\<rparr>;
          crs = new_resource_set \<lparr>nn_namespace = namespace, nn_name = crsName\<rparr>;
          f = set_resources clusterName cmName strategy
      in do { r \<leftarrow> act (\<lambda>r. EvApplyConfigMap cm (addon @ ''.yaml'') manifest (failure_of r))
                      (k_apply_config_map (kube E) (new_config_map cm) (set_manifest addon manifest));
              (case r of
                 Inl err \<Rightarrow> ret (Some (Wrapped (''create/update ConfigMap '' @ cmName @ '': '') err))
               | Inr c \<Rightarrow>
                   do { r2 \<leftarrow> act (\<lambda>r. EvApplyResourceSet (f crs) (failure_of r))
                                (k_apply_resource_set (kube E) crs f);
                        (case r2 of
                           Inl err \<Rightarrow> ret (Some (Wrapped (''create/update ClusterResourceSet '' @ crsName @ '': '') err))
                         | Inr s \<Rightarrow> ret None) }) })"

text \<open>One step of the loop of \<open>removeAddon\<close>: a NotFound is no error.\<close>

definition ignore_not_found :: "error + unit \<Rightarrow> error option" where
  "ignore_not_found r = (case r of Inl err \<Rightarrow> (if api_not_found err then None else Some err) | Inr u \<Rightarrow> None)"

definition removeAddon :: "'s env \<Rightarrow> string \<Rightarrow> string \<Rightarrow> string \<Rightarrow> ('o, 's, error option) prog" where
  "removeAddon E namespace crsName cmName =
     (let crs = \<lparr>nn_namespace = namespace, nn_name = crsName\<rparr>;
          cm = \<lparr>nn_namespace = namespace, nn_name = cmName\<rparr>
      in do { r \<leftarrow> act (\<lambda>r. EvDeleteResourceSet crs (failure_of r)) (k_delete_resource_set (kube E) crs);
              (case ignore_not_found r of
                 Some err \<Rightarrow> ret (Some err)
               | None \<Rightarrow>
                   do { r2 \<leftarrow> act (\<lambda>r. EvDeleteConfigMap cm (failure_of r)) (k_delete_config_map (kube E) cm);
                        ret (ignore_not_found r2) }) })"

section \<open>reconcileAddons\<close>

definition outOfServiceEnabled :: "addons_spec \<Rightarrow> bool" where
  "outOfServiceEnabled a =
     (case ad_node_out_of_service a of
        None \<Rightarrow> True
      | Some o' \<Rightarrow> (case oos_enabled o' of None \<Rightarrow> True | Some b \<Rightarrow> b))"

text \<open>A duration of the out-of-service settings, printed only when the controller runs.\<close>

definition oosDuration ::
  "'s env \<Rightarrow> addons_spec \<Rightarrow> (node_out_of_service_spec \<Rightarrow> int option) \<Rightarrow> string" where
  "oosDuration E a sel =
     (if \<not> outOfServiceEnabled a then []
      else (case ad_node_out_of_service a of
              None \<Rightarrow> []
            | Some o' \<Rightarrow> (case sel o' of None \<Rightarrow> [] | Some d \<Rightarrow> l_duration_string (libs E) d)))"

definition ccmData :: "'s env \<Rightarrow> addons_spec \<Rightarrow> xo_config \<Rightarrow> ccm_manifest_data" where
  "ccmData E a creds =
     \<lparr>ccm_xoa_url = xo_url creds, ccm_xoa_token = xo_token creds,
      ccm_xoa_insecure = (if xo_insecure creds then trueStr else ''false''),
      ccm_controllers = ccmControllers (outOfServiceEnabled a),
      ccm_sync_period = oosDuration E a oos_sync_period,
      ccm_grace_period = oosDuration E a oos_grace_period\<rparr>"

definition nil_credentials :: error where
  "nil_credentials = Panic ''invalid memory address or nil pointer dereference''"

definition reconcileCCM ::
  "'s env \<Rightarrow> addons_spec \<Rightarrow> string \<Rightarrow> string \<Rightarrow> xo_config option \<Rightarrow> ('o, 's, error option) prog" where
  "reconcileCCM E a namespace clusterName xoCreds =
     (let cmName = ''ccm-manifests-'' @ clusterName; crsName = ''ccm-deployment-'' @ clusterName
      in if ad_ccm a = Some True then
           (case xoCreds of
              None \<Rightarrow> ret (Some nil_credentials)
            | Some creds \<Rightarrow>
                (case l_render_ccm (libs E) (ccmData E a creds) of
                   Inl err \<Rightarrow> ret (Some err)
                 | Inr manifest \<Rightarrow>
                     ensureAddon E namespace clusterName ''ccm'' crsName cmName ''Reconcile'' manifest))
         else removeAddon E namespace crsName cmName)"

definition csiData :: "xocluster \<Rightarrow> csi_manifest_data" where
  "csiData xc =
     (case cs_control_plane_endpoint (xc_spec xc) of
        None \<Rightarrow> \<lparr>csi_api_server_host = ''127.0.0.1'', csi_api_server_port = ''6443''\<rparr>
      | Some ep \<Rightarrow> \<lparr>csi_api_server_host = ep_host ep, csi_api_server_port = int_str (ep_port ep)\<rparr>)"

definition reconcileCSI ::
  "'s env \<Rightarrow> addons_spec \<Rightarrow> xocluster \<Rightarrow> string \<Rightarrow> ('o, 's, error option) prog" where
  "reconcileCSI E a xc clusterName =
     (let namespace = om_namespace (xc_meta xc);
          cmName = ''csi-manifests-'' @ clusterName; crsName = ''csi-deployment-'' @ clusterName
      in if ad_csi a = Some True then
           (case l_render_csi (libs E) (csiData xc) of
              Inl err \<Rightarrow> ret (Some err)
            | Inr manifest \<Rightarrow>
                ensureAddon E namespace clusterName ''csi'' crsName cmName ''Reconcile'' manifest)
         else removeAddon E namespace crsName cmName)"

definition reconcileCNI ::
  "'s env \<Rightarrow> addons_spec \<Rightarrow> xocluster \<Rightarrow> cluster \<Rightarrow> ('o, 's, error option) prog" where
  "reconcileCNI E a xc cl =
     (let namespace = om_namespace (xc_meta xc); clusterName = om_name (cl_meta cl);
          cmName = ''cni-manifests-'' @ clusterName; crsName = ''cni-deployment-'' @ clusterName
      in if ad_cni a = Some cniCilium then
           (case ciliumData xc (ad_cilium a) (isTalosCluster cl) of
              Inl err \<Rightarrow> ret (Some err)
            | Inr data \<Rightarrow>
                (case renderCiliumManifest E data of
                   Inl err \<Rightarrow> ret (Some err)
                 | Inr manifest \<Rightarrow>
                     ensureAddon E namespace clusterName ''cni'' crsName cmName ''ApplyOnce'' manifest))
         else removeAddon E namespace crsName cmName)"

text \<open>\<open>defaultAddons\<close> fills the object's own spec when it has an addons section.\<close>

definition fill_addons :: "xocluster \<Rightarrow> xocluster" where
  "fill_addons xc =
     (case cs_addons (xc_spec xc) of
        None \<Rightarrow> xc
      | Some a \<Rightarrow> xc\<lparr>xc_spec := (xc_spec xc)\<lparr>cs_addons := Some (defaultAddons (Some a))\<rparr>\<rparr>)"

text \<open>The three addons in the code's order; the first failure ends the run.\<close>

definition applyAddons ::
  "'s env \<Rightarrow> addons_spec \<Rightarrow> xocluster \<Rightarrow> cluster \<Rightarrow> xo_config option \<Rightarrow> ('o, 's, error option) prog" where
  "applyAddons E a xc cl xoCreds =
     do { r \<leftarrow> reconcileCCM E a (om_namespace (xc_meta xc)) (om_name (cl_meta cl)) xoCreds;
          (case r of
             Some err \<Rightarrow> ret (Some err)
           | None \<Rightarrow>
               do { r2 \<leftarrow> reconcileCSI E a xc (om_name (cl_meta cl));
                    (case r2 of
                       Some err \<Rightarrow> ret (Some err)
                     | None \<Rightarrow> reconcileCNI E a xc cl) }) }"

definition reconcileAddons :: "'s env \<Rightarrow> cluster \<Rightarrow> xo_config option \<Rightarrow> (xocluster, 's, error option) prog" where
  "reconcileAddons E cl xoCreds =
     do { xc0 \<leftarrow> get_obj;
          modify_obj fill_addons;
          xc \<leftarrow> get_obj;
          applyAddons E (defaultAddons (cs_addons (xc_spec xc0))) xc cl xoCreds }"

section \<open>Effects\<close>

text \<open>Every event of the addons is about an object of one namespace, and selects one cluster.\<close>

fun addon_event :: "string \<Rightarrow> string \<Rightarrow> event \<Rightarrow> bool" where
  "addon_event ns clusterName (EvApplyConfigMap n k m r) = (nn_namespace n = ns)"
| "addon_event ns clusterName (EvApplyResourceSet s r) =
     (nn_namespace (crs_nn s) = ns \<and> crs_match_labels s = [''cluster.x-k8s.io/cluster-name'' \<mapsto> clusterName])"
| "addon_event ns clusterName (EvDeleteConfigMap n r) = (nn_namespace n = ns)"
| "addon_event ns clusterName (EvDeleteResourceSet n r) = (nn_namespace n = ns)"
| "addon_event ns clusterName _ = False"

lemma ensureAddon_emits [effects]:
  "emits (addon_event ns cn) (ensureAddon E ns cn addon crs cm strategy manifest)"
  unfolding ensureAddon_def Let_def
  by (intro effects) (simp_all add: set_resources_def new_resource_set_def)

lemma ensureAddon_keeps [frames]: "keeps obj (ensureAddon E ns cn addon crs cm strategy manifest)"
  unfolding ensureAddon_def Let_def by (intro frames)

lemma removeAddon_emits [effects]: "emits (addon_event ns cn) (removeAddon E ns crs cm)"
  unfolding removeAddon_def Let_def by (intro effects) simp_all

lemma removeAddon_keeps [frames]: "keeps obj (removeAddon E ns crs cm)"
  unfolding removeAddon_def Let_def by (intro frames)

lemma reconcileCCM_emits [effects]: "emits (addon_event ns cn) (reconcileCCM E a ns cn creds)"
  unfolding reconcileCCM_def Let_def by (intro effects)

lemma reconcileCCM_keeps [frames]: "keeps obj (reconcileCCM E a ns cn creds)"
  unfolding reconcileCCM_def Let_def by (intro frames)

lemma reconcileCSI_emits [effects]:
  "emits (addon_event (om_namespace (xc_meta xc)) cn) (reconcileCSI E a xc cn)"
  unfolding reconcileCSI_def Let_def by (intro effects)

lemma reconcileCSI_keeps [frames]: "keeps obj (reconcileCSI E a xc cn)"
  unfolding reconcileCSI_def Let_def by (intro frames)

lemma reconcileCNI_emits [effects]:
  "emits (addon_event (om_namespace (xc_meta xc)) (om_name (cl_meta cl))) (reconcileCNI E a xc cl)"
  unfolding reconcileCNI_def Let_def by (intro effects)

lemma reconcileCNI_keeps [frames]: "keeps obj (reconcileCNI E a xc cl)"
  unfolding reconcileCNI_def Let_def by (intro frames)

lemma applyAddons_emits [effects]:
  "emits (addon_event (om_namespace (xc_meta xc)) (om_name (cl_meta cl))) (applyAddons E a xc cl creds)"
  unfolding applyAddons_def by (intro effects)

lemma applyAddons_keeps [frames]: "keeps obj (applyAddons E a xc cl creds)"
  unfolding applyAddons_def by (intro frames)

section \<open>Properties\<close>

lemma fill_addons_meta [simp]: "xc_meta (fill_addons xc) = xc_meta xc"
  by (simp add: fill_addons_def split: option.split)

lemma defaultAddons_idem: "defaultAddons (Some (defaultAddons a)) = defaultAddons a"
  by (auto simp: defaultAddons_def no_addons_def Let_def split: option.split)

lemma defaultAddons_set:
  "ad_ccm (defaultAddons a) \<noteq> None \<and> ad_csi (defaultAddons a) \<noteq> None \<and> ad_cni (defaultAddons a) \<noteq> None"
  by (auto simp: defaultAddons_def no_addons_def Let_def split: option.split)

lemma defaultAddons_user:
  "(ad_ccm x \<noteq> None \<longrightarrow> ad_ccm (defaultAddons (Some x)) = ad_ccm x) \<and>
   (ad_csi x \<noteq> None \<longrightarrow> ad_csi (defaultAddons (Some x)) = ad_csi x) \<and>
   (ad_cni x \<noteq> None \<longrightarrow> ad_cni (defaultAddons (Some x)) = ad_cni x) \<and>
   ad_cilium (defaultAddons (Some x)) = ad_cilium x \<and>
   ad_node_out_of_service (defaultAddons (Some x)) = ad_node_out_of_service x"
  by (auto simp: defaultAddons_def Let_def)

lemma fill_addons_selection: "defaultAddons (cs_addons (xc_spec (fill_addons xc))) = defaultAddons (cs_addons (xc_spec xc))"
  by (simp add: fill_addons_def defaultAddons_idem split: option.split)

lemma api_endpoint_of_usable: "api_endpoint_of xc = Some e \<Longrightarrow> ep_host e \<noteq> [] \<and> ep_port e \<noteq> 0"
  by (auto simp: api_endpoint_of_def Let_def split: option.splits if_splits)

text \<open>
  Filling the defaults gives every addon a setting, keeps each one the user made, and does
  nothing the second time, so the in-place change of the spec does not accumulate.
\<close>

theorem defaultAddons_correct:
  "ad_ccm (defaultAddons a) \<noteq> None \<and> ad_csi (defaultAddons a) \<noteq> None \<and> ad_cni (defaultAddons a) \<noteq> None \<and>
   (\<forall>x. a = Some x \<longrightarrow>
      (ad_ccm x \<noteq> None \<longrightarrow> ad_ccm (defaultAddons a) = ad_ccm x) \<and>
      (ad_csi x \<noteq> None \<longrightarrow> ad_csi (defaultAddons a) = ad_csi x) \<and>
      (ad_cni x \<noteq> None \<longrightarrow> ad_cni (defaultAddons a) = ad_cni x) \<and>
      ad_cilium (defaultAddons a) = ad_cilium x \<and>
      ad_node_out_of_service (defaultAddons a) = ad_node_out_of_service x) \<and>
   defaultAddons (Some (defaultAddons a)) = defaultAddons a"
  using defaultAddons_set[of a] defaultAddons_idem[of a] defaultAddons_user by blast

theorem defaultAddons_correct_witness:
  "ad_ccm (defaultAddons (Some (no_addons\<lparr>ad_ccm := Some False\<rparr>))) = Some False \<and>
   ad_csi (defaultAddons (Some (no_addons\<lparr>ad_ccm := Some False\<rparr>))) \<noteq> None"
  using defaultAddons_correct[of "Some (no_addons\<lparr>ad_ccm := Some False\<rparr>)"] by (simp add: ex_bool_eq)

text \<open>
  Cilium never replaces kube-proxy without an API server to talk to: with the replacement on,
  the manifest gets a non-empty host and a non-zero port (the user's pair when both are set,
  KubePrism on Talos, the control plane endpoint otherwise) or an error; with it off, neither.
\<close>

theorem ciliumData_endpoint:
  assumes "ciliumData xc cilium talos = Inr d"
  shows "cmd_talos d = talos \<and>
    (cmd_kube_proxy_replacement d \<longleftrightarrow> (\<exists>c. cilium = Some c \<and> ci_kube_proxy_replacement c = Some True)) \<and>
    (cmd_kube_proxy_replacement d \<longleftrightarrow> cmd_k8s_service_host d \<noteq> []) \<and>
    (cmd_kube_proxy_replacement d \<longleftrightarrow> cmd_k8s_service_port d \<noteq> 0) \<and>
    (\<forall>c. cilium = Some c \<and> cmd_kube_proxy_replacement d \<longrightarrow>
       (if ci_k8s_service_host c \<noteq> [] \<and> ci_k8s_service_port c \<noteq> 0
        then cmd_k8s_service_host d = ci_k8s_service_host c \<and> cmd_k8s_service_port d = ci_k8s_service_port c
        else if talos then cmd_k8s_service_host d = kubePrismHost \<and> cmd_k8s_service_port d = kubePrismPort
        else \<exists>e. api_endpoint_of xc = Some e \<and> cmd_k8s_service_host d = ep_host e \<and>
               cmd_k8s_service_port d = ep_port e))"
proof (cases "\<exists>c. cilium = Some c \<and> ci_kube_proxy_replacement c = Some True")
  case False
  with assms show ?thesis by (auto simp: ciliumData_def Let_def split: option.splits)
next
  case True
  then obtain c where c: "cilium = Some c" "ci_kube_proxy_replacement c = Some True" by blast
  show ?thesis
  proof (cases "(ci_k8s_service_host c \<noteq> [] \<and> ci_k8s_service_port c \<noteq> 0) \<or> talos")
    case True
    with c assms show ?thesis
      by (auto simp: ciliumData_def Let_def kubePrismHost_def kubePrismPort_def split: if_splits)
  next
    case False
    with c assms obtain e where "api_endpoint_of xc = Some e"
      "d = \<lparr>cmd_talos = talos, cmd_kube_proxy_replacement = True,
             cmd_k8s_service_host = ep_host e, cmd_k8s_service_port = ep_port e\<rparr>"
      by (auto simp: ciliumData_def Let_def split: option.splits)
    with c False api_endpoint_of_usable show ?thesis by auto
  qed
qed

theorem ciliumData_endpoint_witness:
  "cmd_talos \<lparr>cmd_talos = False, cmd_kube_proxy_replacement = True,
              cmd_k8s_service_host = ''10.0.0.1'', cmd_k8s_service_port = 6443\<rparr> = False"
  using ciliumData_endpoint[of ref_xocluster
      "Some \<lparr>ci_kube_proxy_replacement = Some True, ci_k8s_service_host = [], ci_k8s_service_port = 0\<rparr>" False
      "\<lparr>cmd_talos = False, cmd_kube_proxy_replacement = True,
              cmd_k8s_service_host = ''10.0.0.1'', cmd_k8s_service_port = 6443\<rparr>"]
  by (simp add: ciliumData_def api_endpoint_of_def Let_def ref_xocluster_def ref_cluster_spec_def)

text \<open>What an addon leaves behind when its reconcile succeeds.\<close>

definition addon_settled :: "bool \<Rightarrow> string \<Rightarrow> string \<Rightarrow> string \<Rightarrow> string \<Rightarrow> event list \<Rightarrow> bool" where
  "addon_settled enabled ns clusterName addon strategy es \<longleftrightarrow>
     (let cm = \<lparr>nn_namespace = ns, nn_name = addon @ ''-manifests-'' @ clusterName\<rparr>;
          crs = \<lparr>nn_namespace = ns, nn_name = addon @ ''-deployment-'' @ clusterName\<rparr>
      in if enabled then
           (\<exists>manifest. EvApplyConfigMap cm (addon @ ''.yaml'') manifest None \<in> set es) \<and>
           EvApplyResourceSet \<lparr>crs_nn = crs, crs_match_labels = [''cluster.x-k8s.io/cluster-name'' \<mapsto> clusterName],
              crs_resources = [(''ConfigMap'', nn_name cm)], crs_strategy = strategy\<rparr> None \<in> set es
         else
           (\<exists>r. EvDeleteResourceSet crs r \<in> set es \<and> (\<forall>err. r = Some err \<longrightarrow> api_not_found err)) \<and>
           (\<exists>r. EvDeleteConfigMap cm r \<in> set es \<and> (\<forall>err. r = Some err \<longrightarrow> api_not_found err)))"

lemma addon_settled_append:
  "addon_settled b ns cn a st es \<Longrightarrow> addon_settled b ns cn a st (es @ fs)"
  "addon_settled b ns cn a st fs \<Longrightarrow> addon_settled b ns cn a st (es @ fs)"
  by (auto simp: addon_settled_def Let_def)

text \<open>
  A step that succeeds only after events that satisfy \<open>P\<close>; the steps of the code follow one another as
  long as they succeed.
\<close>

definition settles :: "(event list \<Rightarrow> bool) \<Rightarrow> ('o, 's, error option) prog \<Rightarrow> bool" where
  "settles P m \<longleftrightarrow> (\<forall>w. wp m (\<lambda>r w'. \<exists>es. log w' = log w @ es \<and> (r = None \<longrightarrow> P es)) w)"

lemma settles_then:
  assumes "settles P m" and "settles Q n" and "\<And>es fs. P es \<Longrightarrow> P (es @ fs)" and "\<And>es fs. Q fs \<Longrightarrow> Q (es @ fs)"
  shows "settles (\<lambda>es. P es \<and> Q es) (do { r \<leftarrow> m; (case r of Some err \<Rightarrow> ret (Some err) | None \<Rightarrow> n) })"
  unfolding settles_def wp_simps(2)
proof (rule allI, rule wp_mono[OF assms(1)[unfolded settles_def, rule_format]], elim exE conjE)
  fix w v :: "('a, 'b) st" and r :: "error option" and es
  assume v: "log v = log w @ es" "r = None \<longrightarrow> P es"
  show "wp (case r of Some err \<Rightarrow> ret (Some err) | None \<Rightarrow> n)
      (\<lambda>r w'. \<exists>es. log w' = log w @ es \<and> (r = None \<longrightarrow> P es \<and> Q es)) v"
  proof (cases r)
    case None
    have "wp n (\<lambda>r w'. \<exists>es. log w' = log w @ es \<and> (r = None \<longrightarrow> P es \<and> Q es)) v"
      by (rule wp_mono[OF assms(2)[unfolded settles_def, rule_format]]) (use v None assms(3,4) in auto)
    then show ?thesis using None by simp
  qed (use v in simp)
qed

lemma ensureAddon_settled:
  assumes "crs = addon @ ''-deployment-'' @ cn" and "cm = addon @ ''-manifests-'' @ cn"
  shows "settles (addon_settled True ns cn addon strategy) (ensureAddon E ns cn addon crs cm strategy manifest)"
  using assms
  by (auto simp: settles_def ensureAddon_def Let_def addon_settled_def set_resources_def new_resource_set_def
      split: sum.split)

lemma removeAddon_settled:
  assumes "crs = addon @ ''-deployment-'' @ cn" and "cm = addon @ ''-manifests-'' @ cn"
  shows "settles (addon_settled False ns cn addon strategy) (removeAddon E ns crs cm)"
  using assms
  by (auto simp: settles_def removeAddon_def Let_def addon_settled_def ignore_not_found_def
      split: sum.split option.split)

text \<open>The failures before an addon is applied, and the two ways a step has.\<close>

lemma settles_cases:
  "settles P (ret (Some err))"
  "(\<And>e. x = Inl e \<Longrightarrow> settles P (g e)) \<Longrightarrow> (\<And>y. x = Inr y \<Longrightarrow> settles P (h y)) \<Longrightarrow>
   settles P (case x of Inl e \<Rightarrow> g e | Inr y \<Rightarrow> h y)"
  "(z = None \<Longrightarrow> settles P m) \<Longrightarrow> (\<And>y. z = Some y \<Longrightarrow> settles P (k y)) \<Longrightarrow>
   settles P (case z of None \<Rightarrow> m | Some y \<Rightarrow> k y)"
  by (simp_all add: settles_def split: sum.split option.split)

lemma settles_switch:
  "(b \<Longrightarrow> settles (addon_settled True ns cn addon st) m) \<Longrightarrow>
   (\<not> b \<Longrightarrow> settles (addon_settled False ns cn addon st) n) \<Longrightarrow>
   settles (addon_settled b ns cn addon st) (if b then m else n)"
  by (cases b) simp_all

lemmas settles_addon = settles_switch settles_cases ensureAddon_settled removeAddon_settled

lemma reconcileCCM_settled:
  "settles (addon_settled (ad_ccm a = Some True) ns cn ''ccm'' ''Reconcile'') (reconcileCCM E a ns cn creds)"
  unfolding reconcileCCM_def Let_def by (intro settles_addon) simp_all

lemma reconcileCSI_settled:
  "settles (addon_settled (ad_csi a = Some True) (om_namespace (xc_meta xc)) cn ''csi'' ''Reconcile'')
     (reconcileCSI E a xc cn)"
  unfolding reconcileCSI_def Let_def by (intro settles_addon) simp_all

lemma reconcileCNI_settled:
  "settles (addon_settled (ad_cni a = Some cniCilium) (om_namespace (xc_meta xc)) (om_name (cl_meta cl))
      ''cni'' ''ApplyOnce'') (reconcileCNI E a xc cl)"
  unfolding reconcileCNI_def Let_def by (intro settles_addon) simp_all

text \<open>
  An addon reconcile that succeeds has settled all three addons: each enabled one has its
  ConfigMap with the manifest and a ClusterResourceSet that names that ConfigMap and selects this
  cluster only, each disabled one has neither, all of them in the XOCluster's own namespace.
\<close>

definition addons_settled :: "xocluster \<Rightarrow> string \<Rightarrow> event list \<Rightarrow> bool" where
  "addons_settled xc cn es \<longleftrightarrow>
     (let a = defaultAddons (cs_addons (xc_spec xc)); ns = om_namespace (xc_meta xc)
      in addon_settled (ad_ccm a = Some True) ns cn ''ccm'' ''Reconcile'' es \<and>
         addon_settled (ad_csi a = Some True) ns cn ''csi'' ''Reconcile'' es \<and>
         addon_settled (ad_cni a = Some cniCilium) ns cn ''cni'' ''ApplyOnce'' es)"

lemma applyAddons_settled:
  "settles (addons_settled xc (om_name (cl_meta cl)))
     (applyAddons E (defaultAddons (cs_addons (xc_spec xc))) xc cl creds)"
  unfolding applyAddons_def addons_settled_def[abs_def] Let_def
  by (intro settles_then reconcileCCM_settled reconcileCSI_settled reconcileCNI_settled) (auto intro: addon_settled_append)

lemma reconcileAddons_settled:
  "wp (reconcileAddons E cl creds)
     (\<lambda>r w'. \<exists>es. log w' = log w @ es \<and> (r = None \<longrightarrow> addons_settled (obj w') (om_name (cl_meta cl)) es)) w"
proof -
  let ?v = "w\<lparr>obj := fill_addons (obj w)\<rparr>"
  have "wp (applyAddons E (defaultAddons (cs_addons (xc_spec (obj w)))) (fill_addons (obj w)) cl creds)
      (\<lambda>r w'. \<exists>es. log w' = log ?v @ es \<and> (r = None \<longrightarrow> addons_settled (fill_addons (obj w)) (om_name (cl_meta cl)) es)) ?v"
    using applyAddons_settled[of "fill_addons (obj w)" cl E creds, unfolded settles_def, rule_format, of ?v]
    by (simp only: fill_addons_selection)
  moreover have "wp (applyAddons E (defaultAddons (cs_addons (xc_spec (obj w)))) (fill_addons (obj w)) cl creds)
      (\<lambda>r w'. obj w' = obj ?v) ?v"
    by (rule keeps_wp[OF applyAddons_keeps])
  ultimately show ?thesis
    by (simp add: reconcileAddons_def wp_def split: prod.splits)
qed

definition ref_xoclu :: "(xocluster, unit) st" where
  "ref_xoclu = start_state ref_xocluster ()"

definition addon_env :: "unit env" where
  "addon_env = ref_env"

definition ref_creds :: "xo_config option" where
  "ref_creds = Some \<lparr>xo_url = ''https://xo'', xo_token = ''token'', xo_insecure = False\<rparr>"

text \<open>
  The addons of one cluster never touch another's: every ConfigMap and ClusterResourceSet a run
  writes or deletes is in the XOCluster's own namespace, where Cluster API looks for it, and every
  ClusterResourceSet written selects exactly the cluster of that name.
\<close>

theorem reconcileAddons_scoped:
  "\<exists>es. log (snd (run_state (reconcileAddons E cl creds) w)) = log w @ es \<and>
    (\<forall>e \<in> set es. addon_event (om_namespace (xc_meta (obj w))) (om_name (cl_meta cl)) e)"
proof -
  have "wp (applyAddons E a (fill_addons (obj w)) cl creds) (\<lambda>r w'. \<exists>es. log w' = log w @ es \<and>
      (\<forall>e \<in> set es. addon_event (om_namespace (xc_meta (obj w))) (om_name (cl_meta cl)) e))
      (w\<lparr>obj := fill_addons (obj w)\<rparr>)" for a
    using emits_wp[OF applyAddons_emits[where xc = "fill_addons (obj w)"], where w = "w\<lparr>obj := fill_addons (obj w)\<rparr>"]
    by simp
  then have "wp (reconcileAddons E cl creds) (\<lambda>r w'. \<exists>es. log w' = log w @ es \<and>
      (\<forall>e \<in> set es. addon_event (om_namespace (xc_meta (obj w))) (om_name (cl_meta cl)) e)) w"
    by (simp add: reconcileAddons_def)
  then show ?thesis by (simp add: wp_def split: prod.splits)
qed

theorem reconcileAddons_scoped_witness:
  "\<exists>es. log (snd (run_state (reconcileAddons addon_env ref_cluster ref_creds) ref_xoclu)) = log ref_xoclu @ es \<and>
    (\<forall>e \<in> set es. addon_event (om_namespace (xc_meta (obj ref_xoclu))) (om_name (cl_meta ref_cluster)) e)"
  by (rule reconcileAddons_scoped)

text \<open>
  A cluster without an identity of its own, reconciled by a controller without credentials,
  reaches the CCM manifest with nil credentials: with the default addons the run panics. The
  process of \<open>cmd/main.go\<close> never builds such a controller (\<open>production_credentials\<close>).
\<close>

theorem reconcileAddons_nil_credentials:
  assumes "ad_ccm (defaultAddons (cs_addons (xc_spec (obj w)))) = Some True"
  shows "\<exists>err. fst (run_state (reconcileAddons E cl None) w) = Some err \<and> is_panic err"
  using assms
  by (simp add: reconcileAddons_def applyAddons_def reconcileCCM_def nil_credentials_def)

theorem reconcileAddons_nil_credentials_witness:
  "\<exists>err. fst (run_state (reconcileAddons addon_env ref_cluster None) ref_xoclu) = Some err \<and> is_panic err"
  by (rule reconcileAddons_nil_credentials)
     (simp add: ref_xoclu_def start_state_def ref_xocluster_def ref_cluster_spec_def defaultAddons_def no_addons_def)

end
