(* ===== verification/Cluster_Controller.thy ===== *)
theory Cluster_Controller
  imports Cluster_Addons Vm_Ready
begin

text \<open>
  The XOCluster reconciler (\<open>controller/xocluster_controller.go\<close>): the owner Cluster and its label,
  the control plane endpoint, the status, the addons, and the deletion. The reconciled XOCluster
  is the object of the state.
\<close>

definition xoClusterFinalizer :: string where
  "xoClusterFinalizer = ''vates.infrastructure.cluster.x-k8s.io/xocluster''"

definition update_cluster :: "'s env \<Rightarrow> (xocluster, 's, error option) prog" where
  "update_cluster E =
     do { o' \<leftarrow> get_obj;
          r \<leftarrow> act (\<lambda>r. EvUpdateXOCluster o' (failure_of r)) (k_update_xocluster (kube E) o');
          (case r of
             Inl e \<Rightarrow> ret (Some e)
           | Inr fresh \<Rightarrow> do { set_obj fresh; ret None }) }"

definition status_patch_cluster :: "'s env \<Rightarrow> xocluster \<Rightarrow> (xocluster, 's, error option) prog" where
  "status_patch_cluster E patchBase =
     do { o' \<leftarrow> get_obj;
          r \<leftarrow> act (\<lambda>r. EvStatusPatchXOCluster o' (failure_of r)) (k_status_patch_xocluster (kube E) patchBase o');
          (case r of
             Inl e \<Rightarrow> ret (Some e)
           | Inr fresh \<Rightarrow> do { set_obj fresh; ret None }) }"

definition set_cluster_finalizers :: "string list \<Rightarrow> xocluster \<Rightarrow> xocluster" where
  "set_cluster_finalizers fs c = c\<lparr>xc_meta := (xc_meta c)\<lparr>om_finalizers := fs\<rparr>\<rparr>"

section \<open>The owner Cluster\<close>

text \<open>The loop over the owner references.\<close>

fun cluster_owner :: "owner_ref list \<Rightarrow> owner_ref option" where
  "cluster_owner [] = None"
| "cluster_owner (ref # refs) =
     (if or_kind ref = ''Cluster'' \<and> or_api_version ref = ClusterGroupVersion then Some ref
      else cluster_owner refs)"

definition getOwnerCluster :: "'s env \<Rightarrow> xocluster \<Rightarrow> ('o, 's, error + cluster option) prog" where
  "getOwnerCluster E xc =
     (case cluster_owner (om_owners (xc_meta xc)) of
        None \<Rightarrow> ret (Inr None)
      | Some ownerRef \<Rightarrow>
          do { r \<leftarrow> query (k_get_cluster (kube E)
                     \<lparr>nn_namespace = om_namespace (xc_meta xc), nn_name = or_name ownerRef\<rparr>);
               (case r of
                  Inl err \<Rightarrow> (if api_not_found err then ret (Inr None) else ret (Inl err))
                | Inr cl \<Rightarrow>
                    (if om_uid (cl_meta cl) \<noteq> or_uid ownerRef then ret (Inr None)
                     else ret (Inr (Some cl)))) })"

definition label_cluster :: "cluster \<Rightarrow> cluster" where
  "label_cluster cl = cl\<lparr>cl_meta := (cl_meta cl)\<lparr>om_labels :=
     (om_labels (cl_meta cl))(ClusterNameLabel \<mapsto> om_name (cl_meta cl))\<rparr>\<rparr>"

definition patch_cluster :: "'s env \<Rightarrow> cluster \<Rightarrow> ('o, 's, error + cluster) prog" where
  "patch_cluster E cl =
     act (\<lambda>r. EvPatchCluster (label_cluster cl) (failure_of r)) (k_patch_cluster (kube E) cl (label_cluster cl))"

text \<open>The Cluster as the caller's pointer sees it afterwards.\<close>

definition ensureClusterNameLabel :: "'s env \<Rightarrow> cluster \<Rightarrow> ('o, 's, error + cluster) prog" where
  "ensureClusterNameLabel E cl =
     (if go_get (om_labels (cl_meta cl)) ClusterNameLabel = om_name (cl_meta cl) then ret (Inr cl)
      else do { r \<leftarrow> patch_cluster E cl;
                (case r of
                   Inr patched \<Rightarrow> ret (Inr patched)
                 | Inl err \<Rightarrow>
                     (if \<not> api_conflict err then ret (Inl err)
                      else do { g \<leftarrow> query (k_get_cluster (kube E)
                                    \<lparr>nn_namespace = om_namespace (cl_meta cl), nn_name = om_name (cl_meta cl)\<rparr>);
                                (case g of
                                   Inl err2 \<Rightarrow> ret (Inl err2)
                                 | Inr fresh \<Rightarrow>
                                     do { r2 \<leftarrow> patch_cluster E fresh;
                                          (case r2 of
                                             Inl err3 \<Rightarrow> ret (Inl err3)
                                           | Inr p \<Rightarrow> ret (Inr (label_cluster cl))) }) })) })"

section \<open>The control plane endpoint\<close>

text \<open>The address a machine offers: the first internal or external one of a Ready XOMachine.\<close>

fun offered_address :: "node_address list \<Rightarrow> string option" where
  "offered_address [] = None"
| "offered_address (a # as) =
     (if na_type a = NodeInternalIP \<or> na_type a = NodeExternalIP then Some (na_address a)
      else offered_address as)"

fun discover_in :: "'s env \<Rightarrow> string \<Rightarrow> machine list \<Rightarrow> ('o, 's, api_endpoint option) prog" where
  "discover_in E clusterName [] = ret None"
| "discover_in E clusterName (m # ms) =
     (if mach_cluster_name m \<noteq> clusterName then discover_in E clusterName ms
      else if mach_infra_kind m \<noteq> KindXOMachine then discover_in E clusterName ms
      else do { r \<leftarrow> query (k_get_xomachine (kube E)
                      \<lparr>nn_namespace = om_namespace (mach_meta m), nn_name = mach_infra_name m\<rparr>);
                (case r of
                   Inl err \<Rightarrow> discover_in E clusterName ms
                 | Inr xm \<Rightarrow>
                     (if mst_ready (xm_status xm) then
                        (case offered_address (mst_addresses (xm_status xm)) of
                           Some addr \<Rightarrow> ret (Some \<lparr>ep_host = addr, ep_port = 6443, ep_subnet = None\<rparr>)
                         | None \<Rightarrow> discover_in E clusterName ms)
                      else discover_in E clusterName ms)) })"

definition discoverControlPlaneEndpoint ::
  "'s env \<Rightarrow> cluster \<Rightarrow> ('o, 's, error + api_endpoint option) prog" where
  "discoverControlPlaneEndpoint E cl =
     do { r \<leftarrow> query (k_list_machines (kube E) (om_namespace (cl_meta cl)) [MachineControlPlaneLabel \<mapsto> []]);
          (case r of
             Inl err \<Rightarrow> ret (Inl (Wrapped ''failed to list control plane machines: '' err))
           | Inr ms \<Rightarrow> do { ep \<leftarrow> discover_in E (om_name (cl_meta cl)) ms; ret (Inr ep) }) }"

definition set_status_endpoint :: "api_endpoint \<Rightarrow> xocluster \<Rightarrow> xocluster" where
  "set_status_endpoint ep c = c\<lparr>xc_status := (xc_status c)\<lparr>cst_control_plane_endpoint := Some ep\<rparr>\<rparr>"

definition has_endpoint :: "api_endpoint option \<Rightarrow> bool" where
  "has_endpoint ep \<longleftrightarrow> (case ep of None \<Rightarrow> False | Some e \<Rightarrow> ep_host e \<noteq> [])"

text \<open>Whether the run has to be repeated because no endpoint is known yet.\<close>

definition resolveEndpoint :: "'s env \<Rightarrow> cluster \<Rightarrow> (xocluster, 's, error + bool) prog" where
  "resolveEndpoint E cl =
     do { xc \<leftarrow> get_obj;
          (if has_endpoint (cst_control_plane_endpoint (xc_status xc)) then ret (Inr False)
           else if has_endpoint (cs_control_plane_endpoint (xc_spec xc)) then
             do { set_obj (set_status_endpoint (the (cs_control_plane_endpoint (xc_spec xc))) xc);
                  ret (Inr False) }
           else do { r \<leftarrow> discoverControlPlaneEndpoint E cl;
                     (case r of
                        Inl err \<Rightarrow> ret (Inl err)
                      | Inr None \<Rightarrow> ret (Inr True)
                      | Inr (Some ep) \<Rightarrow> do { modify_obj (set_status_endpoint ep); ret (Inr False) }) }) }"

section \<open>reconcileNormal and reconcileDelete\<close>

definition mark_cluster_ready :: "xocluster \<Rightarrow> xocluster" where
  "mark_cluster_ready c =
     c\<lparr>xc_status := (xc_status c)\<lparr>cst_ready := True, cst_initialization := Some \<lparr>provisioned = True\<rparr>\<rparr>\<rparr>"

text \<open>The status after the endpoint question is settled.\<close>

definition settleStatus :: "bool \<Rightarrow> time \<Rightarrow> xocluster \<Rightarrow> xocluster" where
  "settleStatus needsRequeue now c =
     (if \<not> needsRequeue then
        setCondition now ''Ready'' ConditionTrue ''ClusterInfrastructureReady''
          ''Cluster infrastructure is ready'' (mark_cluster_ready c)
      else setCondition now ''Ready'' ConditionFalse ''WaitingForControlPlaneEndpoint''
          ''Waiting for a ready control plane machine to discover the endpoint'' c)"

definition addonsStep :: "'s env \<Rightarrow> cluster \<Rightarrow> (xocluster, 's, error + reconcile_result) prog" where
  "addonsStep E cl =
     do { xc \<leftarrow> get_obj;
          creds \<leftarrow> ResolveXOConfig E (om_namespace (xc_meta xc)) (cs_identity_ref (xc_spec xc)) (e_global_creds E);
          (case creds of
             Inl err \<Rightarrow>
               do { now \<leftarrow> query (e_now E);
                    modify_obj (setCondition now ''Ready'' ConditionFalse ''CredentialsResolutionFailed''
                                  (error_text err));
                    ret (Inl err) }
           | Inr xoCreds \<Rightarrow>
               do { r \<leftarrow> reconcileAddons E cl xoCreds;
                    (case r of
                       Some err \<Rightarrow> (if is_panic err then ret (Inl err) else ret (Inr \<lparr>requeue_after = 30000\<rparr>))
                     | None \<Rightarrow> ret (Inr done_result)) }) }"

text \<open>From the status on, once it is known whether an endpoint is still missing.\<close>

definition finishCluster ::
  "'s env \<Rightarrow> xocluster \<Rightarrow> cluster \<Rightarrow> bool \<Rightarrow> (xocluster, 's, error + reconcile_result) prog" where
  "finishCluster E patchBase cl needsRequeue =
     do { now \<leftarrow> query (e_now E);
          modify_obj (settleStatus needsRequeue now);
          p \<leftarrow> status_patch_cluster E patchBase;
          (case p of
             Some err \<Rightarrow> ret (Inl err)
           | None \<Rightarrow>
               (if needsRequeue then ret (Inr \<lparr>requeue_after = 10000\<rparr>)
                else addonsStep E cl)) }"

text \<open>From the owner Cluster on, with the object as it was before the changes of the status.\<close>

definition reconcileOwned ::
  "'s env \<Rightarrow> xocluster \<Rightarrow> cluster \<Rightarrow> (xocluster, 's, error + reconcile_result) prog" where
  "reconcileOwned E patchBase cl0 =
     do { l \<leftarrow> ensureClusterNameLabel E cl0;
          (case l of
             Inl err \<Rightarrow> ret (Inl err)
           | Inr cl \<Rightarrow>
               do { e \<leftarrow> resolveEndpoint E cl;
                    (case e of
                       Inl err \<Rightarrow> ret (Inl err)
                     | Inr needsRequeue \<Rightarrow> finishCluster E patchBase cl needsRequeue) }) }"

definition clusterReconcileNormal :: "'s env \<Rightarrow> (xocluster, 's, error + reconcile_result) prog" where
  "clusterReconcileNormal E =
     do { c \<leftarrow> get_obj;
          let (added, fs) = l_add_finalizer (libs E) xoClusterFinalizer (om_finalizers (xc_meta c));
          set_obj (set_cluster_finalizers fs c);
          u \<leftarrow> (if added then update_cluster E else ret None);
          (case u of
             Some err \<Rightarrow> ret (Inl err)
           | None \<Rightarrow>
               do { patchBase \<leftarrow> get_obj;
                    g \<leftarrow> getOwnerCluster E patchBase;
                    (case g of
                       Inl err \<Rightarrow> ret (Inl err)
                     | Inr None \<Rightarrow> ret (Inr done_result)
                     | Inr (Some cl) \<Rightarrow> reconcileOwned E patchBase cl) }) }"

definition clusterReconcileDelete :: "'s env \<Rightarrow> (xocluster, 's, error + reconcile_result) prog" where
  "clusterReconcileDelete E =
     do { c \<leftarrow> get_obj;
          (if l_contains_finalizer (libs E) xoClusterFinalizer (om_finalizers (xc_meta c)) then
             do { set_obj (set_cluster_finalizers
                    (l_remove_finalizer (libs E) xoClusterFinalizer (om_finalizers (xc_meta c))) c);
                  u \<leftarrow> update_cluster E;
                  (case u of Some err \<Rightarrow> ret (Inl err) | None \<Rightarrow> ret (Inr done_result)) }
           else ret (Inr done_result)) }"

definition clusterReconcile :: "'s env \<Rightarrow> nn \<Rightarrow> (xocluster, 's, error + reconcile_result) prog" where
  "clusterReconcile E req =
     do { r \<leftarrow> query (k_get_xocluster (kube E) req);
          (case r of
             Inl err \<Rightarrow> (if api_not_found err then ret (Inr done_result) else ret (Inl err))
           | Inr c \<Rightarrow>
               do { set_obj c;
                    (if om_deletion (xc_meta c) \<noteq> None then clusterReconcileDelete E
                     else clusterReconcileNormal E) }) }"

section \<open>Watches\<close>

definition clusterToXOCluster :: "cluster \<Rightarrow> nn list" where
  "clusterToXOCluster cl =
     (if cl_infra_kind cl \<noteq> ''XOCluster'' then []
      else [\<lparr>nn_namespace = om_namespace (cl_meta cl), nn_name = cl_infra_name cl\<rparr>])"

definition machineToXOCluster :: "'s env \<Rightarrow> machine \<Rightarrow> ('o, 's, nn list) prog" where
  "machineToXOCluster E m =
     (if om_labels (mach_meta m) MachineControlPlaneLabel = None then ret []
      else (case om_labels (mach_meta m) ClusterNameLabel of
              None \<Rightarrow> ret []
            | Some clusterName \<Rightarrow>
                do { r \<leftarrow> query (k_get_cluster (kube E)
                            \<lparr>nn_namespace = om_namespace (mach_meta m), nn_name = clusterName\<rparr>);
                     (case r of
                        Inl err \<Rightarrow> ret []
                      | Inr cl \<Rightarrow> ret (clusterToXOCluster cl)) }))"

section \<open>Effects and frames\<close>

lemma update_cluster_emits [effects]:
  "(\<And>m r. P (EvUpdateXOCluster m r)) \<Longrightarrow> emits P (update_cluster E)"
  unfolding update_cluster_def by (intro effects)

lemma status_patch_emits [effects]:
  "(\<And>m r. P (EvStatusPatchXOCluster m r)) \<Longrightarrow> emits P (status_patch_cluster E b)"
  unfolding status_patch_cluster_def by (intro effects)

lemma getOwnerCluster_emits [effects]: "emits P (getOwnerCluster E xc)"
  unfolding getOwnerCluster_def by (intro effects)

lemma getOwnerCluster_keeps [frames]: "keeps obj (getOwnerCluster E xc)"
  unfolding getOwnerCluster_def by (intro frames)

lemma patch_cluster_emits [effects]: "(\<And>c r. P (EvPatchCluster c r)) \<Longrightarrow> emits P (patch_cluster E cl)"
  unfolding patch_cluster_def by (intro effects)

lemma patch_cluster_keeps [frames]: "keeps obj (patch_cluster E cl)"
  unfolding patch_cluster_def by (intro frames)

lemma ensureClusterNameLabel_emits [effects]:
  "(\<And>c r. P (EvPatchCluster c r)) \<Longrightarrow> emits P (ensureClusterNameLabel E cl)"
  unfolding ensureClusterNameLabel_def by (intro effects)

lemma ensureClusterNameLabel_keeps [frames]: "keeps obj (ensureClusterNameLabel E cl)"
  unfolding ensureClusterNameLabel_def by (intro frames)

lemma discover_in_emits [effects]: "emits P (discover_in E n ms)"
  by (induction ms) (auto intro!: effects)

lemma discover_in_keeps [frames]: "keeps obj (discover_in E n ms)"
  by (induction ms) (auto intro!: frames)

lemma discover_emits [effects]: "emits P (discoverControlPlaneEndpoint E cl)"
  unfolding discoverControlPlaneEndpoint_def by (intro effects)

lemma discover_keeps [frames]: "keeps obj (discoverControlPlaneEndpoint E cl)"
  unfolding discoverControlPlaneEndpoint_def by (intro frames)

lemma resolveEndpoint_emits [effects]: "emits P (resolveEndpoint E cl)"
  unfolding resolveEndpoint_def by (intro effects)

end
