(* ===== verification/Manager_Main.thy ===== *)
theory Manager_Main
  imports Machine_Delete Cluster_Controller Reference_Env
begin

text \<open>
  The entry point of the controller manager (\<open>cmd/main.go\<close>) and the registration of the two
  controllers (\<open>SetupWithManager\<close>): the options of the servers, the credentials exported from a
  Secret, the order of the steps and the failures that end the process (a missing kubeconfig ends it
  inside \<open>GetConfigOrDie\<close>, before anything modelled here). controller-runtime, the
  loader of the Xen Orchestra configuration and the operating system are the fields of a record;
  each of their functions is called at most once in a run, so they are given as their answers.
\<close>

section \<open>Flags\<close>

record flags =
  fl_metrics_addr :: string
  fl_probe_addr :: string
  fl_leader_elect :: bool
  fl_secure_metrics :: bool
  fl_webhook_cert_path :: string
  fl_webhook_cert_name :: string
  fl_webhook_cert_key :: string
  fl_metrics_cert_path :: string
  fl_metrics_cert_name :: string
  fl_metrics_cert_key :: string
  fl_enable_http2 :: bool
  fl_secret_name :: string
  fl_secret_namespace :: string

definition default_flags :: flags where
  "default_flags = \<lparr>
     fl_metrics_addr = ''0'', fl_probe_addr = '':8081'', fl_leader_elect = False, fl_secure_metrics = True,
     fl_webhook_cert_path = [], fl_webhook_cert_name = ''tls.crt'', fl_webhook_cert_key = ''tls.key'',
     fl_metrics_cert_path = [], fl_metrics_cert_name = ''tls.crt'', fl_metrics_cert_key = ''tls.key'',
     fl_enable_http2 = False, fl_secret_name = ''xo-credentials'', fl_secret_namespace = []\<rparr>"

section \<open>Server options\<close>

text \<open>A TLS option is the list of protocols it sets: the code has one such option.\<close>

definition disableHTTP2 :: "string list" where
  "disableHTTP2 = [''http/1.1'']"

definition tlsOpts :: "flags \<Rightarrow> string list list" where
  "tlsOpts f = (if \<not> fl_enable_http2 f then [disableHTTP2] else [])"

text \<open>The protocols of a server that starts from some and applies its options in order.\<close>

definition next_protos :: "string list \<Rightarrow> string list list \<Rightarrow> string list" where
  "next_protos protos opts = foldl (\<lambda>_ p. p) protos opts"

record server_options =
  so_tls :: "string list list"
  so_cert_dir :: string
  so_cert_name :: string
  so_key_name :: string

record metrics_options = server_options +
  mo_bind_address :: string
  mo_secure_serving :: bool
  mo_auth_filter :: bool

definition webhookServerOptions :: "flags \<Rightarrow> server_options" where
  "webhookServerOptions f =
     (let opts = \<lparr>so_tls = tlsOpts f, so_cert_dir = [], so_cert_name = [], so_key_name = []\<rparr>
      in if 0 < length (fl_webhook_cert_path f) then
           opts\<lparr>so_cert_dir := fl_webhook_cert_path f, so_cert_name := fl_webhook_cert_name f,
                so_key_name := fl_webhook_cert_key f\<rparr>
         else opts)"

definition metricsServerOptions :: "flags \<Rightarrow> metrics_options" where
  "metricsServerOptions f =
     (let opts = \<lparr>so_tls = tlsOpts f, so_cert_dir = [], so_cert_name = [], so_key_name = [],
                  mo_bind_address = fl_metrics_addr f, mo_secure_serving = fl_secure_metrics f,
                  mo_auth_filter = False\<rparr>;
          opts = (if fl_secure_metrics f then opts\<lparr>mo_auth_filter := True\<rparr> else opts)
      in if 0 < length (fl_metrics_cert_path f) then
           opts\<lparr>so_cert_dir := fl_metrics_cert_path f, so_cert_name := fl_metrics_cert_name f,
                so_key_name := fl_metrics_cert_key f\<rparr>
         else opts)"

record manager_options =
  mg_metrics :: metrics_options
  mg_webhook :: server_options
  mg_probe_addr :: string
  mg_leader_elect :: bool
  mg_leader_id :: string

definition managerOptions :: "flags \<Rightarrow> manager_options" where
  "managerOptions f = \<lparr>mg_metrics = metricsServerOptions f, mg_webhook = webhookServerOptions f,
     mg_probe_addr = fl_probe_addr f, mg_leader_elect = fl_leader_elect f,
     mg_leader_id = ''fff6fa19.cluster.x-k8s.io''\<rparr>"

section \<open>What the process runs on\<close>

text \<open>
  \<open>os_namespace_file\<close> is the read of the service account's namespace file, \<open>os_setenv\<close> the answer of
  \<open>os.Setenv\<close> for a variable, \<open>rt_secret\<close> the read of a Secret by the manager's API reader,
  \<open>xo_load_env\<close> the configuration the loader makes of an environment.
\<close>

type_synonym environment = "string \<rightharpoonup> string"

record runtime =
  os_namespace_file :: "error + string"
  os_setenv :: "string \<Rightarrow> string \<Rightarrow> error option"
  rt_new_manager :: "manager_options \<Rightarrow> error option"
  rt_healthz :: "error option"
  rt_readyz :: "error option"
  rt_secret :: "nn \<Rightarrow> error + secret"
  xo_load_env :: "environment \<Rightarrow> error + xo_config"
  rt_register_machine :: "error option"
  rt_register_cluster :: "error option"
  rt_start :: "error option"

section \<open>The credentials\<close>

text \<open>\<open>strings.TrimSpace\<close> on ASCII white space.\<close>

definition trim_space :: "string \<Rightarrow> string" where
  "trim_space s = trim_chars s [CHR '' '', CHR 0x09, CHR 0x0A, CHR 0x0B, CHR 0x0C, CHR 0x0D]"

definition secretNamespace :: "runtime \<Rightarrow> flags \<Rightarrow> environment \<Rightarrow> string" where
  "secretNamespace rt f env =
     (if fl_secret_namespace f \<noteq> [] then fl_secret_namespace f
      else if go_get env ''POD_NAMESPACE'' \<noteq> [] then go_get env ''POD_NAMESPACE''
      else (case os_namespace_file rt of Inl err \<Rightarrow> [] | Inr text \<Rightarrow> trim_space text))"

text \<open>One variable from one key of the Secret. A failure to set it is only logged.\<close>

definition exportKey :: "runtime \<Rightarrow> secret \<Rightarrow> string \<Rightarrow> string \<Rightarrow> environment \<Rightarrow> environment" where
  "exportKey rt sec key var env =
     (let v = go_get (sec_data sec) key
      in if v = [] then env
         else (case os_setenv rt var v of Some err \<Rightarrow> env | None \<Rightarrow> env(var \<mapsto> v)))"

definition exportSecret :: "runtime \<Rightarrow> flags \<Rightarrow> environment \<Rightarrow> environment" where
  "exportSecret rt f env =
     (if fl_secret_name f = [] then env
      else (let ns = secretNamespace rt f env
            in if ns = [] then env
               else (case rt_secret rt \<lparr>nn_namespace = ns, nn_name = fl_secret_name f\<rparr> of
                       Inl err \<Rightarrow> env
                     | Inr sec \<Rightarrow>
                         exportKey rt sec ''insecure'' ''XOA_INSECURE''
                           (exportKey rt sec ''token'' ''XOA_TOKEN''
                              (exportKey rt sec ''url'' ''XOA_URL'' env)))))"

section \<open>The registered controllers\<close>

text \<open>
  What \<open>SetupWithManager\<close> declares: the kind reconciled, the kinds watched, and how many objects are
  reconciled at a time (1 unless said otherwise). The map functions of the watches are in the two
  definitions of requests below.
\<close>

datatype kind = KXOMachine | KXOCluster | KMachine | KCluster | KSecret

record controller =
  ct_name :: string
  ct_for :: kind
  ct_watches :: "kind list"
  ct_workers :: nat
  ct_creds :: "xo_config option"

definition machineController :: "xo_config option \<Rightarrow> controller" where
  "machineController creds = \<lparr>ct_name = ''xomachine'', ct_for = KXOMachine, ct_watches = [KMachine, KSecret],
     ct_workers = 5, ct_creds = creds\<rparr>"

definition clusterController :: "xo_config option \<Rightarrow> controller" where
  "clusterController creds = \<lparr>ct_name = ''xocluster'', ct_for = KXOCluster, ct_watches = [KCluster, KMachine],
     ct_workers = 1, ct_creds = creds\<rparr>"

text \<open>The requests an event on an object leads to, for each of the two controllers.\<close>

datatype watched =
  ChangedXOMachine xomachine | ChangedXOCluster xocluster | ChangedMachine machine
| ChangedCluster cluster | ChangedSecret secret

definition own_key :: "object_meta \<Rightarrow> nn" where
  "own_key m = \<lparr>nn_namespace = om_namespace m, nn_name = om_name m\<rparr>"

definition machineRequests :: "'s env \<Rightarrow> watched \<Rightarrow> ('o, 's, nn list) prog" where
  "machineRequests E o' =
     (case o' of
        ChangedXOMachine m \<Rightarrow> ret [own_key (xm_meta m)]
      | ChangedMachine m \<Rightarrow> ret (machineToXOMachine m)
      | ChangedSecret s \<Rightarrow> secretToXOMachine E s
      | _ \<Rightarrow> ret [])"

definition clusterRequests :: "'s env \<Rightarrow> watched \<Rightarrow> ('o, 's, nn list) prog" where
  "clusterRequests E o' =
     (case o' of
        ChangedXOCluster c \<Rightarrow> ret [own_key (xc_meta c)]
      | ChangedCluster c \<Rightarrow> ret (clusterToXOCluster c)
      | ChangedMachine m \<Rightarrow> machineToXOCluster E m
      | _ \<Rightarrow> ret [])"

section \<open>main\<close>

text \<open>
  How the process ends: with exit code 1 and a message, or when the manager stops. \<open>registered\<close> are
  the controllers that were set up before that.
\<close>

datatype ending = Exited string error | Stopped

definition startManager :: "runtime \<Rightarrow> xo_config \<Rightarrow> ending \<times> controller list" where
  "startManager rt xoCreds =
     (case rt_register_machine rt of
        Some err \<Rightarrow> (Exited ''Failed to create controller'' err, [])
      | None \<Rightarrow>
          (case rt_register_cluster rt of
             Some err \<Rightarrow> (Exited ''Failed to create controller'' err, [machineController (Some xoCreds)])
           | None \<Rightarrow>
               (let cs = [machineController (Some xoCreds), clusterController (Some xoCreds)]
                in (case rt_start rt of
                      Some err \<Rightarrow> (Exited ''Failed to run manager'' err, cs)
                    | None \<Rightarrow> (Stopped, cs)))))"

definition main_run :: "runtime \<Rightarrow> flags \<Rightarrow> environment \<Rightarrow> ending \<times> controller list" where
  "main_run rt f env =
     (case rt_new_manager rt (managerOptions f) of
        Some err \<Rightarrow> (Exited ''Failed to start manager'' err, [])
      | None \<Rightarrow>
          (case rt_healthz rt of
             Some err \<Rightarrow> (Exited ''Failed to set up health check'' err, [])
           | None \<Rightarrow>
               (case rt_readyz rt of
                  Some err \<Rightarrow> (Exited ''Failed to set up ready check'' err, [])
                | None \<Rightarrow>
                    (case xo_load_env rt (exportSecret rt f env) of
                       Inl err \<Rightarrow> (Exited ''Failed to load XO configuration'' err, [])
                     | Inr xoCreds \<Rightarrow> startManager rt xoCreds))))"

section \<open>Properties\<close>

text \<open>
  HTTP/2 stays off unless it is asked for: without the flag both servers end up with HTTP/1.1 as
  their only protocol, whatever they started from; with it both keep their own. The metrics endpoint
  asks for authentication exactly when it is served securely.
\<close>

theorem servers_http1:
  "next_protos protos (so_tls (webhookServerOptions f)) = (if fl_enable_http2 f then protos else [''http/1.1'']) \<and>
   next_protos protos (so_tls (metricsServerOptions f)) = (if fl_enable_http2 f then protos else [''http/1.1'']) \<and>
   mo_auth_filter (metricsServerOptions f) = fl_secure_metrics f \<and>
   mo_secure_serving (metricsServerOptions f) = fl_secure_metrics f"
  by (simp add: webhookServerOptions_def metricsServerOptions_def tlsOpts_def disableHTTP2_def next_protos_def Let_def)

text \<open>The value a variable gets from a key of the Secret that is read, if it gets one.\<close>

definition exported :: "runtime \<Rightarrow> secret \<Rightarrow> string \<Rightarrow> string \<Rightarrow> string option" where
  "exported rt sec key var =
     (case sec_data sec key of
        Some v \<Rightarrow> (if v \<noteq> [] \<and> os_setenv rt var v = None then Some v else None)
      | None \<Rightarrow> None)"

definition secret_read :: "runtime \<Rightarrow> flags \<Rightarrow> environment \<Rightarrow> secret option" where
  "secret_read rt f env =
     (if fl_secret_name f = [] \<or> secretNamespace rt f env = [] then None
      else (case rt_secret rt \<lparr>nn_namespace = secretNamespace rt f env, nn_name = fl_secret_name f\<rparr> of
              Inl err \<Rightarrow> None | Inr sec \<Rightarrow> Some sec))"

definition credential_key :: "string \<Rightarrow> string option" where
  "credential_key var =
     (if var = ''XOA_URL'' then Some ''url'' else if var = ''XOA_TOKEN'' then Some ''token''
      else if var = ''XOA_INSECURE'' then Some ''insecure'' else None)"

lemma exportKey_exported:
  "exportKey rt sec key var env =
     (case exported rt sec key var of None \<Rightarrow> env | Some v \<Rightarrow> env(var \<mapsto> v))"
  by (auto simp: exportKey_def exported_def go_get_def Let_def split: option.split)

text \<open>
  The environment the credentials are loaded from: a variable of Xen Orchestra's address, token or
  TLS mode has the value of its key in the Secret when the Secret can be read, the key is not empty and
  the variable can be set; in every other case, and for every other variable, the environment is the
  one the process was started with.
\<close>

theorem exported_credentials:
  "exportSecret rt f env var =
     (case Option.bind (secret_read rt f env) (\<lambda>sec. Option.bind (credential_key var) (\<lambda>key. exported rt sec key var)) of
        Some v \<Rightarrow> Some v
      | None \<Rightarrow> env var)"
  by (auto simp: exportSecret_def secret_read_def exportKey_exported credential_key_def Let_def
      split: sum.split option.split)

lemma main_run_controllers:
  "main_run rt f env = (e, cs) \<Longrightarrow> ct \<in> set cs \<Longrightarrow>
   \<exists>creds. xo_load_env rt (exportSecret rt f env) = Inr creds \<and> ct_creds ct = Some creds"
  by (auto simp: main_run_def startManager_def machineController_def clusterController_def Let_def
      split: option.splits sum.splits)

lemma ResolveXOConfig_present:
  assumes "fb \<noteq> None"
  shows "wp (ResolveXOConfig E ns ref fb) (\<lambda>r w'. r \<noteq> Inr None) w"
  using assms by (auto simp: ResolveXOConfig_def Let_def split: option.split sum.split)

lemma ResolveXOConfig_own: "wp (ResolveXOConfig E ns (Some name) fb) (\<lambda>r w'. r \<noteq> Inr None) w"
  by (auto simp: ResolveXOConfig_def Let_def split: sum.split)

lemma resolveMachineCredentials_present:
  assumes "e_global_creds E \<noteq> None"
  shows "wp (resolveMachineCredentials E) (\<lambda>r w'. r \<noteq> Inr None) w"
proof -
  have own: "wp (ResolveXOConfig E ns (Some name) None) (\<lambda>r w'. r \<noteq> Inr None) v" for ns name v
    by (rule ResolveXOConfig_own)
  have "wp (case identity of Some name \<Rightarrow> ResolveXOConfig E ns (Some name) None | None \<Rightarrow> ret (Inr (e_global_creds E)))
      (\<lambda>r w'. r \<noteq> Inr None) v" for identity ns v
    using own assms by (cases identity) auto
  then have "wp (ownerClusterIdentity E m) (\<lambda>identity. wp (case identity of
      Some name \<Rightarrow> ResolveXOConfig E ns (Some name) None | None \<Rightarrow> ret (Inr (e_global_creds E))) (\<lambda>r w'. r \<noteq> Inr None)) v"
    for m ns v by (rule wpI)
  with own show ?thesis
    unfolding resolveMachineCredentials_def wp_simps by (auto split: option.split)
qed

text \<open>
  C28: The controllers that the process runs always have credentials: \<open>main\<close> registers a controller only
  with a configuration that was loaded, the same for both, and then neither controller's lookup of
  credentials ever succeeds without any. So the branches for nil credentials (no client, or the panic
  of the CCM manifest) belong to reconcilers built without credentials only, as the tests do.
\<close>

theorem production_credentials:
  assumes "main_run rt f env = (e, cs)" and "ct \<in> set cs" and "e_global_creds E = ct_creds ct"
  shows "(\<exists>creds. xo_load_env rt (exportSecret rt f env) = Inr creds \<and> ct_creds ct = Some creds) \<and>
    fst (run_state (ResolveXOConfig E ns ref (e_global_creds E)) w) \<noteq> Inr None \<and>
    fst (run_state (resolveMachineCredentials E) v) \<noteq> Inr None"
proof -
  obtain creds where c: "xo_load_env rt (exportSecret rt f env) = Inr creds" "ct_creds ct = Some creds"
    using main_run_controllers[OF assms(1,2)] by blast
  then have "e_global_creds E \<noteq> None" using assms(3) by simp
  with ResolveXOConfig_present[OF this, of E ns ref w] resolveMachineCredentials_present[of E v] c
  show ?thesis by (simp add: wp_def split: prod.splits)
qed

definition sample_runtime :: runtime where
  "sample_runtime = \<lparr>os_namespace_file = Inr ''capi '', os_setenv = (\<lambda>var v. None), rt_new_manager = (\<lambda>o'. None),
     rt_healthz = None, rt_readyz = None,
     rt_secret = (\<lambda>n. if n = \<lparr>nn_namespace = ''capi'', nn_name = ''xo-credentials''\<rparr>
       then Inr \<lparr>sec_namespace = ''capi'', sec_owners = [], sec_data = [''url'' \<mapsto> ''https://xo'', ''token'' \<mapsto> ''t'']\<rparr>
       else Inl (ApiStatus NotFound ''secret not found'')),
     xo_load_env = (\<lambda>env. if go_get env ''XOA_URL'' = [] then Inl (Plain ''XOA_URL not set'')
       else Inr \<lparr>xo_url = go_get env ''XOA_URL'', xo_token = go_get env ''XOA_TOKEN'', xo_insecure = False\<rparr>),
     rt_register_machine = None, rt_register_cluster = None, rt_start = None\<rparr>"

definition sample_creds :: xo_config where
  "sample_creds = \<lparr>xo_url = ''https://xo'', xo_token = ''t'', xo_insecure = False\<rparr>"

definition sample_env :: "unit env" where
  "sample_env = ref_env\<lparr>e_global_creds := Some sample_creds\<rparr>"

lemma sample_main:
  "main_run sample_runtime default_flags Map.empty =
     (Stopped, [machineController (Some sample_creds), clusterController (Some sample_creds)])"
  by (simp add: main_run_def startManager_def sample_runtime_def default_flags_def exportSecret_def
      secretNamespace_def trim_space_def trim_chars_def exportKey_def go_get_def sample_creds_def Let_def)

theorem production_credentials_witness:
  "fst (run_state (ResolveXOConfig sample_env ''default'' None (e_global_creds sample_env)) (start_state ref_machine ())) \<noteq>
     Inr None \<and>
   fst (run_state (resolveMachineCredentials sample_env) (start_state ref_machine ())) \<noteq> Inr None"
  using production_credentials[OF sample_main, of "machineController (Some sample_creds)" sample_env
      "''default''" None "start_state ref_machine ()" "start_state ref_machine ()"]
  by (simp add: sample_env_def machineController_def)

end
