(* ===== verification/Machine_Done.thy ===== *)
theory Machine_Done
  imports Machine_Progress Manager_Main
begin

text \<open>
  No run of the XOMachine controller gives up silently: one that is not a deletion ends with an error,
  asks to be repeated, or leaves a machine that is Ready. The workqueue repeats a request in the first
  two cases only, so a third kind of end would leave a machine that nothing looks at again.
\<close>

section \<open>Ends of a run\<close>

definition is_ready :: "xomachine \<Rightarrow> bool" where
  "is_ready m \<longleftrightarrow> mst_ready (xm_status m)"

interpretation ready: machine_invariant is_ready
  by unfold_locales
     (simp_all add: is_ready_def SetCondition_def mark_ready_def set_finalizers_def set_addresses_def
        set_vm_name_def set_spec_provider_id_def set_status_provider_id_def)

definition ready_if_done :: "error + reconcile_result \<Rightarrow> (xomachine, 's) st \<Rightarrow> bool" where
  "ready_if_done r w \<longleftrightarrow> (\<forall>res. r = Inr res \<longrightarrow> requeue_after res = 0 \<longrightarrow> is_ready (obj w))"

abbreviation ends_ready :: "(xomachine, 's, error + reconcile_result) prog \<Rightarrow> bool" where
  "ends_ready \<equiv> always ready_if_done"

lemma ends_ret:
  "ends_ready (ret (Inl err))"
  "requeue_after res \<noteq> 0 \<Longrightarrow> ends_ready (ret (Inr res))"
  by (simp_all add: always_def ready_if_done_def)

lemmas ends_struct = ends_ret always_struct

text \<open>The two ways to an end without a repetition: the object says Ready already, or now.\<close>

lemma ends_unless_ready:
  "(\<And>m. \<not> is_ready m \<Longrightarrow> ends_ready (f m)) \<Longrightarrow>
   ends_ready (do { m \<leftarrow> get_obj; (if mst_ready (xm_status m) then ret (Inr res) else f m) })"
  "(\<And>m. \<not> is_ready m \<Longrightarrow> ends_ready (f m)) \<Longrightarrow>
   ends_ready (do { m \<leftarrow> get_obj; (if \<not> mst_ready (xm_status m) then f m else ret (Inr res)) })"
  by (auto simp: always_def ready_if_done_def is_ready_def)

lemma UpdateCondition_ready:
  assumes "status_keeps is_ready E" and "is_ready (obj w)"
  shows "wp (UpdateCondition E st reason msg) (\<lambda>r w'. is_ready (obj w')) w"
  using guards_log[OF ready.UpdateCondition_kept[OF assms(1)] assms(2)] by (blast intro: wpI)

lemma ends_marked:
  assumes "status_keeps is_ready E"
  shows "ends_ready (do { modify_obj (mark_ready ip);
           ue \<leftarrow> UpdateCondition E ConditionTrue reason msg;
           (case ue of Some e \<Rightarrow> ret (Inl e) | None \<Rightarrow> ret (Inr done_result)) })"
  unfolding always_def
proof
  fix w :: "(xomachine, 'a) st"
  have "is_ready (obj (w\<lparr>obj := mark_ready ip (obj w)\<rparr>))" by (simp add: is_ready_def)
  from wp_mono[OF UpdateCondition_ready[OF assms this]]
  show "wp (do { modify_obj (mark_ready ip);
           ue \<leftarrow> UpdateCondition E ConditionTrue reason msg;
           (case ue of Some e \<Rightarrow> ret (Inl e) | None \<Rightarrow> ret (Inr done_result)) }) ready_if_done w"
    by (simp add: ready_if_done_def split: option.split)
qed

section \<open>Through the operations\<close>

lemma WaitForVMReady_ends: "status_keeps is_ready E \<Longrightarrow> ends_ready (WaitForVMReady E c v)"
  unfolding WaitForVMReady_def by (intro ends_marked ends_struct) simp_all

lemma reconcileExistingVM_ends: "status_keeps is_ready E \<Longrightarrow> ends_ready (reconcileExistingVM E c v)"
  unfolding reconcileExistingVM_def by (intro ends_unless_ready ends_marked ends_struct) simp_all

lemma finishVM_ends: "status_keeps is_ready E \<Longrightarrow> ends_ready (finishVM E c v)"
  unfolding finishVM_def by (intro ends_unless_ready WaitForVMReady_ends always_bind)

lemma placeVM_ends: "status_keeps is_ready E \<Longrightarrow> ends_ready (placeVM E machine c cc nc)"
  unfolding placeVM_def by (intro finishVM_ends ends_struct)

text \<open>A pool that has not answered makes the run wait.\<close>

lemma ipamNetworkConfig_waits:
  "always (\<lambda>r w'. \<forall>doc res. r = Inr (doc, Some res) \<longrightarrow> requeue_after res \<noteq> 0) (ipamNetworkConfig E)"
  unfolding ipamNetworkConfig_def by (intro always_struct) (simp_all add: always_def)

lemma provision_ends: "status_keeps is_ready E \<Longrightarrow> ends_ready (provision E bs c)"
  unfolding provision_def
  by (intro ends_struct placeVM_ends always_result[OF ipamNetworkConfig_waits]) simp_all

lemma newXOClient_present: "always (\<lambda>r w'. r \<noteq> Inr None) (newXOClient E (Some cfg))"
  by (auto simp: always_def newXOClient_def NewXOClientFromConfig_def split: sum.split)

lemma connected_ends:
  assumes "status_keeps is_ready E" and "xoCreds \<noteq> None"
  shows "ends_ready (do { cl \<leftarrow> newXOClient E xoCreds;
      (case cl of
         Inl err \<Rightarrow> do { note_failure E ''XOConnectionFailed'' err; ret (Inl err) }
       | Inr None \<Rightarrow> ret (Inr done_result)
       | Inr (Some c) \<Rightarrow> provision E bs c) })"
proof -
  obtain cfg where cfg: "xoCreds = Some cfg" using assms(2) by blast
  show ?thesis unfolding cfg
    by (rule always_result[OF newXOClient_present], intro ends_struct provision_ends[OF assms(1)]) simp
qed

lemma credentials_always:
  "e_global_creds E \<noteq> None \<Longrightarrow> always (\<lambda>r w'. r \<noteq> Inr None) (resolveMachineCredentials E)"
  by (simp add: always_def resolveMachineCredentials_present)

lemma fullReconcile_ends:
  assumes "status_keeps is_ready E" and "e_global_creds E \<noteq> None"
  shows "ends_ready (fullReconcile E)"
  unfolding fullReconcile_def
  by ((rule always_result[OF credentials_always[OF assms(2)]] connected_ends[OF assms(1)] ends_struct | simp)+)

text \<open>The fast path, when it gives a result: a Ready machine stays Ready while it is refreshed.\<close>

lemma readyPath_ready:
  "status_keeps is_ready E \<Longrightarrow> is_ready (obj w) \<Longrightarrow> wp (readyPath E) (\<lambda>r w'. is_ready (obj w')) w"
  using guards_log[OF ready.readyPath_kept] by (blast intro: wpI)

lemma tryFastPath_ends:
  assumes "status_keeps is_ready E"
  shows "always (\<lambda>r w'. \<forall>res. r = Some res \<longrightarrow> ready_if_done res w') (tryFastPath E)"
    (is "always ?Q _")
proof -
  have ready: "wp (do { r \<leftarrow> readyPath E; ret (Some r) }) ?Q w" if "mst_ready (xm_status (obj w))" for w
    using wp_mono[OF readyPath_ready[OF assms, of w]] that by (simp add: is_ready_def ready_if_done_def)
  have existing: "always ?Q (do { res \<leftarrow> reconcileExistingVM E c v; ret (Some res) })" for c v
    using reconcileExistingVM_ends[OF assms, of c v] unfolding always_def wp_simps(2)
    by (auto intro: wp_mono)
  have none: "always ?Q (ret None)" by (simp add: always_def)
  have lookup: "always ?Q (case l_get_vm_id (libs E) p of
        Inl err \<Rightarrow> ret None
      | Inr vmID \<Rightarrow>
          do { creds \<leftarrow> resolveMachineCredentials E;
               (case creds of
                  Inl err \<Rightarrow> ret None
                | Inr xoCreds \<Rightarrow>
                    do { cl \<leftarrow> newXOClient E xoCreds;
                         (case cl of
                            Inl err \<Rightarrow> ret None
                          | Inr None \<Rightarrow> ret None
                          | Inr (Some c) \<Rightarrow>
                              do { r \<leftarrow> get_vm E c vmID;
                                   (case r of
                                      Inl err \<Rightarrow> ret None
                                    | Inr v \<Rightarrow> do { res \<leftarrow> reconcileExistingVM E c v; ret (Some res) }) }) }) })" for p
    by (intro existing none always_struct)
  show ?thesis
    unfolding tryFastPath_def always_def wp_simps(2,3)
    using ready lookup[unfolded always_def] none[unfolded always_def] by (intro allI) (simp only: wp_cases(1) if_split, blast)
qed

lemma reconcileNormal_ends:
  assumes "status_keeps is_ready E" and "e_global_creds E \<noteq> None"
  shows "ends_ready (reconcileNormal E)"
proof -
  have "wp (do { fast \<leftarrow> tryFastPath E;
      (case fast of Some res \<Rightarrow> ret res | None \<Rightarrow> fullReconcile E) }) ready_if_done w" for w
    unfolding wp_simps(2)
    by (rule wp_mono[OF tryFastPath_ends[OF assms(1), unfolded always_def, rule_format]])
       (use fullReconcile_ends[OF assms] in \<open>auto simp: always_def split: option.split\<close>)
  then have "ends_ready (case f of Some err \<Rightarrow> ret (Inl err)
      | None \<Rightarrow> do { fast \<leftarrow> tryFastPath E;
          (case fast of Some res \<Rightarrow> ret res | None \<Rightarrow> fullReconcile E) })" for f
    by (cases f) (simp_all add: ends_ret always_def[of ready_if_done "tryFastPath E \<bind> _"])
  then show ?thesis
    unfolding reconcileNormal_def by (rule always_bind)
qed

section \<open>Done means Ready\<close>

text \<open>
  C9: No run of the XOMachine controller gives up silently. A run on a machine that is not being
  deleted, and that ends without an error and without asking to be repeated, leaves the machine Ready as
  the API server last answered it, whichever path it took: the fast paths, a creation, an adoption, the
  wait for an address, conflicts and refused writes on the way. Two things are assumed: the controller
  has credentials, and an accepted status that says Ready is answered as such.
\<close>

theorem machine_done_means_ready:
  assumes "status_keeps is_ready E" and "e_global_creds E \<noteq> None"
    and "k_get_xomachine (kube E) req (ext w) = (Inr m, s)" and "om_deletion (xm_meta m) = None"
    and "run_state (Reconcile E req) w = (Inr res, w')" and "requeue_after res = 0"
  shows "mst_ready (xm_status (obj w'))"
proof -
  have "wp (reconcileNormal E) ready_if_done (w\<lparr>ext := s, obj := m\<rparr>)"
    using reconcileNormal_ends[OF assms(1,2)] by (simp add: always_def)
  then have "wp (Reconcile E req) ready_if_done w"
    using assms(3,4) by (simp add: Reconcile_def)
  from wp_run[OF this assms(5)] assms(6) show ?thesis by (simp add: ready_if_done_def is_ready_def)
qed

theorem machine_done_means_ready_witness:
  "mst_ready (xm_status (obj (snd (run_state (Reconcile alone_env \<lparr>nn_namespace = ''default'', nn_name = ''demo-cp-7n62g''\<rparr>)
     (start_state ref_machine plain_machine)))))"
proof -
  let ?key = "\<lparr>nn_namespace = ''default'', nn_name = ''demo-cp-7n62g''\<rparr>" and ?w = "start_state ref_machine plain_machine"
  have read: "k_get_xomachine (kube alone_env) ?key (ext ?w) = (Inr plain_machine, plain_machine)"
    by (simp add: stored_env_def start_state_def)
  have new: "om_deletion (xm_meta plain_machine) = None" "\<not> mst_ready (xm_status plain_machine)"
    "provider_id plain_machine = [] \<or> (\<exists>i. l_get_vm_id (libs alone_env) (provider_id plain_machine) = Inr i)"
    by (simp_all add: plain_machine_def ref_machine_def ref_meta_def ref_machine_status_def provider_id_def)
  obtain r w' where run: "run_state (Reconcile alone_env ?key) ?w = (r, w')" by fastforce
  from wp_run[OF Reconcile_comes_up[OF stored_env_serves stored_env_accepts stored_env_resolves read refl new] run]
  have ends: "run_state (Reconcile alone_env ?key) ?w = (Inr done_result, w')" using run by simp
  have "status_keeps is_ready alone_env" "e_global_creds alone_env \<noteq> None"
    by (simp_all add: status_keeps_def is_ready_def stored_env_def ref_env_def)
  from machine_done_means_ready[OF this read new(1) ends] show ?thesis
    by (simp add: ends done_result_def)
qed

end
