(* ===== verification/Cluster_Properties.thy ===== *)
theory Cluster_Properties
  imports Cluster_Controller Reference_Env
begin

text \<open>
  The properties of the XOCluster reconciler: what a run may write and in which order, when a
  cluster is declared ready, where its endpoint comes from, which Cluster it follows, and what a
  failed resolution of the credentials leaves behind.
\<close>

section \<open>The endpoint\<close>

text \<open>
  The reference: the machines of this cluster backed by an XOMachine, in the order of the list,
  each giving the first address of its XOMachine when that is Ready.
\<close>

definition candidate :: "(nn \<Rightarrow> error + xomachine) \<Rightarrow> string \<Rightarrow> machine \<Rightarrow> string option" where
  "candidate look clusterName m =
     (if mach_cluster_name m = clusterName \<and> mach_infra_kind m = KindXOMachine then
        (case look \<lparr>nn_namespace = om_namespace (mach_meta m), nn_name = mach_infra_name m\<rparr> of
           Inl err \<Rightarrow> None
         | Inr xm \<Rightarrow>
             (if mst_ready (xm_status xm) then
                map_option na_address
                  (find (\<lambda>a. na_type a \<in> {NodeInternalIP, NodeExternalIP}) (mst_addresses (xm_status xm)))
              else None))
      else None)"

definition discovered :: "(nn \<Rightarrow> error + xomachine) \<Rightarrow> string \<Rightarrow> machine list \<Rightarrow> api_endpoint option" where
  "discovered look clusterName ms =
     (case List.map_filter (candidate look clusterName) ms of
        [] \<Rightarrow> None
      | addr # _ \<Rightarrow> Some \<lparr>ep_host = addr, ep_port = 6443, ep_subnet = None\<rparr>)"

lemma offered_address_find:
  "offered_address as = map_option na_address (find (\<lambda>a. na_type a \<in> {NodeInternalIP, NodeExternalIP}) as)"
  by (induction as) auto

lemma discovered_Cons:
  "discovered look cn (m # ms) =
     (case candidate look cn m of
        None \<Rightarrow> discovered look cn ms
      | Some addr \<Rightarrow> Some \<lparr>ep_host = addr, ep_port = 6443, ep_subnet = None\<rparr>)"
  by (simp add: discovered_def map_filter_simps split: option.split)

lemma discover_in_reads:
  assumes "\<And>n. k_get_xomachine (kube E) n (ext w) = (look n, ext w)"
  shows "run_state (discover_in E cn ms) w = (discovered look cn ms, w)"
proof (induction ms)
  case Nil
  then show ?case by (simp add: discovered_def map_filter_simps)
next
  case (Cons m ms)
  then show ?case
    by (auto simp: assms discovered_Cons candidate_def offered_address_find
        split: sum.split option.split)
qed

text \<open>The three ways to an endpoint, and none.\<close>

lemma resolveEndpoint_found:
  assumes "\<And>n. k_get_xomachine (kube E) n (ext w) = (look n, ext w)"
    and "k_list_machines (kube E) (om_namespace (cl_meta cl)) [MachineControlPlaneLabel \<mapsto> []] (ext w) =
      (Inr ms, ext w)"
  shows "run_state (resolveEndpoint E cl) w =
    (let status = cst_control_plane_endpoint (xc_status (obj w));
         spec = cs_control_plane_endpoint (xc_spec (obj w))
     in if has_endpoint status then (Inr False, w)
        else if has_endpoint spec then
          (Inr False, w\<lparr>obj := (obj w)\<lparr>xc_status := (xc_status (obj w))\<lparr>cst_control_plane_endpoint := spec\<rparr>\<rparr>\<rparr>)
        else (case discovered look (om_name (cl_meta cl)) ms of
                None \<Rightarrow> (Inr True, w)
              | Some ep \<Rightarrow> (Inr False, w\<lparr>obj := set_status_endpoint ep (obj w)\<rparr>)))"
proof -
  have "run_state (discoverControlPlaneEndpoint E cl) w = (Inr (discovered look (om_name (cl_meta cl)) ms), w)"
    using assms by (simp add: discoverControlPlaneEndpoint_def discover_in_reads)
  then show ?thesis
    by (auto simp: resolveEndpoint_def Let_def has_endpoint_def set_status_endpoint_def
        split: option.split if_splits)
qed

text \<open>
  C25: the control plane endpoint by priority. One already in the status is never changed; else the
  user's one of the spec is taken over; else the control plane Machines of the Cluster's namespace
  are searched in order, and the endpoint is the first address of the first Ready XOMachine of this
  very cluster that has one, on port 6443. Exactly when there is none either, the run has to wait.
\<close>

theorem resolveEndpoint_priority:
  assumes "\<And>n. k_get_xomachine (kube E) n (ext w) = (look n, ext w)"
    and "k_list_machines (kube E) (om_namespace (cl_meta cl)) [MachineControlPlaneLabel \<mapsto> []] (ext w) =
      (Inr ms, ext w)"
  shows "run_state (resolveEndpoint E cl) w =
    (let status = cst_control_plane_endpoint (xc_status (obj w));
         spec = cs_control_plane_endpoint (xc_spec (obj w))
     in if has_endpoint status then (Inr False, w)
        else if has_endpoint spec then
          (Inr False, w\<lparr>obj := (obj w)\<lparr>xc_status := (xc_status (obj w))\<lparr>cst_control_plane_endpoint := spec\<rparr>\<rparr>\<rparr>)
        else (case discovered look (om_name (cl_meta cl)) ms of
                None \<Rightarrow> (Inr True, w)
              | Some ep \<Rightarrow> (Inr False, w\<lparr>obj := set_status_endpoint ep (obj w)\<rparr>)))"
  using assms by (rule resolveEndpoint_found)

definition listed_machine :: machine where
  "listed_machine = ref_owner_machine"

definition addressed_machine :: xomachine where
  "addressed_machine = ref_machine\<lparr>xm_status := ref_machine_status\<lparr>mst_ready := True,
     mst_addresses := [\<lparr>na_type = NodeInternalIP, na_address = ''10.0.0.5''\<rparr>]\<rparr>\<rparr>"

definition waiting_cluster :: xocluster where
  "waiting_cluster = ref_xocluster\<lparr>xc_spec := ref_cluster_spec\<lparr>cs_control_plane_endpoint := None\<rparr>\<rparr>"

definition discovery_env :: "unit env" where
  "discovery_env = ref_env\<lparr>kube := ref_kube\<lparr>k_get_xomachine := (\<lambda>n s. (Inr addressed_machine, s)),
     k_list_machines := (\<lambda>n l s. (Inr [listed_machine], s))\<rparr>\<rparr>"

lemma discovered_ref:
  "discovered (\<lambda>n. Inr addressed_machine) ''demo'' [listed_machine] =
     Some \<lparr>ep_host = ''10.0.0.5'', ep_port = 6443, ep_subnet = None\<rparr>"
  by (simp add: discovered_Cons candidate_def listed_machine_def ref_owner_machine_def KindXOMachine_def
      addressed_machine_def)

theorem resolveEndpoint_priority_witness:
  "run_state (resolveEndpoint discovery_env ref_cluster) (start_state waiting_cluster ()) =
     (Inr False, start_state (set_status_endpoint
        \<lparr>ep_host = ''10.0.0.5'', ep_port = 6443, ep_subnet = None\<rparr> waiting_cluster) ())"
proof -
  have "cst_control_plane_endpoint (xc_status waiting_cluster) = None"
    "cs_control_plane_endpoint (xc_spec waiting_cluster) = None"
    "om_name (cl_meta ref_cluster) = ''demo''"
    by (simp_all add: waiting_cluster_def ref_xocluster_def ref_cluster_def ref_meta_def)
  then show ?thesis
    using resolveEndpoint_priority[of discovery_env "start_state waiting_cluster ()" "\<lambda>n. Inr addressed_machine"
        ref_cluster "[listed_machine]"]
    by (simp add: discovery_env_def ref_env_def start_state_def discovered_ref has_endpoint_def)
qed

section \<open>What a run writes\<close>

text \<open>
  A settled status: Ready with the endpoint that makes it so, or still waiting for one.
\<close>

definition ready_condition :: "xocluster \<Rightarrow> (cond_status \<times> string) option" where
  "ready_condition c =
     map_option (\<lambda>d. (cond_stat d, cond_reason d)) (cond_view (cst_conditions (xc_status c)) ''Ready'')"

definition settled_status :: "xocluster \<Rightarrow> bool" where
  "settled_status c \<longleftrightarrow>
     (if has_endpoint (cst_control_plane_endpoint (xc_status c)) then
        cst_ready (xc_status c) \<and> cst_initialization (xc_status c) = Some \<lparr>provisioned = True\<rparr> \<and>
        ready_condition c = Some (ConditionTrue, ''ClusterInfrastructureReady'')
      else ready_condition c = Some (ConditionFalse, ''WaitingForControlPlaneEndpoint''))"

definition addresses_named :: "'s env \<Rightarrow> bool" where
  "addresses_named E \<longleftrightarrow>
     (\<forall>n s xm s'. k_get_xomachine (kube E) n s = (Inr xm, s') \<longrightarrow>
        (\<forall>a \<in> set (mst_addresses (xm_status xm)). na_address a \<noteq> []))"

lemma settleStatus_settled:
  "needs = (\<not> has_endpoint (cst_control_plane_endpoint (xc_status c))) \<Longrightarrow>
   settled_status (settleStatus needs now c)"
  by (simp add: settled_status_def settleStatus_def ready_condition_def setCondition_def
      mark_cluster_ready_def cond_view_cluster cond_merge_def)

lemma offered_address_mem: "offered_address as = Some x \<Longrightarrow> \<exists>a \<in> set as. na_address a = x"
  by (induction as) (auto split: if_splits)

lemma addresses_namedD:
  "addresses_named E \<Longrightarrow> k_get_xomachine (kube E) n s = (Inr xm, s') \<Longrightarrow>
   offered_address (mst_addresses (xm_status xm)) = Some x \<Longrightarrow> x \<noteq> []"
  using offered_address_mem unfolding addresses_named_def by blast

lemma discover_in_named:
  "addresses_named E \<Longrightarrow> wp (discover_in E cn ms) (\<lambda>r w'. \<forall>ep. r = Some ep \<longrightarrow> ep_host ep \<noteq> []) w"
proof (induction ms arbitrary: w)
  case (Cons m ms)
  then show ?case
    by (auto split: sum.split option.split dest: addresses_namedD)
qed simp

lemma discoverControlPlaneEndpoint_outcome:
  assumes "addresses_named E"
  shows "wp (discoverControlPlaneEndpoint E cl)
     (\<lambda>r w'. obj w' = obj w \<and> log w' = log w \<and> (\<forall>ep. r = Inr (Some ep) \<longrightarrow> ep_host ep \<noteq> [])) w"
proof -
  have "wp (discoverControlPlaneEndpoint E cl) (\<lambda>r w'. obj w' = obj w \<and> log w' = log w) w"
    by (rule wp_quiet[OF discover_keeps discover_emits]) simp
  moreover have "wp (discoverControlPlaneEndpoint E cl)
      (\<lambda>r w'. \<forall>ep. r = Inr (Some ep) \<longrightarrow> ep_host ep \<noteq> []) w"
    by (auto simp: discoverControlPlaneEndpoint_def split: sum.split
        intro!: wp_mono[OF discover_in_named[OF assms]])
  ultimately show ?thesis by (simp add: wp_def split: prod.splits)
qed

lemma set_status_endpoint_read [simp]:
  "cst_control_plane_endpoint (xc_status (set_status_endpoint ep c)) = Some ep"
  by (simp add: set_status_endpoint_def)

lemma has_endpoint_known: "has_endpoint ep \<Longrightarrow> has_endpoint (Some (the ep))"
  by (cases ep) (simp_all add: has_endpoint_def)

lemma resolveEndpoint_outcome:
  assumes "addresses_named E"
  shows "wp (resolveEndpoint E cl)
     (\<lambda>r w'. log w' = log w \<and>
        (\<forall>needs. r = Inr needs \<longrightarrow>
           needs = (\<not> has_endpoint (cst_control_plane_endpoint (xc_status (obj w')))))) w"
proof -
  have "wp (discoverControlPlaneEndpoint E cl) (\<lambda>r w'. wp (case r of
        Inl err \<Rightarrow> ret (Inl err) | Inr None \<Rightarrow> ret (Inr True)
      | Inr (Some ep) \<Rightarrow> do { modify_obj (set_status_endpoint ep); ret (Inr False) })
     (\<lambda>r w'. log w' = log w \<and> (\<forall>needs. r = Inr needs \<longrightarrow>
        needs = (\<not> has_endpoint (cst_control_plane_endpoint (xc_status (obj w')))))) w') w"
    if "\<not> has_endpoint (cst_control_plane_endpoint (xc_status (obj w)))"
    by (rule wp_mono[OF discoverControlPlaneEndpoint_outcome[OF assms]])
       (use that in \<open>auto split: sum.split option.split simp: set_status_endpoint_def has_endpoint_def\<close>)
  then show ?thesis
    using has_endpoint_known[of "cs_control_plane_endpoint (xc_spec (obj w))"]
    by (auto simp: resolveEndpoint_def simp del: wp_cases(2,3))
qed

text \<open>
  The calls of a run, in their order: the label of the owner Cluster, the status, the addons.
\<close>

definition label_patch :: "event \<Rightarrow> bool" where
  "label_patch e \<longleftrightarrow> (\<exists>cl r. e = EvPatchCluster (label_cluster cl) r)"

definition addon_events :: "event list \<Rightarrow> bool" where
  "addon_events es \<longleftrightarrow> (\<exists>ns cn. \<forall>e \<in> set es. addon_event ns cn e)"

definition ordered_run :: "event list \<Rightarrow> bool" where
  "ordered_run es \<longleftrightarrow>
     (\<exists>labels statuses addons.
        es = labels @ statuses @ addons \<and>
        (\<forall>e \<in> set labels. label_patch e) \<and> length labels \<le> 2 \<and>
        (statuses = [] \<or> (\<exists>c r. statuses = [EvStatusPatchXOCluster c r] \<and> settled_status c)) \<and>
        (addons \<noteq> [] \<longrightarrow>
           (\<exists>c. statuses = [EvStatusPatchXOCluster c None] \<and> cst_ready (xc_status c) \<and>
                has_endpoint (cst_control_plane_endpoint (xc_status c)))) \<and>
        addon_events addons)"

lemma ordered_run_intros:
  assumes "\<forall>e \<in> set ls. label_patch e" and "length ls \<le> 2"
  shows "ordered_run ls"
    and "settled_status c \<Longrightarrow> ordered_run (ls @ [EvStatusPatchXOCluster c r])"
    and "settled_status c \<Longrightarrow> has_endpoint (cst_control_plane_endpoint (xc_status c)) \<Longrightarrow> addon_events es \<Longrightarrow>
      ordered_run (ls @ EvStatusPatchXOCluster c None # es)"
proof -
  show "ordered_run ls"
    using assms unfolding ordered_run_def
    by (intro exI[of _ ls] exI[of _ "[]"]) (simp add: addon_events_def)
  show "ordered_run (ls @ [EvStatusPatchXOCluster c r])" if "settled_status c"
    using assms that unfolding ordered_run_def
    by (intro exI[of _ ls] exI[of _ "[EvStatusPatchXOCluster c r]"] exI[of _ "[]"])
       (simp add: addon_events_def)
  show "ordered_run (ls @ EvStatusPatchXOCluster c None # es)"
    if "settled_status c" "has_endpoint (cst_control_plane_endpoint (xc_status c))" "addon_events es"
    using assms that unfolding ordered_run_def
    by (intro exI[of _ ls] exI[of _ "[EvStatusPatchXOCluster c None]"] exI[of _ es])
       (simp add: settled_status_def)
qed

lemma ensureClusterNameLabel_log:
  "wp (ensureClusterNameLabel E cl)
     (\<lambda>r w'. \<exists>es. log w' = log w @ es \<and> (\<forall>e \<in> set es. label_patch e) \<and> length es \<le> 2) w"
  by (auto simp: ensureClusterNameLabel_def patch_cluster_def label_patch_def split: sum.split)

lemma reconcileAddons_log:
  "wp (reconcileAddons E cl creds) (\<lambda>r w'. \<exists>es. log w' = log w @ es \<and> addon_events es) w"
proof -
  have "wp (applyAddons E a (fill_addons (obj w)) cl creds)
      (\<lambda>r w'. \<exists>es. log w' = log w @ es \<and> addon_events es) (w\<lparr>obj := fill_addons (obj w)\<rparr>)" for a
    by (rule wp_mono[OF emits_wp[OF applyAddons_emits]]) (auto simp: addon_events_def)
  then show ?thesis by (simp add: reconcileAddons_def)
qed

lemma addonsStep_log:
  "wp (addonsStep E cl) (\<lambda>r w'. \<exists>es. log w' = log w @ es \<and> addon_events es) w"
  unfolding addonsStep_def wp_simps
proof (rule wp_quiet[OF ResolveXOConfig_keeps ResolveXOConfig_emits], goal_cases)
  case (1 creds v)
  then have "wp (reconcileAddons E cl c \<bind> (\<lambda>r. case r of
      Some err \<Rightarrow> (if is_panic err then ret (Inl err) else ret (Inr \<lparr>requeue_after = 30000\<rparr>))
    | None \<Rightarrow> ret (Inr done_result))) (\<lambda>r w'. \<exists>es. log w' = log w @ es \<and> addon_events es) v" for c
    unfolding wp_simps(2)
    by (intro wp_mono[OF reconcileAddons_log[where w = v]]) (auto split: option.split)
  with 1 show ?case
    by (auto simp: addon_events_def split: sum.split)
qed

lemma finishCluster_log:
  assumes "needs = (\<not> has_endpoint (cst_control_plane_endpoint (xc_status (obj w))))"
    and "log w = l @ ls" and "\<forall>e \<in> set ls. label_patch e" and "length ls \<le> 2"
  shows "wp (finishCluster E b cl needs) (\<lambda>r w'. \<exists>es. log w' = l @ es \<and> ordered_run es) w"
proof -
  have set: "settled_status (settleStatus needs now (obj w))" for now
    using assms(1) by (rule settleStatus_settled)
  have ep: "cst_control_plane_endpoint (xc_status (settleStatus needs now (obj w))) =
      cst_control_plane_endpoint (xc_status (obj w))" for now
    by (simp add: settleStatus_def setCondition_def mark_cluster_ready_def)
  show ?thesis
    using assms set ep ordered_run_intros[OF assms(3,4)]
    by (auto simp: finishCluster_def status_patch_cluster_def split: sum.split
        intro!: wp_mono[OF addonsStep_log])
qed

lemma reconcileOwned_log:
  assumes "addresses_named E"
  shows "wp (reconcileOwned E b cl) (\<lambda>r w'. \<exists>es. log w' = log w @ es \<and> ordered_run es) w"
  unfolding reconcileOwned_def wp_simps(2)
proof (rule wp_mono[OF ensureClusterNameLabel_log], elim exE conjE)
  let ?Q = "\<lambda>r w'. \<exists>es. log w' = log w @ es \<and> ordered_run es"
  fix l and v :: "(xocluster, 'a) st" and ls
  assume v: "log v = log w @ ls" "\<forall>e \<in> set ls. label_patch e" "length ls \<le> 2"
  have "wp (resolveEndpoint E cl') (\<lambda>e. wp (case e of Inl err \<Rightarrow> ret (Inl err)
      | Inr needs \<Rightarrow> finishCluster E b cl' needs) ?Q) v" for cl'
  proof (rule wp_mono[OF resolveEndpoint_outcome[OF assms]], elim conjE)
    fix e :: "error + bool" and u :: "(xocluster, 'a) st"
    assume "log u = log v" "\<forall>needs. e = Inr needs \<longrightarrow>
        needs = (\<not> has_endpoint (cst_control_plane_endpoint (xc_status (obj u))))"
    then show "wp (case e of Inl err \<Rightarrow> ret (Inl err)
        | Inr needs \<Rightarrow> finishCluster E b cl' needs) ?Q u"
      using v ordered_run_intros(1)[OF v(2,3)] finishCluster_log[OF _ _ v(2,3), of _ u "log w"] by (cases e) auto
  qed
  with v ordered_run_intros(1)[OF v(2,3)]
  show "wp (case l of Inl err \<Rightarrow> ret (Inl err)
      | Inr cl' \<Rightarrow> resolveEndpoint E cl' \<bind> (\<lambda>e. case e of Inl err \<Rightarrow> ret (Inl err)
          | Inr needs \<Rightarrow> finishCluster E b cl' needs)) ?Q v"
    by (cases l) auto
qed

lemma ordered_run_Nil: "ordered_run []"
  using ordered_run_intros(1)[of "[]"] by simp

definition finalizer_write :: "event list \<Rightarrow> bool" where
  "finalizer_write es \<longleftrightarrow> es = [] \<or> (\<exists>c r. es = [EvUpdateXOCluster c r])"

text \<open>What \<open>clusterReconcileNormal\<close> does before it looks for the owner: at most one write of the finalizer.\<close>

lemma clusterReconcileNormal_wp:
  assumes failed: "\<And>err v pre. log v = log w @ pre \<Longrightarrow> finalizer_write pre \<Longrightarrow> Q (Inl err) v"
    and unowned: "\<And>v pre. log v = log w @ pre \<Longrightarrow> finalizer_write pre \<Longrightarrow> Q (Inr done_result) v"
    and owned: "\<And>b cl v pre k u s. log v = log w @ pre \<Longrightarrow> finalizer_write pre \<Longrightarrow>
      k_get_cluster (kube E) k u = (Inr cl, s) \<Longrightarrow> wp (reconcileOwned E b cl) Q v"
  shows "wp (clusterReconcileNormal E) Q w"
proof -
  obtain added fs where fs: "l_add_finalizer (libs E) xoClusterFinalizer (om_finalizers (xc_meta (obj w))) =
      (added, fs)" by fastforce
  let ?w = "w\<lparr>obj := set_cluster_finalizers fs (obj w)\<rparr>"
  have update: "wp (if added then update_cluster E else ret None)
      (\<lambda>u v. \<exists>pre. log v = log w @ pre \<and> finalizer_write pre) ?w"
    by (auto simp: update_cluster_def finalizer_write_def split: sum.split)
  have rest: "wp (getOwnerCluster E b) (\<lambda>g. wp (case g of Inl err \<Rightarrow> ret (Inl err)
        | Inr None \<Rightarrow> ret (Inr done_result) | Inr (Some cl) \<Rightarrow> reconcileOwned E b cl) Q) v"
    if v: "log v = log w @ pre" "finalizer_write pre" for b pre v
    using failed[OF _ v(2)] unowned[OF _ v(2)] owned[OF _ v(2)] v(1)
    by (auto simp: getOwnerCluster_def split: option.split sum.split)
  have "wp (if added then update_cluster E else ret None) (\<lambda>u. wp (case u of
      Some err \<Rightarrow> ret (Inl err)
    | None \<Rightarrow> get_obj \<bind> (\<lambda>b. getOwnerCluster E b \<bind> (\<lambda>g. case g of Inl err \<Rightarrow> ret (Inl err)
        | Inr None \<Rightarrow> ret (Inr done_result) | Inr (Some cl) \<Rightarrow> reconcileOwned E b cl))) Q) ?w"
    by (rule wp_mono[OF update], elim exE conjE)
       (use failed rest in \<open>auto simp only: option.case wp_simps split: option.split\<close>)
  then show ?thesis
    unfolding clusterReconcileNormal_def wp_simps(2,3,4) Let_def fs by simp
qed

lemma clusterReconcileNormal_log:
  assumes "addresses_named E"
  shows "wp (clusterReconcileNormal E)
     (\<lambda>r w'. \<exists>pre es. log w' = log w @ pre @ es \<and> finalizer_write pre \<and> ordered_run es) w"
proof (rule clusterReconcileNormal_wp, goal_cases)
  case (1 err v pre)
  with ordered_run_Nil show ?case by (intro exI[of _ pre] exI[of _ "[]"]) simp
next
  case (2 v pre)
  with ordered_run_Nil show ?case by (intro exI[of _ pre] exI[of _ "[]"]) simp
next
  case (3 b cl v pre)
  then show ?case by (intro wp_mono[OF reconcileOwned_log[OF assms]]) auto
qed

lemma clusterReconcileDelete_log:
  "wp (clusterReconcileDelete E) (\<lambda>r w'. \<exists>pre. log w' = log w @ pre \<and> finalizer_write pre) w"
  by (auto simp: clusterReconcileDelete_def update_cluster_def finalizer_write_def split: sum.split)



section \<open>Which Cluster is followed\<close>

lemma cluster_owner_mem:
  "cluster_owner refs = Some r \<Longrightarrow>
   r \<in> set refs \<and> or_kind r = ''Cluster'' \<and> or_api_version r = ClusterGroupVersion"
  by (induction refs) (auto split: if_splits)

text \<open>
  C34: an XOCluster follows only the Cluster that owns it. When no owner reference names a Cluster
  that the API still has under that very UID (none at all, one that is gone, or a new one that took
  over the name), the run ends without an error of its own and writes nothing beyond its finalizer:
  no label, no status, no addon.
\<close>

theorem foreign_owner_is_ignored:
  assumes "l_add_finalizer (libs E) xoClusterFinalizer (om_finalizers (xc_meta (obj w))) =
      (False, om_finalizers (xc_meta (obj w)))"
    and "\<And>ref cl s'. ref \<in> set (om_owners (xc_meta (obj w))) \<Longrightarrow> or_kind ref = ''Cluster'' \<Longrightarrow>
      or_api_version ref = ClusterGroupVersion \<Longrightarrow>
      k_get_cluster (kube E) \<lparr>nn_namespace = om_namespace (xc_meta (obj w)), nn_name = or_name ref\<rparr> (ext w) =
        (Inr cl, s') \<Longrightarrow> om_uid (cl_meta cl) \<noteq> or_uid ref"
    and "run_state (clusterReconcileNormal E) w = (res, w')"
  shows "obj w' = obj w \<and> log w' = log w \<and>
    (res = Inr done_result \<or>
      (\<exists>err ref s'. res = Inl err \<and> \<not> api_not_found err \<and> ref \<in> set (om_owners (xc_meta (obj w))) \<and>
         k_get_cluster (kube E) \<lparr>nn_namespace = om_namespace (xc_meta (obj w)), nn_name = or_name ref\<rparr>
           (ext w) = (Inl err, s')))"
proof -
  have same: "set_cluster_finalizers (om_finalizers (xc_meta (obj w))) (obj w) = obj w"
    by (simp add: set_cluster_finalizers_def)
  have "wp (clusterReconcileNormal E) (\<lambda>res w'. obj w' = obj w \<and> log w' = log w \<and>
    (res = Inr done_result \<or>
      (\<exists>err ref s'. res = Inl err \<and> \<not> api_not_found err \<and> ref \<in> set (om_owners (xc_meta (obj w))) \<and>
         k_get_cluster (kube E) \<lparr>nn_namespace = om_namespace (xc_meta (obj w)), nn_name = or_name ref\<rparr>
           (ext w) = (Inl err, s')))) w"
  proof (cases "cluster_owner (om_owners (xc_meta (obj w)))")
    case None
    then show ?thesis
      by (simp add: clusterReconcileNormal_def assms(1) same getOwnerCluster_def)
  next
    case (Some ref)
    with assms(2)[of ref] cluster_owner_mem[OF Some] show ?thesis
      by (auto simp: clusterReconcileNormal_def assms(1) same getOwnerCluster_def split: sum.split)
  qed
  from wp_run[OF this assms(3)] show ?thesis .
qed

definition adopted_cluster :: xocluster where
  "adopted_cluster = ref_xocluster\<lparr>xc_meta := (ref_meta ''demo'')\<lparr>om_finalizers := [xoClusterFinalizer],
     om_owners := [\<lparr>or_api_version = ClusterGroupVersion, or_kind = ''Cluster'', or_name = ''demo'',
       or_uid = ''uid-0'', or_controller = Some True\<rparr>]\<rparr>\<rparr>"

definition owner_env :: "unit env" where
  "owner_env = ref_env\<lparr>kube := ref_kube\<lparr>k_get_cluster := (\<lambda>n s. (Inr ref_cluster, s))\<rparr>\<rparr>"

theorem foreign_owner_is_ignored_witness:
  "obj (snd (run_state (clusterReconcileNormal owner_env) (start_state adopted_cluster ()))) = adopted_cluster \<and>
   log (snd (run_state (clusterReconcileNormal owner_env) (start_state adopted_cluster ()))) = []"
proof -
  let ?w = "start_state adopted_cluster ()"
  have "obj (snd (run_state (clusterReconcileNormal owner_env) ?w)) = obj ?w \<and>
      log (snd (run_state (clusterReconcileNormal owner_env) ?w)) = log ?w \<and>
      (fst (run_state (clusterReconcileNormal owner_env) ?w) = Inr done_result \<or>
        (\<exists>err ref s'. fst (run_state (clusterReconcileNormal owner_env) ?w) = Inl err \<and> \<not> api_not_found err \<and>
          ref \<in> set (om_owners (xc_meta (obj ?w))) \<and>
          k_get_cluster (kube owner_env) \<lparr>nn_namespace = om_namespace (xc_meta (obj ?w)), nn_name = or_name ref\<rparr>
            (ext ?w) = (Inl err, s')))"
    by (rule foreign_owner_is_ignored)
       (auto simp: owner_env_def ref_env_def ref_lib_def adopted_cluster_def ref_cluster_def ref_meta_def
          start_state_def prod_eq_iff)
  then show ?thesis by (simp add: start_state_def)
qed

text \<open>
  C40: when the credentials of a Ready cluster cannot be resolved, the condition that says so is set
  on the object in memory and never sent: the step ends with the error, the object carries Ready =
  False with reason CredentialsResolutionFailed, and no call was made after the status patch that
  said Ready = True.
\<close>

theorem credentials_failure_unrecorded:
  assumes "run_state (ResolveXOConfig E (om_namespace (xc_meta (obj w)))
      (cs_identity_ref (xc_spec (obj w))) (e_global_creds E)) w = (Inl err, v)"
    and "run_state (addonsStep E cl) w = (res, w')"
  shows "res = Inl err \<and> log w' = log w \<and>
    ready_condition (obj w') = Some (ConditionFalse, ''CredentialsResolutionFailed'')"
proof -
  have "obj v = obj w" "log v = log w"
    using keeps_run[OF ResolveXOConfig_keeps assms(1)] emits_log[OF ResolveXOConfig_emits assms(1), of "\<lambda>_. False"]
    by auto
  then have "wp (addonsStep E cl) (\<lambda>res w'. res = Inl err \<and> log w' = log w \<and>
      ready_condition (obj w') = Some (ConditionFalse, ''CredentialsResolutionFailed'')) w"
    unfolding addonsStep_def
    by (simp add: wp_def assms(1) ready_condition_def setCondition_def cond_view_cluster cond_merge_def
        split: prod.split)
  from wp_run[OF this assms(2)] show ?thesis .
qed

definition identified_cluster :: xocluster where
  "identified_cluster = ref_xocluster\<lparr>xc_spec := ref_cluster_spec\<lparr>cs_identity_ref := Some ''own''\<rparr>\<rparr>"

definition unread_secret :: error where
  "unread_secret = Wrapped ''get identity secret default/own: '' (ApiStatus NotFound ''secret not found'')"

theorem credentials_failure_unrecorded_witness:
  "fst (run_state (addonsStep (ref_env :: unit env) ref_cluster) (start_state identified_cluster ())) =
     Inl unread_secret \<and>
   log (snd (run_state (addonsStep (ref_env :: unit env) ref_cluster) (start_state identified_cluster ()))) = [] \<and>
   ready_condition (obj (snd (run_state (addonsStep (ref_env :: unit env) ref_cluster)
     (start_state identified_cluster ())))) = Some (ConditionFalse, ''CredentialsResolutionFailed'')"
proof -
  have "run_state (ResolveXOConfig (ref_env :: unit env)
      (om_namespace (xc_meta (obj (start_state identified_cluster ()))))
      (cs_identity_ref (xc_spec (obj (start_state identified_cluster ())))) (e_global_creds (ref_env :: unit env)))
      (start_state identified_cluster ()) = (Inl unread_secret, start_state identified_cluster ())"
    by (simp add: identified_cluster_def ref_xocluster_def ref_cluster_spec_def start_state_def ref_meta_def
        ResolveXOConfig_def ref_env_def ref_kube_def unread_secret_def)
  from credentials_failure_unrecorded[OF this, of ref_cluster] show ?thesis
    by (metis prod.collapse st.select_convs(3) start_state_def)
qed

end
