(* ===== verification/Cluster_Progress.thy ===== *)
theory Cluster_Progress
  imports Manager_Main Cluster_Properties
begin

text \<open>
  That a cluster comes up: the registered watch, the map function and the reconcile composed. When a
  control plane machine has become Ready, the event of its Machine leads to a request for the
  XOCluster, and the run of that request declares the cluster Ready with an endpoint, provided the
  API server answers and accepts.
\<close>

section \<open>The world in which a cluster comes up\<close>

text \<open>
  The Machine \<open>m\<close>, a control plane machine of the Cluster \<open>cl\<close>, is backed by the Ready XOMachine \<open>xm\<close>,
  which has an address.
\<close>

definition machine_is_up :: "(nn \<Rightarrow> error + xomachine) \<Rightarrow> cluster \<Rightarrow> machine \<Rightarrow> xomachine \<Rightarrow> bool" where
  "machine_is_up look cl m xm \<longleftrightarrow>
     om_namespace (mach_meta m) = om_namespace (cl_meta cl) \<and>
     om_labels (mach_meta m) MachineControlPlaneLabel \<noteq> None \<and>
     om_labels (mach_meta m) ClusterNameLabel = Some (om_name (cl_meta cl)) \<and>
     mach_cluster_name m = om_name (cl_meta cl) \<and> mach_infra_kind m = KindXOMachine \<and>
     look \<lparr>nn_namespace = om_namespace (mach_meta m), nn_name = mach_infra_name m\<rparr> = Inr xm \<and>
     mst_ready (xm_status xm) \<and> offered_address (mst_addresses (xm_status xm)) \<noteq> None"

text \<open>The XOCluster \<open>xc\<close> is the infrastructure of \<open>cl\<close>, owned by it, labelled, and not being deleted.\<close>

definition cluster_is_owned :: "'s env \<Rightarrow> xocluster \<Rightarrow> cluster \<Rightarrow> bool" where
  "cluster_is_owned E xc cl \<longleftrightarrow>
     cl_infra_kind cl = ''XOCluster'' \<and>
     go_get (om_labels (cl_meta cl)) ClusterNameLabel = om_name (cl_meta cl) \<and>
     om_namespace (xc_meta xc) = om_namespace (cl_meta cl) \<and> om_deletion (xc_meta xc) = None \<and>
     l_add_finalizer (libs E) xoClusterFinalizer (om_finalizers (xc_meta xc)) = (False, om_finalizers (xc_meta xc)) \<and>
     (case cluster_owner (om_owners (xc_meta xc)) of
        None \<Rightarrow> False
      | Some ref \<Rightarrow> or_name ref = om_name (cl_meta cl) \<and> or_uid ref = om_uid (cl_meta cl))"

definition xocluster_key :: "cluster \<Rightarrow> nn" where
  "xocluster_key cl = \<lparr>nn_namespace = om_namespace (cl_meta cl), nn_name = cl_infra_name cl\<rparr>"

text \<open>The API server answers the reads from its state \<open>s\<close> and accepts the status.\<close>

definition api_answers ::
  "'s env \<Rightarrow> 's \<Rightarrow> (nn \<Rightarrow> error + xomachine) \<Rightarrow> xocluster \<Rightarrow> cluster \<Rightarrow> machine list \<Rightarrow> bool" where
  "api_answers E s look xc cl ms \<longleftrightarrow>
     (\<forall>n. k_get_xomachine (kube E) n s = (look n, s)) \<and>
     k_get_xocluster (kube E) (xocluster_key cl) s = (Inr xc, s) \<and>
     k_get_cluster (kube E) \<lparr>nn_namespace = om_namespace (cl_meta cl), nn_name = om_name (cl_meta cl)\<rparr> s = (Inr cl, s) \<and>
     k_list_machines (kube E) (om_namespace (cl_meta cl)) [MachineControlPlaneLabel \<mapsto> []] s = (Inr ms, s) \<and>
     snd (e_now E s) = s \<and>
     (\<forall>b c. \<exists>c' s'. k_status_patch_xocluster (kube E) b c s = (Inr c', s'))"

section \<open>Progress\<close>

lemma machine_up_candidate:
  assumes "machine_is_up look cl m xm"
  shows "candidate look (om_name (cl_meta cl)) m \<noteq> None"
  using assms by (auto simp: machine_is_up_def candidate_def offered_address_find)

lemma discovered_some:
  "m \<in> set ms \<Longrightarrow> candidate look cn m \<noteq> None \<Longrightarrow> discovered look cn ms \<noteq> None"
  by (induction ms) (auto simp: discovered_Cons split: option.split)

lemma machine_wakes_cluster:
  assumes "api_answers E (ext w) look xc cl ms" and "machine_is_up look cl m xm" and "cluster_is_owned E xc cl"
  shows "fst (run_state (clusterRequests E (ChangedMachine m)) w) = [xocluster_key cl]"
  using assms
  by (auto simp: clusterRequests_def machineToXOCluster_def clusterToXOCluster_def api_answers_def
      machine_is_up_def cluster_is_owned_def xocluster_key_def)

lemma resolveEndpoint_up:
  assumes "api_answers E (ext w) look xc cl ms" and "machine_is_up look cl m xm" and "m \<in> set ms"
    and "run_state (resolveEndpoint E cl) w = (r, w')"
  shows "r = Inr False \<and> ext w' = ext w \<and> log w' = log w"
proof -
  have "discovered look (om_name (cl_meta cl)) ms \<noteq> None"
    using discovered_some[OF assms(3) machine_up_candidate[OF assms(2)]] .
  moreover have "\<And>n. k_get_xomachine (kube E) n (ext w) = (look n, ext w)"
    and "k_list_machines (kube E) (om_namespace (cl_meta cl)) [MachineControlPlaneLabel \<mapsto> []] (ext w) = (Inr ms, ext w)"
    using assms(1) by (simp_all add: api_answers_def)
  note resolveEndpoint_found[OF this]
  ultimately show ?thesis
    using assms(4) by (auto simp: Let_def split: if_splits option.splits)
qed

lemma finishCluster_writes:
  assumes "api_answers E (ext w) look xc cl ms"
    and "has_endpoint (cst_control_plane_endpoint (xc_status (obj w)))"
  shows "wp (finishCluster E b cl False)
     (\<lambda>r w'. \<exists>c. EvStatusPatchXOCluster c None \<in> set (log w') \<and> settled_status c \<and>
        cst_control_plane_endpoint (xc_status c) = cst_control_plane_endpoint (xc_status (obj w))) w"
proof -
  obtain now where now: "e_now E (ext w) = (now, ext w)"
    using assms(1) unfolding api_answers_def by (metis prod.collapse)
  let ?c = "settleStatus False now (obj w)"
  have ep: "cst_control_plane_endpoint (xc_status ?c) = cst_control_plane_endpoint (xc_status (obj w))"
    by (simp add: settleStatus_def setCondition_def mark_cluster_ready_def)
  have c: "settled_status ?c" using assms(2) by (intro settleStatus_settled) simp
  obtain c' s' where "k_status_patch_xocluster (kube E) b ?c (ext w) = (Inr c', s')"
    using assms(1) unfolding api_answers_def by blast
  moreover have "wp (addonsStep E cl) (\<lambda>r w'. \<exists>c. EvStatusPatchXOCluster c None \<in> set (log w') \<and> settled_status c \<and>
        cst_control_plane_endpoint (xc_status c) = cst_control_plane_endpoint (xc_status (obj w))) v"
    if "EvStatusPatchXOCluster ?c None \<in> set (log v)" for v
    using that c ep by (intro wp_mono[OF addonsStep_log]) auto
  ultimately show ?thesis
    using now by (simp add: finishCluster_def status_patch_cluster_def)
qed

text \<open>A run for a cluster that is owned, labelled and has its finalizer comes to the endpoint.\<close>

lemma owned_run:
  fixes E :: "'s env"
  assumes "api_answers E (ext w) look xc cl ms" and "cluster_is_owned E xc cl"
    and "wp (resolveEndpoint E cl) (\<lambda>e. wp (case e of Inl err \<Rightarrow> ret (Inl err)
        | Inr needs \<Rightarrow> finishCluster E xc cl needs) Q) (w\<lparr>obj := xc\<rparr>)"
  shows "wp (clusterReconcile E (xocluster_key cl)) Q w"
proof -
  have "(ensureClusterNameLabel E cl :: (xocluster, 's, error + cluster) prog) = ret (Inr cl)"
    using assms(2) by (simp add: ensureClusterNameLabel_def cluster_is_owned_def)
  with assms(3) have owned: "wp (reconcileOwned E xc cl) Q (w\<lparr>obj := xc\<rparr>)"
    by (simp add: reconcileOwned_def)
  have same: "set_cluster_finalizers (om_finalizers (xc_meta xc)) xc = xc"
    by (simp add: set_cluster_finalizers_def)
  show ?thesis
    using owned assms(1,2)
    by (auto simp: clusterReconcile_def clusterReconcileNormal_def getOwnerCluster_def cluster_is_owned_def
        api_answers_def same split: option.splits)
qed

text \<open>The run of a cluster whose endpoint is found declares it.\<close>

lemma found_run:
  fixes E :: "'s env"
  assumes "api_answers E (ext w) look xc cl ms" and "cluster_is_owned E xc cl"
    and "run_state (resolveEndpoint E cl) (w\<lparr>obj := xc\<rparr>) = (Inr False, u)" and "ext u = ext w"
    and "has_endpoint (cst_control_plane_endpoint (xc_status (obj u)))"
  shows "wp (clusterReconcile E (xocluster_key cl)) (\<lambda>r w'. \<exists>c. EvStatusPatchXOCluster c None \<in> set (log w') \<and>
    settled_status c \<and> cst_control_plane_endpoint (xc_status c) = cst_control_plane_endpoint (xc_status (obj u))) w"
proof (rule owned_run[OF assms(1,2)])
  show "wp (resolveEndpoint E cl) (\<lambda>e. wp (case e of Inl err \<Rightarrow> ret (Inl err) | Inr needs \<Rightarrow> finishCluster E xc cl needs)
     (\<lambda>r w'. \<exists>c. EvStatusPatchXOCluster c None \<in> set (log w') \<and> settled_status c \<and>
        cst_control_plane_endpoint (xc_status c) = cst_control_plane_endpoint (xc_status (obj u)))) (w\<lparr>obj := xc\<rparr>)"
    using finishCluster_writes[of E u, OF _ assms(5)] assms(1,4)
    by (simp add: wp_def[of "resolveEndpoint E cl"] assms(3))
qed

lemma cluster_run_ready:
  fixes E :: "'s env"
  assumes "api_answers E (ext w) look xc cl ms" and "addresses_named E"
    and "machine_is_up look cl m xm" and "m \<in> set ms" and "cluster_is_owned E xc cl"
  shows "wp (clusterReconcile E (xocluster_key cl)) (\<lambda>r w'. \<exists>c. EvStatusPatchXOCluster c None \<in> set (log w') \<and>
    settled_status c \<and> has_endpoint (cst_control_plane_endpoint (xc_status c))) w"
proof -
  have api: "api_answers E (ext (w\<lparr>obj := xc\<rparr>)) look xc cl ms" using assms(1) by simp
  obtain r u where run: "run_state (resolveEndpoint E cl) (w\<lparr>obj := xc\<rparr>) = (r, u)" by fastforce
  from resolveEndpoint_up[OF api assms(3,4) run] have u: "r = Inr False" "ext u = ext w" by simp_all
  have found: "has_endpoint (cst_control_plane_endpoint (xc_status (obj u)))"
    using wp_run[OF resolveEndpoint_outcome[OF assms(2)] run] u by auto
  show ?thesis by (rule wp_mono[OF found_run[OF assms(1,5) run[unfolded u] u(2) found]]) (use found in auto)
qed

text \<open>
  C20: A cluster comes up: as soon as one of its control plane machines is Ready with an address, the
  change of that Machine wakes the XOCluster controller for exactly this cluster, and the run it leads
  to writes a status that is accepted and says Ready, with a non-empty control plane endpoint.
\<close>

theorem cluster_comes_up:
  fixes E :: "'s env"
  assumes "api_answers E s look xc cl ms" and "addresses_named E"
    and "machine_is_up look cl m xm" and "m \<in> set ms" and "cluster_is_owned E xc cl"
    and "ext v = s" and "ext w = s"
  shows "fst (run_state (clusterRequests E (ChangedMachine m)) v) = [xocluster_key cl] \<and>
    (\<exists>c. EvStatusPatchXOCluster c None \<in> set (log (snd (run_state (clusterReconcile E (xocluster_key cl)) w))) \<and>
       cst_ready (xc_status c) \<and> has_endpoint (cst_control_plane_endpoint (xc_status c)) \<and>
       ready_condition c = Some (ConditionTrue, ''ClusterInfrastructureReady''))"
proof -
  have "wp (clusterReconcile E (xocluster_key cl)) (\<lambda>r w'. \<exists>c. EvStatusPatchXOCluster c None \<in> set (log w') \<and>
      settled_status c \<and> has_endpoint (cst_control_plane_endpoint (xc_status c))) w"
    using cluster_run_ready[OF _ assms(2-5)] assms(1,7) by simp
  then show ?thesis
    using machine_wakes_cluster[of E v look xc cl ms m xm] assms
    by (auto simp: wp_def settled_status_def split: prod.splits)
qed

definition up_machine :: machine where
  "up_machine = ref_owner_machine\<lparr>mach_meta := (ref_meta ''demo-cp-7n62g'')\<lparr>
     om_labels := [ClusterNameLabel \<mapsto> ''demo'', MachineControlPlaneLabel \<mapsto> []]\<rparr>\<rparr>"

definition up_cluster :: xocluster where
  "up_cluster = waiting_cluster\<lparr>xc_meta := (ref_meta ''demo'')\<lparr>om_finalizers := [xoClusterFinalizer],
     om_owners := [\<lparr>or_api_version = ClusterGroupVersion, or_kind = ''Cluster'', or_name = ''demo'',
       or_uid = ''uid-1'', or_controller = Some True\<rparr>]\<rparr>\<rparr>"

definition up_env :: "unit env" where
  "up_env = ref_env\<lparr>kube := ref_kube\<lparr>k_get_xomachine := (\<lambda>n s. (Inr addressed_machine, s)),
     k_get_xocluster := (\<lambda>n s. (Inr up_cluster, s)), k_get_cluster := (\<lambda>n s. (Inr ref_cluster, s)),
     k_list_machines := (\<lambda>n l s. (Inr [up_machine], s))\<rparr>\<rparr>"

lemma up_facts:
  "api_answers up_env () (\<lambda>n. Inr addressed_machine) up_cluster ref_cluster [up_machine]"
  "cluster_is_owned up_env up_cluster ref_cluster"
  "addresses_named up_env"
  "candidate (\<lambda>n. Inr addressed_machine) (om_name (cl_meta ref_cluster)) up_machine = Some ''10.0.0.5''"
  by (simp_all add: api_answers_def cluster_is_owned_def addresses_named_def candidate_def
      up_env_def ref_env_def ref_kube_def ref_lib_def up_cluster_def up_machine_def ref_owner_machine_def
      addressed_machine_def ref_cluster_def ref_meta_def KindXOMachine_def ClusterNameLabel_def)

theorem cluster_comes_up_witness:
  "fst (run_state (clusterRequests up_env (ChangedMachine up_machine)) (start_state ref_machine ())) =
     [\<lparr>nn_namespace = ''default'', nn_name = ''demo''\<rparr>] \<and>
   (\<exists>c. EvStatusPatchXOCluster c None \<in> set (log (snd (run_state
        (clusterReconcile up_env \<lparr>nn_namespace = ''default'', nn_name = ''demo''\<rparr>) (start_state ref_xocluster ())))) \<and>
      cst_ready (xc_status c))"
proof -
  have key: "xocluster_key ref_cluster = \<lparr>nn_namespace = ''default'', nn_name = ''demo''\<rparr>"
    by (simp add: xocluster_key_def ref_cluster_def ref_meta_def)
  have "machine_is_up (\<lambda>n. Inr addressed_machine) ref_cluster up_machine addressed_machine"
    by (simp add: machine_is_up_def up_machine_def ref_owner_machine_def ref_cluster_def ref_meta_def
        addressed_machine_def KindXOMachine_def ClusterNameLabel_def MachineControlPlaneLabel_def)
  then show ?thesis
    using up_facts cluster_comes_up[of up_env "()" "\<lambda>n. Inr addressed_machine" up_cluster ref_cluster "[up_machine]" up_machine
        addressed_machine "start_state ref_machine ()" "start_state ref_xocluster ()"]
    by (auto simp: key)
qed

end
