(* ===== verification/Cluster_Runs.thy ===== *)
theory Cluster_Runs
  imports Cluster_Progress
begin

text \<open>
  Whole runs of the XOCluster controller, one after the other, against an API server that keeps the
  status. The run reads the object, computes the endpoint and sends a merge patch against the copy
  it made after the read; the patch carries no version. So a recorded control plane endpoint is
  final as long as every run reads the current object, and an earlier version of the object, as the
  manager's cache may answer, lets a run replace it.
\<close>

section \<open>The API server as a ledger of one endpoint\<close>

text \<open>
  One XOCluster, by key, with the endpoint the API server holds in its status.
\<close>

record 's cluster_ledger =
  cg_key :: nn
  cg_endpoint :: "'s \<Rightarrow> api_endpoint option"

abbreviation status_endpoint :: "xocluster \<Rightarrow> api_endpoint option" where
  "status_endpoint c \<equiv> cst_control_plane_endpoint (xc_status c)"

abbreviation key_of :: "xocluster \<Rightarrow> nn" where
  "key_of c \<equiv> \<lparr>nn_namespace = om_namespace (xc_meta c), nn_name = om_name (xc_meta c)\<rparr>"

text \<open>
  What the API server promises. A read leaves the status alone and answers with the object asked for;
  an update of the object leaves its status and answers with it; a merge patch leaves the fields on
  which its base and its object agree. Writes may fail, or be applied and answer an error.
\<close>

definition read_cluster_ledger :: "'s env \<Rightarrow> 's cluster_ledger \<Rightarrow> bool" where
  "read_cluster_ledger E L \<longleftrightarrow>
     (\<forall>k s r s'. k_get_xocluster (kube E) k s = (r, s') \<longrightarrow>
        cg_endpoint L s' = cg_endpoint L s \<and> (\<forall>c. r = Inr c \<longrightarrow> key_of c = k))"

definition update_cluster_ledger :: "'s env \<Rightarrow> 's cluster_ledger \<Rightarrow> bool" where
  "update_cluster_ledger E L \<longleftrightarrow>
     (\<forall>c s r s'. k_update_xocluster (kube E) c s = (r, s') \<longrightarrow>
        cg_endpoint L s' = cg_endpoint L s \<and>
        (\<forall>c'. r = Inr c' \<longrightarrow> key_of c' = key_of c \<and>
           (key_of c = cg_key L \<longrightarrow> status_endpoint c' = cg_endpoint L s)))"

definition patch_cluster_ledger :: "'s env \<Rightarrow> 's cluster_ledger \<Rightarrow> bool" where
  "patch_cluster_ledger E L \<longleftrightarrow>
     (\<forall>b c s r s'. k_status_patch_xocluster (kube E) b c s = (r, s') \<longrightarrow>
        key_of c \<noteq> cg_key L \<or> status_endpoint b = status_endpoint c \<longrightarrow>
        cg_endpoint L s' = cg_endpoint L s)"

text \<open>The other calls of a cluster run write other objects.\<close>

definition quiet_cluster_calls :: "'s env \<Rightarrow> ('s \<Rightarrow> 'x) \<Rightarrow> bool" where
  "quiet_cluster_calls E f \<longleftrightarrow>
     (\<forall>n s. f (snd (k_get_xomachine (kube E) n s)) = f s) \<and>
     (\<forall>n s. f (snd (k_get_cluster (kube E) n s)) = f s) \<and>
     (\<forall>n s. f (snd (k_get_secret (kube E) n s)) = f s) \<and>
     (\<forall>n l s. f (snd (k_list_machines (kube E) n l s)) = f s) \<and>
     (\<forall>b c s. f (snd (k_patch_cluster (kube E) b c s)) = f s) \<and>
     (\<forall>c h s. f (snd (k_apply_config_map (kube E) c h s)) = f s) \<and>
     (\<forall>c h s. f (snd (k_apply_resource_set (kube E) c h s)) = f s) \<and>
     (\<forall>n s. f (snd (k_delete_config_map (kube E) n s)) = f s) \<and>
     (\<forall>n s. f (snd (k_delete_resource_set (kube E) n s)) = f s) \<and>
     (\<forall>s. f (snd (e_now E s)) = f s)"

definition keeps_cluster_ledger :: "'s env \<Rightarrow> 's cluster_ledger \<Rightarrow> bool" where
  "keeps_cluster_ledger E L \<longleftrightarrow> read_cluster_ledger E L \<and> update_cluster_ledger E L \<and>
     patch_cluster_ledger E L \<and> quiet_cluster_calls E (cg_endpoint L)"

text \<open>A read that answers with the current status.\<close>

definition reads_current :: "'s env \<Rightarrow> 's cluster_ledger \<Rightarrow> bool" where
  "reads_current E L \<longleftrightarrow>
     (\<forall>c s s'. k_get_xocluster (kube E) (cg_key L) s = (Inr c, s') \<longrightarrow>
        status_endpoint c = cg_endpoint L s)"

lemma keeps_cluster_ledgerD:
  assumes "keeps_cluster_ledger E L"
  shows "read_cluster_ledger E L" "update_cluster_ledger E L" "patch_cluster_ledger E L"
    "quiet_cluster_calls E (cg_endpoint L)"
  using assms by (simp_all add: keeps_cluster_ledger_def)

section \<open>The parts of a run that write other objects\<close>

lemma quiet_cluster_ops:
  assumes "quiet_cluster_calls E f"
  shows "f (snd (k_get_xomachine (kube E) n s)) = f s" "f (snd (k_get_cluster (kube E) n s)) = f s"
    "f (snd (k_get_secret (kube E) n s)) = f s" "f (snd (k_list_machines (kube E) t l s)) = f s"
    "f (snd (k_patch_cluster (kube E) b c s)) = f s" "f (snd (k_apply_config_map (kube E) cm h s)) = f s"
    "f (snd (k_apply_resource_set (kube E) rs g s)) = f s" "f (snd (k_delete_config_map (kube E) n s)) = f s"
    "f (snd (k_delete_resource_set (kube E) n s)) = f s" "f (snd (e_now E s)) = f s"
  using assms unfolding quiet_cluster_calls_def by simp_all

named_theorems cluster_quiet "the parts of a cluster run that leave a status alone"

lemma cluster_addon_quiet [cluster_quiet]:
  assumes "quiet_cluster_calls E f"
  shows "keeps (\<lambda>w. f (ext w)) (ensureAddon E ns cn addon crs cm strategy manifest)"
    "keeps (\<lambda>w. f (ext w)) (removeAddon E ns crs cm)"
    "keeps (\<lambda>w. f (ext w)) (ResolveXOConfig E ns ref fb)"
    "keeps (\<lambda>w. f (ext w)) (getOwnerCluster E xc)"
    "keeps (\<lambda>w. f (ext w)) (patch_cluster E cl)"
  unfolding ensureAddon_def removeAddon_def ResolveXOConfig_def getOwnerCluster_def patch_cluster_def Let_def
  by (intro frames; simp add: quiet_cluster_ops[OF assms])+

lemma cluster_parts_quiet [cluster_quiet]:
  assumes "quiet_cluster_calls E f"
  shows "keeps (\<lambda>w. f (ext w)) (reconcileCCM E a ns cn creds)"
    "keeps (\<lambda>w. f (ext w)) (reconcileCSI E a xc cn)"
    "keeps (\<lambda>w. f (ext w)) (reconcileCNI E a xc cl)"
    "keeps (\<lambda>w. f (ext w)) (ensureClusterNameLabel E cl)"
  unfolding reconcileCCM_def reconcileCSI_def reconcileCNI_def ensureClusterNameLabel_def Let_def
  by (intro frames cluster_quiet[OF assms]; simp add: quiet_cluster_ops[OF assms])+

lemma discover_in_quiet: "quiet_cluster_calls E f \<Longrightarrow> keeps (\<lambda>w. f (ext w)) (discover_in E n ms)"
  by (induction ms) (auto intro!: frames simp: quiet_cluster_ops)

lemma cluster_wholes_quiet [cluster_quiet]:
  assumes "quiet_cluster_calls E f"
  shows "keeps (\<lambda>w. f (ext w)) (applyAddons E a xc cl creds)"
    "keeps (\<lambda>w. f (ext w)) (discoverControlPlaneEndpoint E cl)"
  unfolding applyAddons_def discoverControlPlaneEndpoint_def
  by (intro frames cluster_quiet[OF assms] discover_in_quiet[OF assms]; simp add: quiet_cluster_ops[OF assms])+

lemma cluster_steps_quiet [cluster_quiet]:
  assumes "quiet_cluster_calls E f"
  shows "keeps (\<lambda>w. f (ext w)) (reconcileAddons E cl creds)"
    "keeps (\<lambda>w. f (ext w)) (resolveEndpoint E cl)"
  unfolding reconcileAddons_def resolveEndpoint_def
  by (intro frames cluster_quiet[OF assms]; simp add: quiet_cluster_ops[OF assms])+

lemma addonsStep_quiet [cluster_quiet]:
  assumes "quiet_cluster_calls E f"
  shows "keeps (\<lambda>w. f (ext w)) (addonsStep E cl)"
  unfolding addonsStep_def
  by (intro frames cluster_quiet[OF assms]; simp add: quiet_cluster_ops[OF assms])+

section \<open>One run\<close>

text \<open>What matters of an object in hand: its key and its endpoint.\<close>

definition in_hand :: "xocluster \<Rightarrow> nn \<times> api_endpoint option" where
  "in_hand c = (key_of c, status_endpoint c)"

lemma in_hand_settled [simp]: "in_hand (settleStatus needs now c) = in_hand c"
  by (simp add: in_hand_def settleStatus_def setCondition_def mark_cluster_ready_def)

lemma finishCluster_recorded:
  assumes "keeps_cluster_ledger E L" and "in_hand (obj w) = in_hand b \<or> key_of (obj w) \<noteq> cg_key L"
  shows "wp (finishCluster E b cl needs) (\<lambda>r w'. cg_endpoint L (ext w') = cg_endpoint L (ext w)) w"
proof -
  note L = keeps_cluster_ledgerD[OF assms(1)]
  have untouched: "key_of (settleStatus n now (obj w)) \<noteq> cg_key L \<or>
      status_endpoint b = status_endpoint (settleStatus n now (obj w))" for n now
    using assms(2) in_hand_settled[of n now "obj w"] by (auto simp: in_hand_def)
  have patch: "cg_endpoint L s' = cg_endpoint L s"
    if "k_status_patch_xocluster (kube E) b (settleStatus n now (obj w)) s = (r, s')" for n now s r s'
    using L(3) that untouched[of n now] unfolding patch_cluster_ledger_def by blast
  have addons: "wp (addonsStep E cl) (\<lambda>r w'. cg_endpoint L (ext w') = cg_endpoint L (ext w)) v"
    if "cg_endpoint L (ext v) = cg_endpoint L (ext w)" for v
    by (rule wp_keeps[OF addonsStep_quiet[OF L(4)]]) (simp add: that)
  have "cg_endpoint L s' = cg_endpoint L (ext w)" if "e_now E (ext w) = (now, s')" for now s'
    using quiet_cluster_ops(10)[OF L(4), of "ext w"] that by simp
  then show ?thesis
    by (auto simp: finishCluster_def status_patch_cluster_def split: sum.split dest!: patch intro!: addons)
qed

text \<open>An endpoint in the object's status survives the search for one.\<close>

lemma resolveEndpoint_in_hand:
  assumes "has_endpoint (status_endpoint (obj w))"
  shows "wp (resolveEndpoint E cl) (\<lambda>r w'. w' = w) w"
  using assms by (simp add: resolveEndpoint_def)

lemma resolveEndpoint_key:
  "wp (resolveEndpoint E cl) (\<lambda>r w'. key_of (obj w') = key_of (obj w)) w"
proof -
  have "keeps obj (discoverControlPlaneEndpoint E cl)" by (rule discover_keeps)
  then have "wp (discoverControlPlaneEndpoint E cl) (\<lambda>r w'. obj w' = obj w) w" by (rule keeps_wp)
  then show ?thesis
    by (auto simp: resolveEndpoint_def set_status_endpoint_def split: sum.split option.split elim!: wp_mono)
qed

lemma reconcileOwned_recorded:
  assumes "keeps_cluster_ledger E L"
    and "key_of (obj w) = cg_key L \<Longrightarrow> has_endpoint (status_endpoint (obj w))"
  shows "wp (reconcileOwned E (obj w) cl) (\<lambda>r w'. cg_endpoint L (ext w') = cg_endpoint L (ext w)) w"
proof -
  note quiet = keeps_cluster_ledgerD(4)[OF assms(1)]
  let ?Q = "\<lambda>r w'. cg_endpoint L (ext w') = cg_endpoint L (ext w)"
  have step: "wp (resolveEndpoint E cl') (\<lambda>e. wp (case e of Inl err \<Rightarrow> ret (Inl err)
      | Inr needs \<Rightarrow> finishCluster E (obj w) cl' needs) ?Q) v"
    if v: "obj v = obj w" "cg_endpoint L (ext v) = cg_endpoint L (ext w)" for v cl'
  proof (rule wpI)
    fix e u assume run: "run_state (resolveEndpoint E cl') v = (e, u)"
    have rec: "cg_endpoint L (ext u) = cg_endpoint L (ext w)"
      using keeps_run[OF cluster_steps_quiet(2)[OF quiet] run] v by simp
    have key: "key_of (obj u) = key_of (obj w)" using wp_run[OF resolveEndpoint_key run] v by simp
    have "in_hand (obj u) = in_hand (obj w) \<or> key_of (obj u) \<noteq> cg_key L"
      using wp_run[OF resolveEndpoint_in_hand run] assms(2) key v by fastforce
    from finishCluster_recorded[OF assms(1) this] rec
    show "wp (case e of Inl err \<Rightarrow> ret (Inl err) | Inr needs \<Rightarrow> finishCluster E (obj w) cl' needs) ?Q u"
      by (cases e) simp_all
  qed
  have "wp (ensureClusterNameLabel E cl)
      (\<lambda>l v. obj v = obj w \<and> cg_endpoint L (ext v) = cg_endpoint L (ext w)) w"
    unfolding wp_conj
    by (intro conjI keeps_wp ensureClusterNameLabel_keeps cluster_parts_quiet(4)[OF quiet])
  then show ?thesis
    unfolding reconcileOwned_def wp_simps(2) by (rule wp_mono) (auto split: sum.split intro!: step)
qed

lemma update_cluster_recorded:
  assumes "keeps_cluster_ledger E L" and "run_state (update_cluster E) w = (u, w')"
  shows "cg_endpoint L (ext w') = cg_endpoint L (ext w) \<and> (u = None \<longrightarrow>
    key_of (obj w') = key_of (obj w) \<and>
    (key_of (obj w) = cg_key L \<longrightarrow> status_endpoint (obj w') = cg_endpoint L (ext w)))"
proof -
  obtain r s where rs: "k_update_xocluster (kube E) (obj w) (ext w) = (r, s)" by fastforce
  with keeps_cluster_ledgerD(2)[OF assms(1)] have
    "cg_endpoint L s = cg_endpoint L (ext w) \<and> (\<forall>c'. r = Inr c' \<longrightarrow> key_of c' = key_of (obj w) \<and>
       (key_of (obj w) = cg_key L \<longrightarrow> status_endpoint c' = cg_endpoint L (ext w)))"
    unfolding update_cluster_ledger_def by blast
  then show ?thesis using assms(2) rs by (auto simp: update_cluster_def split: sum.splits)
qed

text \<open>The object in hand shows what is recorded.\<close>

definition in_sync :: "'s cluster_ledger \<Rightarrow> (xocluster, 's) st \<Rightarrow> bool" where
  "in_sync L w \<longleftrightarrow> (key_of (obj w) = cg_key L \<longrightarrow> status_endpoint (obj w) = cg_endpoint L (ext w))"

lemma afterUpdate_recorded:
  assumes "keeps_cluster_ledger E L" and "in_sync L w" and "has_endpoint (cg_endpoint L (ext w))"
  shows "wp (getOwnerCluster E (obj w)) (\<lambda>g. wp (case g of
        Inl err \<Rightarrow> ret (Inl err)
      | Inr None \<Rightarrow> ret (Inr done_result)
      | Inr (Some cl) \<Rightarrow> reconcileOwned E (obj w) cl)
    (\<lambda>r w'. cg_endpoint L (ext w') = cg_endpoint L (ext w))) w"
proof -
  note quiet = keeps_cluster_ledgerD(4)[OF assms(1)]
  have "wp (getOwnerCluster E (obj w))
      (\<lambda>g v. obj v = obj w \<and> cg_endpoint L (ext v) = cg_endpoint L (ext w)) w"
    unfolding wp_conj by (intro conjI keeps_wp getOwnerCluster_keeps cluster_addon_quiet(4)[OF quiet])
  moreover have "wp (reconcileOwned E (obj w) cl) (\<lambda>r w'. cg_endpoint L (ext w') = cg_endpoint L (ext w)) v"
    if "obj v = obj w" "cg_endpoint L (ext v) = cg_endpoint L (ext w)" for v cl
    using reconcileOwned_recorded[OF assms(1), of v cl] assms(2,3) that by (simp add: in_sync_def)
  ultimately show ?thesis by (elim wp_mono) (auto split: sum.split option.split)
qed

lemma normal_recorded:
  assumes "keeps_cluster_ledger E L" and "in_sync L w" and "has_endpoint (cg_endpoint L (ext w))"
  shows "wp (clusterReconcileNormal E) (\<lambda>r w'. cg_endpoint L (ext w') = cg_endpoint L (ext w)) w"
proof -
  let ?Q = "\<lambda>r w'. cg_endpoint L (ext w') = cg_endpoint L (ext w)"
  obtain added fs where add: "l_add_finalizer (libs E) xoClusterFinalizer (om_finalizers (xc_meta (obj w))) = (added, fs)"
    by fastforce
  let ?w = "w\<lparr>obj := set_cluster_finalizers fs (obj w)\<rparr>"
  have start: "in_sync L ?w" using assms(2) by (simp add: in_sync_def set_cluster_finalizers_def)
  have "wp (if added then update_cluster E else ret None)
      (\<lambda>u v. cg_endpoint L (ext v) = cg_endpoint L (ext w) \<and> (u = None \<longrightarrow> in_sync L v)) ?w"
  proof (rule wpI)
    fix u v assume run: "run_state (if added then update_cluster E else ret None) ?w = (u, v)"
    show "cg_endpoint L (ext v) = cg_endpoint L (ext w) \<and> (u = None \<longrightarrow> in_sync L v)"
    proof (cases added)
      case True
      with run update_cluster_recorded[OF assms(1), of ?w u v] show ?thesis
        by (auto simp: in_sync_def)
    next
      case False
      with run start show ?thesis by auto
    qed
  qed
  moreover have "wp (getOwnerCluster E (obj v)) (\<lambda>g. wp (case g of
        Inl err \<Rightarrow> ret (Inl err) | Inr None \<Rightarrow> ret (Inr done_result)
      | Inr (Some cl) \<Rightarrow> reconcileOwned E (obj v) cl) ?Q) v"
    if "cg_endpoint L (ext v) = cg_endpoint L (ext w)" "in_sync L v" for v
    using afterUpdate_recorded[OF assms(1) that(2)] that(1) assms(3) by simp
  ultimately have "wp (if added then update_cluster E else ret None) (\<lambda>u. wp (case u of
        Some err \<Rightarrow> ret (Inl err)
      | None \<Rightarrow> do { b \<leftarrow> get_obj; g \<leftarrow> getOwnerCluster E b;
          (case g of Inl err \<Rightarrow> ret (Inl err) | Inr None \<Rightarrow> ret (Inr done_result)
           | Inr (Some cl) \<Rightarrow> reconcileOwned E b cl) }) ?Q) ?w"
    by (elim wp_mono) (simp split: option.split)
  then show ?thesis by (simp add: clusterReconcileNormal_def add)
qed

lemma delete_recorded:
  assumes "keeps_cluster_ledger E L"
  shows "keeps (\<lambda>w. cg_endpoint L (ext w)) (clusterReconcileDelete E)"
proof -
  have "keeps (\<lambda>w. cg_endpoint L (ext w)) (update_cluster E)"
    using update_cluster_recorded[OF assms] unfolding steps_in_def same_def by (metis prod.collapse)
  then show ?thesis unfolding clusterReconcileDelete_def by (intro frames)
qed

lemma clusterReconcile_recorded:
  assumes "keeps_cluster_ledger E L" and "reads_current E L" and "has_endpoint (cg_endpoint L (ext w))"
  shows "cg_endpoint L (ext (snd (run_state (clusterReconcile E k) w))) = cg_endpoint L (ext w)"
proof -
  obtain r s where rs: "k_get_xocluster (kube E) k (ext w) = (r, s)" by fastforce
  have kept: "cg_endpoint L s = cg_endpoint L (ext w)" and key: "\<And>c. r = Inr c \<Longrightarrow> key_of c = k"
    using keeps_cluster_ledgerD(1)[OF assms(1)] rs unfolding read_cluster_ledger_def by blast+
  have sync: "in_sync L (w\<lparr>ext := s, obj := c\<rparr>)" if "r = Inr c" for c
    using assms(2) rs key[OF that] kept that by (auto simp: in_sync_def reads_current_def)
  have "wp (clusterReconcile E k) (\<lambda>r w'. cg_endpoint L (ext w') = cg_endpoint L (ext w)) w"
  proof (cases r)
    case (Inl err)
    with rs kept show ?thesis by (simp add: clusterReconcile_def)
  next
    case (Inr c)
    with rs kept normal_recorded[OF assms(1) sync[OF Inr]] assms(3)
      keeps_wp[OF delete_recorded[OF assms(1)], of "w\<lparr>ext := s, obj := c\<rparr>"]
    show ?thesis by (simp add: clusterReconcile_def)
  qed
  then show ?thesis by (simp add: wp_def split: prod.splits)
qed

section \<open>Any number of runs\<close>

text \<open>
  Runs for any cluster, and steps of others, who do not write this status.
\<close>

inductive cluster_runs :: "'s env \<Rightarrow> 's cluster_ledger \<Rightarrow> 's \<Rightarrow> 's \<Rightarrow> bool" for E L where
  start: "cluster_runs E L s s"
| run: "cluster_runs E L s s' \<Longrightarrow> ext w = s' \<Longrightarrow>
    cluster_runs E L s (ext (snd (run_state (clusterReconcile E k) w)))"
| other: "cluster_runs E L s s' \<Longrightarrow> cg_endpoint L s'' = cg_endpoint L s' \<Longrightarrow> cluster_runs E L s s''"

lemma cluster_runs_recorded:
  assumes "keeps_cluster_ledger E L" and "reads_current E L" and "has_endpoint (cg_endpoint L s)"
    and "cluster_runs E L s s'"
  shows "cg_endpoint L s' = cg_endpoint L s"
  using assms(4,3)
proof (induction rule: cluster_runs.induct)
  case (run s s' w k)
  then show ?case using clusterReconcile_recorded[OF assms(1,2)] by simp
qed simp_all

text \<open>
  C13: A recorded control plane endpoint is final as long as runs read the current object: whatever
  the services answer, whichever writes fail or are applied with an error as their answer, and
  whatever happens to the machines, no later run of the XOCluster controller changes it.
\<close>

theorem recorded_endpoint_is_final:
  assumes "keeps_cluster_ledger E L" and "reads_current E L" and "has_endpoint (cg_endpoint L s)"
    and "cluster_runs E L s s'"
  shows "cg_endpoint L s' = cg_endpoint L s"
  by (rule cluster_runs_recorded[OF assms])

text \<open>
  An API server that holds one XOCluster with an endpoint, while its machines offer another address.
\<close>

definition demo_key :: nn where
  "demo_key = \<lparr>nn_namespace = ''default'', nn_name = ''demo''\<rparr>"

definition demo_ledger :: "xocluster cluster_ledger" where
  "demo_ledger = \<lparr>cg_key = demo_key, cg_endpoint = status_endpoint\<rparr>"

definition merged_status :: "xocluster \<Rightarrow> xocluster \<Rightarrow> xocluster \<Rightarrow> xocluster" where
  "merged_status b c s = s\<lparr>xc_status := (xc_status c)\<lparr>cst_control_plane_endpoint :=
     (if status_endpoint b = status_endpoint c then status_endpoint s else status_endpoint c)\<rparr>\<rparr>"

definition keeping_env :: "xocluster env" where
  "keeping_env = ref_env\<lparr>kube := ref_kube\<lparr>
     k_get_xomachine := (\<lambda>n s. (Inr addressed_machine, s)),
     k_get_cluster := (\<lambda>n s. (Inr ref_cluster, s)),
     k_list_machines := (\<lambda>n l s. (Inr [up_machine], s)),
     k_get_xocluster := (\<lambda>k s. (if key_of s = k then Inr s else Inl (ApiStatus NotFound []), s)),
     k_update_xocluster := (\<lambda>c s. (Inr (c\<lparr>xc_status := xc_status s\<rparr>), s)),
     k_status_patch_xocluster := (\<lambda>b c s. if key_of c = demo_key
        then (Inr (merged_status b c s), merged_status b c s) else (Inl (ApiStatus NotFound []), s))\<rparr>\<rparr>"

definition settled_cluster :: xocluster where
  "settled_cluster = set_status_endpoint \<lparr>ep_host = ''10.0.0.9'', ep_port = 6443, ep_subnet = None\<rparr> up_cluster"

lemma keeping_env_ledger: "keeps_cluster_ledger keeping_env demo_ledger"
  by (auto simp: keeps_cluster_ledger_def read_cluster_ledger_def update_cluster_ledger_def
      patch_cluster_ledger_def quiet_cluster_calls_def keeping_env_def demo_ledger_def merged_status_def
      ref_kube_def ref_env_def split: if_splits)

theorem recorded_endpoint_is_final_witness:
  "status_endpoint (ext (snd (run_state (clusterReconcile keeping_env demo_key)
     (start_state ref_xocluster settled_cluster)))) = Some \<lparr>ep_host = ''10.0.0.9'', ep_port = 6443, ep_subnet = None\<rparr>"
proof -
  have "reads_current keeping_env demo_ledger"
    by (auto simp: reads_current_def keeping_env_def demo_ledger_def split: if_splits)
  moreover have "has_endpoint (cg_endpoint demo_ledger settled_cluster)"
    by (simp add: demo_ledger_def settled_cluster_def set_status_endpoint_def has_endpoint_def)
  moreover have "cluster_runs keeping_env demo_ledger settled_cluster (ext (snd (run_state
      (clusterReconcile keeping_env demo_key) (start_state ref_xocluster settled_cluster))))"
    by (rule cluster_runs.run[OF cluster_runs.start]) (simp add: start_state_def)
  ultimately show ?thesis
    using recorded_endpoint_is_final[OF keeping_env_ledger]
    by (fastforce simp: demo_ledger_def settled_cluster_def set_status_endpoint_def)
qed

section \<open>A read of an earlier version\<close>

definition host_of :: "api_endpoint option \<Rightarrow> string option" where
  "host_of ep = map_option ep_host ep"

text \<open>A merge patch sets the fields on which its object differs from its base.\<close>

definition patch_sets_host :: "'s env \<Rightarrow> 's cluster_ledger \<Rightarrow> bool" where
  "patch_sets_host E L \<longleftrightarrow>
     (\<forall>b c s r s'. k_status_patch_xocluster (kube E) b c s = (r, s') \<longrightarrow>
        host_of (status_endpoint b) \<noteq> host_of (status_endpoint c) \<longrightarrow>
        host_of (cg_endpoint L s') = host_of (status_endpoint c))"

lemma finishCluster_sets_host:
  assumes "quiet_cluster_calls E (cg_endpoint L)" and "patch_sets_host E L"
    and "host_of (status_endpoint b) \<noteq> host_of (status_endpoint (obj w))"
  shows "wp (finishCluster E b cl needs)
    (\<lambda>r w'. host_of (cg_endpoint L (ext w')) = host_of (status_endpoint (obj w))) w"
proof -
  have same: "status_endpoint (settleStatus n now (obj w)) = status_endpoint (obj w)" for n now
    using in_hand_settled[of n now "obj w"] by (simp add: in_hand_def)
  have patch: "host_of (cg_endpoint L s') = host_of (status_endpoint (obj w))"
    if "k_status_patch_xocluster (kube E) b (settleStatus n now (obj w)) s = (r, s')" for n now s r s'
    using assms(2,3) that same[of n now] unfolding patch_sets_host_def by fastforce
  have "wp (addonsStep E cl)
      (\<lambda>r w'. host_of (cg_endpoint L (ext w')) = host_of (status_endpoint (obj w))) v"
    if "host_of (cg_endpoint L (ext v)) = host_of (status_endpoint (obj w))" for v
    by (rule wp_keeps[OF addonsStep_quiet[OF assms(1)]]) (simp add: that)
  then show ?thesis
    by (auto simp: finishCluster_def status_patch_cluster_def split: sum.split dest: patch)
qed

lemma resolveEndpoint_discovers:
  assumes "api_answers E (ext w) look xc cl ms" and "obj w = xc"
    and "\<not> has_endpoint (status_endpoint xc)" "\<not> has_endpoint (cs_control_plane_endpoint (xc_spec xc))"
    and "discovered look (om_name (cl_meta cl)) ms = Some ep"
  shows "run_state (resolveEndpoint E cl) w = (Inr False, w\<lparr>obj := set_status_endpoint ep xc\<rparr>)"
proof -
  have "\<And>n. k_get_xomachine (kube E) n (ext w) = (look n, ext w)"
    and "k_list_machines (kube E) (om_namespace (cl_meta cl)) [MachineControlPlaneLabel \<mapsto> []] (ext w) = (Inr ms, ext w)"
    using assms(1) by (simp_all add: api_answers_def)
  from resolveEndpoint_found[OF this] assms show ?thesis by (simp add: Let_def)
qed

text \<open>
  C37: Nothing guards a recorded endpoint against a read of an earlier version of the object, as one
  from the manager's cache: when the object read shows no endpoint, the run discovers one anew, and
  its patch, which carries no version, replaces whatever the API server has recorded by the first
  Ready machine of this moment.
\<close>

theorem stale_read_moves_endpoint:
  assumes "api_answers E (ext w) look xc cl ms" and "cluster_is_owned E xc cl"
    and "\<not> has_endpoint (status_endpoint xc)" "\<not> has_endpoint (cs_control_plane_endpoint (xc_spec xc))"
    and "discovered look (om_name (cl_meta cl)) ms = Some ep" and "ep_host ep \<noteq> []"
    and "quiet_cluster_calls E (cg_endpoint L)" and "patch_sets_host E L"
  shows "host_of (cg_endpoint L (ext (snd (run_state (clusterReconcile E (xocluster_key cl)) w)))) = Some (ep_host ep)"
proof -
  let ?Q = "\<lambda>r w'. host_of (cg_endpoint L (ext w')) = Some (ep_host ep)"
  let ?w = "w\<lparr>obj := xc\<rparr>" and ?u = "w\<lparr>obj := set_status_endpoint ep xc\<rparr>"
  have "run_state (resolveEndpoint E cl) ?w = (Inr False, ?u)"
    using resolveEndpoint_discovers[of E ?w, OF _ _ assms(3-5)] assms(1) by simp
  moreover have "host_of (status_endpoint xc) \<noteq> host_of (status_endpoint (obj ?u))"
    using assms(3,6) by (auto simp: host_of_def has_endpoint_def set_status_endpoint_def split: option.splits)
  from finishCluster_sets_host[OF assms(7,8) this, of cl False]
  have "wp (finishCluster E xc cl False) ?Q ?u"
    by (simp add: host_of_def set_status_endpoint_def)
  ultimately have "wp (resolveEndpoint E cl) (\<lambda>e. wp (case e of Inl err \<Rightarrow> ret (Inl err)
      | Inr needs \<Rightarrow> finishCluster E xc cl needs) ?Q) ?w"
    by (simp add: wp_def[of "resolveEndpoint E cl"])
  from owned_run[OF assms(1,2) this] show ?thesis by (simp add: wp_def split: prod.splits)
qed

text \<open>
  An API server that answers reads with the version from before the endpoint was recorded.
\<close>

definition lagging_env :: "api_endpoint option env" where
  "lagging_env = ref_env\<lparr>kube := ref_kube\<lparr>
     k_get_xomachine := (\<lambda>n s. (Inr addressed_machine, s)),
     k_get_cluster := (\<lambda>n s. (Inr ref_cluster, s)),
     k_list_machines := (\<lambda>n l s. (Inr [up_machine], s)),
     k_get_xocluster := (\<lambda>k s. (Inr up_cluster, s)),
     k_status_patch_xocluster := (\<lambda>b c s.
        (Inr c, if host_of (status_endpoint b) = host_of (status_endpoint c) then s else status_endpoint c))\<rparr>\<rparr>"

definition lagging_ledger :: "api_endpoint option cluster_ledger" where
  "lagging_ledger = \<lparr>cg_key = demo_key, cg_endpoint = id\<rparr>"

theorem stale_read_moves_endpoint_witness:
  "host_of (ext (snd (run_state (clusterReconcile lagging_env (xocluster_key ref_cluster))
     (start_state ref_xocluster (Some \<lparr>ep_host = ''10.0.0.9'', ep_port = 6443, ep_subnet = None\<rparr>))))) = Some ''10.0.0.5''"
proof -
  let ?w = "start_state ref_xocluster (Some \<lparr>ep_host = ''10.0.0.9'', ep_port = 6443, ep_subnet = None\<rparr>)"
  have api: "api_answers lagging_env (ext ?w) (\<lambda>n. Inr addressed_machine) up_cluster ref_cluster [up_machine]"
    by (simp add: api_answers_def lagging_env_def ref_env_def ref_kube_def)
  have owned: "cluster_is_owned lagging_env up_cluster ref_cluster"
    by (simp add: cluster_is_owned_def up_cluster_def lagging_env_def ref_env_def ref_lib_def ref_cluster_def
        ref_meta_def ClusterNameLabel_def)
  have none: "\<not> has_endpoint (status_endpoint up_cluster)"
    "\<not> has_endpoint (cs_control_plane_endpoint (xc_spec up_cluster))"
    by (simp_all add: up_cluster_def waiting_cluster_def ref_xocluster_def has_endpoint_def)
  have found: "discovered (\<lambda>n. Inr addressed_machine) (om_name (cl_meta ref_cluster)) [up_machine] =
      Some \<lparr>ep_host = ''10.0.0.5'', ep_port = 6443, ep_subnet = None\<rparr>"
    by (simp add: discovered_Cons candidate_def up_machine_def ref_owner_machine_def KindXOMachine_def
        addressed_machine_def ref_cluster_def ref_meta_def)
  have quiet: "quiet_cluster_calls lagging_env (cg_endpoint lagging_ledger)"
    by (simp add: quiet_cluster_calls_def lagging_env_def ref_env_def ref_kube_def)
  have patch: "patch_sets_host lagging_env lagging_ledger"
    by (simp add: patch_sets_host_def lagging_env_def ref_env_def lagging_ledger_def)
  show ?thesis
    using stale_read_moves_endpoint[OF api owned none found _ quiet patch] by (simp add: lagging_ledger_def)
qed

end
