(* ===== verification/Cluster_Done.thy ===== *)
theory Cluster_Done
  imports Cluster_Progress
begin

text \<open>
  What it means that a run of the XOCluster controller is done: a run that ends without an error and
  does not ask to be repeated has declared the cluster Ready, in a status the API server accepted, and
  has settled every addon of the object the server then answered with.
\<close>

section \<open>Ends of a run\<close>

text \<open>\<open>since\<close> is the log at the start of the run, \<open>cn\<close> the name of the Cluster that is followed.\<close>

definition settled_if_done ::
  "event list \<Rightarrow> string \<Rightarrow> error + reconcile_result \<Rightarrow> (xocluster, 's) st \<Rightarrow> bool" where
  "settled_if_done since cn r w \<longleftrightarrow>
     (\<forall>res. r = Inr res \<longrightarrow> requeue_after res = 0 \<longrightarrow>
        (\<exists>pre c es. log w = since @ pre @ EvStatusPatchXOCluster c None # es \<and> settled_status c \<and>
           has_endpoint (cst_control_plane_endpoint (xc_status c)) \<and> addons_settled (obj w) cn es))"

lemma settled_if_done_repeats [simp]:
  "settled_if_done since cn (Inl err) w"
  "requeue_after res \<noteq> 0 \<Longrightarrow> settled_if_done since cn (Inr res) w"
  by (simp_all add: settled_if_done_def)

lemma addonsStep_done:
  "wp (addonsStep E cl) (\<lambda>r w'. \<exists>es. log w' = log w @ es \<and>
     (\<forall>res. r = Inr res \<longrightarrow> requeue_after res = 0 \<longrightarrow> addons_settled (obj w') (om_name (cl_meta cl)) es)) w"
  (is "wp _ ?Q w")
proof -
  have "wp (reconcileAddons E cl creds) (\<lambda>r. wp (case r of
      Some err \<Rightarrow> (if is_panic err then ret (Inl err) else ret (Inr \<lparr>requeue_after = 30000\<rparr>))
    | None \<Rightarrow> ret (Inr done_result)) ?Q) v" if "log v = log w" for creds v
    by (rule wp_mono[OF reconcileAddons_settled]) (use that in \<open>auto split: option.split\<close>)
  then have "wp (case creds of
      Inl err \<Rightarrow> do { now \<leftarrow> query (e_now E);
        modify_obj (setCondition now ''Ready'' ConditionFalse ''CredentialsResolutionFailed'' (error_text err));
        ret (Inl err) }
    | Inr xoCreds \<Rightarrow> do { r \<leftarrow> reconcileAddons E cl xoCreds;
        (case r of
           Some err \<Rightarrow> (if is_panic err then ret (Inl err) else ret (Inr \<lparr>requeue_after = 30000\<rparr>))
         | None \<Rightarrow> ret (Inr done_result)) }) ?Q v" if "log v = log w" for creds v
    using that by (cases creds) simp_all
  then show ?thesis
    unfolding addonsStep_def wp_simps(2,3) by (intro wp_quiet[OF ResolveXOConfig_keeps ResolveXOConfig_emits])
qed

lemma finishCluster_done:
  assumes "needs = (\<not> has_endpoint (cst_control_plane_endpoint (xc_status (obj w))))" and "log w = since @ pre"
  shows "wp (finishCluster E b cl needs) (settled_if_done since (om_name (cl_meta cl))) w"
proof -
  let ?c = "\<lambda>now. settleStatus needs now (obj w)"
  have ep: "cst_control_plane_endpoint (xc_status (?c now)) = cst_control_plane_endpoint (xc_status (obj w))" for now
    by (simp add: settleStatus_def setCondition_def mark_cluster_ready_def)
  have "wp (addonsStep E cl) (settled_if_done since (om_name (cl_meta cl))) v"
    if "log v = log w @ [EvStatusPatchXOCluster (?c now) None]" "\<not> needs" for v now
  proof (rule wp_mono[OF addonsStep_done], elim exE conjE)
    fix r :: "error + reconcile_result" and u :: "(xocluster, 'a) st" and es
    assume "log u = log v @ es" and "\<forall>res. r = Inr res \<longrightarrow> requeue_after res = 0 \<longrightarrow>
        addons_settled (obj u) (om_name (cl_meta cl)) es"
    with that assms ep settleStatus_settled[OF assms(1)] show "settled_if_done since (om_name (cl_meta cl)) r u"
      unfolding settled_if_done_def by (metis (no_types, lifting) append.assoc append_Cons append_Nil)
  qed
  then show ?thesis
    by (auto simp: finishCluster_def status_patch_cluster_def split: sum.split)
qed

section \<open>The Cluster that is followed\<close>

text \<open>A patch of the Cluster answers with the object of that name.\<close>

definition patch_keeps_name :: "'s env \<Rightarrow> bool" where
  "patch_keeps_name E \<longleftrightarrow>
     (\<forall>b c s c' s'. k_patch_cluster (kube E) b c s = (Inr c', s') \<longrightarrow> om_name (cl_meta c') = om_name (cl_meta c))"

lemma label_cluster_name [simp]: "om_name (cl_meta (label_cluster cl)) = om_name (cl_meta cl)"
  by (simp add: label_cluster_def)

lemma ensureClusterNameLabel_name:
  assumes "patch_keeps_name E"
  shows "wp (ensureClusterNameLabel E cl)
     (\<lambda>r w'. (\<exists>es. log w' = log w @ es) \<and> (\<forall>cl'. r = Inr cl' \<longrightarrow> om_name (cl_meta cl') = om_name (cl_meta cl))) w"
proof -
  have "om_name (cl_meta c') = om_name (cl_meta c)"
    if "k_patch_cluster (kube E) b (label_cluster c) s = (Inr c', s')" for b c s c' s'
    using assms that unfolding patch_keeps_name_def by fastforce
  then show ?thesis
    by (auto simp: ensureClusterNameLabel_def patch_cluster_def split: sum.split)
qed

lemma reconcileOwned_done:
  assumes "addresses_named E" and "patch_keeps_name E" and "log w = since @ pre"
  shows "wp (reconcileOwned E b cl) (settled_if_done since (om_name (cl_meta cl))) w" (is "wp _ ?Q w")
proof -
  have rest: "wp (do { e \<leftarrow> resolveEndpoint E cl';
      (case e of Inl err \<Rightarrow> ret (Inl err) | Inr needs \<Rightarrow> finishCluster E b cl' needs) }) ?Q v"
    if "log v = since @ pre'" "om_name (cl_meta cl') = om_name (cl_meta cl)" for cl' pre' and v :: "(xocluster, 'a) st"
    unfolding wp_simps(2)
    by (rule wp_mono[OF resolveEndpoint_outcome[OF assms(1)]])
       (use that finishCluster_done[of _ _ since pre' E b cl'] in \<open>auto split: sum.split\<close>)
  have "wp (case l of Inl err \<Rightarrow> ret (Inl err) | Inr cl' \<Rightarrow> do { e \<leftarrow> resolveEndpoint E cl';
      (case e of Inl err \<Rightarrow> ret (Inl err) | Inr needs \<Rightarrow> finishCluster E b cl' needs) }) ?Q v"
    if "\<exists>es. log v = log w @ es" "\<forall>cl'. l = Inr cl' \<longrightarrow> om_name (cl_meta cl') = om_name (cl_meta cl)" for l v
    using that rest assms(3) by (cases l) (auto simp del: wp_simps(2))
  then show ?thesis
    unfolding reconcileOwned_def wp_simps(2)[of "ensureClusterNameLabel E cl"]
    by (intro wp_mono[OF ensureClusterNameLabel_name[OF assms(2)]]) blast
qed

section \<open>Done means settled\<close>


text \<open>The cluster that comes up, with the addons it asks for by default.\<close>

lemma up_addons_done:
  "om_namespace (xc_meta (obj v)) = ''default'' \<Longrightarrow> cs_addons (xc_spec (obj v)) = cs_addons ref_cluster_spec \<Longrightarrow>
   cs_identity_ref (xc_spec (obj v)) = None \<Longrightarrow> fst (run_state (addonsStep up_env ref_cluster) v) = Inr done_result"
  by (simp add: addonsStep_def ResolveXOConfig_def up_env_def ref_env_def ref_kube_def ref_lib_def ref_cluster_spec_def
      reconcileAddons_def applyAddons_def fill_addons_def defaultAddons_def no_addons_def reconcileCCM_def
      reconcileCSI_def reconcileCNI_def ensureAddon_def removeAddon_def ignore_not_found_def cniNone_def
      cniCilium_def Let_def)

lemma up_patch: "patch_keeps_name up_env"
  by (simp add: patch_keeps_name_def up_env_def ref_env_def ref_kube_def)

lemma up_env_calls:
  "k_status_patch_xocluster (kube up_env) = (\<lambda>b c s. (Inr c, s))" "e_now up_env = (\<lambda>s. (100, s))"
  by (simp_all add: up_env_def ref_env_def ref_kube_def)

lemma up_endpoint:
  assumes "obj w = up_cluster"
  shows "run_state (resolveEndpoint up_env ref_cluster) w =
    (Inr False, w\<lparr>obj := set_status_endpoint \<lparr>ep_host = ''10.0.0.5'', ep_port = 6443, ep_subnet = None\<rparr> up_cluster\<rparr>)"
proof -
  have none: "\<not> has_endpoint (cst_control_plane_endpoint (xc_status up_cluster))"
    "\<not> has_endpoint (cs_control_plane_endpoint (xc_spec up_cluster))"
    by (simp_all add: up_cluster_def waiting_cluster_def ref_xocluster_def has_endpoint_def)
  have "\<And>n. k_get_xomachine (kube up_env) n (ext w) = (Inr addressed_machine, ext w)"
    "k_list_machines (kube up_env) (om_namespace (cl_meta ref_cluster)) [MachineControlPlaneLabel \<mapsto> []] (ext w) =
       (Inr [up_machine], ext w)"
    using up_facts(1) by (simp_all add: api_answers_def)
  from resolveEndpoint_found[OF this] show ?thesis
    using assms none by (simp add: discovered_Cons up_facts(4))
qed

lemma up_run:
  "wp (clusterReconcile up_env (xocluster_key ref_cluster))
     (\<lambda>r w'. r = Inr done_result \<and> (\<exists>c. EvStatusPatchXOCluster c None \<in> set (log w'))) (start_state ref_xocluster ())"
proof (rule owned_run[OF _ up_facts(2)])
  let ?Q = "\<lambda>r w'. r = Inr done_result \<and> (\<exists>c. EvStatusPatchXOCluster c None \<in> set (log w'))"
  have addons: "wp (addonsStep up_env ref_cluster) ?Q v"
    if "om_namespace (xc_meta (obj v)) = ''default''" "cs_addons (xc_spec (obj v)) = cs_addons ref_cluster_spec"
      "cs_identity_ref (xc_spec (obj v)) = None" "\<exists>c. EvStatusPatchXOCluster c None \<in> set (log v)" for v
  proof -
    have "wp (addonsStep up_env ref_cluster) (\<lambda>r w'. r = Inr done_result) v"
      using up_addons_done[OF that(1-3)] by (simp add: wp_def split_beta)
    moreover have "wp (addonsStep up_env ref_cluster) (\<lambda>r w'. \<exists>c. EvStatusPatchXOCluster c None \<in> set (log w')) v"
      by (rule wp_mono[OF addonsStep_log]) (use that(4) in auto)
    ultimately show ?thesis by (simp add: wp_conj)
  qed
  show "wp (resolveEndpoint up_env ref_cluster) (\<lambda>e. wp (case e of Inl err \<Rightarrow> ret (Inl err)
      | Inr needs \<Rightarrow> finishCluster up_env up_cluster ref_cluster needs) ?Q) (start_state ref_xocluster ()\<lparr>obj := up_cluster\<rparr>)"
    by (subst wp_def) (simp add: up_endpoint finishCluster_def status_patch_cluster_def up_env_calls addons
        set_status_endpoint_def settleStatus_def setCondition_def mark_cluster_ready_def up_cluster_def
        waiting_cluster_def ref_xocluster_def ref_meta_def ref_cluster_spec_def start_state_def)
qed (use up_facts(1) in \<open>simp add: start_state_def\<close>)


end
