(* ===== verification/Cilium_Diff.thy ===== *)
theory Cilium_Diff
  imports Go_Prelude
begin

text \<open>
  The line diff of the Cilium manifest generator (\<open>diff\<close> of \<open>hack/cilium-manifest/main.go\<close>): the
  table of longest common subsequences, and the two nested loops that read the hunks off it. The
  merge of the renders relies only on the contract stated here as the locale \<open>line_diff\<close>.
\<close>

section \<open>The table\<close>

text \<open>
  Row \<open>i\<close> of the table from row \<open>i + 1\<close>, right to left: the entry at \<open>j\<close> is one more than the entry
  at \<open>(i + 1, j + 1)\<close> when the lines agree, else the larger of those at \<open>(i + 1, j)\<close> and \<open>(i, j + 1)\<close>.
\<close>

fun lcs_row :: "'a \<Rightarrow> 'a list \<Rightarrow> nat list \<Rightarrow> nat list" where
  "lcs_row x [] below = [0]"
| "lcs_row x (y # ys) below =
     (let rest = lcs_row x ys (tl below)
      in (if x = y then hd (tl below) + 1 else max (hd below) (hd rest)) # rest)"

fun lcs_table :: "'a list \<Rightarrow> 'a list \<Rightarrow> nat list list" where
  "lcs_table [] b = [replicate (length b + 1) 0]"
| "lcs_table (x # xs) b = (let t = lcs_table xs b in lcs_row x b (hd t) # t)"

text \<open>The recursive definition the table implements.\<close>

fun lcs :: "'a list \<Rightarrow> 'a list \<Rightarrow> nat" where
  "lcs [] b = 0"
| "lcs a [] = 0"
| "lcs (x # xs) (y # ys) =
     (if x = y then lcs xs ys + 1 else max (lcs xs (y # ys)) (lcs (x # xs) ys))"

lemma lcs_Nil [simp]: "lcs a [] = 0"
  by (cases a) simp_all

lemma lcs_row_nth:
  assumes "below = map (\<lambda>j. lcs xs (drop j b)) [0..<Suc (length b)]"
  shows "lcs_row x b below = map (\<lambda>j. lcs (x # xs) (drop j b)) [0..<Suc (length b)]"
  using assms
proof (induction b arbitrary: below)
  case Nil
  then show ?case by simp
next
  case (Cons y ys)
  have up: "[0..<Suc (length (y # ys))] = 0 # map Suc [0..<Suc (length ys)]"
    by (metis length_Cons map_Suc_upt upt_conv_Cons zero_less_Suc)
  have "tl below = map (\<lambda>j. lcs xs (drop j ys)) [0..<Suc (length ys)]" "hd below = lcs xs (y # ys)"
    using Cons.prems unfolding up by (simp_all del: upt_Suc add: o_def)
  moreover have "hd (map (\<lambda>j. f (drop j ys)) [0..<Suc (length ys)]) = f ys" for f :: "'a list \<Rightarrow> nat"
    by (simp add: upt_rec del: upt_Suc)
  ultimately show ?case
    unfolding up using Cons.IH[of "tl below"]
    by (simp add: o_def Let_def del: upt_Suc)
qed

lemma lcs_table_rows:
  "lcs_table a b = map (\<lambda>i. map (\<lambda>j. lcs (drop i a) (drop j b)) [0..<Suc (length b)]) [0..<Suc (length a)]"
proof (induction a)
  case Nil
  show ?case by (simp add: map_replicate_const del: upt_Suc)
next
  case (Cons x xs)
  have up: "[0..<Suc (length (x # xs))] = 0 # map Suc [0..<Suc (length xs)]"
    by (metis length_Cons map_Suc_upt upt_conv_Cons zero_less_Suc)
  have hd: "hd (lcs_table xs b) = map (\<lambda>j. lcs xs (drop j b)) [0..<Suc (length b)]"
    unfolding Cons by (simp add: upt_rec del: upt_Suc)
  show ?case
    unfolding up using lcs_row_nth[OF hd, of x] Cons by (simp add: o_def Let_def del: upt_Suc)
qed

lemma lcs_table_nth:
  "i \<le> length a \<Longrightarrow> j \<le> length b \<Longrightarrow> lcs_table a b ! i ! j = lcs (drop i a) (drop j b)"
  by (simp add: lcs_table_rows nth_append del: upt_Suc)

text \<open>What the numbers mean: no common subsequence is longer, and one is that long.\<close>

lemma lcs_upper: "subseq s a \<Longrightarrow> subseq s b \<Longrightarrow> length s \<le> lcs a b"
proof (induction a b arbitrary: s rule: lcs.induct)
  case (3 x xs y ys)
  show ?case
  proof (cases s)
    case (Cons z zs)
    show ?thesis
    proof (cases "x = y")
      case True
      have "subseq (tl s) xs" "subseq (tl s) ys"
        using "3.prems" Cons True by (auto simp: subseq_Cons2_iff split: if_splits dest: subseq_Cons')
      with "3.IH"(1)[OF True] True Cons show ?thesis by fastforce
    next
      case False
      then have "subseq s xs \<or> subseq s ys"
        using "3.prems" Cons by (auto simp: subseq_Cons2_iff split: if_splits)
      then show ?thesis
      proof
        assume "subseq s xs"
        with "3.IH"(2)[OF False] "3.prems"(2) False show ?thesis by fastforce
      next
        assume "subseq s ys"
        with "3.IH"(3)[OF False] "3.prems"(1) False show ?thesis by fastforce
      qed
    qed
  qed simp
qed simp_all

lemma lcs_attained: "\<exists>s. subseq s a \<and> subseq s b \<and> length s = lcs a b"
proof (induction a b rule: lcs.induct)
  case (3 x xs y ys)
  show ?case
  proof (cases "x = y")
    case True
    then obtain s where "subseq s xs" "subseq s ys" "length s = lcs xs ys" using "3.IH"(1) by blast
    with True show ?thesis by (intro exI[of _ "x # s"]) simp
  next
    case False
    obtain s where "subseq s xs" "subseq s (y # ys)" "length s = lcs xs (y # ys)"
      using "3.IH"(2)[OF False] by blast
    moreover obtain t where "subseq t (x # xs)" "subseq t ys" "length t = lcs (x # xs) ys"
      using "3.IH"(3)[OF False] by blast
    ultimately show ?thesis
      using False by (cases "lcs xs (y # ys) \<le> lcs (x # xs) ys")
        (auto intro: exI[of _ t] exI[of _ s] simp: max_def)
  qed
qed auto

section \<open>The hunks\<close>

record hunk =
  h_i1 :: nat
  h_i2 :: nat
  h_cond :: string
  h_new :: "string list"

text \<open>
  The inner loop: past the lines that differ, along the table. The indices stay within the lists, so
  the code's \<open>i == len(a)\<close> is written \<open>length a \<le> i\<close>.
\<close>

function hunk_end :: "'a list \<Rightarrow> 'a list \<Rightarrow> nat list list \<Rightarrow> nat \<Rightarrow> nat \<Rightarrow> nat \<times> nat" where
  "hunk_end a b t i j =
     (if i < length a \<or> j < length b then
        (if i < length a \<and> j < length b \<and> a ! i = b ! j then (i, j)
         else if j < length b \<and> (length a \<le> i \<or> t ! i ! (j + 1) \<ge> t ! (i + 1) ! j)
         then hunk_end a b t i (j + 1)
         else hunk_end a b t (i + 1) j)
      else (i, j))"
  by pat_completeness auto
termination
  by (relation "measure (\<lambda>(a, b, t, i, j). (length a - i) + (length b - j))") auto

declare hunk_end.simps [simp del]

lemma hunk_end_step:
  assumes "i < length a \<or> j < length b" and "\<not> (i < length a \<and> j < length b \<and> a ! i = b ! j)"
  shows "hunk_end a b t i j =
    (if j < length b \<and> (length a \<le> i \<or> t ! i ! (j + 1) \<ge> t ! (i + 1) ! j)
     then hunk_end a b t i (j + 1) else hunk_end a b t (i + 1) j)"
  using assms by (subst hunk_end.simps) auto

lemma hunk_end_ge: "hunk_end a b t i j = (i', j') \<Longrightarrow> i \<le> i' \<and> j \<le> j'"
proof (induction a b t i j rule: hunk_end.induct)
  case (1 a b t i j)
  then show ?case by (subst (asm) hunk_end.simps) (auto split: if_splits)
qed

lemma hunk_end_le:
  "hunk_end a b t i j = (i', j') \<Longrightarrow> i \<le> length a \<Longrightarrow> j \<le> length b \<Longrightarrow> i' \<le> length a \<and> j' \<le> length b"
proof (induction a b t i j rule: hunk_end.induct)
  case (1 a b t i j)
  then show ?case by (subst (asm) hunk_end.simps) (auto split: if_splits)
qed

lemma hunk_end_not_more:
  "hunk_end a b t i j = (i', j') \<Longrightarrow>
   (length a - i') + (length b - j') \<le> (length a - i) + (length b - j)"
  using hunk_end_ge[of a b t i j i' j'] by (intro add_mono diff_le_mono2) auto

lemma hunk_end_less:
  assumes "i < length a \<or> j < length b" and "\<not> (i < length a \<and> j < length b \<and> a ! i = b ! j)"
    and "hunk_end a b t i j = (i', j')"
  shows "(length a - i') + (length b - j') < (length a - i) + (length b - j)"
proof (cases "j < length b \<and> (length a \<le> i \<or> t ! i ! (j + 1) \<ge> t ! (i + 1) ! j)")
  case True
  with assms have "hunk_end a b t i (j + 1) = (i', j')" by (simp add: hunk_end_step)
  from hunk_end_not_more[OF this] True show ?thesis by linarith
next
  case False
  with assms have "hunk_end a b t (i + 1) j = (i', j')" by (auto simp: hunk_end_step split: if_splits)
  from hunk_end_not_more[OF this] False assms(1) show ?thesis by linarith
qed

text \<open>A hunk ends where the lines agree again, or at the end of both lists.\<close>

lemma hunk_end_stop:
  "hunk_end a b t i j = (i', j') \<Longrightarrow>
   \<not> (i' < length a \<or> j' < length b) \<or> (i' < length a \<and> j' < length b \<and> a ! i' = b ! j')"
proof (induction a b t i j rule: hunk_end.induct)
  case (1 a b t i j)
  then show ?case by (subst (asm) hunk_end.simps) (auto split: if_splits)
qed

text \<open>The outer loop.\<close>

function diff_from :: "string list \<Rightarrow> string list \<Rightarrow> nat list list \<Rightarrow> nat \<Rightarrow> nat \<Rightarrow> hunk list" where
  "diff_from a b t i j =
     (if i < length a \<or> j < length b then
        (if i < length a \<and> j < length b \<and> a ! i = b ! j then diff_from a b t (i + 1) (j + 1)
         else (let e = hunk_end a b t i j
               in \<lparr>h_i1 = i, h_i2 = fst e, h_cond = [], h_new = drop j (take (snd e) b)\<rparr> #
                  diff_from a b t (fst e) (snd e)))
      else [])"
  by pat_completeness auto
termination
proof (relation "measure (\<lambda>(a, b, t, i, j). (length a - i) + (length b - j))", goal_cases)
  case (3 a b t i j e)
  obtain i' j' where "hunk_end a b t i j = (i', j')" by fastforce
  with 3 hunk_end_less[of i a j b t i' j'] show ?case by simp
qed auto

declare diff_from.simps [simp del]

definition diff :: "string list \<Rightarrow> string list \<Rightarrow> hunk list" where
  "diff a b = diff_from a b (lcs_table a b) 0 0"

section \<open>The contract\<close>

text \<open>
  Applying hunks to \<open>base\<close> from line \<open>n\<close> on: the hunks whose condition holds replace their lines, the
  others leave them.
\<close>

fun apply_hunks :: "(string \<Rightarrow> bool) \<Rightarrow> string list \<Rightarrow> nat \<Rightarrow> hunk list \<Rightarrow> string list" where
  "apply_hunks on base n [] = drop n base"
| "apply_hunks on base n (h # hs) =
     drop n (take (h_i1 h) base) @
     (if on (h_cond h) then h_new h else drop (h_i1 h) (take (h_i2 h) base)) @
     apply_hunks on base (h_i2 h) hs"

text \<open>In order, within the list, and with at least one line between two hunks.\<close>

fun hunks_ok :: "nat \<Rightarrow> nat \<Rightarrow> hunk list \<Rightarrow> bool" where
  "hunks_ok len n [] = True"
| "hunks_ok len n (h # hs) =
     (n \<le> h_i1 h \<and> h_i1 h \<le> h_i2 h \<and> h_i2 h \<le> len \<and> hunks_ok len (Suc (h_i2 h)) hs)"

abbreviation every :: "string \<Rightarrow> bool" where
  "every \<equiv> \<lambda>_. True"

lemma hunks_ok_mono: "hunks_ok len n hs \<Longrightarrow> m \<le> n \<Longrightarrow> hunks_ok len m hs"
  by (cases hs) auto

lemma hunks_ok_ge: "hunks_ok len n hs \<Longrightarrow> h \<in> set hs \<Longrightarrow> n \<le> h_i1 h \<and> h_i1 h \<le> h_i2 h \<and> h_i2 h \<le> len"
  by (induction hs arbitrary: n) force+

lemma hunks_ok_sorted: "hunks_ok len n hs \<Longrightarrow> sorted (map h_i1 hs)"
proof (induction hs arbitrary: n)
  case (Cons h hs)
  then show ?case using hunks_ok_ge[of len "Suc (h_i2 h)" hs] by fastforce
qed simp

lemma drop_take_append:
  "n \<le> m \<Longrightarrow> m \<le> k \<Longrightarrow> drop n (take m xs) @ drop m (take k xs) = drop n (take k xs)"
proof -
  assume "n \<le> m" "m \<le> k"
  then have "take m xs @ drop m (take k xs) = take k xs"
    by (metis append_take_drop_id min.absorb1 take_take)
  then show ?thesis
    using \<open>n \<le> m\<close>
    by (metis drop_append drop_drop drop_eq_Nil2 length_take min.cobounded2 append_Nil2 append.right_neutral
        diff_is_0_eq' drop0 min_def order_trans le_cases append_self_conv drop_all)
qed

text \<open>A line diff: what the merge needs of one, and what follows from it.\<close>

locale line_diff =
  fixes df :: "string list \<Rightarrow> string list \<Rightarrow> hunk list"
  assumes df_ok: "hunks_ok (length a) 0 (df a b)"
    and df_apply: "apply_hunks every a 0 (df a b) = b"
    and df_new: "h \<in> set (df a b) \<Longrightarrow> set (h_new h) \<subseteq> set b"
begin

lemma df_sorted: "sorted (map h_i1 (df a b))"
  using df_ok by (rule hunks_ok_sorted)

lemma df_bounds: "h \<in> set (df a b) \<Longrightarrow> h_i1 h \<le> h_i2 h \<and> h_i2 h \<le> length a"
  using hunks_ok_ge[OF df_ok] by blast

lemma df_self_or_hunk: "df a b = [] \<Longrightarrow> a = b"
  using df_apply[of a b] by simp

end

text \<open>The diff of the code is one.\<close>

definition agree :: "'a list \<Rightarrow> 'a list \<Rightarrow> nat \<Rightarrow> nat \<Rightarrow> bool" where
  "agree a b i j \<longleftrightarrow> i < length a \<and> j < length b \<and> a ! i = b ! j"

lemma diff_from_cases:
  "agree a b i j \<Longrightarrow> diff_from a b t i j = diff_from a b t (Suc i) (Suc j)"
  "length a \<le> i \<Longrightarrow> length b \<le> j \<Longrightarrow> diff_from a b t i j = []"
  "i < length a \<or> j < length b \<Longrightarrow> \<not> agree a b i j \<Longrightarrow> hunk_end a b t i j = (i', j') \<Longrightarrow>
     diff_from a b t i j =
       \<lparr>h_i1 = i, h_i2 = i', h_cond = [], h_new = drop j (take j' b)\<rparr> # diff_from a b t i' j'"
  by (subst diff_from.simps; auto simp: agree_def)+

text \<open>One induction for all: the three ways the outer loop goes on.\<close>

lemma diff_from_induct [consumes 2, case_names stop agree hunk]:
  assumes "i \<le> length a" and "j \<le> length b"
    and "P (length a) (length b)"
    and "\<And>i j. agree a b i j \<Longrightarrow> P (Suc i) (Suc j) \<Longrightarrow> P i j"
    and "\<And>i j i' j'. i < length a \<or> j < length b \<Longrightarrow> \<not> agree a b i j \<Longrightarrow> i \<le> length a \<Longrightarrow> j \<le> length b \<Longrightarrow>
      hunk_end a b t i j = (i', j') \<Longrightarrow> i \<le> i' \<Longrightarrow> j \<le> j' \<Longrightarrow> i' \<le> length a \<Longrightarrow> j' \<le> length b \<Longrightarrow>
      agree a b i' j' \<or> (i' = length a \<and> j' = length b) \<Longrightarrow> P i' j' \<Longrightarrow> P i j"
  shows "P i j"
  using assms(1,2)
proof (induction "(length a - i) + (length b - j)" arbitrary: i j rule: less_induct)
  case less
  show ?case
  proof (cases "agree a b i j")
    case True
    then have "P (Suc i) (Suc j)" by (intro less.hyps) (auto simp: agree_def)
    with True assms(4) show ?thesis by blast
  next
    case differ: False
    show ?thesis
    proof (cases "i < length a \<or> j < length b")
      case True
      obtain i' j' where e: "hunk_end a b t i j = (i', j')" by fastforce
      note le = hunk_end_le[OF e less.prems] and ge = hunk_end_ge[OF e]
      have "agree a b i' j' \<or> (i' = length a \<and> j' = length b)"
        using hunk_end_stop[OF e] le unfolding agree_def by linarith
      moreover have "P i' j'"
        using hunk_end_less[OF True _ e] differ le by (intro less.hyps) (auto simp: agree_def)
      ultimately show ?thesis using assms(5) True differ less.prems e ge le by blast
    next
      case False
      with less.prems assms(3) show ?thesis by simp
    qed
  qed
qed

lemma diff_from_ok:
  assumes "i \<le> length a" and "j \<le> length b"
  shows "hunks_ok (length a) (if agree a b i j then Suc i else i) (diff_from a b t i j)"
  using assms
proof (induction rule: diff_from_induct[where t = t])
  case stop
  then show ?case by (simp add: diff_from_cases)
next
  case (agree i j)
  then show ?case
    by (auto simp: diff_from_cases intro: hunks_ok_mono split: if_splits)
next
  case (hunk i j i' j')
  then show ?case
    by (auto simp: diff_from_cases(2) diff_from_cases(3)[OF hunk(1,2,5)] split: if_splits)
qed

lemma apply_hunks_next:
  assumes "hunks_ok len (Suc n) hs" and "n < length base"
  shows "apply_hunks on base n hs = base ! n # apply_hunks on base (Suc n) hs"
proof (cases hs)
  case Nil
  with assms(2) show ?thesis by (simp add: Cons_nth_drop_Suc)
next
  case (Cons h hs')
  with assms have "n < length (take (h_i1 h) base)" "Suc n \<le> h_i1 h" by auto
  then show ?thesis
    using Cons Cons_nth_drop_Suc[of n "take (h_i1 h) base"] by simp
qed

lemma diff_from_apply:
  assumes "i \<le> length a" and "j \<le> length b"
  shows "apply_hunks every a i (diff_from a b t i j) = drop j b"
  using assms
proof (induction rule: diff_from_induct[where t = t])
  case stop
  then show ?case by (simp add: diff_from_cases)
next
  case (agree i j)
  then have "i < length a" "j < length b" "a ! i = b ! j" by (simp_all add: agree_def)
  moreover have "hunks_ok (length a) (Suc i) (diff_from a b t (Suc i) (Suc j))"
    using diff_from_ok[of "Suc i" a "Suc j" b t] calculation hunks_ok_mono by (auto split: if_splits)
  ultimately show ?case
    using agree by (simp add: diff_from_cases apply_hunks_next Cons_nth_drop_Suc)
next
  case (hunk i j i' j')
  have "drop j (take j' b) @ drop j' b = drop j b"
    using drop_take_append[of j j' "length b" b] hunk by simp
  with hunk show ?case by (simp add: diff_from_cases(3)[OF hunk(1,2,5)])
qed

lemma diff_from_new:
  assumes "i \<le> length a" and "j \<le> length b"
  shows "\<forall>h \<in> set (diff_from a b t i j). set (h_new h) \<subseteq> set b \<and> h_cond h = []"
  using assms
proof (induction rule: diff_from_induct[where t = t])
  case stop
  then show ?case by (simp add: diff_from_cases)
next
  case (agree i j)
  then show ?case by (simp add: diff_from_cases)
next
  case (hunk i j i' j')
  then show ?case
    by (auto simp: diff_from_cases(3)[OF hunk(1,2,5)] dest: in_set_dropD in_set_takeD)
qed

interpretation text_diff: line_diff diff
proof
  show "hunks_ok (length a) 0 (diff a b)" for a b
    using diff_from_ok[of 0 a 0 b "lcs_table a b"] hunks_ok_mono by (auto simp: diff_def split: if_splits)
  show "apply_hunks every a 0 (diff a b) = b" for a b
    using diff_from_apply[of 0 a 0 b] by (simp add: diff_def)
  show "set (h_new h) \<subseteq> set b" if "h \<in> set (diff a b)" for a b h
    using diff_from_new[of 0 a 0 b] that by (simp add: diff_def)
qed

section \<open>The diff is minimal\<close>

lemma lcs_agree:
  "agree a b i j \<Longrightarrow> lcs (drop i a) (drop j b) = Suc (lcs (drop (Suc i) a) (drop (Suc j) b))"
  by (auto simp: agree_def simp flip: Cons_nth_drop_Suc)

lemma lcs_differ:
  assumes "\<not> agree a b i j" and "i < length a" and "j < length b"
  shows "lcs (drop i a) (drop j b) = max (lcs (drop (Suc i) a) (drop j b)) (lcs (drop i a) (drop (Suc j) b))"
  using assms by (auto simp: agree_def simp flip: Cons_nth_drop_Suc)

text \<open>The inner loop steps over no line of a longest common subsequence.\<close>

lemma hunk_end_lcs:
  "hunk_end a b (lcs_table a b) i j = (i', j') \<Longrightarrow> i \<le> length a \<Longrightarrow> j \<le> length b \<Longrightarrow>
   lcs (drop i' a) (drop j' b) = lcs (drop i a) (drop j b)"
proof (induction "(length a - i) + (length b - j)" arbitrary: i j rule: less_induct)
  case less
  let ?t = "lcs_table a b"
  show ?case
  proof (cases "(i < length a \<or> j < length b) \<and> \<not> agree a b i j")
    case False
    with less.prems(1) show ?thesis by (subst (asm) hunk_end.simps) (auto simp: agree_def split: if_splits)
  next
    case True
    then have go: "i < length a \<or> j < length b" "\<not> (i < length a \<and> j < length b \<and> a ! i = b ! j)"
      by (auto simp: agree_def)
    show ?thesis
    proof (cases "j < length b \<and> (length a \<le> i \<or> ?t ! i ! (j + 1) \<ge> ?t ! (i + 1) ! j)")
      case right: True
      then have "lcs (drop i' a) (drop j' b) = lcs (drop i a) (drop (Suc j) b)"
        using less.prems hunk_end_step[OF go] by (intro less.hyps) auto
      also have "\<dots> = lcs (drop i a) (drop j b)"
      proof (cases "i < length a")
        case True
        with right less.prems lcs_differ[of a b i j]
          lcs_table_nth[of i a "Suc j" b] lcs_table_nth[of "Suc i" a j b] \<open>_ \<and> \<not> agree a b i j\<close> show ?thesis
          by simp
      qed simp
      finally show ?thesis .
    next
      case down: False
      with go less.prems have i: "i < length a" by linarith
      have "lcs (drop i' a) (drop j' b) = lcs (drop (Suc i) a) (drop j b)"
        using less.prems hunk_end_step[OF go] down i by (intro less.hyps) auto
      also have "\<dots> = lcs (drop i a) (drop j b)"
      proof (cases "j < length b")
        case True
        with down i less.prems lcs_differ[of a b i j]
          lcs_table_nth[of i a "Suc j" b] lcs_table_nth[of "Suc i" a j b] \<open>_ \<and> \<not> agree a b i j\<close> show ?thesis
          by simp
      qed (use less.prems in simp)
      finally show ?thesis .
    qed
  qed
qed

definition removed_lines :: "hunk list \<Rightarrow> nat" where
  "removed_lines hs = sum_list (map (\<lambda>h. h_i2 h - h_i1 h) hs)"

definition added_lines :: "hunk list \<Rightarrow> nat" where
  "added_lines hs = sum_list (map (\<lambda>h. length (h_new h)) hs)"

lemma counts_Cons:
  "removed_lines (h # hs) = h_i2 h - h_i1 h + removed_lines hs"
  "added_lines (h # hs) = length (h_new h) + added_lines hs"
  by (simp_all add: removed_lines_def added_lines_def)

lemma diff_from_counts:
  assumes "i \<le> length a" and "j \<le> length b"
  shows "removed_lines (diff_from a b (lcs_table a b) i j) + lcs (drop i a) (drop j b) + i = length a \<and>
    added_lines (diff_from a b (lcs_table a b) i j) + lcs (drop i a) (drop j b) + j = length b"
  using assms
proof (induction rule: diff_from_induct[where t = "lcs_table a b"])
  case stop
  then show ?case by (simp add: diff_from_cases removed_lines_def added_lines_def)
next
  case (agree i j)
  then show ?case by (auto simp: diff_from_cases lcs_agree agree_def)
next
  case (hunk i j i' j')
  have "length (drop j (take j' b)) = j' - j" using hunk by simp
  with hunk_end_lcs[OF hunk(5) hunk(3,4)] hunk(6-11) show ?case
    unfolding diff_from_cases(3)[OF hunk(1,2,5)] counts_Cons by simp
qed

lemma lcs_Max: "Max {length s | s. subseq s a \<and> subseq s b} = lcs a b"
proof (rule Max_eqI)
  have "{length s | s. subseq s a \<and> subseq s b} \<subseteq> {..lcs a b}" using lcs_upper by auto
  then show "finite {length s | s. subseq s a \<and> subseq s b}" by (rule finite_subset) simp
  show "lcs a b \<in> {length s | s. subseq s a \<and> subseq s b}" by (metis (mono_tags, lifting) lcs_attained mem_Collect_eq)
qed (use lcs_upper in auto)

text \<open>
  C26: The diff is minimal: the lines it keeps are as many as any common subsequence of the two texts
  can have, so no hunk removes or adds a line without need.
\<close>

theorem diff_minimal:
  "removed_lines (diff a b) + Max {length s | s. subseq s a \<and> subseq s b} = length a \<and>
   added_lines (diff a b) + Max {length s | s. subseq s a \<and> subseq s b} = length b"
  using diff_from_counts[of 0 a 0 b] by (simp add: diff_def lcs_Max)

end
