(* ===== verification/Cilium_Template.thy ===== *)
theory Cilium_Template
  imports Go_Prelude
begin

text \<open>
  The part of Go's \<open>text/template\<close> that the generated Cilium manifest uses: text, \<open>if\<close> with \<open>not\<close>,
  \<open>else\<close> and \<open>end\<close>, fields, \<open>printf "%q"\<close>, quoted strings, comments and trim markers. Anything else
  is \<open>None\<close>: no statement is made about it. And \<open>escape\<close> of the generator, which makes text literal.
\<close>

abbreviation newline :: char where
  "newline \<equiv> CHR 0x0A"

abbreviation dquote :: char where
  "dquote \<equiv> CHR 0x22"

section \<open>Lexing\<close>

datatype token = TText char | TAct string | TTrim

text \<open>
  From after the left delimiter: the text of an action, and what follows its right delimiter. A
  delimiter inside a quoted string does not count.
\<close>

fun read_action :: "bool \<Rightarrow> string \<Rightarrow> (string \<times> string) option" where
  "read_action quoted [] = None"
| "read_action quoted (c # cs) =
     (if quoted then
        (if c = CHR 0x5C then
           (case cs of [] \<Rightarrow> None
            | d # ds \<Rightarrow> map_option (\<lambda>(b, r). (c # d # b, r)) (read_action True ds))
         else map_option (\<lambda>(b, r). (c # b, r)) (read_action (c \<noteq> dquote) cs))
      else if c = CHR ''}'' \<and> prefix ''}'' cs then Some ([], tl cs)
      else map_option (\<lambda>(b, r). (c # b, r)) (read_action (c = dquote) cs))"

lemma read_action_shorter: "read_action q s = Some (b, r) \<Longrightarrow> length r < length s"
proof (induction q s arbitrary: b rule: read_action.induct)
  case (2 quoted c cs)
  then show ?case
    by (cases cs) (auto split: if_splits list.splits, (fastforce intro: less_SucI)+)
qed simp

definition is_space :: "char \<Rightarrow> bool" where
  "is_space c \<longleftrightarrow> c \<in> {CHR '' '', CHR 0x09, CHR 0x0A, CHR 0x0D}"

text \<open>A trim marker: a dash with white space on the side of the action.\<close>

definition left_marker :: "string \<Rightarrow> bool" where
  "left_marker s \<longleftrightarrow> 2 \<le> length s \<and> s ! 0 = CHR ''-'' \<and> is_space (s ! 1)"

definition right_marker :: "string \<Rightarrow> bool" where
  "right_marker b \<longleftrightarrow> 2 \<le> length b \<and> last b = CHR ''-'' \<and> is_space (last (butlast b))"

text \<open>What follows the body of a comment: the right delimiter, with or without a trim marker.\<close>

definition after_comment :: "string \<Rightarrow> string option" where
  "after_comment r =
     (if right_marker (take 2 r) \<and> prefix ''}}'' (drop 2 r) then Some (dropWhile is_space (drop 4 r))
      else if prefix ''}}'' r then Some (drop 2 r) else None)"

definition read_comment :: "string \<Rightarrow> string option" where
  "read_comment s = (case cut_str s ''*/'' of None \<Rightarrow> None | Some (body, r) \<Rightarrow> after_comment r)"

text \<open>An action with its right trim marker, if it has one.\<close>

definition right_trim :: "string \<Rightarrow> string \<Rightarrow> string \<times> string" where
  "right_trim b r =
     (if right_marker b then (take (length b - 2) b, dropWhile is_space r) else (b, r))"

lemma dropWhile_shorter: "length (dropWhile P xs) \<le> length xs"
  by (induction xs) auto

lemma read_comment_shorter: "read_comment s = Some r \<Longrightarrow> length r < length s"
proof -
  assume a: "read_comment s = Some r"
  then obtain body r' where c: "cut_str s ''*/'' = Some (body, r')" and r: "after_comment r' = Some r"
    by (auto simp: read_comment_def split: option.splits)
  from cut_str_Some[OF c] have "length r' < length s" by simp
  moreover have "length r \<le> length r'"
    using r dropWhile_shorter[of is_space "drop 4 r'"] by (auto simp: after_comment_def split: if_splits)
  ultimately show ?thesis by linarith
qed

lemma right_trim_shorter: "right_trim b r = (b', r') \<Longrightarrow> length r' \<le> length r"
  using dropWhile_shorter[of is_space r] by (auto simp: right_trim_def split: if_splits)

text \<open>After the left delimiter and its trim marker.\<close>

definition trim_tokens :: "string \<Rightarrow> token list" where
  "trim_tokens s = (if left_marker s then [TTrim] else [])"

definition trim_rest :: "string \<Rightarrow> string" where
  "trim_rest s = (if left_marker s then drop 2 s else s)"

lemma trim_rest_shorter: "length (trim_rest s) \<le> length s"
  by (simp add: trim_rest_def)

function lex_tokens :: "string \<Rightarrow> token list option" where
  "lex_tokens s =
     (case s of
        [] \<Rightarrow> Some []
      | c # cs \<Rightarrow>
          (if prefix ''{{'' s then
             (let r = trim_rest (tl cs)
              in if prefix ''/*'' r then
                   (case read_comment (drop 2 r) of
                      None \<Rightarrow> None
                    | Some r' \<Rightarrow> map_option (\<lambda>ts. trim_tokens (tl cs) @ ts) (lex_tokens r'))
                 else
                   (case read_action False r of
                      None \<Rightarrow> None
                    | Some (b, r') \<Rightarrow>
                        map_option (\<lambda>ts. trim_tokens (tl cs) @ TAct (fst (right_trim b r')) # ts)
                          (lex_tokens (snd (right_trim b r')))))
           else map_option ((#) (TText c)) (lex_tokens cs)))"
  by pat_completeness auto
termination
proof (relation "measure length", goal_cases)
  case (2 s c cs r r')
  then show ?case
    using read_comment_shorter[of "drop 2 r" r'] trim_rest_shorter[of "tl cs"] by simp
next
  case (3 s c cs r p b r')
  then show ?case
    using read_action_shorter[of False r b r'] trim_rest_shorter[of "tl cs"]
      right_trim_shorter[of b r' "fst (right_trim b r')" "snd (right_trim b r')"] by simp
qed auto

declare lex_tokens.simps [simp del]

text \<open>A left trim marker removes the white space before it.\<close>

fun blank :: "token \<Rightarrow> bool" where
  "blank (TText c) = is_space c"
| "blank _ = False"

fun squeeze :: "token list \<Rightarrow> token list" where
  "squeeze [] = []"
| "squeeze (t # ts) =
     (let rest = squeeze ts
      in if blank t \<and> rest \<noteq> [] \<and> hd rest = TTrim then rest else t # rest)"

section \<open>Executing\<close>

datatype action =
  ActIf bool string | ActElse | ActEnd | ActText string | ActField string | ActQuoted string | ActBad

text \<open>The words of an action.\<close>

fun words :: "string \<Rightarrow> string \<Rightarrow> string list" where
  "words acc [] = (if acc = [] then [] else [acc])"
| "words acc (c # cs) =
     (if is_space c then (if acc = [] then words [] cs else acc # words [] cs)
      else words (acc @ [c]) cs)"

text \<open>A quoted string without escapes.\<close>

definition unquote :: "string \<Rightarrow> string option" where
  "unquote s =
     (if 2 \<le> length s \<and> hd s = dquote \<and> last s = dquote \<and>
         list_all (\<lambda>c. c \<noteq> dquote \<and> c \<noteq> CHR 0x5C) (butlast (tl s))
      then Some (butlast (tl s)) else None)"

definition action_of :: "string \<Rightarrow> action" where
  "action_of b =
     (case unquote b of
        Some t \<Rightarrow> ActText t
      | None \<Rightarrow>
          (let ws = words [] b
           in if ws = [''else''] then ActElse
              else if ws = [''end''] then ActEnd
              else if length ws = 2 \<and> ws ! 0 = ''if'' then ActIf False (ws ! 1)
              else if length ws = 3 \<and> ws ! 0 = ''if'' \<and> ws ! 1 = ''not'' then ActIf True (ws ! 2)
              else if length ws = 3 \<and> ws ! 0 = ''printf'' \<and> ws ! 1 = [dquote, CHR ''%'', CHR ''q'', dquote]
              then ActQuoted (ws ! 2)
              else if length ws = 1 \<and> prefix ''.'' (ws ! 0) then ActField (ws ! 0)
              else ActBad))"

text \<open>
  The data of an execution: the truth of a field, and its text. The stack holds, for each open
  \<open>if\<close>, whether its \<open>else\<close> was reached and whether its condition held.
\<close>

type_synonym fields = "string \<Rightarrow> (bool \<times> string) option"

definition active :: "(bool \<times> bool) list \<Rightarrow> bool" where
  "active st \<longleftrightarrow> list_all (\<lambda>(reached, held). reached \<noteq> held) st"

fun exec :: "fields \<Rightarrow> (bool \<times> bool) list \<Rightarrow> token list \<Rightarrow> string option" where
  "exec fs st [] = (if st = [] then Some [] else None)"
| "exec fs st (TText c # ts) = map_option (\<lambda>r. if active st then c # r else r) (exec fs st ts)"
| "exec fs st (TTrim # ts) = exec fs st ts"
| "exec fs st (TAct b # ts) =
     (case action_of b of
        ActIf neg f \<Rightarrow>
          (if active st then
             (case fs f of None \<Rightarrow> None | Some (v, t) \<Rightarrow> exec fs ((False, v \<noteq> neg) # st) ts)
           else exec fs ((False, False) # st) ts)
      | ActElse \<Rightarrow>
          (case st of (False, v) # st' \<Rightarrow> exec fs ((True, v) # st') ts | _ \<Rightarrow> None)
      | ActEnd \<Rightarrow> (case st of _ # st' \<Rightarrow> exec fs st' ts | [] \<Rightarrow> None)
      | ActText t \<Rightarrow> map_option (\<lambda>r. if active st then t @ r else r) (exec fs st ts)
      | ActField f \<Rightarrow>
          (case fs f of
             None \<Rightarrow> None
           | Some (v, t) \<Rightarrow> map_option (\<lambda>r. if active st then t @ r else r) (exec fs st ts))
      | ActQuoted f \<Rightarrow>
          (case fs f of
             None \<Rightarrow> None
           | Some (v, t) \<Rightarrow> map_option (\<lambda>r. if active st then go_quote t @ r else r) (exec fs st ts))
      | ActBad \<Rightarrow> None)"

definition render_template :: "fields \<Rightarrow> string \<Rightarrow> string option" where
  "render_template fs s = (case lex_tokens s of None \<Rightarrow> None | Some ts \<Rightarrow> exec fs [] (squeeze ts))"

text \<open>
  \<open>Parse\<close> already rejects a block left open, a second \<open>else\<close> and an \<open>end\<close> of nothing: what is left
  for \<open>Execute\<close> to reject are unknown fields.
\<close>

fun well_nested :: "bool list \<Rightarrow> token list \<Rightarrow> bool" where
  "well_nested st [] \<longleftrightarrow> st = []"
| "well_nested st (TText c # ts) = well_nested st ts"
| "well_nested st (TTrim # ts) = well_nested st ts"
| "well_nested st (TAct b # ts) =
     (case action_of b of
        ActIf neg f \<Rightarrow> well_nested (False # st) ts
      | ActElse \<Rightarrow> (case st of False # st' \<Rightarrow> well_nested (True # st') ts | _ \<Rightarrow> False)
      | ActEnd \<Rightarrow> (case st of _ # st' \<Rightarrow> well_nested st' ts | [] \<Rightarrow> False)
      | ActBad \<Rightarrow> False
      | _ \<Rightarrow> well_nested st ts)"

definition parse_template :: "string \<Rightarrow> token list option" where
  "parse_template s =
     (case lex_tokens s of
        None \<Rightarrow> None
      | Some ts \<Rightarrow> (if well_nested [] (squeeze ts) then Some (squeeze ts) else None))"

lemma exec_well_nested: "exec fs st ts = Some t \<Longrightarrow> well_nested (map fst st) ts"
proof (induction fs st ts arbitrary: t rule: exec.induct)
  case (4 fs st b ts)
  show ?case
  proof (cases "action_of b")
    case ActElse
    with 4 show ?thesis by (auto split: list.splits prod.splits bool.splits)
  next
    case ActEnd
    with 4 show ?thesis by (auto split: list.splits)
  qed (use 4 in \<open>auto split: if_splits option.splits\<close>)
qed (auto split: if_splits)

lemma render_template_parsed:
  "render_template fs s = Some t \<longleftrightarrow> (\<exists>ts. parse_template s = Some ts \<and> exec fs [] ts = Some t)"
  using exec_well_nested[of fs "[]"]
  by (auto simp: render_template_def parse_template_def split: option.splits if_splits)

section \<open>Escaping\<close>

definition is_brace :: "char \<Rightarrow> bool" where
  "is_brace c \<longleftrightarrow> c = CHR ''{'' \<or> c = CHR ''}''"

text \<open>A run of braces, which the regular expression matches when there are at least two.\<close>

definition escape_run :: "string \<Rightarrow> string" where
  "escape_run run =
     (if 2 \<le> length run \<and> (contains_str run ''{{'' \<or> contains_str run ''}}'')
      then ''{{'' @ go_quote run @ ''}}'' else run)"

function escape_line :: "string \<Rightarrow> string" where
  "escape_line [] = []"
| "escape_line (c # cs) =
     (if is_brace c then escape_run (c # takeWhile is_brace cs) @ escape_line (dropWhile is_brace cs)
      else c # escape_line cs)"
  by pat_completeness auto
termination
  by (relation "measure length") (auto simp: le_imp_less_Suc dropWhile_shorter)

definition escape :: "string list \<Rightarrow> string list" where
  "escape ls = map escape_line ls"

section \<open>Pieces of a template\<close>

text \<open>
  A piece of text that lexes to the same tokens whatever follows, of which the executor shows a
  given text when the piece is active.
\<close>

definition lexed :: "string \<Rightarrow> token list \<Rightarrow> bool" where
  "lexed x ts \<longleftrightarrow> (\<forall>y. lex_tokens (x @ y) = map_option ((@) ts) (lex_tokens y)) \<and> TTrim \<notin> set ts"

definition shown :: "token list \<Rightarrow> string \<Rightarrow> bool" where
  "shown ts t \<longleftrightarrow>
     (\<forall>fs st rest. exec fs st (ts @ rest) =
        map_option (\<lambda>r. if active st then t @ r else r) (exec fs st rest))"

lemma map_option_append_Nil: "map_option ((@) []) z = z"
  by (cases z) simp_all

lemma map_option_singleton: "map_option ((@) [t]) z = map_option ((#) t) z"
  by (cases z) simp_all

lemma map_option_same: "map_option (\<lambda>r. if b then [] @ r else r) z = z"
  by (cases z) simp_all

lemma lexed_Nil: "lexed [] []"
  by (simp add: lexed_def map_option_append_Nil)

lemma lexed_append: "lexed x ts \<Longrightarrow> lexed y us \<Longrightarrow> lexed (x @ y) (ts @ us)"
proof -
  assume x: "lexed x ts" and y: "lexed y us"
  have "lex_tokens ((x @ y) @ z) = map_option ((@) (ts @ us)) (lex_tokens z)" for z
    using x y by (cases "lex_tokens z") (simp_all add: lexed_def)
  with x y show ?thesis by (simp add: lexed_def)
qed

lemma shown_Nil: "shown [] []"
  by (simp add: shown_def map_option_same)

lemma shown_append: "shown ts t \<Longrightarrow> shown us u \<Longrightarrow> shown (ts @ us) (t @ u)"
  by (auto simp: shown_def option.map_comp o_def intro!: map_option_cong)

lemma shown_char: "shown [TText c] [c]"
  by (auto simp: shown_def intro!: map_option_cong)

lemma lex_text: "\<not> prefix ''{{'' (c # cs) \<Longrightarrow> lex_tokens (c # cs) = map_option ((#) (TText c)) (lex_tokens cs)"
  by (subst lex_tokens.simps) (simp del: Cons_prefix_Cons)

lemma squeeze_no_trim: "TTrim \<notin> set ts \<Longrightarrow> squeeze ts = ts"
proof (induction ts)
  case (Cons t ts)
  then show ?case by (cases ts) (auto simp: Let_def)
qed simp

text \<open>An action written without trim markers.\<close>

lemma lex_action:
  assumes "read_action False (b @ ''}}'' @ y) = Some (b, y)"
    and "\<not> left_marker (b @ ''}}'' @ y)" and "\<not> prefix ''/*'' (b @ ''}}'' @ y)" and "\<not> right_marker b"
  shows "lex_tokens (''{{'' @ b @ ''}}'' @ y) = map_option ((#) (TAct b)) (lex_tokens y)"
  using assms by (subst lex_tokens.simps) (simp add: trim_rest_def trim_tokens_def right_trim_def Let_def)

lemma read_action_plain:
  "list_all (\<lambda>c. c \<noteq> CHR ''}'' \<and> c \<noteq> dquote) b \<Longrightarrow> read_action False (b @ ''}}'' @ y) = Some (b, y)"
  by (induction b) auto

lemma read_action_quoted:
  "list_all (\<lambda>c. c \<noteq> CHR 0x5C \<and> c \<noteq> dquote) b \<Longrightarrow>
   read_action True (b @ dquote # y) = map_option (\<lambda>(x, r). (b @ dquote # x, r)) (read_action False y)"
  by (induction b) (auto simp: option.map_comp o_def split_def)

lemma lexed_plain:
  assumes "list_all (\<lambda>c. c \<noteq> CHR ''}'' \<and> c \<noteq> dquote) b" and "\<not> right_marker b"
    and "b \<noteq> []" and "hd b = CHR '' ''"
  shows "lexed (''{{'' @ b @ ''}}'') [TAct b]"
proof -
  have "lex_tokens (''{{'' @ b @ ''}}'' @ y) = map_option ((#) (TAct b)) (lex_tokens y)" for y
    using assms by (intro lex_action read_action_plain) (cases b; simp add: left_marker_def)+
  then show ?thesis by (simp add: lexed_def map_option_singleton)
qed

lemma go_quote_braces:
  assumes "list_all is_brace run"
  shows "go_quote run = dquote # run @ [dquote]"
proof -
  have "quote_char c = [c]" if "is_brace c" for c
    using that by (auto simp: quote_char_def is_brace_def)
  then have "concat (map quote_char run) = run" using assms by (induction run) auto
  then show ?thesis by (simp add: go_quote_def)
qed

lemma lexed_run:
  assumes "list_all is_brace run"
  shows "lexed (''{{'' @ go_quote run @ ''}}'') [TAct (go_quote run)]"
proof -
  have safe: "list_all (\<lambda>c. c \<noteq> CHR 0x5C \<and> c \<noteq> dquote) run"
    using assms by (auto simp: list_all_iff is_brace_def)
  have "lex_tokens (''{{'' @ go_quote run @ ''}}'' @ y) = map_option ((#) (TAct (go_quote run))) (lex_tokens y)" for y
    using read_action_quoted[OF safe, of "''}}'' @ y"]
    by (intro lex_action) (simp_all add: go_quote_braces[OF assms] left_marker_def right_marker_def)
  then show ?thesis by (simp add: lexed_def map_option_singleton)
qed

lemma shown_run:
  assumes "list_all is_brace run"
  shows "shown [TAct (go_quote run)] run"
proof -
  have "list_all (\<lambda>c. c \<noteq> dquote \<and> c \<noteq> CHR 0x5C) run"
    using assms by (auto simp: list_all_iff is_brace_def)
  then have "action_of (go_quote run) = ActText run"
    by (simp add: action_of_def unquote_def go_quote_braces[OF assms] butlast_append)
  then show ?thesis by (simp add: shown_def)
qed

text \<open>
  An escaped line is literal: at the end of the text or before a newline, it lexes to tokens that
  show the line itself, whatever braces it holds.
\<close>

lemma lex_braces:
  assumes "list_all is_brace run" and "\<not> contains_str run ''{{''" and "z = [] \<or> \<not> is_brace (hd z)"
  shows "lex_tokens (run @ z) = map_option ((@) (map TText run)) (lex_tokens z)"
  using assms(1,2)
proof (induction run)
  case Nil
  show ?case by (cases "lex_tokens z") simp_all
next
  case (Cons c run)
  have "\<not> prefix ''{{'' (c # run @ z)"
    using Cons.prems assms(3) by (cases run; cases z) (auto simp: is_brace_def)
  moreover have "\<not> contains_str run ''{{''" using Cons.prems by simp
  ultimately show ?case
    using Cons by (simp add: lex_text option.map_comp o_def del: Cons_prefix_Cons)
qed

lemma shown_chars: "shown (map TText s) s"
proof (induction s)
  case Nil
  show ?case by (simp add: shown_Nil)
next
  case (Cons c s)
  show ?case using shown_append[OF shown_char[of c] Cons] by simp
qed

definition literal :: "string \<Rightarrow> string \<Rightarrow> token list \<Rightarrow> bool" where
  "literal x l ts \<longleftrightarrow>
     shown ts l \<and> TTrim \<notin> set ts \<and>
     (\<forall>y. y = [] \<or> \<not> is_brace (hd y) \<longrightarrow> lex_tokens (x @ y) = map_option ((@) ts) (lex_tokens y))"

lemma literalD:
  "literal x l ts \<Longrightarrow> y = [] \<or> \<not> is_brace (hd y) \<Longrightarrow>
   lex_tokens (x @ y) = map_option ((@) ts) (lex_tokens y)"
  by (auto simp: literal_def)

lemma escape_line_head: "escape_line l = [] \<or> is_brace (hd l) \<or> hd (escape_line l) = hd l"
  by (cases l) auto

lemma escape_line_Nil: "escape_line l = [] \<longleftrightarrow> l = []"
  by (cases l) (auto simp: escape_run_def)

lemma escape_run_literal:
  assumes "list_all is_brace run"
  shows "\<exists>ts. literal (escape_run run) run ts"
proof (cases "2 \<le> length run \<and> (contains_str run ''{{'' \<or> contains_str run ''}}'')")
  case True
  then have "escape_run run = ''{{'' @ go_quote run @ ''}}''" by (simp add: escape_run_def)
  with lexed_run[OF assms] shown_run[OF assms] show ?thesis
    unfolding literal_def lexed_def by (metis append.assoc)
next
  case False
  have "\<not> contains_str run ''{{''"
  proof
    assume c: "contains_str run ''{{''"
    then have "2 \<le> length run" by (auto simp: contains_str_iff)
    with False c show False by simp
  qed
  note braces = lex_braces[OF assms this]
  have "escape_run run = run" using False by (auto simp: escape_run_def)
  then have "literal (escape_run run) run (map TText run)"
    unfolding literal_def using braces shown_chars by auto
  then show ?thesis by blast
qed

lemma literal_append:
  assumes "literal x l ts" and "literal y m us" and "y = [] \<or> \<not> is_brace (hd y)"
  shows "literal (x @ y) (l @ m) (ts @ us)"
proof -
  have "lex_tokens ((x @ y) @ z) = map_option ((@) (ts @ us)) (lex_tokens z)"
    if z: "z = [] \<or> \<not> is_brace (hd z)" for z
  proof -
    have "y @ z = [] \<or> \<not> is_brace (hd (y @ z))" using assms(3) z by (cases y) auto
    from literalD[OF assms(1) this] literalD[OF assms(2) z] show ?thesis
      by (cases "lex_tokens z") simp_all
  qed
  with assms(1,2) shown_append show ?thesis by (auto simp: literal_def)
qed

lemma escape_run_then:
  assumes c: "is_brace c" and us: "literal (escape_line (dropWhile is_brace cs)) (dropWhile is_brace cs) us"
  shows "\<exists>ts. literal (escape_line (c # cs)) (c # cs) ts"
proof -
  let ?run = "c # takeWhile is_brace cs" and ?rest = "dropWhile is_brace cs"
  have run: "list_all is_brace ?run" using c by (auto simp: list_all_iff dest: set_takeWhileD)
  obtain ts where ts: "literal (escape_run ?run) ?run ts" using escape_run_literal[OF run] by blast
  show ?thesis
  proof (cases "?rest = []")
    case True
    then have all: "takeWhile is_brace cs = cs" and none: "escape_line ?rest = []"
      by (metis append_Nil2 takeWhile_dropWhile_id, metis escape_line_Nil)
    from ts show ?thesis
      unfolding escape_line.simps(2) if_P[OF c] none all append_Nil2 by blast
  next
    case False
    then have "\<not> is_brace (hd ?rest)" by (rule hd_dropWhile)
    with escape_line_head[of ?rest] False
    have nb: "escape_line ?rest = [] \<or> \<not> is_brace (hd (escape_line ?rest))" by metis
    from False have "escape_line ?rest \<noteq> []" by (simp add: escape_line_Nil)
    with literal_append[OF ts us nb] c show ?thesis
      by (metis append_Cons escape_line.simps(2) takeWhile_dropWhile_id)
  qed
qed

lemma escape_char_then:
  assumes "\<not> is_brace c" and us: "literal (escape_line cs) cs us"
  shows "literal (escape_line (c # cs)) (c # cs) (TText c # us)"
proof -
  have "lex_tokens (c # escape_line cs @ y) = map_option ((@) (TText c # us)) (lex_tokens y)"
    if "y = [] \<or> \<not> is_brace (hd y)" for y
  proof -
    have "\<not> prefix ''{{'' (c # escape_line cs @ y)" using assms(1) by (auto simp: is_brace_def)
    from lex_text[OF this]
    have "lex_tokens (c # escape_line cs @ y) = map_option ((#) (TText c)) (lex_tokens (escape_line cs @ y))" .
    also have "lex_tokens (escape_line cs @ y) = map_option ((@) us) (lex_tokens y)"
      using us that unfolding literal_def by blast
    finally show ?thesis by (cases "lex_tokens y") simp_all
  qed
  moreover have "shown (TText c # us) (c # cs)"
    using shown_append[OF shown_char[of c]] us by (force simp: literal_def)
  ultimately show ?thesis using assms by (simp add: literal_def)
qed

lemma escape_line_literal: "\<exists>ts. literal (escape_line l) l ts"
proof (induction l rule: escape_line.induct)
  case 1
  show ?case by (intro exI[of _ "[]"]) (simp add: literal_def shown_Nil map_option_append_Nil)
next
  case (2 c cs)
  show ?case
  proof (cases "is_brace c")
    case True
    with 2(1) escape_run_then show ?thesis by blast
  next
    case False
    with 2(2) escape_char_then show ?thesis by blast
  qed
qed

text \<open>Hence an escaped line with its newline is a piece of its own.\<close>

lemma escaped_line_piece:
  "\<exists>ts. lexed (escape_line l @ [newline]) ts \<and> shown ts (l @ [newline])"
proof -
  obtain ts where ts: "literal (escape_line l) l ts" using escape_line_literal by blast
  have "lex_tokens ((escape_line l @ [newline]) @ y) = map_option ((@) (ts @ [TText newline])) (lex_tokens y)" for y
    using ts lex_text[of newline y]
    by (cases "lex_tokens y") (auto simp: literal_def is_brace_def)
  with ts shown_append[OF _ shown_char] show ?thesis
    by (intro exI[of _ "ts @ [TText newline]"]) (auto simp: lexed_def literal_def)
qed

end
