(* ===== verification/Cilium_Manifest.thy ===== *)
theory Cilium_Manifest
  imports Cilium_Diff Cilium_Template
begin

text \<open>
  The generator of the Cilium manifest template (\<open>hack/cilium-manifest/main.go\<close>): the merge of the
  chart's renders into one Go template, its header, and the run that checks the result. Helm, the YAML
  parser and the file system are parameters.
\<close>

section \<open>Lines\<close>

text \<open>\<open>strings.Split(s, "\n")\<close>.\<close>

fun split_lines :: "string \<Rightarrow> string list" where
  "split_lines [] = [[]]"
| "split_lines (c # cs) =
     (if c = newline then [] # split_lines cs
      else (case split_lines cs of [] \<Rightarrow> [[c]] | l # ls \<Rightarrow> (c # l) # ls))"

definition text_lines :: "string \<Rightarrow> string list" where
  "text_lines s = split_lines s"

definition join_lines :: "string list \<Rightarrow> string" where
  "join_lines ls = join_str ls [newline]"

definition ended :: "string list \<Rightarrow> string" where
  "ended ls = concat (map (\<lambda>l. l @ [newline]) ls)"

lemma split_lines_nonempty [simp]: "split_lines s \<noteq> []"
  by (induction s) (auto split: list.split)

lemma join_lines_ended: "ls \<noteq> [] \<Longrightarrow> join_lines ls @ [newline] = ended ls"
proof (induction ls)
  case (Cons l ls)
  then show ?case by (cases ls) (auto simp: join_lines_def ended_def)
qed simp

lemma join_split_lines: "join_lines (split_lines s) = s"
proof (induction s)
  case (Cons c cs)
  then show ?case
    using split_lines_nonempty[of cs]
    by (cases "split_lines cs"; cases "tl (split_lines cs)") (auto simp: join_lines_def)
qed (simp add: join_lines_def)

lemma ended_append: "ended (xs @ ys) = ended xs @ ended ys"
  by (simp add: ended_def)

section \<open>The merge\<close>

record variant =
  v_cond :: string
  v_lines :: "string list"

definition variant_hunks :: "string list \<Rightarrow> variant \<Rightarrow> hunk list" where
  "variant_hunks base v = map (\<lambda>h. h\<lparr>h_cond := v_cond v\<rparr>) (diff base (v_lines v))"

text \<open>
  The order of hunks with the same start is left open by \<open>slices.SortFunc\<close>; such hunks overlap, so
  it only shows in the text of the error.
\<close>

definition sorted_hunks :: "string list \<Rightarrow> variant list \<Rightarrow> hunk list" where
  "sorted_hunks base vs = sort_key h_i1 (concat (map (variant_hunks base) vs))"

fun overlapping :: "hunk list \<Rightarrow> (hunk \<times> hunk) option" where
  "overlapping (h # h' # hs) =
     (if h_i1 h' \<le> h_i2 h then Some (h, h') else overlapping (h' # hs))"
| "overlapping _ = None"

definition overlap_error :: "hunk \<Rightarrow> hunk \<Rightarrow> error" where
  "overlap_error h h' =
     Plain (h_cond h @ '' and '' @ h_cond h' @ '' change overlapping lines around line '' @
            nat_str (h_i1 h' + 1) @ '': merge them by hand'')"

text \<open>The lines written so far, and the actions waiting for the next one.\<close>

fun emit_lines :: "string list \<Rightarrow> string list \<times> string \<Rightarrow> string list \<times> string" where
  "emit_lines [] st = st"
| "emit_lines (l # ls) st = emit_lines ls (fst st @ [snd st @ l], [])"

definition emit_text :: "string list \<Rightarrow> string list \<times> string \<Rightarrow> string list \<times> string" where
  "emit_text ls st = emit_lines (escape ls) st"

definition add_action :: "string \<Rightarrow> string list \<times> string \<Rightarrow> string list \<times> string" where
  "add_action a st = (fst st, snd st @ a)"

definition emit_hunk :: "string list \<Rightarrow> hunk \<Rightarrow> string list \<times> string \<Rightarrow> string list \<times> string" where
  "emit_hunk base h st =
     (let old = drop (h_i1 h) (take (h_i2 h) base) in
      add_action ''{{ end }}''
        (if h_i1 h = h_i2 h then emit_text (h_new h) (add_action (''{{ if '' @ h_cond h @ '' }}'') st)
         else if h_new h = [] then emit_text old (add_action (''{{ if not '' @ h_cond h @ '' }}'') st)
         else emit_text old (add_action ''{{ else }}''
                (emit_text (h_new h) (add_action (''{{ if '' @ h_cond h @ '' }}'') st)))))"

fun emit_hunks :: "string list \<Rightarrow> nat \<Rightarrow> hunk list \<Rightarrow> string list \<times> string \<Rightarrow> string list \<times> string" where
  "emit_hunks base n [] st = emit_text (drop n base) st"
| "emit_hunks base n (h # hs) st =
     emit_hunks base (h_i2 h) hs (emit_hunk base h (emit_text (drop n (take (h_i1 h) base)) st))"

definition merge :: "string list \<Rightarrow> variant list \<Rightarrow> error + string" where
  "merge base vs =
     (let hunks = sorted_hunks base vs in
      case overlapping hunks of
        Some (h, h') \<Rightarrow> Inl (overlap_error h h')
      | None \<Rightarrow>
          (let (out, pending) = emit_hunks base 0 hunks ([], [])
           in if pending \<noteq> [] then Inl (Plain ''a variant changes the end of the render: merge it by hand'')
              else Inr (join_lines out)))"

section \<open>The hunks of a merge\<close>

lemma overlapping_ok:
  "overlapping hs = None \<Longrightarrow> \<forall>h \<in> set hs. h_i1 h \<le> h_i2 h \<and> h_i2 h \<le> len \<Longrightarrow>
   (hs \<noteq> [] \<Longrightarrow> n \<le> h_i1 (hd hs)) \<Longrightarrow> hunks_ok len n hs"
proof (induction hs arbitrary: n rule: overlapping.induct)
  case (1 h h' hs)
  then have "hunks_ok len (Suc (h_i2 h)) (h' # hs)" by (intro "1.IH") (auto split: if_splits)
  with "1.prems" show ?case by simp
qed auto

lemma apply_skip:
  assumes "hunks_ok len m hs" and "n \<le> m"
  shows "drop n (take m base) @ apply_hunks on base m hs = apply_hunks on base n hs"
proof (cases hs)
  case Nil
  then show ?thesis
    using assms drop_take_append[of n m "length base" base] by (cases "m \<le> length base") auto
next
  case (Cons h hs')
  then show ?thesis
    using assms drop_take_append[of n m "h_i1 h" base] by (simp flip: append_assoc)
qed

text \<open>Hunks whose condition does not hold might as well not be there.\<close>

lemma hunks_ok_filter: "hunks_ok len n hs \<Longrightarrow> hunks_ok len n (filter P hs)"
proof (induction hs arbitrary: n)
  case (Cons h hs)
  then have "hunks_ok len (Suc (h_i2 h)) (filter P hs)" "hunks_ok len n (filter P hs)"
    using hunks_ok_mono[of len "Suc (h_i2 h)" hs n] by auto
  with Cons.prems show ?case by simp
qed simp

lemma apply_filter:
  "hunks_ok len n hs \<Longrightarrow>
   apply_hunks on base n hs = apply_hunks every base n (filter (\<lambda>h. on (h_cond h)) hs)"
proof (induction hs arbitrary: n)
  case (Cons h hs)
  let ?gs = "filter (\<lambda>h. on (h_cond h)) hs"
  have ok: "hunks_ok len (h_i2 h) hs" using Cons.prems hunks_ok_mono by auto
  note IH = Cons.IH[OF ok]
  show ?case
  proof (cases "on (h_cond h)")
    case True
    with IH show ?thesis by simp
  next
    case False
    have "drop n (take (h_i1 h) base) @ drop (h_i1 h) (take (h_i2 h) base) = drop n (take (h_i2 h) base)"
      using Cons.prems by (intro drop_take_append) auto
    moreover have "drop n (take (h_i2 h) base) @ apply_hunks every base (h_i2 h) ?gs =
        apply_hunks every base n ?gs"
      using Cons.prems by (intro apply_skip[OF hunks_ok_filter[OF ok]]) auto
    ultimately show ?thesis using False IH by simp (metis append.assoc)
  qed
qed simp

lemma apply_every_cond: "apply_hunks every base n (map (\<lambda>h. h\<lparr>h_cond := c\<rparr>) hs) = apply_hunks every base n hs"
  by (induction hs arbitrary: n) simp_all

lemma variant_hunks_cond: "h \<in> set (variant_hunks base v) \<Longrightarrow> h_cond h = v_cond v"
  by (auto simp: variant_hunks_def)

lemma filter_variant_hunks:
  assumes "distinct (map v_cond vs)" and "v \<in> set vs"
  shows "filter (\<lambda>h. h_cond h = v_cond v) (concat (map (variant_hunks base) vs)) = variant_hunks base v"
  using assms
proof (induction vs)
  case (Cons u us)
  have all: "filter (\<lambda>h. h_cond h = v_cond u) (variant_hunks base u) = variant_hunks base u"
    by (simp add: filter_id_conv variant_hunks_cond)
  have none: "filter (\<lambda>h. h_cond h = v_cond v) (variant_hunks base u) = []" if "v_cond v \<noteq> v_cond u" for u v
    using that by (auto simp: filter_empty_conv dest: variant_hunks_cond)
  have rest: "filter (\<lambda>h. h_cond h = v_cond u) (concat (map (variant_hunks base) us)) = []"
    using Cons.prems(1) by (auto simp: filter_empty_conv dest!: variant_hunks_cond)
  show ?case
  proof (cases "v = u")
    case True
    with all rest show ?thesis by simp
  next
    case False
    with Cons.prems have "v \<in> set us" by simp
    moreover from this Cons.prems(1) have "v_cond v \<noteq> v_cond u" by (metis distinct.simps(2) image_eqI list.set_map list.simps(9))
    ultimately show ?thesis using Cons none by simp
  qed
qed simp

lemma sorted_hunks_bounds:
  "h \<in> set (sorted_hunks base vs) \<Longrightarrow> h_i1 h \<le> h_i2 h \<and> h_i2 h \<le> length base"
  using text_diff.df_bounds by (fastforce simp: sorted_hunks_def variant_hunks_def)

lemma sorted_hunks_ok: "overlapping (sorted_hunks base vs) = None \<Longrightarrow> hunks_ok (length base) 0 (sorted_hunks base vs)"
  using sorted_hunks_bounds by (intro overlapping_ok) auto

text \<open>With one condition on, the hunks give that variant; with none, the base.\<close>

lemma apply_one_variant:
  assumes "overlapping (sorted_hunks base vs) = None"
    and "distinct (map v_cond vs)" and "v \<in> set vs"
  shows "apply_hunks (\<lambda>c. c = v_cond v) base 0 (sorted_hunks base vs) = v_lines v"
proof -
  have "sorted (map h_i1 (variant_hunks base v))"
    using text_diff.df_sorted by (simp add: variant_hunks_def o_def)
  then have "filter (\<lambda>h. h_cond h = v_cond v) (sorted_hunks base vs) = variant_hunks base v"
    by (simp add: sorted_hunks_def filter_sort filter_variant_hunks[OF assms(2,3)] sort_key_id_if_sorted)
  then show ?thesis
    using apply_filter[OF sorted_hunks_ok[OF assms(1)], of "\<lambda>c. c = v_cond v" base]
    by (simp add: variant_hunks_def apply_every_cond text_diff.df_apply)
qed

lemma apply_no_variant:
  assumes "overlapping (sorted_hunks base vs) = None"
  shows "apply_hunks (\<lambda>c. False) base 0 (sorted_hunks base vs) = base"
  using apply_filter[OF sorted_hunks_ok[OF assms], of "\<lambda>c. False" base] by simp

section \<open>The text of the template\<close>

text \<open>
  A piece of the template that shows a given text for the fields \<open>fs\<close>, wherever it stands.
\<close>

definition yields :: "fields \<Rightarrow> string \<Rightarrow> string \<Rightarrow> bool" where
  "yields fs x t \<longleftrightarrow>
     (\<exists>ts. lexed x ts \<and>
        (\<forall>st rest. exec fs st (ts @ rest) =
           map_option (\<lambda>r. if active st then t @ r else r) (exec fs st rest)))"

lemma yields_Nil [simp]: "yields fs [] []"
  unfolding yields_def using lexed_Nil by (intro exI[of _ "[]"]) (simp add: map_option_same)

lemma yields_append:
  assumes "yields fs x t" and "yields fs y u"
  shows "yields fs (x @ y) (t @ u)"
proof -
  obtain ts us where "lexed x ts" "lexed y us"
    and "\<forall>st rest. exec fs st (ts @ rest) = map_option (\<lambda>r. if active st then t @ r else r) (exec fs st rest)"
    and "\<forall>st rest. exec fs st (us @ rest) = map_option (\<lambda>r. if active st then u @ r else r) (exec fs st rest)"
    using assms by (auto simp: yields_def)
  then show ?thesis
    unfolding yields_def
    by (intro exI[of _ "ts @ us"]) (auto simp: lexed_append option.map_comp o_def intro!: map_option_cong)
qed

lemma yields_line: "yields fs (escape_line l @ [newline]) (l @ [newline])"
  using escaped_line_piece[of l] by (auto simp: yields_def shown_def)

lemma yields_lines: "yields fs (ended (escape ls)) (ended ls)"
proof (induction ls)
  case (Cons l ls)
  then show ?case using yields_append[OF yields_line] by (simp add: ended_def escape_def)
qed (simp add: ended_def escape_def)

text \<open>The conditions of the variants are fields of the template data.\<close>

definition field_char :: "char \<Rightarrow> bool" where
  "field_char d \<longleftrightarrow>
     (let n = of_char d :: nat in (48 \<le> n \<and> n \<le> 57) \<or> (65 \<le> n \<and> n \<le> 90) \<or> (97 \<le> n \<and> n \<le> 122))"

definition cond_ok :: "string \<Rightarrow> bool" where
  "cond_ok c \<longleftrightarrow> 2 \<le> length c \<and> hd c = CHR ''.'' \<and> list_all field_char (tl c)"

lemma cond_ok_safe:
  assumes "cond_ok c"
  shows "c \<noteq> [] \<and> c \<noteq> ''not'' \<and>
    list_all (\<lambda>d. d \<noteq> CHR ''}'' \<and> d \<noteq> dquote \<and> d \<noteq> CHR '' '' \<and> d \<noteq> newline \<and> d \<noteq> CHR 0x09 \<and> d \<noteq> CHR 0x0D) c"
proof (cases c)
  case (Cons d ds)
  have "field_char e \<Longrightarrow> e \<noteq> CHR ''}'' \<and> e \<noteq> dquote \<and> e \<noteq> CHR '' '' \<and> e \<noteq> newline \<and> e \<noteq> CHR 0x09 \<and> e \<noteq> CHR 0x0D" for e
    by (auto simp: field_char_def)
  with assms Cons show ?thesis by (auto simp: cond_ok_def list_all_iff)
qed (use assms in \<open>simp add: cond_ok_def\<close>)

definition sets :: "fields \<Rightarrow> string \<Rightarrow> bool \<Rightarrow> bool" where
  "sets fs c v \<longleftrightarrow> cond_ok c \<and> (\<exists>t. fs c = Some (v, t))"

lemma words_plain:
  "list_all (\<lambda>d. \<not> is_space d) w \<Longrightarrow> w \<noteq> [] \<or> acc \<noteq> [] \<Longrightarrow> words acc (w @ CHR '' '' # s) = (acc @ w) # words [] s"
  by (induction w arbitrary: acc) (auto simp: is_space_def)

lemma cond_ok_plain: "cond_ok c \<Longrightarrow> list_all (\<lambda>d. \<not> is_space d) c"
  using cond_ok_safe by (auto simp: is_space_def list_all_iff)

lemma unquote_space: "unquote (CHR '' '' # b) = None"
  by (simp add: unquote_def)

lemma action_of_if:
  assumes "cond_ok c"
  shows "action_of ('' if '' @ c @ '' '') = ActIf False c"
    and "action_of ('' if not '' @ c @ '' '') = ActIf True c"
  using words_plain[OF cond_ok_plain[OF assms], of "[]" "[]"] cond_ok_safe[OF assms]
  by (simp_all add: action_of_def unquote_space is_space_def)

lemma action_of_else: "action_of '' else '' = ActElse"
  and action_of_end: "action_of '' end '' = ActEnd"
  by (simp_all add: action_of_def unquote_space is_space_def)

text \<open>An action made of a word or two lexes to itself.\<close>

lemma right_marker_space: "\<not> right_marker (b @ '' '')"
  by (simp add: right_marker_def)

lemma lexed_if:
  assumes "cond_ok c"
  shows "lexed (''{{ if '' @ c @ '' }}'') [TAct ('' if '' @ c @ '' '')]"
    and "lexed (''{{ if not '' @ c @ '' }}'') [TAct ('' if not '' @ c @ '' '')]"
  using lexed_plain[of "'' if '' @ c @ '' ''"] lexed_plain[of "'' if not '' @ c @ '' ''"]
    right_marker_space[of "'' if '' @ c"] right_marker_space[of "'' if not '' @ c"] cond_ok_safe[OF assms]
  by (auto simp: list_all_iff)

lemma lexed_else: "lexed ''{{ else }}'' [TAct '' else '']"
  and lexed_end: "lexed ''{{ end }}'' [TAct '' end '']"
  using lexed_plain[of "'' else ''"] lexed_plain[of "'' end ''"] by (simp_all add: right_marker_def)

lemma active_Cons: "active ((r, h) # st) \<longleftrightarrow> r \<noteq> h \<and> active st"
  by (simp add: active_def)

text \<open>The three shapes of a block.\<close>

lemma map_option_cond: "(\<And>r. f r = g r) \<Longrightarrow> map_option f z = map_option g z"
  by (cases z) simp_all

lemma yields_block:
  assumes "lexed a [TAct b]" and "action_of b = ActIf neg c" and "sets fs c v" and "yields fs x t"
  shows "yields fs (a @ x @ ''{{ end }}'') (if v \<noteq> neg then t else [])"
proof -
  obtain ts where ts: "lexed x ts"
    and ex: "\<And>st rest. exec fs st (ts @ rest) = map_option (\<lambda>r. if active st then t @ r else r) (exec fs st rest)"
    using assms(4) by (auto simp: yields_def)
  have "lexed (a @ x @ ''{{ end }}'') ([TAct b] @ ts @ [TAct '' end ''])"
    by (intro lexed_append assms(1) ts lexed_end)
  moreover have "exec fs st (([TAct b] @ ts @ [TAct '' end '']) @ rest) =
      map_option (\<lambda>r. if active st then (if v \<noteq> neg then t else []) @ r else r) (exec fs st rest)" for st rest
    using assms(2,3) ex by (auto simp: sets_def action_of_end active_Cons intro!: map_option_cond)
  ultimately show ?thesis by (auto simp: yields_def)
qed

lemma yields_choice:
  assumes "lexed a [TAct b]" and "action_of b = ActIf False c" and "sets fs c v"
    and "yields fs x t" and "yields fs y u"
  shows "yields fs (a @ x @ ''{{ else }}'' @ y @ ''{{ end }}'') (if v then t else u)"
proof -
  obtain ts where ts: "lexed x ts"
    and ext: "\<And>st rest. exec fs st (ts @ rest) = map_option (\<lambda>r. if active st then t @ r else r) (exec fs st rest)"
    using assms(4) by (auto simp: yields_def)
  obtain us where us: "lexed y us"
    and exu: "\<And>st rest. exec fs st (us @ rest) = map_option (\<lambda>r. if active st then u @ r else r) (exec fs st rest)"
    using assms(5) by (auto simp: yields_def)
  let ?ts = "[TAct b] @ ts @ [TAct '' else ''] @ us @ [TAct '' end '']"
  have "lexed (a @ x @ ''{{ else }}'' @ y @ ''{{ end }}'') ?ts"
    by (intro lexed_append assms(1) ts us lexed_else lexed_end)
  moreover have "exec fs st (?ts @ rest) =
      map_option (\<lambda>r. if active st then (if v then t else u) @ r else r) (exec fs st rest)" for st rest
    using assms(2,3) ext exu
    by (auto simp: sets_def action_of_end action_of_else active_Cons option.map_comp o_def intro!: map_option_cond)
  ultimately show ?thesis unfolding yields_def by blast
qed

section \<open>The template of a merge\<close>

definition text_of :: "string list \<times> string \<Rightarrow> string" where
  "text_of st = ended (fst st) @ snd st"

lemma text_of_emit: "text_of (emit_text ls st) = text_of st @ ended (escape ls)"
proof -
  have "text_of (emit_lines ls st) = text_of st @ ended ls" for ls
    by (induction ls arbitrary: st) (simp_all add: text_of_def ended_def)
  then show ?thesis by (simp add: emit_text_def)
qed

lemma text_of_action: "text_of (add_action a st) = text_of st @ a"
  by (simp add: text_of_def add_action_def)

lemma yields_emit: "yields fs (text_of st) t \<Longrightarrow> yields fs (text_of (emit_text ls st)) (t @ ended ls)"
  by (simp add: text_of_emit yields_append yields_lines)

definition hunk_result :: "(string \<Rightarrow> bool) \<Rightarrow> string list \<Rightarrow> hunk \<Rightarrow> string list" where
  "hunk_result on base h = (if on (h_cond h) then h_new h else drop (h_i1 h) (take (h_i2 h) base))"

lemma yields_hunk:
  assumes "yields fs (text_of st) t" and "sets fs (h_cond h) (on (h_cond h))"
  shows "yields fs (text_of (emit_hunk base h st)) (t @ ended (hunk_result on base h))"
proof -
  let ?c = "h_cond h" and ?old = "drop (h_i1 h) (take (h_i2 h) base)"
  have ok: "cond_ok ?c" using assms(2) by (simp add: sets_def)
  note plain = yields_block[OF lexed_if(1)[OF ok] action_of_if(1)[OF ok] assms(2) yields_lines]
    and negated = yields_block[OF lexed_if(2)[OF ok] action_of_if(2)[OF ok] assms(2) yields_lines]
    and choice = yields_choice[OF lexed_if(1)[OF ok] action_of_if(1)[OF ok] assms(2) yields_lines yields_lines]
  consider "h_i1 h = h_i2 h" | "h_i1 h \<noteq> h_i2 h" "h_new h = []" | "h_i1 h \<noteq> h_i2 h" "h_new h \<noteq> []" by blast
  then show ?thesis
  proof cases
    case 1
    then have "text_of (emit_hunk base h st) =
        text_of st @ ''{{ if '' @ ?c @ '' }}'' @ ended (escape (h_new h)) @ ''{{ end }}''"
      by (simp add: emit_hunk_def text_of_emit text_of_action)
    with 1 yields_append[OF assms(1) plain[of "h_new h"]] show ?thesis
      by (simp add: hunk_result_def ended_def split: if_splits)
  next
    case 2
    then have "text_of (emit_hunk base h st) =
        text_of st @ ''{{ if not '' @ ?c @ '' }}'' @ ended (escape ?old) @ ''{{ end }}''"
      by (simp add: emit_hunk_def text_of_emit text_of_action)
    with 2 yields_append[OF assms(1) negated[of ?old]] show ?thesis
      by (simp add: hunk_result_def ended_def split: if_splits)
  next
    case 3
    then have "text_of (emit_hunk base h st) =
        text_of st @ ''{{ if '' @ ?c @ '' }}'' @ ended (escape (h_new h)) @ ''{{ else }}'' @
          ended (escape ?old) @ ''{{ end }}''"
      by (simp add: emit_hunk_def text_of_emit text_of_action)
    with yields_append[OF assms(1) choice[of "h_new h" ?old]] show ?thesis
      by (simp add: hunk_result_def split: if_splits)
  qed
qed

text \<open>The loop without its last step, which emits what follows the last hunk.\<close>

fun before_rest :: "string list \<Rightarrow> nat \<Rightarrow> hunk list \<Rightarrow> string list \<times> string \<Rightarrow> nat \<times> string list \<times> string" where
  "before_rest base n [] st = (n, st)"
| "before_rest base n (h # hs) st =
     before_rest base (h_i2 h) hs (emit_hunk base h (emit_text (drop n (take (h_i1 h) base)) st))"

lemma emit_hunks_before:
  "before_rest base n hs st = (m, st') \<Longrightarrow> emit_hunks base n hs st = emit_text (drop m base) st'"
  by (induction hs arbitrary: n st) simp_all

lemma yields_before:
  assumes "before_rest base n hs st = (m, st')" and "yields fs (text_of st) t"
    and "\<And>h. h \<in> set hs \<Longrightarrow> sets fs (h_cond h) (on (h_cond h))"
  shows "\<exists>u. yields fs (text_of st') (t @ ended u) \<and> apply_hunks on base n hs = u @ drop m base"
  using assms
proof (induction hs arbitrary: n st t)
  case Nil
  then show ?case by (intro exI[of _ "[]"]) (simp add: ended_def)
next
  case (Cons h hs)
  let ?pre = "drop n (take (h_i1 h) base)" and ?mid = "hunk_result on base h"
  have "yields fs (text_of (emit_hunk base h (emit_text ?pre st))) ((t @ ended ?pre) @ ended ?mid)"
    using Cons.prems by (intro yields_hunk yields_emit) auto
  from Cons.IH[OF _ this] Cons.prems obtain u
    where "yields fs (text_of st') (((t @ ended ?pre) @ ended ?mid) @ ended u)"
      and "apply_hunks on base (h_i2 h) hs = u @ drop m base" by fastforce
  then show ?case
    by (intro exI[of _ "?pre @ ?mid @ u"]) (simp add: ended_append hunk_result_def)
qed

text \<open>An action stays pending until a line is emitted.\<close>

lemma emit_lines_pending: "snd (emit_lines ls st) = (if ls = [] then snd st else [])"
  by (induction ls arbitrary: st) auto

lemma emit_hunk_pending: "snd (emit_hunk base h st) \<noteq> []"
  by (simp add: emit_hunk_def add_action_def Let_def)

lemma before_rest_pending:
  "before_rest base n hs st = (m, st') \<Longrightarrow> hs \<noteq> [] \<Longrightarrow> snd st' \<noteq> []"
proof (induction hs arbitrary: n st)
  case (Cons h hs)
  then show ?case by (cases "hs = []") (auto simp: emit_hunk_pending)
qed simp

lemma emit_text_out: "emit_text (ls @ [l]) st = (out, []) \<Longrightarrow>
  join_lines out = text_of st @ ended (escape ls) @ escape_line l"
proof -
  assume e: "emit_text (ls @ [l]) st = (out, [])"
  then have "ended out = text_of st @ ended (escape ls) @ escape_line l @ [newline]"
    using text_of_emit[of "ls @ [l]" st] by (simp add: text_of_def ended_append escape_def ended_def)
  moreover have "out \<noteq> []"
  proof -
    have "length (fst (emit_lines xs st)) = length (fst st) + length xs" for xs
      by (induction xs arbitrary: st) simp_all
    from this[of "escape (ls @ [l])"] e show ?thesis by (auto simp: emit_text_def escape_def)
  qed
  ultimately show ?thesis using join_lines_ended[of out] by simp
qed

lemma join_lines_snoc: "join_lines (ls @ [l]) = ended ls @ l"
  using join_lines_ended[of "ls @ [l]"] by (simp add: ended_def)

text \<open>Rendering the body of a merge applies the hunks whose conditions hold.\<close>

lemma body_renders:
  assumes "emit_hunks base 0 hs ([], []) = (out, [])" and "base \<noteq> []"
    and "\<And>h. h \<in> set hs \<Longrightarrow> sets fs (h_cond h) (on (h_cond h))"
  shows "render_template fs (join_lines out) = Some (join_lines (apply_hunks on base 0 hs))"
proof -
  obtain m st where b: "before_rest base 0 hs ([], []) = (m, st)" by (metis surj_pair)
  then have e: "emit_text (drop m base) st = (out, [])" using assms(1) emit_hunks_before by metis
  have "drop m base \<noteq> []"
  proof
    assume "drop m base = []"
    with e have "snd st = []" by (cases st) (auto simp: emit_text_def escape_def)
    with before_rest_pending[OF b] have "hs = []" by blast
    with b \<open>drop m base = []\<close> assms(2) show False by auto
  qed
  then obtain ls l where rest: "drop m base = ls @ [l]" by (metis rev_exhaust)
  obtain u where y: "yields fs (text_of st) (ended u)" and ap: "apply_hunks on base 0 hs = u @ ls @ [l]"
    using yields_before[OF b _ assms(3), of "[]"] rest by (auto simp: text_of_def ended_def)
  have "yields fs (text_of st @ ended (escape ls)) (ended u @ ended ls)"
    by (intro yields_append y yields_lines)
  then obtain ts where ts: "lexed (text_of st @ ended (escape ls)) ts"
    and ex: "\<And>rest. exec fs [] (ts @ rest) = map_option (\<lambda>r. (ended u @ ended ls) @ r) (exec fs [] rest)"
    by (auto simp: yields_def active_def)
  obtain us where us: "literal (escape_line l) l us" using escape_line_literal by blast
  have "lex_tokens (join_lines out) = Some (ts @ us)"
    using emit_text_out[OF e[unfolded rest]] ts literalD[OF us, of "[]"]
    by (simp add: lexed_def lex_tokens.simps[of "[]"])
  moreover have "squeeze (ts @ us) = ts @ us"
    using ts us by (intro squeeze_no_trim) (auto simp: lexed_def literal_def)
  moreover have "exec fs [] us = Some l"
  proof -
    have "exec fs [] (us @ []) = map_option (\<lambda>r. if active [] then l @ r else r) (exec fs [] [])"
      using us unfolding literal_def shown_def by blast
    then show ?thesis by (simp add: active_def)
  qed
  moreover have "join_lines (apply_hunks on base 0 hs) = ended u @ ended ls @ l"
    using join_lines_snoc[of "u @ ls" l] by (simp add: ap ended_append)
  ultimately show ?thesis by (simp add: render_template_def ex)
qed

lemma merge_parts:
  assumes "merge base vs = Inr body"
  obtains out where "overlapping (sorted_hunks base vs) = None"
    and "emit_hunks base 0 (sorted_hunks base vs) ([], []) = (out, [])" and "body = join_lines out"
  using assms by (auto simp: merge_def Let_def split: option.splits prod.splits if_splits)

lemma sorted_hunks_cond: "h \<in> set (sorted_hunks base vs) \<Longrightarrow> \<exists>v \<in> set vs. h_cond h = v_cond v"
  by (auto simp: sorted_hunks_def dest: variant_hunks_cond)

lemma merge_renders:
  assumes "merge base vs = Inr body" and "base \<noteq> []"
    and "\<And>v. v \<in> set vs \<Longrightarrow> sets fs (v_cond v) (on (v_cond v))"
  shows "render_template fs body = Some (join_lines (apply_hunks on base 0 (sorted_hunks base vs)))"
  using assms(1)
proof (rule merge_parts)
  fix out
  assume e: "emit_hunks base 0 (sorted_hunks base vs) ([], []) = (out, [])" and b: "body = join_lines out"
  have "sets fs (h_cond h) (on (h_cond h))" if "h \<in> set (sorted_hunks base vs)" for h
    using sorted_hunks_cond[OF that] assms(3) by fastforce
  from body_renders[OF e assms(2) this] show ?thesis by (simp add: b)
qed

lemma apply_hunks_cong:
  "(\<And>h. h \<in> set hs \<Longrightarrow> on (h_cond h) = on' (h_cond h)) \<Longrightarrow> apply_hunks on base n hs = apply_hunks on' base n hs"
  by (induction hs arbitrary: n) simp_all

text \<open>
  C14: The template that \<open>merge\<close> builds gives back what it was built from: with every condition off
  it renders the base render, and with exactly one condition on the render of that variant,
  whatever braces, quotes or template delimiters the renders contain. Each condition is the name of
  a field of the template data.
\<close>

theorem merge_roundtrip:
  assumes "merge (text_lines r) vs = Inr body"
    and "distinct (map v_cond vs)"
    and "\<forall>v \<in> set vs. sets fs (v_cond v) (on (v_cond v))"
  shows "((\<forall>v \<in> set vs. \<not> on (v_cond v)) \<longrightarrow> render_template fs body = Some r) \<and>
    (\<forall>v \<in> set vs. \<forall>s. v_lines v = text_lines s \<and> (\<forall>u \<in> set vs. on (v_cond u) \<longleftrightarrow> u = v) \<longrightarrow>
       render_template fs body = Some s)"
proof -
  let ?base = "text_lines r" and ?hs = "sorted_hunks (text_lines r) vs"
  have ov: "overlapping ?hs = None" using merge_parts[OF assms(1)] by blast
  have ren: "render_template fs body = Some (join_lines (apply_hunks on ?base 0 ?hs))"
    using merge_renders[OF assms(1)] assms(3) by (simp add: text_lines_def)
  have "join_lines (apply_hunks on ?base 0 ?hs) = r" if "\<forall>v \<in> set vs. \<not> on (v_cond v)"
  proof -
    have "apply_hunks on ?base 0 ?hs = apply_hunks (\<lambda>c. False) ?base 0 ?hs"
      using that by (intro apply_hunks_cong) (auto dest!: sorted_hunks_cond)
    with apply_no_variant[OF ov] show ?thesis by (simp add: text_lines_def join_split_lines)
  qed
  moreover have "join_lines (apply_hunks on ?base 0 ?hs) = s"
    if v: "v \<in> set vs" "v_lines v = text_lines s" and one: "\<forall>u \<in> set vs. on (v_cond u) \<longleftrightarrow> u = v" for v s
  proof -
    have "on c = (c = v_cond v)" if "c \<in> v_cond ` set vs" for c
      using that one v(1) assms(2) by (auto simp: distinct_map inj_on_def)
    then have "apply_hunks on ?base 0 ?hs = apply_hunks (\<lambda>c. c = v_cond v) ?base 0 ?hs"
      by (intro apply_hunks_cong) (auto dest!: sorted_hunks_cond)
    with apply_one_variant[OF ov assms(2) v(1)] v(2) show ?thesis
      by (simp add: text_lines_def join_split_lines)
  qed
  ultimately show ?thesis by (simp add: ren)
qed

definition sample_render :: string where
  "sample_render = ''a'' @ [newline] @ ''b: {}}}'' @ [newline] @ ''c'' @ [newline]"

definition sample_talos :: string where
  "sample_talos = ''a'' @ [newline] @ ''x: {{ y }}'' @ [newline] @ ''b: {}}}'' @ [newline] @ ''c'' @ [newline]"

definition sample_variants :: "variant list" where
  "sample_variants = [
     \<lparr>v_cond = ''.Talos'', v_lines = text_lines sample_talos\<rparr>,
     \<lparr>v_cond = ''.KubeProxyReplacement'',
      v_lines = text_lines (''a'' @ [newline] @ ''b: {}}}'' @ [newline] @ ''d'' @ [newline])\<rparr>]"

definition sample_body :: string where
  "sample_body = (case merge (text_lines sample_render) sample_variants of Inr b \<Rightarrow> b | Inl e \<Rightarrow> [])"

theorem merge_roundtrip_witness:
  "merge (text_lines sample_render) sample_variants = Inr sample_body \<and>
   render_template (\<lambda>f. if f = ''.Talos'' then Some (True, []) else if f = ''.KubeProxyReplacement'' then Some (False, []) else None)
     sample_body = Some sample_talos"
proof -
  let ?fs = "\<lambda>f. if f = ''.Talos'' then Some (True, []) else if f = ''.KubeProxyReplacement'' then Some (False, []) else None"
  have m: "merge (text_lines sample_render) sample_variants = Inr sample_body" by code_simp
  have d: "distinct (map v_cond sample_variants)" by code_simp
  have s: "\<forall>v \<in> set sample_variants. sets ?fs (v_cond v) ((\<lambda>c. c = ''.Talos'') (v_cond v))"
    by (simp add: sample_variants_def sets_def cond_ok_def field_char_def)
  from merge_roundtrip[OF m d s] show ?thesis
    using m by (auto simp: sample_variants_def)
qed

end
