(* ===== verification/Cilium_Run.thy ===== *)
theory Cilium_Run
  imports Cilium_Manifest
begin

text \<open>
  The run of the Cilium generator (\<open>run\<close> of \<open>hack/cilium-manifest/main.go\<close>): it renders the chart
  four times, merges the renders, puts the endpoint's actions in place of the sentinels, and writes
  the template only after executing it for all four. The helm program, the YAML parser, the write
  of a file and the order in which Go walks a map are parameters.
\<close>

section \<open>Constants\<close>

definition chart_repo :: string where
  "chart_repo = ''https://helm.cilium.io''"

definition hostSentinel :: string where
  "hostSentinel = ''k8s-service-host.invalid''"

definition portSentinel :: string where
  "portSentinel = ''61234''"

definition baseValues :: "string list" where
  "baseValues = [''devices=eth0'', ''hubble.enabled=false'']"

definition kprValues :: "string list" where
  "kprValues = [''kubeProxyReplacement=true'', ''k8sServiceHost='' @ hostSentinel, ''k8sServicePort='' @ portSentinel]"

section \<open>Parameters\<close>

text \<open>
  \<open>g_helm\<close>: the output of the helm program for its arguments. \<open>g_capabilities\<close>: the map
  \<open>securityContext.capabilities\<close> of the values document. \<open>g_write\<close>: writing a file by path and
  content. \<open>g_order\<close>: the keys of the four renders as \<open>range\<close> meets them. \<open>g_template_error\<close>: the
  text of an error of the template package.
\<close>

record generator =
  g_helm :: "string list \<Rightarrow> error + string"
  g_capabilities :: "string \<Rightarrow> error + (string \<rightharpoonup> string list)"
  g_write :: "string \<Rightarrow> string \<Rightarrow> error option"
  g_order :: "(bool \<times> bool) list"
  g_template_error :: string
  g_temp :: string

section \<open>Values and helm\<close>

text \<open>The capability lists without \<open>SYS_MODULE\<close>, which each of them must hold.\<close>

fun capability_values :: "(string \<rightharpoonup> string list) \<Rightarrow> string list \<Rightarrow> error + string list" where
  "capability_values caps [] = Inr []"
| "capability_values caps (key # keys) =
     (let cs = (case caps key of None \<Rightarrow> [] | Some cs \<Rightarrow> cs) in
      if ''SYS_MODULE'' \<notin> set cs then
        Inl (Plain (''securityContext.capabilities.'' @ key @ '' has no SYS_MODULE: review the Talos values''))
      else
        (case capability_values caps keys of
           Inl e \<Rightarrow> Inl e
         | Inr vs \<Rightarrow>
             Inr ((''securityContext.capabilities.'' @ key @ ''={'' @
                   join_str (filter (\<lambda>c. c \<noteq> ''SYS_MODULE'') cs) '','' @ ''}'') # vs)))"

definition talosValues :: "generator \<Rightarrow> string \<Rightarrow> error + string list" where
  "talosValues g version =
     (case g_helm g [''show'', ''values'', ''cilium'', ''--repo'', chart_repo, ''--version'', version] of
        Inl e \<Rightarrow> Inl (Wrapped ''helm show values: '' e)
      | Inr out \<Rightarrow>
          (case g_capabilities g out of
             Inl e \<Rightarrow> Inl (Wrapped ''parse chart values: '' e)
           | Inr caps \<Rightarrow>
               (case capability_values caps [''ciliumAgent'', ''cleanCiliumState''] of
                  Inl e \<Rightarrow> Inl e
                | Inr vs \<Rightarrow>
                    Inr ([''ipam.mode=kubernetes'', ''cgroup.autoMount.enabled=false'',
                          ''cgroup.hostRoot=/sys/fs/cgroup''] @ vs))))"

definition helmTemplate :: "generator \<Rightarrow> string \<Rightarrow> string list \<Rightarrow> error + string" where
  "helmTemplate g version values =
     (case g_helm g ([''template'', ''cilium'', ''cilium'', ''--repo'', chart_repo, ''--version'', version,
                      ''--namespace'', ''kube-system''] @ concat (map (\<lambda>v. [''--set'', v]) values)) of
        Inl e \<Rightarrow> Inl (Wrapped (''helm template ['' @ join_str values '' '' @ '']: '') e)
      | Inr out \<Rightarrow> Inr out)"

text \<open>The values of a render, by its key: Talos or not, kube-proxy replacement or not.\<close>

definition render_values :: "string list \<Rightarrow> bool \<times> bool \<Rightarrow> string list" where
  "render_values tv key =
     baseValues @ (if fst key then tv else []) @ (if snd key then kprValues else [])"

fun render_all :: "generator \<Rightarrow> string \<Rightarrow> string list \<Rightarrow> (bool \<times> bool) list \<Rightarrow> error + (bool \<times> bool \<rightharpoonup> string)" where
  "render_all g version tv [] = Inr Map.empty"
| "render_all g version tv (key # keys) =
     (case helmTemplate g version (render_values tv key) of
        Inl e \<Rightarrow> Inl e
      | Inr out \<Rightarrow>
          (case render_all g version tv keys of
             Inl e \<Rightarrow> Inl e
           | Inr renders \<Rightarrow> Inr (renders(key \<mapsto> out))))"

definition render_keys :: "(bool \<times> bool) list" where
  "render_keys = [(False, False), (False, True), (True, False), (True, True)]"

section \<open>The header\<close>

definition set_flags :: "string list \<Rightarrow> string" where
  "set_flags vs = join_str (map (\<lambda>v. ''    --set '' @ v) vs) ('' '' @ [CHR 0x5C, newline])"

definition header :: "string \<Rightarrow> string list \<Rightarrow> string list \<Rightarrow> string" where
  "header version tv kv = join_lines [
     ''{{- /*'',
     ''Code generated by hack/cilium-manifest (make cilium-manifest). DO NOT EDIT.'',
     '''',
     ''Cilium '' @ version @ '', rendered from the Helm chart and executed with Go text/template by'',
     ''the XOCluster controller (see ciliumManifestData):'',
     '''',
     ''  helm template cilium cilium --repo '' @ chart_repo @ '' --version '' @ version @ '' '' @ [CHR 0x5C],
     ''    --namespace kube-system '' @ [CHR 0x5C],
     set_flags baseValues,
     '''',
     ''.Talos adds the Talos Linux values (chart default capabilities without'',
     ''SYS_MODULE):'',
     set_flags tv,
     '''',
     ''.KubeProxyReplacement adds (the endpoint comes from .K8sServiceHost and'',
     ''.K8sServicePort):'',
     set_flags kv,
     ''*/ -}}'',
     '''']"

section \<open>Sentinels\<close>

text \<open>\<open>strings.ReplaceAll\<close> for a text that is not empty.\<close>

function replace_all :: "string \<Rightarrow> string \<Rightarrow> string \<Rightarrow> string" where
  "replace_all old new [] = []"
| "replace_all old new (c # cs) =
     (if old \<noteq> [] \<and> prefix old (c # cs) then new @ replace_all old new (drop (length old) (c # cs))
      else c # replace_all old new cs)"
  by pat_completeness auto
termination
  by (relation "measure (\<lambda>(old, new, s). length s)") auto

definition in_quotes :: "string \<Rightarrow> string" where
  "in_quotes s = dquote # s @ [dquote]"

definition put_actions :: "string \<Rightarrow> error + string" where
  "put_actions body =
     (if \<not> contains_str body (in_quotes hostSentinel) \<or> \<not> contains_str body (in_quotes portSentinel) then
        Inl (Plain ''API server endpoint sentinels not found in the kube-proxy replacement render'')
      else
        (let body' =
           replace_all (in_quotes portSentinel) (in_quotes ''{{ .K8sServicePort }}'')
             (replace_all (in_quotes hostSentinel)
                (''{{ printf '' @ in_quotes ''%q'' @ '' .K8sServiceHost }}'') body)
         in if contains_str body' hostSentinel \<or> contains_str body' portSentinel then
              Inl (Plain ''unexpected API server endpoint sentinel left in the template'')
            else Inr body'))"

section \<open>The check\<close>

definition bool_str :: "bool \<Rightarrow> string" where
  "bool_str b = (if b then ''true'' else ''false'')"

text \<open>\<open>templateData\<close>: the truth and the text of each field.\<close>

definition template_data :: "bool \<times> bool \<Rightarrow> fields" where
  "template_data key f =
     (if f = ''.Talos'' then Some (fst key, bool_str (fst key))
      else if f = ''.KubeProxyReplacement'' then Some (snd key, bool_str (snd key))
      else if f = ''.K8sServiceHost'' then Some (True, hostSentinel)
      else if f = ''.K8sServicePort'' then Some (True, portSentinel)
      else None)"

type_synonym files = "(string \<times> string) list"

text \<open>
  One execution per render. On a difference both texts go to the temporary directory, whether or not
  that succeeds, and the run ends.
\<close>

fun check_renders ::
  "generator \<Rightarrow> token list \<Rightarrow> (bool \<times> bool \<rightharpoonup> string) \<Rightarrow> (bool \<times> bool) list \<Rightarrow> error option \<times> files" where
  "check_renders g ts renders [] = (None, [])"
| "check_renders g ts renders (key # keys) =
     (case exec (template_data key) [] ts of
        None \<Rightarrow> (Some (Wrapped ''execute generated template: '' (Plain (g_template_error g))), [])
      | Some got \<Rightarrow>
          (if renders key = Some got then check_renders g ts renders keys
           else
             (let name = ''cilium-talos='' @ bool_str (fst key) @ ''-kpr='' @ bool_str (snd key);
                  want = (case renders key of None \<Rightarrow> [] | Some w \<Rightarrow> w)
              in (Some (Plain (''generated template does not reproduce the helm render '' @ name @
                        '': compare '' @ name @ ''.{helm,template}.yaml in '' @ g_temp g)),
                  [(g_temp g @ ''/'' @ name @ ''.helm.yaml'', want),
                   (g_temp g @ ''/'' @ name @ ''.template.yaml'', got)]))))"

section \<open>The run\<close>

definition the_render :: "(bool \<times> bool \<rightharpoonup> string) \<Rightarrow> bool \<times> bool \<Rightarrow> string" where
  "the_render renders key = (case renders key of None \<Rightarrow> [] | Some r \<Rightarrow> r)"

definition merged :: "(bool \<times> bool \<rightharpoonup> string) \<Rightarrow> error + string" where
  "merged renders =
     merge (text_lines (the_render renders (False, False)))
       [\<lparr>v_cond = ''.Talos'', v_lines = text_lines (the_render renders (True, False))\<rparr>,
        \<lparr>v_cond = ''.KubeProxyReplacement'', v_lines = text_lines (the_render renders (False, True))\<rparr>]"

text \<open>What is tried to be written is the second component, by path and content.\<close>

definition check_and_write ::
  "generator \<Rightarrow> (bool \<times> bool \<rightharpoonup> string) \<Rightarrow> string \<Rightarrow> string \<Rightarrow> error option \<times> files" where
  "check_and_write g renders manifest out =
     (case parse_template manifest of
        None \<Rightarrow> (Some (Wrapped ''parse generated template: '' (Plain (g_template_error g))), [])
      | Some ts \<Rightarrow>
          (case check_renders g ts renders (g_order g) of
             (Some e, files) \<Rightarrow> (Some e, files)
           | (None, files) \<Rightarrow> (g_write g out manifest, files @ [(out, manifest)])))"

definition generate :: "generator \<Rightarrow> string \<Rightarrow> string \<Rightarrow> error option \<times> files" where
  "generate g version out =
     (case talosValues g version of
        Inl e \<Rightarrow> (Some e, [])
      | Inr tv \<Rightarrow>
          (case render_all g version tv render_keys of
             Inl e \<Rightarrow> (Some e, [])
           | Inr renders \<Rightarrow>
               (case merged renders of
                  Inl e \<Rightarrow> (Some e, [])
                | Inr body \<Rightarrow>
                    (case put_actions body of
                       Inl e \<Rightarrow> (Some e, [])
                     | Inr body' \<Rightarrow>
                         check_and_write g renders (header version tv kprValues @ body') out))))"

section \<open>The header is a comment\<close>

definition star_free :: "string \<Rightarrow> bool" where
  "star_free s \<longleftrightarrow> list_all (\<lambda>c. c \<noteq> CHR ''*'') s"

lemma star_free_append: "star_free (a @ b) \<longleftrightarrow> star_free a \<and> star_free b"
  by (simp add: star_free_def)

lemma star_free_join: "star_free sep \<Longrightarrow> list_all star_free ls \<Longrightarrow> star_free (join_str ls sep)"
  by (induction ls sep rule: join_str.induct) (simp_all add: star_free_def)

lemma star_free_flags: "list_all star_free vs \<Longrightarrow> star_free (set_flags vs)"
  unfolding set_flags_def by (intro star_free_join) (auto simp: star_free_def list_all_iff)

lemma cut_comment: "star_free b \<Longrightarrow> cut_str (b @ ''*/'' @ y) ''*/'' = Some (b, y)"
  by (induction b) (auto simp: star_free_def)

lemma header_parts:
  "\<exists>b. header version tv kv = ''{{- /*'' @ b @ ''*/ -}}'' @ [newline] \<and>
     (star_free version \<longrightarrow> list_all star_free tv \<longrightarrow> list_all star_free kv \<longrightarrow> star_free b)"
proof -
  let ?b = "newline # join_lines [
     ''Code generated by hack/cilium-manifest (make cilium-manifest). DO NOT EDIT.'',
     [],
     ''Cilium '' @ version @ '', rendered from the Helm chart and executed with Go text/template by'',
     ''the XOCluster controller (see ciliumManifestData):'',
     [],
     ''  helm template cilium cilium --repo '' @ chart_repo @ '' --version '' @ version @ '' '' @ [CHR 0x5C],
     ''    --namespace kube-system '' @ [CHR 0x5C],
     set_flags baseValues,
     [],
     ''.Talos adds the Talos Linux values (chart default capabilities without'',
     ''SYS_MODULE):'',
     set_flags tv,
     [],
     ''.KubeProxyReplacement adds (the endpoint comes from .K8sServiceHost and'',
     ''.K8sServicePort):'',
     set_flags kv] @ [newline]"
  have "header version tv kv = ''{{- /*'' @ ?b @ ''*/ -}}'' @ [newline]"
    by (simp add: header_def join_lines_def)
  moreover have "star_free ?b" if "star_free version" "list_all star_free tv" "list_all star_free kv"
  proof -
    have "star_free (set_flags baseValues)"
      by (intro star_free_flags) (simp add: baseValues_def star_free_def)
    moreover have "star_free chart_repo" by (simp add: chart_repo_def star_free_def)
    moreover note that star_free_flags[OF that(2)] star_free_flags[OF that(3)]
    ultimately show ?thesis by (simp add: join_lines_def star_free_def)
  qed
  ultimately show ?thesis by blast
qed

lemma lex_header_comment:
  assumes "star_free b" and "y = [] \<or> \<not> is_space (hd y)"
  shows "lex_tokens (''{{- /*'' @ b @ ''*/ -}}'' @ newline # y) = map_option ((#) TTrim) (lex_tokens y)"
proof -
  have "dropWhile is_space (newline # y) = y"
    using assms(2) by (cases y) (auto simp: is_space_def)
  then have "read_comment (b @ ''*/ -}}'' @ newline # y) = Some y"
    using cut_comment[OF assms(1), of "'' -}}'' @ newline # y"]
    by (simp add: read_comment_def after_comment_def right_marker_def is_space_def)
  then show ?thesis
    by (subst lex_tokens.simps) (simp add: trim_rest_def trim_tokens_def left_marker_def is_space_def Let_def map_option_singleton)
qed

lemma parse_trim: "lex_tokens s = map_option ((#) TTrim) (lex_tokens t) \<Longrightarrow>
  parse_template s = map_option ((#) TTrim) (parse_template t)"
  by (cases "lex_tokens t") (simp_all add: parse_template_def Let_def)

lemma parse_header:
  assumes "star_free version" and "list_all star_free tv" and "list_all star_free kv"
    and "body = [] \<or> \<not> is_space (hd body)"
  shows "parse_template (header version tv kv @ body) = map_option ((#) TTrim) (parse_template body)"
proof -
  obtain b where "header version tv kv = ''{{- /*'' @ b @ ''*/ -}}'' @ [newline]" and "star_free b"
    using header_parts assms by blast
  with lex_header_comment[OF _ assms(4), of b] show ?thesis by (intro parse_trim) simp
qed

text \<open>
  The header does not show: with a version and values that hold no asterisk, in front of a body
  that does not begin with white space, the template renders what its body renders.
\<close>

theorem header_vanishes:
  assumes "star_free version" and "list_all star_free tv" and "list_all star_free kv"
    and "body = [] \<or> \<not> is_space (hd body)"
  shows "render_template fs (header version tv kv @ body) = render_template fs body"
proof -
  have "render_template fs s = Option.bind (parse_template s) (exec fs [])" for s
  proof -
    have "render_template fs s = Some t \<longleftrightarrow> Option.bind (parse_template s) (exec fs []) = Some t" for t
      by (simp add: render_template_parsed bind_eq_Some_conv)
    then show ?thesis by (metis not_None_eq)
  qed
  with parse_header[OF assms] show ?thesis by (cases "parse_template body") simp_all
qed

theorem header_vanishes_witness:
  "render_template (template_data (True, False)) (header ''1.18'' [''ipam.mode=kubernetes''] kprValues @ ''a {{ .K8sServicePort }}'')
   = Some (''a '' @ portSentinel)"
proof -
  have "render_template (template_data (True, False)) ''a {{ .K8sServicePort }}'' = Some (''a '' @ portSentinel)"
    by code_simp
  moreover have "render_template (template_data (True, False))
      (header ''1.18'' [''ipam.mode=kubernetes''] kprValues @ ''a {{ .K8sServicePort }}'') =
    render_template (template_data (True, False)) ''a {{ .K8sServicePort }}''"
    by (rule header_vanishes) (simp_all add: star_free_def kprValues_def hostSentinel_def portSentinel_def is_space_def)
  ultimately show ?thesis by simp
qed

section \<open>What is written\<close>

lemma render_all_keys:
  "render_all g version tv keys = Inr renders \<Longrightarrow> key \<in> set keys \<Longrightarrow>
   \<exists>out. renders key = Some out \<and> helmTemplate g version (render_values tv key) = Inr out"
  by (induction keys arbitrary: renders) (auto split: sum.splits)

lemma render_keys_UNIV: "key \<in> set render_keys"
  by (cases key) (auto simp: render_keys_def)

lemma check_renders_pass:
  "check_renders g ts renders keys = (None, files) \<Longrightarrow>
   files = [] \<and> (\<forall>key \<in> set keys. exec (template_data key) [] ts = renders key)"
  by (induction keys arbitrary: files) (auto simp: Let_def split: option.splits if_splits)

text \<open>The files a failing check leaves are those of the comparison.\<close>

definition comparison_file :: "generator \<Rightarrow> string \<Rightarrow> bool" where
  "comparison_file g path \<longleftrightarrow> prefix (g_temp g @ ''/cilium-talos='') path"

lemma check_renders_files:
  "check_renders g ts renders keys = (r, files) \<Longrightarrow> (path, m) \<in> set files \<Longrightarrow> comparison_file g path"
  by (induction keys arbitrary: files) (auto simp: Let_def comparison_file_def split: option.splits if_splits)

text \<open>The two ends of a run: it stops before the write, or the write is of a checked template.\<close>

definition checked :: "generator \<Rightarrow> string \<Rightarrow> string list \<Rightarrow> string \<Rightarrow> bool \<times> bool \<Rightarrow> bool" where
  "checked g version tv m key \<longleftrightarrow>
     (\<exists>want. helmTemplate g version (render_values tv key) = Inr want \<and>
       render_template (template_data key) m = Some want)"

lemma check_and_write_cases:
  assumes "check_and_write g renders m out = (r, files)"
    and "\<And>key. \<exists>want. renders key = Some want \<and> helmTemplate g version (render_values tv key) = Inr want"
  shows "(r \<noteq> None \<and> (\<forall>(path, t) \<in> set files. comparison_file g path)) \<or>
    (r = g_write g out m \<and> files = [(out, m)] \<and> (\<forall>key \<in> set (g_order g). checked g version tv m key))"
proof (cases "parse_template m")
  case None
  with assms(1) show ?thesis by (auto simp: check_and_write_def)
next
  case (Some ts)
  obtain e fs where c: "check_renders g ts renders (g_order g) = (e, fs)" by fastforce
  show ?thesis
  proof (cases e)
    case None
    have "checked g version tv m key" if "key \<in> set (g_order g)" for key
      using that check_renders_pass[OF c[unfolded None]] assms(2)[of key] Some
      by (auto simp: checked_def render_template_parsed)
    with c None Some check_renders_pass[OF c[unfolded None]] assms(1) show ?thesis
      by (auto simp: check_and_write_def)
  next
    case (Some x)
    with c \<open>parse_template m = _\<close> check_renders_files[OF c] assms(1) show ?thesis
      by (auto simp: check_and_write_def)
  qed
qed

lemma generate_cases:
  assumes "generate g version out = (r, files)"
  shows "(r \<noteq> None \<and> (\<forall>(path, t) \<in> set files. comparison_file g path)) \<or>
    (\<exists>m tv. talosValues g version = Inr tv \<and> r = g_write g out m \<and> files = [(out, m)] \<and>
       (\<forall>key \<in> set (g_order g). checked g version tv m key))"
proof (cases "\<exists>tv renders body body'. talosValues g version = Inr tv \<and>
    render_all g version tv render_keys = Inr renders \<and> merged renders = Inr body \<and> put_actions body = Inr body'")
  case False
  with assms show ?thesis by (auto simp: generate_def split: sum.splits)
next
  case True
  then obtain tv renders body body' where tv: "talosValues g version = Inr tv"
    and renders: "render_all g version tv render_keys = Inr renders"
    and "merged renders = Inr body" "put_actions body = Inr body'" by blast
  with assms have w: "check_and_write g renders (header version tv kprValues @ body') out = (r, files)"
    by (simp add: generate_def)
  have "\<exists>want. renders key = Some want \<and> helmTemplate g version (render_values tv key) = Inr want" for key
    using render_all_keys[OF renders render_keys_UNIV] .
  from check_and_write_cases[OF w this] tv show ?thesis by blast
qed


definition sample_chart :: "bool \<Rightarrow> bool \<Rightarrow> string" where
  "sample_chart talos kpr = join_lines (
     [''---'', ''kind: DaemonSet''] @ (if talos then [''hostRoot: /sys''] else []) @ [''json: {a: {b: {}}}''] @
     (if kpr then [''host: '' @ in_quotes hostSentinel, ''port: '' @ in_quotes portSentinel] else []) @
     [''---'', []])"

definition sample_generator :: generator where
  "sample_generator = \<lparr>
     g_helm = (\<lambda>args. Inr (if hd args = ''show'' then []
       else sample_chart (''ipam.mode=kubernetes'' \<in> set args) (''kubeProxyReplacement=true'' \<in> set args))),
     g_capabilities = (\<lambda>out. Inr (\<lambda>key. Some [''NET_ADMIN'', ''SYS_MODULE''])),
     g_write = (\<lambda>path m. None),
     g_order = [(True, True), (False, True), (True, False), (False, False)],
     g_template_error = ''unexpected'', g_temp = ''/tmp''\<rparr>"

definition sample_tv :: "string list" where
  "sample_tv = [''ipam.mode=kubernetes'', ''cgroup.autoMount.enabled=false'', ''cgroup.hostRoot=/sys/fs/cgroup'',
     ''securityContext.capabilities.ciliumAgent={NET_ADMIN}'',
     ''securityContext.capabilities.cleanCiliumState={NET_ADMIN}'']"

definition sample_renders :: "bool \<times> bool \<rightharpoonup> string" where
  "sample_renders key = Some (sample_chart (fst key) (snd key))"

definition sample_template :: string where
  "sample_template = (case merged sample_renders of Inr b \<Rightarrow> (case put_actions b of Inr b' \<Rightarrow> b' | Inl e \<Rightarrow> []) | Inl e \<Rightarrow> [])"

lemma sample_order: "set (g_order sample_generator) = UNIV"
  by (auto simp: sample_generator_def)

lemma sample_run:
  "generate sample_generator ''1.18'' ''cni.yaml'' =
   (None, [(''cni.yaml'', header ''1.18'' sample_tv kprValues @ sample_template)])"
proof -
  have tv: "talosValues sample_generator ''1.18'' = Inr sample_tv" by code_simp
  have "sample_renders = (\<lambda>_. None)((True,True) \<mapsto> sample_chart True True, (True,False) \<mapsto> sample_chart True False,
      (False,True) \<mapsto> sample_chart False True, (False,False) \<mapsto> sample_chart False False)"
    by (rule ext) (auto simp: sample_renders_def)
  then have renders: "render_all sample_generator ''1.18'' sample_tv render_keys = Inr sample_renders"
    by (simp add: render_keys_def helmTemplate_def sample_generator_def render_values_def kprValues_def
        baseValues_def sample_tv_def chart_repo_def hostSentinel_def portSentinel_def)
  obtain body where body: "merged sample_renders = Inr body" "put_actions body = Inr sample_template"
  proof -
    have "(case merged sample_renders of Inr b \<Rightarrow> put_actions b = Inr sample_template | Inl e \<Rightarrow> False)" by code_simp
    then show ?thesis using that by (auto split: sum.splits)
  qed
  obtain ts where ts: "parse_template sample_template = Some ts"
    and check: "check_renders sample_generator ts sample_renders (g_order sample_generator) = (None, [])"
  proof -
    have "(case parse_template sample_template of None \<Rightarrow> False
        | Some ts \<Rightarrow> check_renders sample_generator ts sample_renders (g_order sample_generator) = (None, []))" by code_simp
    then show ?thesis using that by (auto split: option.splits)
  qed
  have "sample_template = [] \<or> \<not> is_space (hd sample_template)" by code_simp
  then have "parse_template (header ''1.18'' sample_tv kprValues @ sample_template) = Some (TTrim # ts)"
    by (subst parse_header) (simp_all add: ts star_free_def sample_tv_def kprValues_def hostSentinel_def portSentinel_def)
  moreover have "check_renders g (TTrim # ts) renders keys = check_renders g ts renders keys" for g renders keys
    by (induction keys) (simp_all split: option.splits)
  moreover have "g_write sample_generator path m = None" for path m by (simp add: sample_generator_def)
  ultimately show ?thesis
    by (simp add: generate_def tv renders body check_and_write_def check)
qed


section \<open>The command\<close>

text \<open>
  \<open>main\<close> with the values of its two flags: the exit status, what goes to the standard error and the
  files written. \<open>fail\<close> prints the error and exits with 1.
\<close>

definition fail :: "error \<Rightarrow> nat \<times> string" where
  "fail err = (1, ''cilium-manifest: '' @ error_text err @ [newline])"

definition generator_main :: "generator \<Rightarrow> string \<Rightarrow> string \<Rightarrow> (nat \<times> string) \<times> files" where
  "generator_main g version out =
     (if version = [] then (fail (Plain ''-version is required''), [])
      else (case generate g version out of
              (Some err, files) \<Rightarrow> (fail err, files)
            | (None, files) \<Rightarrow> ((0, []), files)))"

text \<open>
  The exit status tells whether the template was written: 0 and nothing on the standard error exactly
  when it was, once; otherwise only comparison files, or the template by a write that reported an error.
\<close>

theorem generator_main_status:
  assumes "generator_main g version out = ((status, text), files)"
  shows "(status = 0 \<longrightarrow> text = [] \<and> version \<noteq> [] \<and> map fst files = [out]) \<and>
    (status \<noteq> 0 \<longrightarrow> status = 1 \<and> text \<noteq> [] \<and>
      (\<forall>f \<in> set files. comparison_file g (fst f) \<or> fst f = out))"
proof -
  obtain r fs where run: "generate g version out = (r, fs)" by fastforce
  from generate_cases[OF run] run assms show ?thesis
    by (cases r) (auto simp: generator_main_def fail_def split: if_splits)
qed

theorem generator_main_status_witness:
  "generator_main sample_generator ''1.18'' ''cni.yaml'' =
     ((0, []), [(''cni.yaml'', header ''1.18'' sample_tv kprValues @ sample_template)]) \<and>
   map fst (snd (generator_main sample_generator ''1.18'' ''cni.yaml'')) = [''cni.yaml'']"
proof -
  have run: "generator_main sample_generator ''1.18'' ''cni.yaml'' =
     ((0, []), [(''cni.yaml'', header ''1.18'' sample_tv kprValues @ sample_template)])"
    using sample_run by (simp add: generator_main_def)
  from generator_main_status[OF run] run show ?thesis by simp
qed

end
