(* ===== verification/Go_Memory.thy ===== *)
theory Go_Memory
  imports Main "HOL-Library.Monad_Syntax"
begin

text \<open>
  Go's memory, for the generated deep copies, whose point is which objects are shared: the rest
  of the development passes objects as values. An allocated object (what \<open>new\<close> or \<open>make\<close>
  returned) has an address; a pointer, a slice or a map is an address (a slice with its offset,
  length and capacity), so a struct holds its own fields but only the addresses of what it
  points to. A location is an address with the path to a field or an array element inside the
  object (\<open>&in.Spec\<close>, \<open>&(*out)[i]\<close>). Memory is never freed and grows at its end, so an address
  is allocated when it is below the length. A run-time panic (nil dereference, index out of
  range) is \<open>None\<close>.

  A type says how to read a value: \<open>well\<close> (the value has the type, with everything it points
  to), \<open>view\<close> (the value with the pointers followed, free of addresses) and \<open>reach\<close> (the
  addresses passed on the way). An integer, a duration or an instant is an \<open>IntT\<close>.
\<close>

section \<open>Values, types and locations\<close>

type_synonym addr = nat

datatype go_val =
    IntV int
  | BoolV bool
  | StringV string
  | NilV
  | PtrV addr
  | SliceV addr nat nat nat
  | MapV addr
  | StructV "(string \<times> go_val) list"
  | ArrayV "go_val list"
  | EntriesV "(string \<times> go_val) list"

type_synonym memory = "go_val list"

datatype go_type =
    IntT
  | BoolT
  | StringT
  | PtrT go_type
  | SliceT go_type
  | MapT go_type
  | StructT "(string \<times> go_type) list"

datatype access = Fld string | Elem nat

type_synonym loc = "addr \<times> access list"

fun zero_of :: "go_type \<Rightarrow> go_val" where
  "zero_of IntT = IntV 0"
| "zero_of BoolT = BoolV False"
| "zero_of StringT = StringV []"
| "zero_of (PtrT T) = NilV"
| "zero_of (SliceT T) = NilV"
| "zero_of (MapT T) = NilV"
| "zero_of (StructT fs) = StructV (map (\<lambda>(f, T). (f, zero_of T)) fs)"

fun set_field :: "string \<Rightarrow> go_val \<Rightarrow> (string \<times> go_val) list \<Rightarrow> (string \<times> go_val) list" where
  "set_field f w [] = []"
| "set_field f w ((g, x) # gs) = (if g = f then (g, w) # gs else (g, x) # set_field f w gs)"

definition field :: "string \<Rightarrow> (string \<times> go_val) list \<Rightarrow> go_val" where
  "field f gs = (case map_of gs f of None \<Rightarrow> NilV | Some w \<Rightarrow> w)"

lemma set_field_names [simp]: "map fst (set_field f w gs) = map fst gs"
  by (induction f w gs rule: set_field.induct) auto

lemma map_of_set_field:
  "map_of (set_field f w gs) g =
     (if g = f \<and> map_of gs f \<noteq> None then Some w else map_of gs g)"
  by (induction f w gs rule: set_field.induct) auto

lemma set_field_twice [simp]: "set_field f w (set_field f w' gs) = set_field f w gs"
  by (induction f w' gs rule: set_field.induct) auto

lemma set_field_id: "map_of gs f = Some w \<Longrightarrow> set_field f w gs = gs"
  by (induction f w gs rule: set_field.induct) (auto split: if_splits)

lemma field_set_field:
  "f \<in> set (map fst gs) \<Longrightarrow> field g (set_field f w gs) = (if g = f then w else field g gs)"
  by (auto simp: field_def map_of_set_field map_of_eq_None_iff split: option.split)

lemma map_of_field: "f \<in> set (map fst gs) \<Longrightarrow> map_of gs f = Some (field f gs)"
  by (auto simp: field_def map_of_eq_None_iff split: option.split)

section \<open>Reading and writing inside an object\<close>

fun get1 :: "access \<Rightarrow> go_val \<Rightarrow> go_val option" where
  "get1 (Fld f) (StructV gs) = map_of gs f"
| "get1 (Elem i) (ArrayV ws) = (if i < length ws then Some (ws ! i) else None)"
| "get1 _ _ = None"

fun put1 :: "access \<Rightarrow> go_val \<Rightarrow> go_val \<Rightarrow> go_val" where
  "put1 (Fld f) w (StructV gs) = StructV (set_field f w gs)"
| "put1 (Elem i) w (ArrayV ws) = ArrayV (ws[i := w])"
| "put1 _ _ v = v"

fun get_at :: "access list \<Rightarrow> go_val \<Rightarrow> go_val option" where
  "get_at [] v = Some v"
| "get_at (s # p) v = (case get1 s v of None \<Rightarrow> None | Some u \<Rightarrow> get_at p u)"

fun put_at :: "access list \<Rightarrow> go_val \<Rightarrow> go_val \<Rightarrow> go_val" where
  "put_at [] w v = w"
| "put_at (s # p) w v = (case get1 s v of None \<Rightarrow> v | Some u \<Rightarrow> put1 s (put_at p w u) v)"

lemma get1_put1: "get1 s v \<noteq> None \<Longrightarrow> get1 s (put1 s w v) = Some w"
  by (cases "(s, v)" rule: get1.cases) (auto simp: map_of_set_field split: if_splits)

lemma put1_put1 [simp]: "put1 s w (put1 s w' v) = put1 s w v"
  by (cases "(s, v)" rule: get1.cases) auto

lemma put1_get1: "get1 s v = Some u \<Longrightarrow> put1 s u v = v"
  by (cases "(s, v)" rule: get1.cases) (auto simp: set_field_id split: if_splits)

lemma get_put_at: "get_at p v \<noteq> None \<Longrightarrow> get_at p (put_at p w v) = Some w"
  by (induction p arbitrary: v) (auto simp: get1_put1 split: option.splits)

lemma put_put_at: "get_at p v \<noteq> None \<Longrightarrow> put_at p w (put_at p w' v) = put_at p w v"
  by (induction p arbitrary: v) (auto simp: get1_put1 split: option.splits)

lemma put_get_at: "get_at p v = Some u \<Longrightarrow> put_at p u v = v"
  by (induction p arbitrary: v) (auto simp: put1_get1 split: option.splits)

lemma get_at_append: "get_at (p @ q) v = get_at p v \<bind> get_at q"
  by (induction p arbitrary: v) (auto split: option.splits)

lemma put_at_append:
  "get_at p v = Some u \<Longrightarrow> put_at (p @ q) w v = put_at p (put_at q w u) v"
  by (induction p arbitrary: v) (auto split: option.splits)

section \<open>Memory\<close>

definition load :: "memory \<Rightarrow> loc \<Rightarrow> go_val option" where
  "load h l = (if fst l < length h then get_at (snd l) (h ! fst l) else None)"

definition store :: "memory \<Rightarrow> loc \<Rightarrow> go_val \<Rightarrow> memory option" where
  "store h l w = (if load h l = None then None
     else Some (h[fst l := put_at (snd l) w (h ! fst l)]))"

definition fld :: "loc \<Rightarrow> string \<Rightarrow> loc" where
  "fld l f = (fst l, snd l @ [Fld f])"

definition deref :: "memory \<Rightarrow> loc \<Rightarrow> loc option" where
  "deref h l = (case load h l of Some (PtrV a) \<Rightarrow> Some (a, []) | _ \<Rightarrow> None)"

definition index :: "memory \<Rightarrow> loc \<Rightarrow> nat \<Rightarrow> loc option" where
  "index h l i = (case load h l of
       Some (SliceV a off n c) \<Rightarrow> if i < n then Some (a, [Elem (off + i)]) else None
     | _ \<Rightarrow> None)"

lemma fst_fld [simp]: "fst (fld l f) = fst l"
  by (simp add: fld_def)

lemma load_bounded: "load h l \<noteq> None \<Longrightarrow> fst l < length h"
  by (auto simp: load_def split: if_splits)

lemma load_fld: "load h (fld l f) = load h l \<bind> get_at [Fld f]"
  by (simp add: load_def fld_def get_at_append)

section \<open>Reading a value at its type\<close>

datatype go_tree =
    IntL int
  | BoolL bool
  | StringL string
  | NilL
  | PtrL go_tree
  | SliceL "go_tree list"
  | MapL "(string \<times> go_tree) list"
  | StructL "(string \<times> go_tree) list"
  | IllTyped

definition window :: "nat \<Rightarrow> nat \<Rightarrow> 'a list \<Rightarrow> 'a list" where
  "window off n ws = take n (drop off ws)"

fun well :: "go_type \<Rightarrow> memory \<Rightarrow> go_val \<Rightarrow> bool" where
  "well IntT h v = (case v of IntV i \<Rightarrow> True | _ \<Rightarrow> False)"
| "well BoolT h v = (case v of BoolV b \<Rightarrow> True | _ \<Rightarrow> False)"
| "well StringT h v = (case v of StringV s \<Rightarrow> True | _ \<Rightarrow> False)"
| "well (PtrT T) h v = (case v of NilV \<Rightarrow> True
     | PtrV a \<Rightarrow> a < length h \<and> well T h (h ! a) | _ \<Rightarrow> False)"
| "well (SliceT T) h v = (case v of NilV \<Rightarrow> True
     | SliceV a off n c \<Rightarrow> a < length h \<and> (case h ! a of
         ArrayV ws \<Rightarrow> n \<le> c \<and> off + c \<le> length ws \<and> (\<forall>w \<in> set (window off n ws). well T h w)
       | _ \<Rightarrow> False)
     | _ \<Rightarrow> False)"
| "well (MapT T) h v = (case v of NilV \<Rightarrow> True
     | MapV a \<Rightarrow> a < length h \<and> (case h ! a of
         EntriesV es \<Rightarrow> distinct (map fst es) \<and> (\<forall>e \<in> set es. well T h (snd e))
       | _ \<Rightarrow> False)
     | _ \<Rightarrow> False)"
| "well (StructT fs) h v = (case v of
       StructV gs \<Rightarrow> map fst gs = map fst fs \<and> (\<forall>ft \<in> set fs. well (snd ft) h (field (fst ft) gs))
     | _ \<Rightarrow> False)"

fun view :: "go_type \<Rightarrow> memory \<Rightarrow> go_val \<Rightarrow> go_tree" where
  "view IntT h v = (case v of IntV i \<Rightarrow> IntL i | _ \<Rightarrow> IllTyped)"
| "view BoolT h v = (case v of BoolV b \<Rightarrow> BoolL b | _ \<Rightarrow> IllTyped)"
| "view StringT h v = (case v of StringV s \<Rightarrow> StringL s | _ \<Rightarrow> IllTyped)"
| "view (PtrT T) h v = (case v of NilV \<Rightarrow> NilL
     | PtrV a \<Rightarrow> PtrL (view T h (h ! a)) | _ \<Rightarrow> IllTyped)"
| "view (SliceT T) h v = (case v of NilV \<Rightarrow> NilL
     | SliceV a off n c \<Rightarrow> (case h ! a of
         ArrayV ws \<Rightarrow> SliceL (map (view T h) (window off n ws)) | _ \<Rightarrow> IllTyped)
     | _ \<Rightarrow> IllTyped)"
| "view (MapT T) h v = (case v of NilV \<Rightarrow> NilL
     | MapV a \<Rightarrow> (case h ! a of
         EntriesV es \<Rightarrow> MapL (map (\<lambda>e. (fst e, view T h (snd e))) es) | _ \<Rightarrow> IllTyped)
     | _ \<Rightarrow> IllTyped)"
| "view (StructT fs) h v = (case v of
       StructV gs \<Rightarrow> StructL (map (\<lambda>ft. (fst ft, view (snd ft) h (field (fst ft) gs))) fs)
     | _ \<Rightarrow> IllTyped)"

fun reach :: "go_type \<Rightarrow> memory \<Rightarrow> go_val \<Rightarrow> addr list" where
  "reach (PtrT T) h v = (case v of PtrV a \<Rightarrow> a # reach T h (h ! a) | _ \<Rightarrow> [])"
| "reach (SliceT T) h v = (case v of
       SliceV a off n c \<Rightarrow> a # (case h ! a of
         ArrayV ws \<Rightarrow> concat (map (reach T h) (window off n ws)) | _ \<Rightarrow> [])
     | _ \<Rightarrow> [])"
| "reach (MapT T) h v = (case v of
       MapV a \<Rightarrow> a # (case h ! a of
         EntriesV es \<Rightarrow> concat (map (\<lambda>e. reach T h (snd e)) es) | _ \<Rightarrow> [])
     | _ \<Rightarrow> [])"
| "reach (StructT fs) h v = (case v of
       StructV gs \<Rightarrow> concat (map (\<lambda>ft. reach (snd ft) h (field (fst ft) gs)) fs)
     | _ \<Rightarrow> [])"
| "reach _ h v = []"

text \<open>A type with no pointer in it: what an assignment copies completely.\<close>

fun flat :: "go_type \<Rightarrow> bool" where
  "flat (PtrT T) = False"
| "flat (SliceT T) = False"
| "flat (MapT T) = False"
| "flat (StructT fs) = (\<forall>ft \<in> set fs. flat (snd ft))"
| "flat _ = True"

end
