(* ===== verification/Deep_Copy_Laws.thy ===== *)
theory Deep_Copy_Laws
  imports Go_Memory
begin

text \<open>
  The contract of a deep copy and the blocks \<open>controller-gen\<close> composes one from. A copier of
  type T takes the locations \<open>in\<close> and \<open>out\<close>; it may rely on \<open>in\<close> holding a value of T, on
  \<open>out\<close> lying in another object, and on that object not being reached from the value. It then
  leaves at \<open>out\<close> a value with the same view, reaching only objects it allocated, and writes
  nowhere else (locale \<open>deep_copier\<close>). The block of one field works on a struct whose fields
  were just assigned, so it may rely on \<open>out\<close> holding the same value as \<open>in\<close> (locale
  \<open>field_copier\<close>). Each block is shown to keep the contract of the copier it is built on.
\<close>

section \<open>A value depends on the objects it reaches only\<close>

definition same_at :: "addr list \<Rightarrow> memory \<Rightarrow> memory \<Rightarrow> bool" where
  "same_at A h h' \<longleftrightarrow> (\<forall>a \<in> set A. a < length h' \<and> h' ! a = h ! a)"

lemma same_at_simps [simp]:
  "same_at [] h h'"
  "same_at (a # A) h h' \<longleftrightarrow> a < length h' \<and> h' ! a = h ! a \<and> same_at A h h'"
  "same_at (concat As) h h' \<longleftrightarrow> (\<forall>A \<in> set As. same_at A h h')"
  by (auto simp: same_at_def)

lemma frame:
  "well T h v \<Longrightarrow> same_at (reach T h v) h h' \<Longrightarrow>
     well T h' v \<and> view T h' v = view T h v \<and> reach T h' v = reach T h v"
proof (induction T h v rule: well.induct)
  case (4 T h v)
  then show ?case by (cases v) auto
next
  case (5 T h v)
  show ?case
  proof (cases v)
    case (SliceV a off n c)
    with "5.prems" obtain ws where "h ! a = ArrayV ws" by (auto split: go_val.splits)
    with 5 SliceV show ?thesis by (simp cong: map_cong)
  qed (use 5 in auto)
next
  case (6 T h v)
  show ?case
  proof (cases v)
    case (MapV a)
    with "6.prems" obtain es where "h ! a = EntriesV es" by (auto split: go_val.splits)
    with 6 MapV show ?thesis by (simp cong: map_cong)
  qed (use 6 in auto)
next
  case (7 fs h v)
  then show ?case by (cases v) (simp_all cong: map_cong)
qed (auto split: go_val.splits)

lemmas frame_well = frame [THEN conjunct1]
lemmas frame_view = frame [THEN conjunct2, THEN conjunct1]
lemmas frame_reach = frame [THEN conjunct2, THEN conjunct2]

lemma reach_allocated: "well T h v \<Longrightarrow> a \<in> set (reach T h v) \<Longrightarrow> a < length h"
proof (induction T h v rule: well.induct)
  case (7 fs h v)
  then show ?case by (cases v) fastforce+
qed (fastforce split: go_val.splits)+

lemma flat_reach: "flat T \<Longrightarrow> reach T h v = []"
  by (induction T h v rule: reach.induct) (auto split: go_val.splits)

lemma flat_any_memory:
  assumes "flat T" "well T h v"
  shows "well T h' v \<and> view T h' v = view T h v"
  using frame[of T h v h'] assms by (simp add: flat_reach)

text \<open>Growing memory, or writing to an object that is not reached, changes no value.\<close>

lemma frame_elsewhere:
  assumes "well T h v" "b \<notin> set (reach T h v)" "length h \<le> length h'"
      "\<And>a. a < length h \<Longrightarrow> a \<noteq> b \<Longrightarrow> h' ! a = h ! a"
  shows "well T h' v \<and> view T h' v = view T h v \<and> reach T h' v = reach T h v"
proof (rule frame[OF assms(1)])
  show "same_at (reach T h v) h h'"
    using assms reach_allocated[OF assms(1)] by (fastforce simp: same_at_def)
qed

section \<open>The contract\<close>

definition only_grows_but :: "addr \<Rightarrow> memory \<Rightarrow> memory \<Rightarrow> bool" where
  "only_grows_but b h h' \<longleftrightarrow> length h \<le> length h' \<and> (\<forall>a < length h. a \<noteq> b \<longrightarrow> h' ! a = h ! a)"

definition fresh_copy :: "go_type \<Rightarrow> memory \<Rightarrow> go_val \<Rightarrow> nat \<Rightarrow> memory \<Rightarrow> go_val \<Rightarrow> bool" where
  "fresh_copy T h v l h' v' \<longleftrightarrow>
     well T h' v' \<and> view T h' v' = view T h v \<and> set (reach T h' v') \<subseteq> {l..<length h'}"

definition deep_copied :: "go_type \<Rightarrow> memory \<Rightarrow> go_val \<Rightarrow> loc \<Rightarrow> memory \<Rightarrow> bool" where
  "deep_copied T h v out h' \<longleftrightarrow> only_grows_but (fst out) h h' \<and>
     (\<exists>v'. h' ! fst out = put_at (snd out) v' (h ! fst out) \<and> fresh_copy T h v (length h) h' v')"

type_synonym copier = "loc \<Rightarrow> loc \<Rightarrow> memory \<Rightarrow> memory option"

locale field_copier =
  fixes T :: go_type
    and into :: copier
  assumes copies_field:
    "load h inp = Some v \<Longrightarrow> well T h v \<Longrightarrow> load h out = Some v \<Longrightarrow>
     fst out \<noteq> fst inp \<Longrightarrow> fst out \<notin> set (reach T h v) \<Longrightarrow>
     \<exists>h'. into inp out h = Some h' \<and> deep_copied T h v out h'"

locale deep_copier =
  fixes T :: go_type
    and into :: copier
  assumes copies:
    "load h inp = Some v \<Longrightarrow> well T h v \<Longrightarrow> load h out \<noteq> None \<Longrightarrow>
     fst out \<noteq> fst inp \<Longrightarrow> fst out \<notin> set (reach T h v) \<Longrightarrow>
     \<exists>h'. into inp out h = Some h' \<and> deep_copied T h v out h'"

sublocale deep_copier \<subseteq> field_copier
  by unfold_locales (auto intro: copies)

lemma deep_is_field_copier: "deep_copier T into \<Longrightarrow> field_copier T into"
  by (simp add: deep_copier_def field_copier_def)

lemma only_grows_but_refl [simp]: "only_grows_but b h h"
  by (simp add: only_grows_but_def)

lemma only_grows_but_trans:
  "only_grows_but b h h1 \<Longrightarrow> only_grows_but b h1 h2 \<Longrightarrow> only_grows_but b h h2"
  by (simp add: only_grows_but_def)

lemma only_grows_but_frame:
  "well T h v \<Longrightarrow> b \<notin> set (reach T h v) \<Longrightarrow> only_grows_but b h h' \<Longrightarrow>
     well T h' v \<and> view T h' v = view T h v \<and> reach T h' v = reach T h v"
  by (rule frame_elsewhere) (auto simp: only_grows_but_def)

lemma only_grows_but_load:
  "load h l = Some v \<Longrightarrow> fst l \<noteq> b \<Longrightarrow> only_grows_but b h h' \<Longrightarrow> load h' l = Some v"
  by (auto simp: load_def only_grows_but_def split: if_splits)

lemma only_grows_but_length: "only_grows_but b h h' \<Longrightarrow> length h \<le> length h'"
  by (simp add: only_grows_but_def)

text \<open>A fresh copy stays one while the copying goes on elsewhere.\<close>

lemma fresh_copy_later:
  assumes "fresh_copy T h v l h1 v'" "only_grows_but b h1 h2" "b < l"
  shows "fresh_copy T h v l h2 v'"
proof -
  have "b \<notin> set (reach T h1 v')" using assms by (auto simp: fresh_copy_def)
  with assms only_grows_but_frame[of T h1 v' b h2] show ?thesis
    by (fastforce simp: fresh_copy_def only_grows_but_def)
qed

section \<open>The assignment of a value without pointers\<close>

definition assign :: copier where
  "assign inp out h = load h inp \<bind> store h out"

lemma assign_copier:
  assumes "flat T"
  shows "deep_copier T assign"
proof
  fix h inp v out
  assume *: "load h inp = Some v" "well T h v" "load h out \<noteq> None"
  let ?h = "h[fst out := put_at (snd out) v (h ! fst out)]"
  have "assign inp out h = Some ?h" using * by (simp add: assign_def store_def)
  moreover have "fresh_copy T h v (length h) ?h v"
    using assms * flat_any_memory[OF assms *(2)] by (simp add: fresh_copy_def flat_reach)
  then have "deep_copied T h v out ?h"
    using load_bounded[OF *(3)] unfolding deep_copied_def only_grows_but_def by auto
  ultimately show "\<exists>h'. assign inp out h = Some h' \<and> deep_copied T h v out h'" by blast
qed

end
