(* ===== verification/Deep_Copy_Blocks.thy ===== *)
theory Deep_Copy_Blocks
  imports Deep_Copy_Laws
begin

text \<open>
  The blocks of the generated functions: a non-nil pointer gets a new object that the body
  fills, a non-nil slice a new array whose elements the body fills one by one, a struct is
  assigned and then its fields with pointers are worked off in order. \<open>copy\<close> on a fresh array
  is the loop with an assignment per element. Each block keeps the contract.
\<close>

section \<open>Pointers\<close>

text \<open>
  \<open>if in.F != nil { in, out := &in.F, &out.F; *out = new(T); body(*in, *out) }\<close>, where the
  body is an assignment or \<open>(*in).DeepCopyInto(*out)\<close>.
\<close>

definition copy_pointer :: "go_type \<Rightarrow> copier \<Rightarrow> copier" where
  "copy_pointer T body inp out h = do {
     v \<leftarrow> load h inp;
     if v = NilV then Some h
     else do {
       h \<leftarrow> store (h @ [zero_of T]) out (PtrV (length h));
       i \<leftarrow> deref h inp;
       j \<leftarrow> deref h out;
       body i j h } }"

lemma store_defined:
  "load h l \<noteq> None \<Longrightarrow> store h l w = Some (h[fst l := put_at (snd l) w (h ! fst l)])"
  by (simp add: store_def)

lemma load_append: "load h l = Some v \<Longrightarrow> load (h @ xs) l = Some v"
  by (auto simp: load_def nth_append split: if_splits)

lemma nil_copied:
  "load h out = Some NilV \<Longrightarrow> well T h NilV \<Longrightarrow> reach T h NilV = [] \<Longrightarrow>
     deep_copied T h NilV out h"
  by (auto simp: deep_copied_def fresh_copy_def load_def put_get_at split: if_splits
      intro!: exI[of _ NilV])

text \<open>The memory after a new object was allocated and its address written to \<open>out\<close>.\<close>

definition linked :: "memory \<Rightarrow> loc \<Rightarrow> go_val \<Rightarrow> go_val \<Rightarrow> memory" where
  "linked h out new_obj w = (h @ [new_obj])[fst out := put_at (snd out) w (h ! fst out)]"

lemma linked_length [simp]: "length (linked h out x w) = Suc (length h)"
  by (simp add: linked_def)

lemma linked_store:
  "load h out \<noteq> None \<Longrightarrow> store (h @ [x]) out w = Some (linked h out x w)"
  by (auto simp: store_def load_def linked_def nth_append split: if_splits)

lemma linked_nth:
  assumes "load h out \<noteq> None"
  shows "linked h out x w ! length h = x"
    and "a < length h \<Longrightarrow> a \<noteq> fst out \<Longrightarrow> linked h out x w ! a = h ! a"
    and "linked h out x w ! fst out = put_at (snd out) w (h ! fst out)"
  using load_bounded[OF assms] by (auto simp: linked_def nth_append nth_list_update)

lemma linked_out:
  assumes "load h out \<noteq> None"
  shows "load (linked h out x w) out = Some w"
proof -
  have "fst out < length h" "get_at (snd out) (h ! fst out) \<noteq> None"
    using assms by (simp_all add: load_def split: if_splits)
  then show ?thesis by (simp add: load_def linked_nth(3)[OF assms] get_put_at)
qed

lemma linked_grows: "load h out \<noteq> None \<Longrightarrow> only_grows_but (fst out) h (linked h out x w)"
  by (simp add: only_grows_but_def linked_nth(2))

lemma linked_then:
  assumes "load h out \<noteq> None" "only_grows_but (length h) (linked h out x w) h'"
  shows "only_grows_but (fst out) h h'"
    and "h' ! fst out = put_at (snd out) w (h ! fst out)"
  using assms(2) load_bounded[OF assms(1)] linked_nth[OF assms(1)]
  by (auto simp: only_grows_but_def)

lemma copy_pointer_copier:
  assumes "deep_copier T body"
  shows "field_copier (PtrT T) (copy_pointer T body)"
proof
  fix h inp v out
  assume inp: "load h inp = Some v" and v: "well (PtrT T) h v" and out: "load h out = Some v"
    and apart: "fst out \<noteq> fst inp" "fst out \<notin> set (reach (PtrT T) h v)"
  show "\<exists>h'. copy_pointer T body inp out h = Some h' \<and> deep_copied (PtrT T) h v out h'"
  proof (cases "v = NilV")
    case True
    with inp out nil_copied[of h out "PtrT T"] show ?thesis by (simp add: copy_pointer_def)
  next
    case False
    with v obtain a where a: "v = PtrV a" "a < length h" "well T h (h ! a)"
      by (auto split: go_val.splits)
    let ?n = "length h" and ?h = "linked h out (zero_of T) (PtrV (length h))"
    have defined: "load h out \<noteq> None" using out by simp
    have src: "well T ?h (h ! a) \<and> view T ?h (h ! a) = view T h (h ! a) \<and>
        reach T ?h (h ! a) = reach T h (h ! a)"
      using only_grows_but_frame[OF a(3) _ linked_grows[OF defined]] apart a(1) by simp
    have loads: "load ?h (a, []) = Some (h ! a)" "load ?h (?n, []) = Some (zero_of T)"
      using a apart linked_nth[OF defined] by (auto simp: load_def)
    have "\<exists>h'. body (a, []) (?n, []) ?h = Some h' \<and> deep_copied T ?h (h ! a) (?n, []) h'"
      using deep_copier.copies[OF assms loads(1), of "(?n, [])"] loads src a(2)
        reach_allocated[OF a(3)] by fastforce
    then obtain h' v' where body: "body (a, []) (?n, []) ?h = Some h'"
      and grows: "only_grows_but ?n ?h h'" and new: "h' ! ?n = v'"
      and fresh: "fresh_copy T ?h (h ! a) (length ?h) h' v'"
      by (auto simp: deep_copied_def)
    have "deref ?h inp = Some (a, [])"
      using only_grows_but_load[OF inp _ linked_grows[OF defined]] apart a(1)
      by (simp add: deref_def)
    moreover have "deref ?h out = Some (?n, [])" by (simp add: deref_def linked_out[OF defined])
    ultimately have "copy_pointer T body inp out h = Some h'"
      using inp a(1) body by (simp add: copy_pointer_def linked_store[OF defined])
    moreover have "fresh_copy (PtrT T) h v ?n h' (PtrV ?n)"
      using fresh new src a(1) only_grows_but_length[OF grows] by (auto simp: fresh_copy_def)
    then have "deep_copied (PtrT T) h v out h'"
      unfolding deep_copied_def using linked_then[OF defined grows] by blast
    ultimately show ?thesis by blast
  qed
qed

section \<open>Slices\<close>

text \<open>
  \<open>if in.F != nil { in, out := &in.F, &out.F; *out = make([]T, len(*in)); ... }\<close> with the loop
  \<open>for i := range *in { (*in)[i].DeepCopyInto(&(*out)[i]) }\<close>, or \<open>copy(*out, *in)\<close>.
\<close>

definition slice_len :: "memory \<Rightarrow> loc \<Rightarrow> nat option" where
  "slice_len h l = (case load h l of Some (SliceV a off n c) \<Rightarrow> Some n | _ \<Rightarrow> None)"

fun each :: "nat list \<Rightarrow> (nat \<Rightarrow> memory \<Rightarrow> memory option) \<Rightarrow> memory \<Rightarrow> memory option" where
  "each [] f h = Some h"
| "each (i # js) f h = f i h \<bind> each js f"

definition copy_element :: "copier \<Rightarrow> loc \<Rightarrow> loc \<Rightarrow> nat \<Rightarrow> memory \<Rightarrow> memory option" where
  "copy_element body inp out i h = do { s \<leftarrow> index h inp i; d \<leftarrow> index h out i; body s d h }"

definition copy_slice :: "go_type \<Rightarrow> copier \<Rightarrow> copier" where
  "copy_slice T body inp out h = do {
     v \<leftarrow> load h inp;
     if v = NilV then Some h
     else do {
       n \<leftarrow> slice_len h inp;
       h \<leftarrow> store (h @ [ArrayV (replicate n (zero_of T))]) out (SliceV (length h) 0 n n);
       each [0..<n] (copy_element body inp out) h } }"

lemma each_from:
  assumes "\<And>i h. i < n \<Longrightarrow> I i h \<Longrightarrow> \<exists>h'. f i h = Some h' \<and> I (Suc i) h'"
  shows "k \<le> n \<Longrightarrow> I k h \<Longrightarrow> \<exists>h'. each [k..<n] f h = Some h' \<and> I n h'"
proof (induction "n - k" arbitrary: k h)
  case 0
  then show ?case by simp
next
  case (Suc d)
  then have "k < n" by simp
  with assms Suc.prems obtain h1 where "f k h = Some h1" "I (Suc k) h1" by blast
  with Suc \<open>k < n\<close> show ?case by (simp add: upt_conv_Cons)
qed

lemmas each_upto = each_from[where k = 0, simplified]

text \<open>
  The new array \<open>m\<close> after the first i elements: they are fresh copies of the elements \<open>ws\<close>.
\<close>

definition filled :: "go_type \<Rightarrow> memory \<Rightarrow> go_val list \<Rightarrow> addr \<Rightarrow> nat \<Rightarrow> memory \<Rightarrow> bool" where
  "filled T h ws m i h' \<longleftrightarrow> only_grows_but m h h' \<and> (\<exists>us. h' ! m = ArrayV us \<and>
     length us = length ws \<and> (\<forall>j < i. fresh_copy T h (ws ! j) (Suc m) h' (us ! j)))"

lemma filled_step:
  assumes copier: "deep_copier T body" and filled: "filled T h ws m i h1" and i: "i < length ws"
    and m: "m < length h" and src: "load h1 (a, [Elem k]) = Some (ws ! i)" "a \<noteq> m"
    and w: "well T h (ws ! i)" "m \<notin> set (reach T h (ws ! i))"
  shows "\<exists>h2. body (a, [Elem k]) (m, [Elem i]) h1 = Some h2 \<and> filled T h ws m (Suc i) h2"
proof -
  obtain us where grows: "only_grows_but m h h1" and us: "h1 ! m = ArrayV us"
    "length us = length ws" "\<And>j. j < i \<Longrightarrow> fresh_copy T h (ws ! j) (Suc m) h1 (us ! j)"
    using filled by (auto simp: filled_def)
  have same: "well T h1 (ws ! i) \<and> view T h1 (ws ! i) = view T h (ws ! i) \<and>
      reach T h1 (ws ! i) = reach T h (ws ! i)"
    by (rule only_grows_but_frame[OF w grows])
  have "load h1 (m, [Elem i]) \<noteq> None"
    using us i m only_grows_but_length[OF grows] by (simp add: load_def)
  with deep_copier.copies[OF copier src(1)] same src(2) w(2) obtain h2 where
    h2: "body (a, [Elem k]) (m, [Elem i]) h1 = Some h2"
      "deep_copied T h1 (ws ! i) (m, [Elem i]) h2" by fastforce
  from h2(2) obtain u where grows2: "only_grows_but m h1 h2"
    and arr: "h2 ! m = put_at [Elem i] u (h1 ! m)" and new: "fresh_copy T h1 (ws ! i) (length h1) h2 u"
    by (auto simp: deep_copied_def)
  have arr2: "h2 ! m = ArrayV (us[i := u])" using arr us i by simp
  have "fresh_copy T h (ws ! j) (Suc m) h2 (us[i := u] ! j)" if j: "j < Suc i" for j
  proof (cases "j = i")
    case True
    then show ?thesis using new same us(2) i m only_grows_but_length[OF grows]
      by (auto simp: fresh_copy_def)
  next
    case False
    then show ?thesis using fresh_copy_later[OF us(3) grows2] j by simp
  qed
  with arr2 us(2) only_grows_but_trans[OF grows grows2] have "filled T h ws m (Suc i) h2"
    by (auto simp: filled_def)
  with h2(1) show ?thesis by blast
qed

lemma fresh_slice:
  assumes "h' ! m = ArrayV us" "m < length h'" "l \<le> m" "length us = length ws"
    "\<And>j. j < length ws \<Longrightarrow> fresh_copy T h (ws ! j) (Suc m) h' (us ! j)"
  shows "well (SliceT T) h' (SliceV m 0 (length ws) (length ws))"
    and "view (SliceT T) h' (SliceV m 0 (length ws) (length ws)) = SliceL (map (view T h) ws)"
    and "set (reach (SliceT T) h' (SliceV m 0 (length ws) (length ws))) \<subseteq> {l..<length h'}"
proof -
  have elems: "fresh_copy T h (ws ! j) (Suc m) h' (us ! j)" if "j < length us" for j
    using assms that by simp
  then show "well (SliceT T) h' (SliceV m 0 (length ws) (length ws))"
    using assms by (auto simp: window_def fresh_copy_def in_set_conv_nth)
  show "view (SliceT T) h' (SliceV m 0 (length ws) (length ws)) = SliceL (map (view T h) ws)"
    using assms elems by (auto simp: window_def fresh_copy_def intro: nth_equalityI)
  show "set (reach (SliceT T) h' (SliceV m 0 (length ws) (length ws))) \<subseteq> {l..<length h'}"
  proof
    fix b
    assume "b \<in> set (reach (SliceT T) h' (SliceV m 0 (length ws) (length ws)))"
    then consider "b = m" | u where "u \<in> set us" "b \<in> set (reach T h' u)"
      using assms(1,4) by (auto simp: window_def)
    then show "b \<in> {l..<length h'}"
    proof cases
      case 2
      then obtain j where "j < length us" "u = us ! j" by (auto simp: in_set_conv_nth)
      with 2 elems[of j] assms(3) show ?thesis by (auto simp: fresh_copy_def)
    qed (use assms(2,3) in simp)
  qed
qed

lemma slice_elements:
  assumes "well (SliceT T) h (SliceV a off n c)"
  obtains ws where "length ws = n" "a < length h"
    "view (SliceT T) h (SliceV a off n c) = SliceL (map (view T h) ws)"
    "\<And>i. i < n \<Longrightarrow> load h (a, [Elem (off + i)]) = Some (ws ! i) \<and> well T h (ws ! i) \<and>
       set (reach T h (ws ! i)) \<subseteq> set (reach (SliceT T) h (SliceV a off n c))"
proof -
  obtain xs where xs: "h ! a = ArrayV xs" "a < length h" "off + n \<le> length xs"
    using assms by (auto split: go_val.splits)
  have len: "length (window off n xs) = n" using xs(3) by (simp add: window_def)
  have "window off n xs ! i \<in> set (window off n xs)" "window off n xs ! i = xs ! (off + i)"
    if "i < n" for i
    using nth_mem[of i "window off n xs"] that xs(3) len by (simp_all add: window_def)
  with xs assms len show thesis
    by (intro that[of "window off n xs"]) (auto simp: load_def)
qed

lemma slice_loop:
  assumes copier: "deep_copier T body"
    and inp: "load h inp = Some (SliceV a off (length ws) c)" "fst out \<noteq> fst inp"
    and out: "load h out \<noteq> None" "a \<noteq> fst out"
    and ws: "\<And>i. i < length ws \<Longrightarrow> load h (a, [Elem (off + i)]) = Some (ws ! i) \<and> well T h (ws ! i) \<and>
      fst out \<notin> set (reach T h (ws ! i))"
    and linked: "h0 = linked h out (ArrayV (replicate (length ws) x)) (SliceV (length h) 0 (length ws) (length ws))"
  shows "\<exists>h'. each [0..<length ws] (copy_element body inp out) h0 = Some h' \<and>
    filled T h0 ws (length h) (length ws) h'"
proof (rule each_upto)
  note link = linked_nth[OF out(1)] linked_grows[OF out(1)] linked_out[OF out(1)]
  show "filled T h0 ws (length h) 0 h0" by (simp add: filled_def linked link(1))
  fix i h1
  assume i: "i < length ws" and filled: "filled T h0 ws (length h) i h1"
  then have grows: "only_grows_but (length h) h0 h1" by (simp add: filled_def)
  have grew: "only_grows_but (fst out) h h0" by (simp add: linked link(4))
  have "load h1 inp = Some (SliceV a off (length ws) c)"
    using only_grows_but_load[OF only_grows_but_load[OF inp(1) _ grew] _ grows] inp
      load_bounded[of h inp] by simp
  then have src: "index h1 inp i = Some (a, [Elem (off + i)])" using i by (simp add: index_def)
  have "load h1 out = Some (SliceV (length h) 0 (length ws) (length ws))"
    using only_grows_but_load[OF link(5) _ grows[unfolded linked]] load_bounded[OF out(1)]
    by simp
  then have dst: "index h1 out i = Some (length h, [Elem i])" using i by (simp add: index_def)
  have elem: "load h1 (a, [Elem (off + i)]) = Some (ws ! i)" and a: "a \<noteq> length h"
    using only_grows_but_load[OF only_grows_but_load[OF _ _ grew] _ grows] ws[OF i] out(2)
      load_bounded[of h "(a, [Elem (off + i)])"] by fastforce+
  have "well T h0 (ws ! i) \<and> length h \<notin> set (reach T h0 (ws ! i))"
    using only_grows_but_frame[OF _ _ grew] ws[OF i] reach_allocated[of T h "ws ! i"] by fastforce
  then show "\<exists>h'. copy_element body inp out i h1 = Some h' \<and> filled T h0 ws (length h) (Suc i) h'"
    using filled_step[OF copier filled i _ elem a] src dst by (simp add: copy_element_def linked)
qed

lemma copy_slice_copier:
  assumes "deep_copier T body"
  shows "field_copier (SliceT T) (copy_slice T body)"
proof
  fix h inp v out
  assume inp: "load h inp = Some v" and v: "well (SliceT T) h v" and out: "load h out = Some v"
    and apart: "fst out \<noteq> fst inp" "fst out \<notin> set (reach (SliceT T) h v)"
  show "\<exists>h'. copy_slice T body inp out h = Some h' \<and> deep_copied (SliceT T) h v out h'"
  proof (cases "v = NilV")
    case True
    with inp out nil_copied[of h out "SliceT T"] show ?thesis by (simp add: copy_slice_def)
  next
    case False
    with v obtain a off n c where s: "v = SliceV a off n c" by (auto split: go_val.splits)
    obtain ws where len: "length ws = n" and elems: "view (SliceT T) h (SliceV a off n c) = SliceL (map (view T h) ws)"
        "\<And>i. i < n \<Longrightarrow> load h (a, [Elem (off + i)]) = Some (ws ! i) \<and> well T h (ws ! i) \<and>
           set (reach T h (ws ! i)) \<subseteq> set (reach (SliceT T) h (SliceV a off n c))"
      using v[unfolded s] by (rule slice_elements) blast
    have ws: "view (SliceT T) h v = SliceL (map (view T h) ws)"
        "\<And>i. i < n \<Longrightarrow> load h (a, [Elem (off + i)]) = Some (ws ! i) \<and> well T h (ws ! i) \<and>
           fst out \<notin> set (reach T h (ws ! i))"
      using elems apart(2) unfolding s by blast+
    let ?w = "SliceV (length h) 0 n n"
    let ?h = "linked h out (ArrayV (replicate n (zero_of T))) ?w"
    have defined: "load h out \<noteq> None" using out by simp
    have "a \<noteq> fst out" using apart(2) s by auto
    then obtain h' where loop: "each [0..<n] (copy_element body inp out) ?h = Some h'"
      and filled: "filled T ?h ws (length h) n h'"
      using slice_loop[OF assms, where ws = ws, OF _ apart(1) defined _ _ refl] inp s len ws(2)
      by blast
    then have grows: "only_grows_but (length h) ?h h'" by (simp add: filled_def)
    have "copy_slice T body inp out h = Some h'"
      using loop inp s
      by (simp add: copy_slice_def slice_len_def linked_store[OF defined])
    moreover obtain us where us: "h' ! length h = ArrayV us" "length us = length ws"
      "\<And>j. j < length ws \<Longrightarrow> fresh_copy T ?h (ws ! j) (Suc (length h)) h' (us ! j)"
      using filled len by (auto simp: filled_def)
    have "map (view T ?h) ws = map (view T h) ws"
      using only_grows_but_frame[OF _ _ linked_grows[OF defined]] ws(2) len
      by (auto simp: in_set_conv_nth)
    with fresh_slice[OF us(1) _ le_refl us(2,3)] only_grows_but_length[OF grows] ws(1) len
    have "fresh_copy (SliceT T) h v (length h) h' ?w" by (simp add: fresh_copy_def)
    then have "deep_copied (SliceT T) h v out h'"
      unfolding deep_copied_def using linked_then[OF defined grows] by blast
    ultimately show ?thesis by blast
  qed
qed

section \<open>Structs\<close>

text \<open>
  \<open>*out = *in\<close>, then one statement per field that needs more than that, in the order of the
  struct. A field of struct type is worked off by its own \<open>DeepCopyInto\<close>; an assignment of a
  field without pointers repeats what \<open>*out = *in\<close> did.
\<close>

fun copy_fields :: "(string \<times> copier) list \<Rightarrow> copier" where
  "copy_fields [] inp out h = Some h"
| "copy_fields ((f, c) # cs) inp out h = c (fld inp f) (fld out f) h \<bind> copy_fields cs inp out"

definition copy_struct :: "(string \<times> copier) list \<Rightarrow> copier" where
  "copy_struct cs inp out h = assign inp out h \<bind> copy_fields cs inp out"

definition fields_done ::
    "(string \<times> go_type) list \<Rightarrow> memory \<Rightarrow> (string \<times> go_val) list \<Rightarrow> loc \<Rightarrow> string set \<Rightarrow> memory \<Rightarrow> bool" where
  "fields_done fs h gs out D h' \<longleftrightarrow> only_grows_but (fst out) h h' \<and>
     (\<exists>gs'. h' ! fst out = put_at (snd out) (StructV gs') (h ! fst out) \<and> map fst gs' = map fst fs \<and>
       (\<forall>ft \<in> set fs. if fst ft \<in> D
          then fresh_copy (snd ft) h (field (fst ft) gs) (length h) h' (field (fst ft) gs')
          else field (fst ft) gs' = field (fst ft) gs))"

lemma load_field:
  assumes "load h l = Some (StructV gs)" "f \<in> set (map fst gs)"
  shows "load h (fld l f) = Some (field f gs)"
  using assms map_of_field[OF assms(2)] by (simp add: load_fld)

lemma reach_field:
  assumes "(f, T) \<in> set fs"
  shows "set (reach T h (field f gs)) \<subseteq> set (reach (StructT fs) h (StructV gs))"
  using assms by (auto intro!: bexI[of _ "(f, T)"])

lemma well_field:
  "well (StructT fs) h (StructV gs) \<Longrightarrow> (f, T) \<in> set fs \<Longrightarrow> well T h (field f gs)"
  by auto

text \<open>What is known of the struct at \<open>out\<close> while its fields are worked off.\<close>

lemma fields_doneE:
  assumes "fields_done fs h gs out D h'"
  obtains gs' where "only_grows_but (fst out) h h'"
    "h' ! fst out = put_at (snd out) (StructV gs') (h ! fst out)" "map fst gs' = map fst fs"
    "\<And>f T. (f, T) \<in> set fs \<Longrightarrow> if f \<in> D
       then fresh_copy T h (field f gs) (length h) h' (field f gs')
       else field f gs' = field f gs"
  using assms unfolding fields_done_def by fastforce

lemma fields_put:
  assumes step: "fields_done fs h gs out D h1" and grows: "only_grows_but (fst out) h1 h2"
    and out: "get_at (snd out) (h ! fst out) \<noteq> None" "fst out < length h"
    and f: "(f, T) \<in> set fs" "distinct (map fst fs)"
    and obj: "h2 ! fst out = put_at (snd out @ [Fld f]) w (h1 ! fst out)"
    and new: "fresh_copy T h (field f gs) (length h) h2 w"
  shows "fields_done fs h gs out (insert f D) h2"
proof -
  obtain gs1 where grew: "only_grows_but (fst out) h h1"
    and obj1: "h1 ! fst out = put_at (snd out) (StructV gs1) (h ! fst out)" "map fst gs1 = map fst fs"
    and fields: "\<And>g U. (g, U) \<in> set fs \<Longrightarrow> if g \<in> D
          then fresh_copy U h (field g gs) (length h) h1 (field g gs1)
          else field g gs1 = field g gs"
    by (rule fields_doneE[OF step]) (rule that; blast)
  let ?gs = "set_field f w gs1"
  have name: "f \<in> set (map fst gs1)" using f(1) obj1(2) by (auto simp: rev_image_eqI)
  have "h2 ! fst out = put_at (snd out) (StructV ?gs) (h ! fst out)"
    using obj obj1(1) out(1) map_of_field[OF name]
    by (simp add: put_at_append[of _ _ "StructV gs1"] get_put_at put_put_at)
  moreover have "if g \<in> insert f D then fresh_copy U h (field g gs) (length h) h2 (field g ?gs)
      else field g ?gs = field g gs" if g: "(g, U) \<in> set fs" for g U
  proof (cases "g = f")
    case True
    with g f have "U = T" by (auto dest: eq_key_imp_eq_value)
    with True new name show ?thesis by (simp add: field_set_field)
  next
    case False
    with fields[OF g] name show ?thesis
      using fresh_copy_later[OF _ grows out(2)] by (auto simp: field_set_field)
  qed
  ultimately show ?thesis
    unfolding fields_done_def using only_grows_but_trans[OF grew grows] obj1(2)
    by (intro conjI exI[of _ ?gs]) auto
qed

lemma fields_step:
  assumes copier: "field_copier T c" and f: "(f, T) \<in> set fs" "f \<notin> D" "distinct (map fst fs)"
    and inp: "load h inp = Some (StructV gs)" "well (StructT fs) h (StructV gs)"
    and out: "load h out \<noteq> None" "fst out \<noteq> fst inp"
      "fst out \<notin> set (reach (StructT fs) h (StructV gs))"
    and step: "fields_done fs h gs out D h1"
  shows "\<exists>h2. c (fld inp f) (fld out f) h1 = Some h2 \<and> fields_done fs h gs out (insert f D) h2"
proof -
  obtain gs1 where grows: "only_grows_but (fst out) h h1"
    and obj: "h1 ! fst out = put_at (snd out) (StructV gs1) (h ! fst out)" "map fst gs1 = map fst fs"
    and fields: "\<And>g U. (g, U) \<in> set fs \<Longrightarrow> if g \<in> D
          then fresh_copy U h (field g gs) (length h) h1 (field g gs1)
          else field g gs1 = field g gs"
    by (rule fields_doneE[OF step]) (rule that; blast)
  have at: "get_at (snd out) (h ! fst out) \<noteq> None" "fst out < length h"
    using out(1) by (auto simp: load_def split: if_splits)
  have names: "f \<in> set (map fst gs)" "f \<in> set (map fst gs1)"
    using f(1) inp(2) obj(2) by (auto simp: rev_image_eqI)
  have T: "well T h (field f gs)" "fst out \<notin> set (reach T h (field f gs))"
    using well_field[OF inp(2) f(1)] reach_field[OF f(1)] out(3) by auto
  note same = only_grows_but_frame[OF T grows]
  have "load h1 out = Some (StructV gs1)"
    using at only_grows_but_length[OF grows] obj(1) by (simp add: load_def get_put_at)
  then have "load h1 (fld out f) = Some (field f gs)"
    using load_field[OF _ names(2)] fields[OF f(1)] f(2) by simp
  moreover have "load h1 (fld inp f) = Some (field f gs)"
    using load_field[OF only_grows_but_load[OF inp(1) _ grows] names(1)] out(2) by simp
  ultimately obtain h2 where h2: "c (fld inp f) (fld out f) h1 = Some h2"
    "deep_copied T h1 (field f gs) (fld out f) h2"
    using field_copier.copies_field[OF copier] same T(2) out(2) by fastforce
  from h2(2) obtain w where grows2: "only_grows_but (fst out) h1 h2"
    and obj2: "h2 ! fst out = put_at (snd out @ [Fld f]) w (h1 ! fst out)"
    and new: "fresh_copy T h1 (field f gs) (length h1) h2 w"
    by (auto simp: deep_copied_def fld_def)
  have "fresh_copy T h (field f gs) (length h) h2 w"
    using new same only_grows_but_length[OF grows] by (auto simp: fresh_copy_def)
  with fields_put[OF step grows2 at f(1,3) obj2] h2(1) show ?thesis by blast
qed

lemma fields_all:
  assumes "distinct (map fst fs)"
    and "load h inp = Some (StructV gs)" "well (StructT fs) h (StructV gs)"
    and "load h out \<noteq> None" "fst out \<noteq> fst inp"
      "fst out \<notin> set (reach (StructT fs) h (StructV gs))"
  shows "fields_done fs h gs out D h1 \<Longrightarrow> distinct (map fst cs) \<Longrightarrow> D \<inter> set (map fst cs) = {} \<Longrightarrow>
    list_all (\<lambda>fc. \<exists>T. (fst fc, T) \<in> set fs \<and> field_copier T (snd fc)) cs \<Longrightarrow>
    \<exists>h2. copy_fields cs inp out h1 = Some h2 \<and> fields_done fs h gs out (D \<union> set (map fst cs)) h2"
proof (induction cs arbitrary: D h1)
  case (Cons fc cs)
  obtain f c where fc: "fc = (f, c)" by fastforce
  with Cons.prems obtain T where T: "(f, T) \<in> set fs" "field_copier T c" by auto
  obtain h2 where "c (fld inp f) (fld out f) h1 = Some h2" "fields_done fs h gs out (insert f D) h2"
    using fields_step[OF T(2,1) _ assms Cons.prems(1)] Cons.prems(3) fc by auto
  then show ?case using Cons.IH[of "insert f D" h2] Cons.prems fc by auto
qed simp

lemma fields_start:
  assumes "load h inp = Some (StructV gs)" "well (StructT fs) h (StructV gs)" "load h out \<noteq> None"
  shows "\<exists>h1. assign inp out h = Some h1 \<and> fields_done fs h gs out {} h1"
proof -
  let ?h = "h[fst out := put_at (snd out) (StructV gs) (h ! fst out)]"
  have "assign inp out h = Some ?h" using assms by (simp add: assign_def store_def)
  moreover have "fields_done fs h gs out {} ?h"
    using load_bounded[OF assms(3)] assms(2)
    by (auto simp: fields_done_def only_grows_but_def intro!: exI[of _ gs])
  ultimately show ?thesis by blast
qed

lemma fields_finish:
  assumes "fields_done fs h gs out D h'" "\<And>f T. (f, T) \<in> set fs \<Longrightarrow> f \<in> D \<or> flat T"
    and "well (StructT fs) h (StructV gs)"
  shows "deep_copied (StructT fs) h (StructV gs) out h'"
proof -
  obtain gs' where grows: "only_grows_but (fst out) h h'"
    and obj: "h' ! fst out = put_at (snd out) (StructV gs') (h ! fst out)" "map fst gs' = map fst fs"
    and fields: "\<And>f T. (f, T) \<in> set fs \<Longrightarrow> if f \<in> D
          then fresh_copy T h (field f gs) (length h) h' (field f gs')
          else field f gs' = field f gs"
    by (rule fields_doneE[OF assms(1)]) (rule that; blast)
  have all: "fresh_copy T h (field f gs) (length h) h' (field f gs')" if f: "(f, T) \<in> set fs" for f T
  proof (cases "f \<in> D")
    case False
    then show ?thesis using assms(2)[OF f] fields[OF f] flat_any_memory[OF _ well_field[OF assms(3) f]]
      by (auto simp: fresh_copy_def flat_reach)
  qed (use fields[OF f] in simp)
  then have "fresh_copy (StructT fs) h (StructV gs) (length h) h' (StructV gs')"
    using obj(2) by (fastforce simp: fresh_copy_def)
  with grows obj(1) show ?thesis unfolding deep_copied_def by blast
qed

lemma copy_struct_copier:
  assumes names: "distinct (map fst fs)" "distinct (map fst cs)"
    and blocks: "list_all (\<lambda>fc. \<exists>T. (fst fc, T) \<in> set fs \<and> field_copier T (snd fc)) cs"
    and rest: "list_all (\<lambda>ft. fst ft \<in> set (map fst cs) \<or> flat (snd ft)) fs"
  shows "deep_copier (StructT fs) (copy_struct cs)"
proof
  fix h inp v out
  assume inp: "load h inp = Some v" and v: "well (StructT fs) h v" and out: "load h out \<noteq> None"
    and apart: "fst out \<noteq> fst inp" "fst out \<notin> set (reach (StructT fs) h v)"
  obtain gs where gs: "v = StructV gs" using v by (auto split: go_val.splits)
  note here = inp[unfolded gs] v[unfolded gs]
  obtain h1 where h1: "assign inp out h = Some h1" "fields_done fs h gs out {} h1"
    using fields_start[OF here out] by blast
  obtain h2 where h2: "copy_fields cs inp out h1 = Some h2" "fields_done fs h gs out (set (map fst cs)) h2"
    using fields_all[OF names(1) here out apart[unfolded gs] h1(2) names(2) _ blocks] by auto
  have "f \<in> set (map fst cs) \<or> flat T" if "(f, T) \<in> set fs" for f T
    using rest[unfolded list_all_iff, rule_format, OF that] by simp
  then have "deep_copied (StructT fs) h v out h2"
    unfolding gs using fields_finish[OF h2(2) _ here(2)] by blast
  with h1(1) h2(1) show "\<exists>h'. copy_struct cs inp out h = Some h' \<and> deep_copied (StructT fs) h v out h'"
    by (simp add: copy_struct_def)
qed

section \<open>DeepCopy and DeepCopyObject\<close>

text \<open>
  \<open>DeepCopy\<close> allocates the result and fills it; a nil receiver gives nil. \<open>DeepCopyObject\<close>
  puts the pointer into an interface: a nil pointer must become a nil interface, since an
  interface that holds a nil pointer compares unequal to nil.
\<close>

definition deep_copy :: "go_type \<Rightarrow> copier \<Rightarrow> go_val \<Rightarrow> memory \<Rightarrow> (go_val \<times> memory) option" where
  "deep_copy T into p h = (case p of
       NilV \<Rightarrow> Some (NilV, h)
     | PtrV a \<Rightarrow> do { h' \<leftarrow> into (a, []) (length h, []) (h @ [zero_of T]); Some (PtrV (length h), h') }
     | _ \<Rightarrow> None)"

datatype go_interface = NilInterface | Holding string go_val

definition deep_copy_object ::
    "string \<Rightarrow> (go_val \<Rightarrow> memory \<Rightarrow> (go_val \<times> memory) option) \<Rightarrow> go_val \<Rightarrow> memory \<Rightarrow>
     (go_interface \<times> memory) option" where
  "deep_copy_object name copy p h = do {
     (c, h) \<leftarrow> copy p h;
     Some (if c \<noteq> NilV then Holding name c else NilInterface, h) }"

text \<open>What a caller of \<open>DeepCopy\<close> may rely on.\<close>

definition isolated_copy :: "go_type \<Rightarrow> memory \<Rightarrow> go_val \<Rightarrow> go_val \<Rightarrow> memory \<Rightarrow> bool" where
  "isolated_copy T h p q h' \<longleftrightarrow> (\<exists>more. h' = h @ more) \<and>
     well (PtrT T) h' q \<and> view (PtrT T) h' q = view (PtrT T) h p \<and>
     set (reach (PtrT T) h' q) \<subseteq> {length h..<length h'}"

text \<open>Writes to memory, one after the other, to any locations.\<close>

fun stores :: "(loc \<times> go_val) list \<Rightarrow> memory \<Rightarrow> memory option" where
  "stores [] h = Some h"
| "stores ((l, w) # ws) h = store h l w \<bind> stores ws"

lemma stores_elsewhere:
  "stores ws h = Some h' \<Longrightarrow>
     length h' = length h \<and> (\<forall>a. a \<notin> (fst \<circ> fst) ` set ws \<longrightarrow> h' ! a = h ! a)"
  by (induction ws h rule: stores.induct) (auto simp: store_def split: bind_splits if_splits)

lemma stores_frame:
  assumes "stores ws h = Some h'" "well T h v" "\<And>l w. (l, w) \<in> set ws \<Longrightarrow> fst l \<notin> set (reach T h v)"
  shows "well T h' v \<and> view T h' v = view T h v \<and> reach T h' v = reach T h v"
proof (rule frame[OF assms(2)])
  show "same_at (reach T h v) h h'"
    using stores_elsewhere[OF assms(1)] assms(3) reach_allocated[OF assms(2)]
    by (fastforce simp: same_at_def)
qed

lemma isolated_copy_kept:
  assumes "isolated_copy T h p q h'" "stores ws h' = Some h''" "\<And>l w. (l, w) \<in> set ws \<Longrightarrow> fst l < length h"
  shows "view (PtrT T) h'' q = view (PtrT T) h p"
  using stores_frame[OF assms(2), of "PtrT T" q] assms(1,3) unfolding isolated_copy_def
  by fastforce

lemma isolated_original_kept:
  assumes "isolated_copy T h p q h'" "well (PtrT T) h p" "stores ws h' = Some h''"
    and "\<And>l w. (l, w) \<in> set ws \<Longrightarrow> length h \<le> fst l"
  shows "view (PtrT T) h'' p = view (PtrT T) h p"
proof -
  obtain more where "h' = h @ more" using assms(1) by (auto simp: isolated_copy_def)
  with reach_allocated[OF assms(2)] have "same_at (reach (PtrT T) h p) h h'"
    unfolding same_at_def by (metis length_append nth_append trans_less_add1)
  from frame[OF assms(2) this] show ?thesis
    using stores_frame[OF assms(3), of "PtrT T" p] reach_allocated[OF assms(2)] assms(4)
    by (metis leD)
qed

context deep_copier
begin

lemma deep_copy_isolated:
  assumes "well (PtrT T) h p"
  shows "\<exists>q h'. deep_copy T into p h = Some (q, h') \<and> isolated_copy T h p q h'"
proof (cases "p = NilV")
  case True
  then show ?thesis by (simp add: deep_copy_def isolated_copy_def)
next
  case False
  with assms obtain a where a: "p = PtrV a" "a < length h" "well T h (h ! a)"
    by (auto split: go_val.splits)
  let ?n = "length h" and ?h = "h @ [zero_of T]"
  have grew: "only_grows_but ?n h ?h" by (simp add: only_grows_but_def nth_append)
  have out: "?n \<notin> set (reach T h (h ! a))" using reach_allocated[OF a(3)] by blast
  note same = only_grows_but_frame[OF a(3) out grew]
  have "load ?h (a, []) = Some (h ! a)" "load ?h (?n, []) = Some (zero_of T)"
    using a(2) by (simp_all add: load_def nth_append)
  with copies[of ?h "(a, [])" "h ! a" "(?n, [])"] same out a(2) obtain h' where
    into: "into (a, []) (?n, []) ?h = Some h'" and copied: "deep_copied T ?h (h ! a) (?n, []) h'"
    by auto
  then obtain v' where grows: "only_grows_but ?n ?h h'" and obj: "h' ! ?n = v'"
    and fresh: "fresh_copy T ?h (h ! a) (Suc ?n) h' v'"
    by (auto simp: deep_copied_def)
  have "take ?n h' = h"
    using only_grows_but_trans[OF grew grows] by (auto simp: only_grows_but_def intro: nth_equalityI)
  then have "h' = h @ drop ?n h'" by (metis append_take_drop_id)
  moreover have "well (PtrT T) h' (PtrV ?n)" "view (PtrT T) h' (PtrV ?n) = view (PtrT T) h p"
    "set (reach (PtrT T) h' (PtrV ?n)) \<subseteq> {?n..<length h'}"
    using fresh obj same a(1) only_grows_but_length[OF grows] by (auto simp: fresh_copy_def)
  ultimately have "isolated_copy T h p (PtrV ?n) h'" unfolding isolated_copy_def by blast
  with into a(1) show ?thesis by (simp add: deep_copy_def)
qed

end

end
