(* ===== verification/Deep_Copy.thy ===== *)
theory Deep_Copy
  imports Deep_Copy_Blocks
begin

text \<open>
  \<open>api/v1beta2/zz_generated.deepcopy.go\<close>: for every type of the API group its layout and its
  \<open>DeepCopyInto\<close>, \<open>DeepCopy\<close> and, for the kinds registered with the scheme, \<open>DeepCopyObject\<close>,
  statement by statement. The types of the Kubernetes and Cluster API packages are parameters
  (\<open>k8s_types\<close>): their layouts, and the \<open>DeepCopyInto\<close> of the three the generated code calls.
  Shown: every function keeps the contract of \<open>Deep_Copy_Laws\<close>, so what \<open>DeepCopy\<close> returns has
  the value of its receiver and shares no object with it.
\<close>

record k8s_types =
  k_type_meta :: go_type
  k_object_meta :: go_type
  k_list_meta :: go_type
  k_condition :: go_type
  k_local_ref :: go_type
  k_duration :: go_type
  k_node_address :: go_type
  k_pool_ref :: go_type
  object_meta_into :: copier
  list_meta_into :: copier
  condition_into :: copier

text \<open>
  What the generated code relies on: the types it copies by assignment hold no pointers, and
  the three \<open>DeepCopyInto\<close> it calls are deep copies.
\<close>

definition k8s_contract :: "k8s_types \<Rightarrow> bool" where
  "k8s_contract k \<longleftrightarrow>
     flat (k_type_meta k) \<and> flat (k_local_ref k) \<and> flat (k_duration k) \<and>
     flat (k_node_address k) \<and> flat (k_pool_ref k) \<and>
     deep_copier (k_object_meta k) (object_meta_into k) \<and>
     deep_copier (k_list_meta k) (list_meta_into k) \<and>
     deep_copier (k_condition k) (condition_into k)"

type_synonym duplicator = "go_val \<Rightarrow> memory \<Rightarrow> (go_val \<times> memory) option"

named_theorems copiers "the copiers and blocks that keep the contract"

lemmas [copiers] = assign_copier copy_pointer_copier copy_slice_copier deep_is_field_copier

lemma k8s_copiers [copiers]:
  assumes "k8s_contract k"
  shows "flat (k_type_meta k)" "flat (k_local_ref k)" "flat (k_duration k)"
    "flat (k_node_address k)" "flat (k_pool_ref k)"
    "deep_copier (k_object_meta k) (object_meta_into k)"
    "deep_copier (k_list_meta k) (list_meta_into k)"
    "deep_copier (k_condition k) (condition_into k)"
  using assms by (simp_all add: k8s_contract_def)

section \<open>The types without imported parts\<close>

definition APIEndpoint_type :: "go_type" where
  "APIEndpoint_type = StructT
    [(''Host'', StringT), (''Port'', IntT), (''Subnet'', PtrT IntT)]"

definition APIEndpoint_DeepCopyInto :: "copier" where
  "APIEndpoint_DeepCopyInto = copy_struct
    [(''Subnet'', copy_pointer IntT assign)]"

definition APIEndpoint_DeepCopy :: "duplicator" where
  "APIEndpoint_DeepCopy = deep_copy APIEndpoint_type APIEndpoint_DeepCopyInto"

definition CiliumSpec_type :: "go_type" where
  "CiliumSpec_type = StructT
    [(''KubeProxyReplacement'', PtrT BoolT), (''K8sServiceHost'', StringT),
     (''K8sServicePort'', IntT)]"

definition CiliumSpec_DeepCopyInto :: "copier" where
  "CiliumSpec_DeepCopyInto = copy_struct
    [(''KubeProxyReplacement'', copy_pointer BoolT assign)]"

definition CiliumSpec_DeepCopy :: "duplicator" where
  "CiliumSpec_DeepCopy = deep_copy CiliumSpec_type CiliumSpec_DeepCopyInto"

definition BootstrapBehavior_type :: "go_type" where
  "BootstrapBehavior_type = StructT
    [(''Format'', StringT), (''CloudInit'', BoolT), (''KubeVIP'', BoolT)]"

definition BootstrapBehavior_DeepCopyInto :: "copier" where
  "BootstrapBehavior_DeepCopyInto = copy_struct []"

definition BootstrapBehavior_DeepCopy :: "duplicator" where
  "BootstrapBehavior_DeepCopy = deep_copy BootstrapBehavior_type BootstrapBehavior_DeepCopyInto"

definition InitializationStatus_type :: "go_type" where
  "InitializationStatus_type = StructT
    [(''Provisioned'', BoolT)]"

definition InitializationStatus_DeepCopyInto :: "copier" where
  "InitializationStatus_DeepCopyInto = copy_struct []"

definition InitializationStatus_DeepCopy :: "duplicator" where
  "InitializationStatus_DeepCopy = deep_copy InitializationStatus_type
    InitializationStatus_DeepCopyInto"

definition Network_type :: "go_type" where
  "Network_type = StructT
    [(''NetworkID'', StringT), (''Name'', StringT)]"

definition Network_DeepCopyInto :: "copier" where
  "Network_DeepCopyInto = copy_struct []"

definition Network_DeepCopy :: "duplicator" where
  "Network_DeepCopy = deep_copy Network_type Network_DeepCopyInto"

definition ResourceSet_type :: "go_type" where
  "ResourceSet_type = StructT
    [(''CPUs'', PtrT IntT), (''Memory'', StringT), (''DiskSize'', StringT)]"

definition ResourceSet_DeepCopyInto :: "copier" where
  "ResourceSet_DeepCopyInto = copy_struct
    [(''CPUs'', copy_pointer IntT assign)]"

definition ResourceSet_DeepCopy :: "duplicator" where
  "ResourceSet_DeepCopy = deep_copy ResourceSet_type ResourceSet_DeepCopyInto"

definition VMNamingSpec_type :: "go_type" where
  "VMNamingSpec_type = StructT
    [(''ControlPlanePrefix'', StringT), (''WorkerPrefix'', StringT)]"

definition VMNamingSpec_DeepCopyInto :: "copier" where
  "VMNamingSpec_DeepCopyInto = copy_struct []"

definition VMNamingSpec_DeepCopy :: "duplicator" where
  "VMNamingSpec_DeepCopy = deep_copy VMNamingSpec_type VMNamingSpec_DeepCopyInto"

lemma BootstrapBehavior_flat [copiers]: "flat BootstrapBehavior_type"
  by (simp add: BootstrapBehavior_type_def)

lemma InitializationStatus_flat [copiers]: "flat InitializationStatus_type"
  by (simp add: InitializationStatus_type_def)

lemma Network_flat [copiers]: "flat Network_type"
  by (simp add: Network_type_def)

lemma VMNamingSpec_flat [copiers]: "flat VMNamingSpec_type"
  by (simp add: VMNamingSpec_type_def)

interpretation apiendpoint_copy: deep_copier APIEndpoint_type APIEndpoint_DeepCopyInto
  unfolding APIEndpoint_type_def APIEndpoint_DeepCopyInto_def
  by (rule copy_struct_copier) (simp_all add: copiers)

lemmas [copiers] = apiendpoint_copy.deep_copier_axioms

interpretation ciliumspec_copy: deep_copier CiliumSpec_type CiliumSpec_DeepCopyInto
  unfolding CiliumSpec_type_def CiliumSpec_DeepCopyInto_def
  by (rule copy_struct_copier) (simp_all add: copiers)

lemmas [copiers] = ciliumspec_copy.deep_copier_axioms

interpretation bootstrapbehavior_copy: deep_copier BootstrapBehavior_type BootstrapBehavior_DeepCopyInto
  unfolding BootstrapBehavior_type_def BootstrapBehavior_DeepCopyInto_def
  by (rule copy_struct_copier) (simp_all add: copiers)

lemmas [copiers] = bootstrapbehavior_copy.deep_copier_axioms

interpretation initializationstatus_copy: deep_copier InitializationStatus_type InitializationStatus_DeepCopyInto
  unfolding InitializationStatus_type_def InitializationStatus_DeepCopyInto_def
  by (rule copy_struct_copier) (simp_all add: copiers)

lemmas [copiers] = initializationstatus_copy.deep_copier_axioms

interpretation network_copy: deep_copier Network_type Network_DeepCopyInto
  unfolding Network_type_def Network_DeepCopyInto_def
  by (rule copy_struct_copier) (simp_all add: copiers)

lemmas [copiers] = network_copy.deep_copier_axioms

interpretation resourceset_copy: deep_copier ResourceSet_type ResourceSet_DeepCopyInto
  unfolding ResourceSet_type_def ResourceSet_DeepCopyInto_def
  by (rule copy_struct_copier) (simp_all add: copiers)

lemmas [copiers] = resourceset_copy.deep_copier_axioms

interpretation vmnamingspec_copy: deep_copier VMNamingSpec_type VMNamingSpec_DeepCopyInto
  unfolding VMNamingSpec_type_def VMNamingSpec_DeepCopyInto_def
  by (rule copy_struct_copier) (simp_all add: copiers)

lemmas [copiers] = vmnamingspec_copy.deep_copier_axioms

section \<open>The parts with imported types\<close>

definition NodeOutOfServiceSpec_type :: "k8s_types \<Rightarrow> go_type" where
  "NodeOutOfServiceSpec_type k = StructT
    [(''Enabled'', PtrT BoolT), (''SyncPeriod'', PtrT (k_duration k)),
     (''GracePeriod'', PtrT (k_duration k))]"

definition NodeOutOfServiceSpec_DeepCopyInto :: "k8s_types \<Rightarrow> copier" where
  "NodeOutOfServiceSpec_DeepCopyInto k = copy_struct
    [(''Enabled'', copy_pointer BoolT assign),
     (''SyncPeriod'', copy_pointer (k_duration k) assign),
     (''GracePeriod'', copy_pointer (k_duration k) assign)]"

definition NodeOutOfServiceSpec_DeepCopy :: "k8s_types \<Rightarrow> duplicator" where
  "NodeOutOfServiceSpec_DeepCopy k = deep_copy (NodeOutOfServiceSpec_type k)
    (NodeOutOfServiceSpec_DeepCopyInto k)"

definition AddonsSpec_type :: "k8s_types \<Rightarrow> go_type" where
  "AddonsSpec_type k = StructT
    [(''CCM'', PtrT BoolT), (''CSI'', PtrT BoolT), (''CNI'', PtrT StringT),
     (''Cilium'', PtrT CiliumSpec_type),
     (''NodeOutOfService'', PtrT (NodeOutOfServiceSpec_type k))]"

definition AddonsSpec_DeepCopyInto :: "k8s_types \<Rightarrow> copier" where
  "AddonsSpec_DeepCopyInto k = copy_struct
    [(''CCM'', copy_pointer BoolT assign), (''CSI'', copy_pointer BoolT assign),
     (''CNI'', copy_pointer StringT assign),
     (''Cilium'', copy_pointer CiliumSpec_type CiliumSpec_DeepCopyInto),
     (''NodeOutOfService'', copy_pointer (NodeOutOfServiceSpec_type k)
       (NodeOutOfServiceSpec_DeepCopyInto k))]"

definition AddonsSpec_DeepCopy :: "k8s_types \<Rightarrow> duplicator" where
  "AddonsSpec_DeepCopy k = deep_copy (AddonsSpec_type k) (AddonsSpec_DeepCopyInto k)"

definition NetworkConfig_type :: "k8s_types \<Rightarrow> go_type" where
  "NetworkConfig_type k = StructT
    [(''AllowedIPRange'', StringT), (''Networks'', SliceT Network_type),
     (''AddressesFromPools'', SliceT (k_pool_ref k)), (''GuestConfig'', StringT)]"

definition NetworkConfig_DeepCopyInto :: "k8s_types \<Rightarrow> copier" where
  "NetworkConfig_DeepCopyInto k = copy_struct
    [(''Networks'', copy_slice Network_type assign),
     (''AddressesFromPools'', copy_slice (k_pool_ref k) assign)]"

definition NetworkConfig_DeepCopy :: "k8s_types \<Rightarrow> duplicator" where
  "NetworkConfig_DeepCopy k = deep_copy (NetworkConfig_type k) (NetworkConfig_DeepCopyInto k)"

lemma NodeOutOfServiceSpec_copier [copiers]:
  "k8s_contract k \<Longrightarrow> deep_copier (NodeOutOfServiceSpec_type k) (NodeOutOfServiceSpec_DeepCopyInto k)"
  unfolding NodeOutOfServiceSpec_type_def NodeOutOfServiceSpec_DeepCopyInto_def
  by (rule copy_struct_copier) (simp_all add: copiers)

lemma AddonsSpec_copier [copiers]:
  "k8s_contract k \<Longrightarrow> deep_copier (AddonsSpec_type k) (AddonsSpec_DeepCopyInto k)"
  unfolding AddonsSpec_type_def AddonsSpec_DeepCopyInto_def
  by (rule copy_struct_copier) (simp_all add: copiers)

lemma NetworkConfig_copier [copiers]:
  "k8s_contract k \<Longrightarrow> deep_copier (NetworkConfig_type k) (NetworkConfig_DeepCopyInto k)"
  unfolding NetworkConfig_type_def NetworkConfig_DeepCopyInto_def
  by (rule copy_struct_copier) (simp_all add: copiers)

section \<open>XOCluster and its templates\<close>

definition XOClusterSpec_type :: "k8s_types \<Rightarrow> go_type" where
  "XOClusterSpec_type k = StructT
    [(''ControlPlaneEndpoint'', PtrT APIEndpoint_type), (''ControlPlaneLB'', PtrT StringT),
     (''InjectSSHKeys'', BoolT), (''IdentityRef'', PtrT (k_local_ref k)),
     (''Tags'', SliceT StringT), (''VMNaming'', PtrT VMNamingSpec_type),
     (''Addons'', PtrT (AddonsSpec_type k))]"

definition XOClusterSpec_DeepCopyInto :: "k8s_types \<Rightarrow> copier" where
  "XOClusterSpec_DeepCopyInto k = copy_struct
    [(''ControlPlaneEndpoint'', copy_pointer APIEndpoint_type APIEndpoint_DeepCopyInto),
     (''ControlPlaneLB'', copy_pointer StringT assign),
     (''IdentityRef'', copy_pointer (k_local_ref k) assign),
     (''Tags'', copy_slice StringT assign),
     (''VMNaming'', copy_pointer VMNamingSpec_type assign),
     (''Addons'', copy_pointer (AddonsSpec_type k) (AddonsSpec_DeepCopyInto k))]"

definition XOClusterSpec_DeepCopy :: "k8s_types \<Rightarrow> duplicator" where
  "XOClusterSpec_DeepCopy k = deep_copy (XOClusterSpec_type k) (XOClusterSpec_DeepCopyInto k)"

definition XOClusterStatus_type :: "k8s_types \<Rightarrow> go_type" where
  "XOClusterStatus_type k = StructT
    [(''Ready'', BoolT), (''ControlPlaneEndpoint'', PtrT APIEndpoint_type),
     (''Initialization'', PtrT InitializationStatus_type), (''FailureReason'', PtrT StringT),
     (''FailureMessage'', PtrT StringT), (''Conditions'', SliceT (k_condition k))]"

definition XOClusterStatus_DeepCopyInto :: "k8s_types \<Rightarrow> copier" where
  "XOClusterStatus_DeepCopyInto k = copy_struct
    [(''ControlPlaneEndpoint'', copy_pointer APIEndpoint_type APIEndpoint_DeepCopyInto),
     (''Initialization'', copy_pointer InitializationStatus_type assign),
     (''FailureReason'', copy_pointer StringT assign),
     (''FailureMessage'', copy_pointer StringT assign),
     (''Conditions'', copy_slice (k_condition k) (condition_into k))]"

definition XOClusterStatus_DeepCopy :: "k8s_types \<Rightarrow> duplicator" where
  "XOClusterStatus_DeepCopy k = deep_copy (XOClusterStatus_type k) (XOClusterStatus_DeepCopyInto k)"

definition XOCluster_type :: "k8s_types \<Rightarrow> go_type" where
  "XOCluster_type k = StructT
    [(''TypeMeta'', k_type_meta k), (''ObjectMeta'', k_object_meta k),
     (''Spec'', XOClusterSpec_type k), (''Status'', XOClusterStatus_type k)]"

definition XOCluster_DeepCopyInto :: "k8s_types \<Rightarrow> copier" where
  "XOCluster_DeepCopyInto k = copy_struct
    [(''TypeMeta'', assign), (''ObjectMeta'', object_meta_into k),
     (''Spec'', XOClusterSpec_DeepCopyInto k), (''Status'', XOClusterStatus_DeepCopyInto k)]"

definition XOCluster_DeepCopy :: "k8s_types \<Rightarrow> duplicator" where
  "XOCluster_DeepCopy k = deep_copy (XOCluster_type k) (XOCluster_DeepCopyInto k)"

definition XOCluster_DeepCopyObject ::
    "k8s_types \<Rightarrow> go_val \<Rightarrow> memory \<Rightarrow> (go_interface \<times>
      memory) option" where
  "XOCluster_DeepCopyObject k = deep_copy_object ''XOCluster'' (XOCluster_DeepCopy k)"

definition XOClusterList_type :: "k8s_types \<Rightarrow> go_type" where
  "XOClusterList_type k = StructT
    [(''TypeMeta'', k_type_meta k), (''ListMeta'', k_list_meta k),
     (''Items'', SliceT (XOCluster_type k))]"

definition XOClusterList_DeepCopyInto :: "k8s_types \<Rightarrow> copier" where
  "XOClusterList_DeepCopyInto k = copy_struct
    [(''TypeMeta'', assign), (''ListMeta'', list_meta_into k),
     (''Items'', copy_slice (XOCluster_type k) (XOCluster_DeepCopyInto k))]"

definition XOClusterList_DeepCopy :: "k8s_types \<Rightarrow> duplicator" where
  "XOClusterList_DeepCopy k = deep_copy (XOClusterList_type k) (XOClusterList_DeepCopyInto k)"

definition XOClusterList_DeepCopyObject ::
    "k8s_types \<Rightarrow> go_val \<Rightarrow> memory \<Rightarrow> (go_interface \<times>
      memory) option" where
  "XOClusterList_DeepCopyObject k = deep_copy_object ''XOClusterList'' (XOClusterList_DeepCopy k)"

definition XOClusterTemplateResource_type :: "k8s_types \<Rightarrow> go_type" where
  "XOClusterTemplateResource_type k = StructT
    [(''Spec'', XOClusterSpec_type k)]"

definition XOClusterTemplateResource_DeepCopyInto :: "k8s_types \<Rightarrow> copier" where
  "XOClusterTemplateResource_DeepCopyInto k = copy_struct
    [(''Spec'', XOClusterSpec_DeepCopyInto k)]"

definition XOClusterTemplateResource_DeepCopy :: "k8s_types \<Rightarrow> duplicator" where
  "XOClusterTemplateResource_DeepCopy k = deep_copy (XOClusterTemplateResource_type k)
    (XOClusterTemplateResource_DeepCopyInto k)"

definition XOClusterTemplateSpec_type :: "k8s_types \<Rightarrow> go_type" where
  "XOClusterTemplateSpec_type k = StructT
    [(''Template'', XOClusterTemplateResource_type k)]"

definition XOClusterTemplateSpec_DeepCopyInto :: "k8s_types \<Rightarrow> copier" where
  "XOClusterTemplateSpec_DeepCopyInto k = copy_struct
    [(''Template'', XOClusterTemplateResource_DeepCopyInto k)]"

definition XOClusterTemplateSpec_DeepCopy :: "k8s_types \<Rightarrow> duplicator" where
  "XOClusterTemplateSpec_DeepCopy k = deep_copy (XOClusterTemplateSpec_type k)
    (XOClusterTemplateSpec_DeepCopyInto k)"

definition XOClusterTemplateStatus_type :: "go_type" where
  "XOClusterTemplateStatus_type = StructT []"

definition XOClusterTemplateStatus_DeepCopyInto :: "copier" where
  "XOClusterTemplateStatus_DeepCopyInto = copy_struct []"

definition XOClusterTemplateStatus_DeepCopy :: "duplicator" where
  "XOClusterTemplateStatus_DeepCopy = deep_copy XOClusterTemplateStatus_type
    XOClusterTemplateStatus_DeepCopyInto"

definition XOClusterTemplate_type :: "k8s_types \<Rightarrow> go_type" where
  "XOClusterTemplate_type k = StructT
    [(''TypeMeta'', k_type_meta k), (''ObjectMeta'', k_object_meta k),
     (''Spec'', XOClusterTemplateSpec_type k), (''Status'', XOClusterTemplateStatus_type)]"

definition XOClusterTemplate_DeepCopyInto :: "k8s_types \<Rightarrow> copier" where
  "XOClusterTemplate_DeepCopyInto k = copy_struct
    [(''TypeMeta'', assign), (''ObjectMeta'', object_meta_into k),
     (''Spec'', XOClusterTemplateSpec_DeepCopyInto k), (''Status'', assign)]"

definition XOClusterTemplate_DeepCopy :: "k8s_types \<Rightarrow> duplicator" where
  "XOClusterTemplate_DeepCopy k = deep_copy (XOClusterTemplate_type k)
    (XOClusterTemplate_DeepCopyInto k)"

definition XOClusterTemplate_DeepCopyObject ::
    "k8s_types \<Rightarrow> go_val \<Rightarrow> memory \<Rightarrow> (go_interface \<times>
      memory) option" where
  "XOClusterTemplate_DeepCopyObject k = deep_copy_object ''XOClusterTemplate''
    (XOClusterTemplate_DeepCopy k)"

definition XOClusterTemplateList_type :: "k8s_types \<Rightarrow> go_type" where
  "XOClusterTemplateList_type k = StructT
    [(''TypeMeta'', k_type_meta k), (''ListMeta'', k_list_meta k),
     (''Items'', SliceT (XOClusterTemplate_type k))]"

definition XOClusterTemplateList_DeepCopyInto :: "k8s_types \<Rightarrow> copier" where
  "XOClusterTemplateList_DeepCopyInto k = copy_struct
    [(''TypeMeta'', assign), (''ListMeta'', list_meta_into k),
     (''Items'', copy_slice (XOClusterTemplate_type k) (XOClusterTemplate_DeepCopyInto k))]"

definition XOClusterTemplateList_DeepCopy :: "k8s_types \<Rightarrow> duplicator" where
  "XOClusterTemplateList_DeepCopy k = deep_copy (XOClusterTemplateList_type k)
    (XOClusterTemplateList_DeepCopyInto k)"

definition XOClusterTemplateList_DeepCopyObject ::
    "k8s_types \<Rightarrow> go_val \<Rightarrow> memory \<Rightarrow> (go_interface \<times>
      memory) option" where
  "XOClusterTemplateList_DeepCopyObject k = deep_copy_object ''XOClusterTemplateList''
    (XOClusterTemplateList_DeepCopy k)"

lemma XOClusterTemplateStatus_flat [copiers]: "flat XOClusterTemplateStatus_type"
  by (simp add: XOClusterTemplateStatus_type_def)

lemma XOClusterSpec_copier [copiers]:
  "k8s_contract k \<Longrightarrow> deep_copier (XOClusterSpec_type k) (XOClusterSpec_DeepCopyInto k)"
  unfolding XOClusterSpec_type_def XOClusterSpec_DeepCopyInto_def
  by (rule copy_struct_copier) (simp_all add: copiers)

lemma XOClusterStatus_copier [copiers]:
  "k8s_contract k \<Longrightarrow> deep_copier (XOClusterStatus_type k) (XOClusterStatus_DeepCopyInto k)"
  unfolding XOClusterStatus_type_def XOClusterStatus_DeepCopyInto_def
  by (rule copy_struct_copier) (simp_all add: copiers)

lemma XOCluster_copier [copiers]:
  "k8s_contract k \<Longrightarrow> deep_copier (XOCluster_type k) (XOCluster_DeepCopyInto k)"
  unfolding XOCluster_type_def XOCluster_DeepCopyInto_def
  by (rule copy_struct_copier) (simp_all add: copiers)

lemma XOClusterList_copier [copiers]:
  "k8s_contract k \<Longrightarrow> deep_copier (XOClusterList_type k) (XOClusterList_DeepCopyInto k)"
  unfolding XOClusterList_type_def XOClusterList_DeepCopyInto_def
  by (rule copy_struct_copier) (simp_all add: copiers)

lemma XOClusterTemplateResource_copier [copiers]:
  "k8s_contract k \<Longrightarrow> deep_copier (XOClusterTemplateResource_type k) (XOClusterTemplateResource_DeepCopyInto k)"
  unfolding XOClusterTemplateResource_type_def XOClusterTemplateResource_DeepCopyInto_def
  by (rule copy_struct_copier) (simp_all add: copiers)

lemma XOClusterTemplateSpec_copier [copiers]:
  "k8s_contract k \<Longrightarrow> deep_copier (XOClusterTemplateSpec_type k) (XOClusterTemplateSpec_DeepCopyInto k)"
  unfolding XOClusterTemplateSpec_type_def XOClusterTemplateSpec_DeepCopyInto_def
  by (rule copy_struct_copier) (simp_all add: copiers)

interpretation xoclustertemplatestatus_copy: deep_copier XOClusterTemplateStatus_type XOClusterTemplateStatus_DeepCopyInto
  unfolding XOClusterTemplateStatus_type_def XOClusterTemplateStatus_DeepCopyInto_def
  by (rule copy_struct_copier) (simp_all add: copiers)

lemmas [copiers] = xoclustertemplatestatus_copy.deep_copier_axioms

lemma XOClusterTemplate_copier [copiers]:
  "k8s_contract k \<Longrightarrow> deep_copier (XOClusterTemplate_type k) (XOClusterTemplate_DeepCopyInto k)"
  unfolding XOClusterTemplate_type_def XOClusterTemplate_DeepCopyInto_def
  by (rule copy_struct_copier) (simp_all add: copiers)

lemma XOClusterTemplateList_copier [copiers]:
  "k8s_contract k \<Longrightarrow> deep_copier (XOClusterTemplateList_type k) (XOClusterTemplateList_DeepCopyInto k)"
  unfolding XOClusterTemplateList_type_def XOClusterTemplateList_DeepCopyInto_def
  by (rule copy_struct_copier) (simp_all add: copiers)


section \<open>XOMachine and its templates\<close>

definition XOMachineSpec_type :: "k8s_types \<Rightarrow> go_type" where
  "XOMachineSpec_type k = StructT
    [(''ProviderID'', PtrT StringT), (''PoolID'', StringT), (''PoolName'', StringT),
     (''TemplateID'', StringT), (''TemplateName'', StringT),
     (''NetworkConfig'', PtrT (NetworkConfig_type k)), (''ResourceSet'', PtrT ResourceSet_type),
     (''FailureDomain'', PtrT StringT), (''BootstrapProvider'', StringT),
     (''Tags'', SliceT StringT), (''Bootstrap'', PtrT BootstrapBehavior_type),
     (''BootstrapData'', StringT), (''IdentityRef'', PtrT (k_local_ref k))]"

definition XOMachineSpec_DeepCopyInto :: "k8s_types \<Rightarrow> copier" where
  "XOMachineSpec_DeepCopyInto k = copy_struct
    [(''ProviderID'', copy_pointer StringT assign),
     (''NetworkConfig'', copy_pointer (NetworkConfig_type k) (NetworkConfig_DeepCopyInto k)),
     (''ResourceSet'', copy_pointer ResourceSet_type ResourceSet_DeepCopyInto),
     (''FailureDomain'', copy_pointer StringT assign), (''Tags'', copy_slice StringT assign),
     (''Bootstrap'', copy_pointer BootstrapBehavior_type assign),
     (''IdentityRef'', copy_pointer (k_local_ref k) assign)]"

definition XOMachineSpec_DeepCopy :: "k8s_types \<Rightarrow> duplicator" where
  "XOMachineSpec_DeepCopy k = deep_copy (XOMachineSpec_type k) (XOMachineSpec_DeepCopyInto k)"

definition XOMachineStatus_type :: "k8s_types \<Rightarrow> go_type" where
  "XOMachineStatus_type k = StructT
    [(''Ready'', BoolT), (''ProviderID'', PtrT StringT), (''VMName'', StringT),
     (''Addresses'', SliceT (k_node_address k)),
     (''Initialization'', PtrT InitializationStatus_type), (''FailureReason'', PtrT StringT),
     (''FailureMessage'', PtrT StringT), (''Conditions'', SliceT (k_condition k))]"

definition XOMachineStatus_DeepCopyInto :: "k8s_types \<Rightarrow> copier" where
  "XOMachineStatus_DeepCopyInto k = copy_struct
    [(''ProviderID'', copy_pointer StringT assign),
     (''Addresses'', copy_slice (k_node_address k) assign),
     (''Initialization'', copy_pointer InitializationStatus_type assign),
     (''FailureReason'', copy_pointer StringT assign),
     (''FailureMessage'', copy_pointer StringT assign),
     (''Conditions'', copy_slice (k_condition k) (condition_into k))]"

definition XOMachineStatus_DeepCopy :: "k8s_types \<Rightarrow> duplicator" where
  "XOMachineStatus_DeepCopy k = deep_copy (XOMachineStatus_type k) (XOMachineStatus_DeepCopyInto k)"

definition XOMachine_type :: "k8s_types \<Rightarrow> go_type" where
  "XOMachine_type k = StructT
    [(''TypeMeta'', k_type_meta k), (''ObjectMeta'', k_object_meta k),
     (''Spec'', XOMachineSpec_type k), (''Status'', XOMachineStatus_type k)]"

definition XOMachine_DeepCopyInto :: "k8s_types \<Rightarrow> copier" where
  "XOMachine_DeepCopyInto k = copy_struct
    [(''TypeMeta'', assign), (''ObjectMeta'', object_meta_into k),
     (''Spec'', XOMachineSpec_DeepCopyInto k), (''Status'', XOMachineStatus_DeepCopyInto k)]"

definition XOMachine_DeepCopy :: "k8s_types \<Rightarrow> duplicator" where
  "XOMachine_DeepCopy k = deep_copy (XOMachine_type k) (XOMachine_DeepCopyInto k)"

definition XOMachine_DeepCopyObject ::
    "k8s_types \<Rightarrow> go_val \<Rightarrow> memory \<Rightarrow> (go_interface \<times>
      memory) option" where
  "XOMachine_DeepCopyObject k = deep_copy_object ''XOMachine'' (XOMachine_DeepCopy k)"

definition XOMachineList_type :: "k8s_types \<Rightarrow> go_type" where
  "XOMachineList_type k = StructT
    [(''TypeMeta'', k_type_meta k), (''ListMeta'', k_list_meta k),
     (''Items'', SliceT (XOMachine_type k))]"

definition XOMachineList_DeepCopyInto :: "k8s_types \<Rightarrow> copier" where
  "XOMachineList_DeepCopyInto k = copy_struct
    [(''TypeMeta'', assign), (''ListMeta'', list_meta_into k),
     (''Items'', copy_slice (XOMachine_type k) (XOMachine_DeepCopyInto k))]"

definition XOMachineList_DeepCopy :: "k8s_types \<Rightarrow> duplicator" where
  "XOMachineList_DeepCopy k = deep_copy (XOMachineList_type k) (XOMachineList_DeepCopyInto k)"

definition XOMachineList_DeepCopyObject ::
    "k8s_types \<Rightarrow> go_val \<Rightarrow> memory \<Rightarrow> (go_interface \<times>
      memory) option" where
  "XOMachineList_DeepCopyObject k = deep_copy_object ''XOMachineList'' (XOMachineList_DeepCopy k)"

definition XOMachineTemplateResource_type :: "k8s_types \<Rightarrow> go_type" where
  "XOMachineTemplateResource_type k = StructT
    [(''Spec'', XOMachineSpec_type k)]"

definition XOMachineTemplateResource_DeepCopyInto :: "k8s_types \<Rightarrow> copier" where
  "XOMachineTemplateResource_DeepCopyInto k = copy_struct
    [(''Spec'', XOMachineSpec_DeepCopyInto k)]"

definition XOMachineTemplateResource_DeepCopy :: "k8s_types \<Rightarrow> duplicator" where
  "XOMachineTemplateResource_DeepCopy k = deep_copy (XOMachineTemplateResource_type k)
    (XOMachineTemplateResource_DeepCopyInto k)"

definition XOMachineTemplateSpec_type :: "k8s_types \<Rightarrow> go_type" where
  "XOMachineTemplateSpec_type k = StructT
    [(''Template'', XOMachineTemplateResource_type k)]"

definition XOMachineTemplateSpec_DeepCopyInto :: "k8s_types \<Rightarrow> copier" where
  "XOMachineTemplateSpec_DeepCopyInto k = copy_struct
    [(''Template'', XOMachineTemplateResource_DeepCopyInto k)]"

definition XOMachineTemplateSpec_DeepCopy :: "k8s_types \<Rightarrow> duplicator" where
  "XOMachineTemplateSpec_DeepCopy k = deep_copy (XOMachineTemplateSpec_type k)
    (XOMachineTemplateSpec_DeepCopyInto k)"

definition XOMachineTemplateStatus_type :: "go_type" where
  "XOMachineTemplateStatus_type = StructT []"

definition XOMachineTemplateStatus_DeepCopyInto :: "copier" where
  "XOMachineTemplateStatus_DeepCopyInto = copy_struct []"

definition XOMachineTemplateStatus_DeepCopy :: "duplicator" where
  "XOMachineTemplateStatus_DeepCopy = deep_copy XOMachineTemplateStatus_type
    XOMachineTemplateStatus_DeepCopyInto"

definition XOMachineTemplate_type :: "k8s_types \<Rightarrow> go_type" where
  "XOMachineTemplate_type k = StructT
    [(''TypeMeta'', k_type_meta k), (''ObjectMeta'', k_object_meta k),
     (''Spec'', XOMachineTemplateSpec_type k), (''Status'', XOMachineTemplateStatus_type)]"

definition XOMachineTemplate_DeepCopyInto :: "k8s_types \<Rightarrow> copier" where
  "XOMachineTemplate_DeepCopyInto k = copy_struct
    [(''TypeMeta'', assign), (''ObjectMeta'', object_meta_into k),
     (''Spec'', XOMachineTemplateSpec_DeepCopyInto k), (''Status'', assign)]"

definition XOMachineTemplate_DeepCopy :: "k8s_types \<Rightarrow> duplicator" where
  "XOMachineTemplate_DeepCopy k = deep_copy (XOMachineTemplate_type k)
    (XOMachineTemplate_DeepCopyInto k)"

definition XOMachineTemplate_DeepCopyObject ::
    "k8s_types \<Rightarrow> go_val \<Rightarrow> memory \<Rightarrow> (go_interface \<times>
      memory) option" where
  "XOMachineTemplate_DeepCopyObject k = deep_copy_object ''XOMachineTemplate''
    (XOMachineTemplate_DeepCopy k)"

definition XOMachineTemplateList_type :: "k8s_types \<Rightarrow> go_type" where
  "XOMachineTemplateList_type k = StructT
    [(''TypeMeta'', k_type_meta k), (''ListMeta'', k_list_meta k),
     (''Items'', SliceT (XOMachineTemplate_type k))]"

definition XOMachineTemplateList_DeepCopyInto :: "k8s_types \<Rightarrow> copier" where
  "XOMachineTemplateList_DeepCopyInto k = copy_struct
    [(''TypeMeta'', assign), (''ListMeta'', list_meta_into k),
     (''Items'', copy_slice (XOMachineTemplate_type k) (XOMachineTemplate_DeepCopyInto k))]"

definition XOMachineTemplateList_DeepCopy :: "k8s_types \<Rightarrow> duplicator" where
  "XOMachineTemplateList_DeepCopy k = deep_copy (XOMachineTemplateList_type k)
    (XOMachineTemplateList_DeepCopyInto k)"

definition XOMachineTemplateList_DeepCopyObject ::
    "k8s_types \<Rightarrow> go_val \<Rightarrow> memory \<Rightarrow> (go_interface \<times>
      memory) option" where
  "XOMachineTemplateList_DeepCopyObject k = deep_copy_object ''XOMachineTemplateList''
    (XOMachineTemplateList_DeepCopy k)"

lemma XOMachineTemplateStatus_flat [copiers]: "flat XOMachineTemplateStatus_type"
  by (simp add: XOMachineTemplateStatus_type_def)

lemma XOMachineSpec_copier [copiers]:
  "k8s_contract k \<Longrightarrow> deep_copier (XOMachineSpec_type k) (XOMachineSpec_DeepCopyInto k)"
  unfolding XOMachineSpec_type_def XOMachineSpec_DeepCopyInto_def
  by (rule copy_struct_copier) (simp_all add: copiers)

lemma XOMachineStatus_copier [copiers]:
  "k8s_contract k \<Longrightarrow> deep_copier (XOMachineStatus_type k) (XOMachineStatus_DeepCopyInto k)"
  unfolding XOMachineStatus_type_def XOMachineStatus_DeepCopyInto_def
  by (rule copy_struct_copier) (simp_all add: copiers)

lemma XOMachine_copier [copiers]:
  "k8s_contract k \<Longrightarrow> deep_copier (XOMachine_type k) (XOMachine_DeepCopyInto k)"
  unfolding XOMachine_type_def XOMachine_DeepCopyInto_def
  by (rule copy_struct_copier) (simp_all add: copiers)

lemma XOMachineList_copier [copiers]:
  "k8s_contract k \<Longrightarrow> deep_copier (XOMachineList_type k) (XOMachineList_DeepCopyInto k)"
  unfolding XOMachineList_type_def XOMachineList_DeepCopyInto_def
  by (rule copy_struct_copier) (simp_all add: copiers)

lemma XOMachineTemplateResource_copier [copiers]:
  "k8s_contract k \<Longrightarrow> deep_copier (XOMachineTemplateResource_type k) (XOMachineTemplateResource_DeepCopyInto k)"
  unfolding XOMachineTemplateResource_type_def XOMachineTemplateResource_DeepCopyInto_def
  by (rule copy_struct_copier) (simp_all add: copiers)

lemma XOMachineTemplateSpec_copier [copiers]:
  "k8s_contract k \<Longrightarrow> deep_copier (XOMachineTemplateSpec_type k) (XOMachineTemplateSpec_DeepCopyInto k)"
  unfolding XOMachineTemplateSpec_type_def XOMachineTemplateSpec_DeepCopyInto_def
  by (rule copy_struct_copier) (simp_all add: copiers)

interpretation xomachinetemplatestatus_copy: deep_copier XOMachineTemplateStatus_type XOMachineTemplateStatus_DeepCopyInto
  unfolding XOMachineTemplateStatus_type_def XOMachineTemplateStatus_DeepCopyInto_def
  by (rule copy_struct_copier) (simp_all add: copiers)

lemmas [copiers] = xomachinetemplatestatus_copy.deep_copier_axioms

lemma XOMachineTemplate_copier [copiers]:
  "k8s_contract k \<Longrightarrow> deep_copier (XOMachineTemplate_type k) (XOMachineTemplate_DeepCopyInto k)"
  unfolding XOMachineTemplate_type_def XOMachineTemplate_DeepCopyInto_def
  by (rule copy_struct_copier) (simp_all add: copiers)

lemma XOMachineTemplateList_copier [copiers]:
  "k8s_contract k \<Longrightarrow> deep_copier (XOMachineTemplateList_type k) (XOMachineTemplateList_DeepCopyInto k)"
  unfolding XOMachineTemplateList_type_def XOMachineTemplateList_DeepCopyInto_def
  by (rule copy_struct_copier) (simp_all add: copiers)

end
