(* ===== verification/Deep_Copy_Properties.thy ===== *)
theory Deep_Copy_Properties
  imports Deep_Copy
begin

text \<open>
  What the generated deep copies give their callers, for all types at once: a copy with the
  value of the receiver that shares no object with anything allocated before, an interface
  that is nil exactly when the receiver is, and a patch base that later writes to the object
  cannot change. The witnesses run on a memory that holds an XOCluster with tags, an endpoint
  and a condition.
\<close>

section \<open>The generated functions\<close>

definition generated :: "k8s_types \<Rightarrow> (go_type \<times> duplicator) list" where
  "generated k =
    [(APIEndpoint_type, APIEndpoint_DeepCopy),
     (AddonsSpec_type k, AddonsSpec_DeepCopy k),
     (BootstrapBehavior_type, BootstrapBehavior_DeepCopy),
     (CiliumSpec_type, CiliumSpec_DeepCopy),
     (InitializationStatus_type, InitializationStatus_DeepCopy),
     (Network_type, Network_DeepCopy),
     (NetworkConfig_type k, NetworkConfig_DeepCopy k),
     (NodeOutOfServiceSpec_type k, NodeOutOfServiceSpec_DeepCopy k),
     (ResourceSet_type, ResourceSet_DeepCopy),
     (VMNamingSpec_type, VMNamingSpec_DeepCopy),
     (XOCluster_type k, XOCluster_DeepCopy k),
     (XOClusterList_type k, XOClusterList_DeepCopy k),
     (XOClusterSpec_type k, XOClusterSpec_DeepCopy k),
     (XOClusterStatus_type k, XOClusterStatus_DeepCopy k),
     (XOClusterTemplate_type k, XOClusterTemplate_DeepCopy k),
     (XOClusterTemplateList_type k, XOClusterTemplateList_DeepCopy k),
     (XOClusterTemplateResource_type k, XOClusterTemplateResource_DeepCopy k),
     (XOClusterTemplateSpec_type k, XOClusterTemplateSpec_DeepCopy k),
     (XOClusterTemplateStatus_type, XOClusterTemplateStatus_DeepCopy),
     (XOMachine_type k, XOMachine_DeepCopy k),
     (XOMachineList_type k, XOMachineList_DeepCopy k),
     (XOMachineSpec_type k, XOMachineSpec_DeepCopy k),
     (XOMachineStatus_type k, XOMachineStatus_DeepCopy k),
     (XOMachineTemplate_type k, XOMachineTemplate_DeepCopy k),
     (XOMachineTemplateList_type k, XOMachineTemplateList_DeepCopy k),
     (XOMachineTemplateResource_type k, XOMachineTemplateResource_DeepCopy k),
     (XOMachineTemplateSpec_type k, XOMachineTemplateSpec_DeepCopy k),
     (XOMachineTemplateStatus_type, XOMachineTemplateStatus_DeepCopy)]"

definition generated_objects ::
    "k8s_types \<Rightarrow> (string \<times> go_type \<times> (go_val \<Rightarrow> memory
      \<Rightarrow> (go_interface \<times> memory) option)) list" where
  "generated_objects k =
    [(''XOCluster'', XOCluster_type k, XOCluster_DeepCopyObject k),
     (''XOClusterList'', XOClusterList_type k, XOClusterList_DeepCopyObject k),
     (''XOClusterTemplate'', XOClusterTemplate_type k, XOClusterTemplate_DeepCopyObject k),
     (''XOClusterTemplateList'', XOClusterTemplateList_type k, XOClusterTemplateList_DeepCopyObject k),
     (''XOMachine'', XOMachine_type k, XOMachine_DeepCopyObject k),
     (''XOMachineList'', XOMachineList_type k, XOMachineList_DeepCopyObject k),
     (''XOMachineTemplate'', XOMachineTemplate_type k, XOMachineTemplate_DeepCopyObject k),
     (''XOMachineTemplateList'', XOMachineTemplateList_type k, XOMachineTemplateList_DeepCopyObject k)]"

text \<open>A row of the table is a \<open>DeepCopy\<close> over a copier that keeps the
  contract.\<close>

definition duplicates :: "go_type \<Rightarrow> duplicator \<Rightarrow> bool" where
  "duplicates T dup \<longleftrightarrow> (\<exists>into. deep_copier T into \<and> dup = deep_copy
    T into)"

lemma duplicates_deep_copy [simp]: "deep_copier T into \<Longrightarrow> duplicates T (deep_copy T
  into)"
  by (auto simp: duplicates_def)

lemma duplicates_isolated:
  assumes "duplicates T dup" "well (PtrT T) h p"
  shows "\<exists>q h'. dup p h = Some (q, h') \<and> isolated_copy T h p q h'"
  using assms deep_copier.deep_copy_isolated unfolding duplicates_def by blast

lemmas DeepCopy_defs =
  APIEndpoint_DeepCopy_def AddonsSpec_DeepCopy_def BootstrapBehavior_DeepCopy_def
  CiliumSpec_DeepCopy_def InitializationStatus_DeepCopy_def Network_DeepCopy_def
  NetworkConfig_DeepCopy_def NodeOutOfServiceSpec_DeepCopy_def ResourceSet_DeepCopy_def
  VMNamingSpec_DeepCopy_def XOCluster_DeepCopy_def XOClusterList_DeepCopy_def
  XOClusterSpec_DeepCopy_def XOClusterStatus_DeepCopy_def XOClusterTemplate_DeepCopy_def
  XOClusterTemplateList_DeepCopy_def XOClusterTemplateResource_DeepCopy_def
    XOClusterTemplateSpec_DeepCopy_def
  XOClusterTemplateStatus_DeepCopy_def XOMachine_DeepCopy_def XOMachineList_DeepCopy_def
  XOMachineSpec_DeepCopy_def XOMachineStatus_DeepCopy_def XOMachineTemplate_DeepCopy_def
  XOMachineTemplateList_DeepCopy_def XOMachineTemplateResource_DeepCopy_def
    XOMachineTemplateSpec_DeepCopy_def
  XOMachineTemplateStatus_DeepCopy_def

lemma generated_duplicates:
  assumes "k8s_contract k"
  shows "list_all (\<lambda>(T, dup). duplicates T dup) (generated k)"
  using assms by (simp add: generated_def DeepCopy_defs copiers)

lemma generated_row:
  assumes "k8s_contract k" "(T, dup) \<in> set (generated k)"
  shows "duplicates T dup"
  using generated_duplicates[OF assms(1)] assms(2) by (fastforce simp: list_all_iff)

text \<open>A copy that is a pointer, not nil, when the receiver is one.\<close>

lemma isolated_not_nil:
  "isolated_copy T h (PtrV a) q h' \<Longrightarrow> well (PtrT T) h (PtrV a) \<Longrightarrow> q
    \<noteq> NilV"
  by (auto simp: isolated_copy_def)

definition duplicates_object ::
    "string \<Rightarrow> go_type \<Rightarrow> (go_val \<Rightarrow> memory \<Rightarrow>
      (go_interface \<times> memory) option) \<Rightarrow> bool" where
  "duplicates_object name T dup \<longleftrightarrow> (\<exists>copy. duplicates T copy \<and> dup
    = deep_copy_object name copy)"

lemma duplicates_objectI [simp]:
  "duplicates T copy \<Longrightarrow> duplicates_object name T (deep_copy_object name copy)"
  by (auto simp: duplicates_object_def)

lemmas DeepCopyObject_defs =
  XOCluster_DeepCopyObject_def
  XOClusterList_DeepCopyObject_def
  XOClusterTemplate_DeepCopyObject_def
  XOClusterTemplateList_DeepCopyObject_def
  XOMachine_DeepCopyObject_def
  XOMachineList_DeepCopyObject_def
  XOMachineTemplate_DeepCopyObject_def
  XOMachineTemplateList_DeepCopyObject_def

lemma generated_objects_duplicate:
  assumes "k8s_contract k"
  shows "list_all (\<lambda>(name, T, dup). duplicates_object name T dup) (generated_objects k)"
  using assms by (simp add: generated_objects_def DeepCopyObject_defs DeepCopy_defs copiers)

lemma duplicates_object_nil: "duplicates_object name T dup \<Longrightarrow> dup NilV h = Some
  (NilInterface, h)"
  by (auto simp: duplicates_object_def duplicates_def deep_copy_object_def deep_copy_def)

lemma duplicates_object_holds:
  assumes "duplicates_object name T dup" "well (PtrT T) h (PtrV a)"
  shows "\<exists>b h'. dup (PtrV a) h = Some (Holding name (PtrV b), h') \<and>
    isolated_copy T h (PtrV a) (PtrV b) h'"
proof -
  obtain copy where copy: "duplicates T copy" "dup = deep_copy_object name copy"
    using assms(1) by (auto simp: duplicates_object_def)
  obtain q h' where q: "copy (PtrV a) h = Some (q, h')" "isolated_copy T h (PtrV a) q h'"
    using duplicates_isolated[OF copy(1) assms(2)] by blast
  moreover have "q \<noteq> NilV" by (rule isolated_not_nil[OF q(2) assms(2)])
  moreover from this q(2) obtain b where "q = PtrV b"
    by (auto simp: isolated_copy_def split: go_val.splits)
  ultimately show ?thesis using copy(2) by (simp add: deep_copy_object_def)
qed

section \<open>A memory for the witnesses\<close>

text \<open>
  An instance of the imported types: a condition points to its time, an object's metadata has
  a list of finalizers and a map of labels left nil.
\<close>

definition sample_object_meta :: go_type where
  "sample_object_meta = StructT
    [(''Name'', StringT), (''Finalizers'', SliceT StringT), (''Generation'', PtrT IntT)]"

definition sample_object_meta_into :: copier where
  "sample_object_meta_into = copy_struct
    [(''Finalizers'', copy_slice StringT assign), (''Generation'', copy_pointer IntT assign)]"

definition sample_named :: go_type where
  "sample_named = StructT [(''Name'', StringT)]"

definition sample_condition :: go_type where
  "sample_condition = StructT [(''Type'', StringT), (''Time'', PtrT IntT)]"

definition sample_condition_into :: copier where
  "sample_condition_into = copy_struct [(''Time'', copy_pointer IntT assign)]"

definition sample_lib :: k8s_types where
  "sample_lib = \<lparr> k_type_meta = sample_named, k_object_meta = sample_object_meta,
    k_list_meta = sample_named,
    k_condition = sample_condition, k_local_ref = sample_named, k_duration = IntT,
    k_node_address = sample_named, k_pool_ref = sample_named,
    object_meta_into = sample_object_meta_into, list_meta_into = copy_struct [],
    condition_into = sample_condition_into \<rparr>"

lemma sample_contract: "k8s_contract sample_lib"
proof -
  have "deep_copier sample_object_meta sample_object_meta_into"
    unfolding sample_object_meta_def sample_object_meta_into_def
    by (rule copy_struct_copier) (simp_all add: copiers)
  moreover have "deep_copier sample_condition sample_condition_into"
    unfolding sample_condition_def sample_condition_into_def
    by (rule copy_struct_copier) (simp_all add: copiers)
  moreover have "deep_copier sample_named (copy_struct [])"
    unfolding sample_named_def by (rule copy_struct_copier) (simp_all add: copiers)
  ultimately show ?thesis by (simp add: k8s_contract_def sample_lib_def sample_named_def)
qed

text \<open>An XOCluster at address 0, with the objects it points to after it.\<close>

definition cluster_memory :: memory where
  "cluster_memory =
    [StructV
       [(''TypeMeta'', StructV [(''Name'', StringV ''XOCluster'')]),
        (''ObjectMeta'', StructV
           [(''Name'', StringV ''c''), (''Finalizers'', SliceV 1 0 1 1), (''Generation'', NilV)]),
        (''Spec'', StructV
           [(''ControlPlaneEndpoint'', PtrV 2), (''ControlPlaneLB'', NilV),
            (''InjectSSHKeys'', BoolV True), (''IdentityRef'', NilV), (''Tags'', SliceV 4 1 2 2),
            (''VMNaming'', NilV), (''Addons'', NilV)]),
        (''Status'', StructV
           [(''Ready'', BoolV False), (''ControlPlaneEndpoint'', PtrV 2), (''Initialization'', NilV),
            (''FailureReason'', NilV), (''FailureMessage'', NilV),
            (''Conditions'', SliceV 5 0 1 1)])],
     ArrayV [StringV ''f''],
     StructV [(''Host'', StringV ''h''), (''Port'', IntV 6443), (''Subnet'', PtrV 3)],
     IntV 24,
     ArrayV [StringV ''x'', StringV ''a'', StringV ''b''],
     ArrayV [StructV [(''Type'', StringV ''Ready''), (''Time'', PtrV 6)]],
     IntV 7]"

lemmas type_defs =
  XOCluster_type_def XOClusterSpec_type_def XOClusterStatus_type_def APIEndpoint_type_def
  InitializationStatus_type_def VMNamingSpec_type_def AddonsSpec_type_def CiliumSpec_type_def
  NodeOutOfServiceSpec_type_def

lemmas sample_defs = sample_lib_def sample_object_meta_def sample_condition_def sample_named_def

lemma cluster_memory_well: "well (PtrT (XOCluster_type sample_lib)) cluster_memory (PtrV 0)"
  by (simp add: type_defs sample_defs cluster_memory_def field_def window_def)

text \<open>
  That \<open>out\<close> lies outside \<open>in\<close> is needed: copied onto itself, an endpoint
    keeps a fresh, empty
  subnet, since the new object is linked before the old one is read.
\<close>

definition endpoint_memory :: memory where
  "endpoint_memory =
    [StructV [(''Host'', StringV ''h''), (''Port'', IntV 1), (''Subnet'', PtrV 1)], IntV 24]"

lemma DeepCopyInto_onto_itself:
  "view APIEndpoint_type endpoint_memory (endpoint_memory ! 0) =
     StructL [(''Host'', StringL ''h''), (''Port'', IntL 1), (''Subnet'', PtrL (IntL 24))]"
  "map_option (\<lambda>h. view APIEndpoint_type h (h ! 0))
     (APIEndpoint_DeepCopyInto (0, []) (0, []) endpoint_memory) =
   Some (StructL [(''Host'', StringL ''h''), (''Port'', IntL 1), (''Subnet'', PtrL (IntL 0))])"
  by code_simp+

section \<open>Properties\<close>

text \<open>
  C16: Every generated \<open>DeepCopy\<close>, called on nil or on a pointer to a value of its
    type, returns:
  memory has only grown, the copy has the value of the receiver all the way down, and every
  object it reaches is one the call allocated, so it shares none with the receiver or with
  anything else.
\<close>

theorem DeepCopy_isolated:
  assumes "k8s_contract k" "(T, dup) \<in> set (generated k)" "well (PtrT T) h p"
  shows "\<exists>q more. dup p h = Some (q, h @ more) \<and> well (PtrT T) (h @ more) q \<and>
    view (PtrT T) (h @ more) q = view (PtrT T) h p \<and>
    set (reach (PtrT T) (h @ more) q) \<subseteq> {length h..<length (h @ more)}"
  using duplicates_isolated[OF generated_row[OF assms(1,2)] assms(3)]
  unfolding isolated_copy_def by blast

theorem DeepCopy_isolated_witness:
  "\<exists>q more. XOCluster_DeepCopy sample_lib (PtrV 0) cluster_memory = Some (q, cluster_memory
    @ more) \<and>
    view (PtrT (XOCluster_type sample_lib)) (cluster_memory @ more) q =
      view (PtrT (XOCluster_type sample_lib)) cluster_memory (PtrV 0)"
  using DeepCopy_isolated[OF sample_contract, of "XOCluster_type sample_lib" "XOCluster_DeepCopy
    sample_lib",
      OF _ cluster_memory_well]
  by (auto simp: generated_def)

text \<open>
  C17: After a generated \<open>DeepCopy\<close>, no sequence of writes to objects that existed
    before the
  call changes the copy (the patch base of a reconcile stays the object as it was read), and
  no sequence of writes to the copy's objects or later ones changes the receiver.
\<close>

theorem DeepCopy_writes_apart:
  assumes "k8s_contract k" "(T, dup) \<in> set (generated k)" "well (PtrT T) h p"
    and "dup p h = Some (q, h')" "stores ws h' = Some h''"
  shows "((\<forall>lw \<in> set ws. fst (fst lw) < length h) \<longrightarrow> view (PtrT T) h'' q
    = view (PtrT T) h p) \<and>
    ((\<forall>lw \<in> set ws. length h \<le> fst (fst lw)) \<longrightarrow> view (PtrT T) h'' p
      = view (PtrT T) h p)"
proof -
  have copy: "isolated_copy T h p q h'"
    using duplicates_isolated[OF generated_row[OF assms(1,2)] assms(3)] assms(4) by auto
  then show ?thesis
    using isolated_copy_kept[OF copy assms(5)] isolated_original_kept[OF copy assms(3,5)]
    by fastforce
qed

theorem DeepCopy_writes_apart_witness:
  "\<exists>q h' h''. XOCluster_DeepCopy sample_lib (PtrV 0) cluster_memory = Some (q, h') \<and>
    stores [((5, [Elem 0, Fld ''Type'']), StringV ''Paused'')] h' = Some h'' \<and>
    view (PtrT (XOCluster_type sample_lib)) h'' q = view (PtrT (XOCluster_type sample_lib))
      cluster_memory (PtrV 0)"
proof -
  have row: "(XOCluster_type sample_lib, XOCluster_DeepCopy sample_lib) \<in> set (generated
    sample_lib)"
    by (simp add: generated_def)
  obtain q more where copy: "XOCluster_DeepCopy sample_lib (PtrV 0) cluster_memory =
      Some (q, cluster_memory @ more)"
    using duplicates_isolated[OF generated_row[OF sample_contract row] cluster_memory_well]
    by (auto simp: isolated_copy_def)
  obtain h'' where "stores [((5, [Elem 0, Fld ''Type'']), StringV ''Paused'')]
      (cluster_memory @ more) = Some h''"
    by (simp add: cluster_memory_def store_def load_def nth_append)
  with DeepCopy_writes_apart[OF sample_contract row cluster_memory_well copy this] copy
  show ?thesis by (auto simp: cluster_memory_def)
qed

text \<open>
  Every generated \<open>DeepCopyObject\<close> returns a nil interface for a nil receiver, never an
  interface that holds a nil pointer, and otherwise an interface of its kind that holds a
  pointer to an isolated copy.
\<close>

theorem DeepCopyObject_nil_or_copy:
  assumes "k8s_contract k" "(name, T, dup) \<in> set (generated_objects k)" "well (PtrT T) h p"
  shows "if p = NilV then dup p h = Some (NilInterface, h)
    else \<exists>b more. dup p h = Some (Holding name (PtrV b), h @ more) \<and> length h \<le> b
      \<and>
      view (PtrT T) (h @ more) (PtrV b) = view (PtrT T) h p"
proof (cases "p = NilV")
  case False
  have row: "duplicates_object name T dup"
    using generated_objects_duplicate[OF assms(1)] assms(2) by (fastforce simp: list_all_iff)
  from False assms(3) obtain a where "p = PtrV a" by (auto split: go_val.splits)
  with duplicates_object_holds[OF row] assms(3) False show ?thesis
    unfolding isolated_copy_def by fastforce
next
  case True
  have "duplicates_object name T dup"
    using generated_objects_duplicate[OF assms(1)] assms(2) by (fastforce simp: list_all_iff)
  with True show ?thesis by (simp add: duplicates_object_nil)
qed

theorem DeepCopyObject_nil_or_copy_witness:
  "XOCluster_DeepCopyObject sample_lib NilV [] = Some (NilInterface, []) \<and>
   (\<exists>b more. XOCluster_DeepCopyObject sample_lib (PtrV 0) cluster_memory =
      Some (Holding ''XOCluster'' (PtrV b), cluster_memory @ more))"
  using DeepCopyObject_nil_or_copy[OF sample_contract, of "''XOCluster''" "XOCluster_type sample_lib"
      "XOCluster_DeepCopyObject sample_lib" "[]" NilV]
    DeepCopyObject_nil_or_copy[OF sample_contract, of "''XOCluster''" "XOCluster_type sample_lib"
      "XOCluster_DeepCopyObject sample_lib", OF _ cluster_memory_well]
  by (auto simp: generated_objects_def)

end
