(* ===== verification/Scheme.thy ===== *)
theory Scheme
  imports Manager_Main Deep_Copy_Properties
begin

text \<open>
  The scheme of the manager: the kinds of the API group registered by the \<open>init\<close> functions of
  \<open>api/v1beta2\<close>, and the groups added to the manager's scheme by \<open>init\<close> of \<open>cmd/main.go\<close>. A kind
  that is not in the scheme cannot be read, written or watched. The \<open>AddToScheme\<close> functions of the
  imported groups and the scheme builder of controller-runtime are parameters.
\<close>

section \<open>The API group\<close>

record group_version =
  gv_group :: string
  gv_version :: string

type_synonym gvk = "group_version \<times> string"
type_synonym scheme = "gvk set"

definition SchemeGroupVersion :: group_version where
  "SchemeGroupVersion = \<lparr>gv_group = ''vates.infrastructure.cluster.x-k8s.io'', gv_version = ''v1beta2''\<rparr>"

text \<open>The four \<open>init\<close> functions, in the order of their files.\<close>

definition init_xocluster :: "string list \<Rightarrow> string list" where
  "init_xocluster registered = registered @ [''XOCluster'', ''XOClusterList'']"

definition init_xoclustertemplate :: "string list \<Rightarrow> string list" where
  "init_xoclustertemplate registered = registered @ [''XOClusterTemplate'', ''XOClusterTemplateList'']"

definition init_xomachine :: "string list \<Rightarrow> string list" where
  "init_xomachine registered = registered @ [''XOMachine'', ''XOMachineList'']"

definition init_xomachinetemplate :: "string list \<Rightarrow> string list" where
  "init_xomachinetemplate registered = registered @ [''XOMachineTemplate'', ''XOMachineTemplateList'']"

definition SchemeBuilder :: "string list" where
  "SchemeBuilder = init_xomachinetemplate (init_xomachine (init_xoclustertemplate (init_xocluster [])))"

section \<open>The manager's scheme\<close>

record scheme_lib =
  add_clientgo :: "scheme \<Rightarrow> error + scheme"
  add_clusterv1 :: "scheme \<Rightarrow> error + scheme"
  add_addonsv1 :: "scheme \<Rightarrow> error + scheme"
  add_ipamv1 :: "scheme \<Rightarrow> error + scheme"
  builder_add :: "group_version \<Rightarrow> string list \<Rightarrow> scheme \<Rightarrow> error + scheme"

definition infrastructure_AddToScheme :: "scheme_lib \<Rightarrow> scheme \<Rightarrow> error + scheme" where
  "infrastructure_AddToScheme l s = builder_add l SchemeGroupVersion SchemeBuilder s"

text \<open>\<open>utilruntime.Must\<close> panics on an error.\<close>

fun must_all :: "(scheme \<Rightarrow> error + scheme) list \<Rightarrow> scheme \<Rightarrow> error + scheme" where
  "must_all [] s = Inr s"
| "must_all (add # adds) s =
     (case add s of Inl err \<Rightarrow> Inl (Panic (error_text err)) | Inr s' \<Rightarrow> must_all adds s')"

definition main_init :: "scheme_lib \<Rightarrow> error + scheme" where
  "main_init l = must_all
     [add_clientgo l, infrastructure_AddToScheme l, add_clusterv1 l, add_addonsv1 l, add_ipamv1 l] {}"

section \<open>What the controllers need\<close>

definition core_v1 :: group_version where
  "core_v1 = \<lparr>gv_group = [], gv_version = ''v1''\<rparr>"

definition capi_group :: "string \<Rightarrow> group_version" where
  "capi_group g = \<lparr>gv_group = g, gv_version = ''v1beta2''\<rparr>"

text \<open>The kinds behind the calls of \<open>kube\<close> and behind the watches of \<open>Manager_Main\<close>.\<close>

definition needed_kinds :: "gvk set" where
  "needed_kinds =
     {(SchemeGroupVersion, ''XOMachine''), (SchemeGroupVersion, ''XOCluster''),
      (core_v1, ''Secret''), (core_v1, ''ConfigMap''),
      (capi_group ''cluster.x-k8s.io'', ''Machine''), (capi_group ''cluster.x-k8s.io'', ''MachineList''),
      (capi_group ''cluster.x-k8s.io'', ''Cluster''),
      (capi_group ''addons.cluster.x-k8s.io'', ''ClusterResourceSet''),
      (capi_group ''ipam.cluster.x-k8s.io'', ''IPAddressClaim''),
      (capi_group ''ipam.cluster.x-k8s.io'', ''IPAddress'')}"

text \<open>The documented effect of an \<open>AddToScheme\<close>: on success, its kinds are there too.\<close>

definition adds_kinds :: "(scheme \<Rightarrow> error + scheme) \<Rightarrow> gvk set \<Rightarrow> bool" where
  "adds_kinds add K \<longleftrightarrow> (\<forall>s s'. add s = Inr s' \<longrightarrow> s \<union> K \<subseteq> s')"

lemma must_all_adds:
  assumes "list_all2 adds_kinds adds Ks"
  shows "must_all adds s = Inr s' \<Longrightarrow> s \<union> \<Union>(set Ks) \<subseteq> s'"
  using assms
proof (induction adds Ks arbitrary: s rule: list_all2_induct)
  case (Cons add adds K Ks)
  from Cons.prems obtain s1 where s1: "add s = Inr s1" "must_all adds s1 = Inr s'"
    by (auto split: sum.splits)
  have "s \<union> K \<subseteq> s1" using Cons.hyps(1) s1(1) unfolding adds_kinds_def by blast
  moreover have "s1 \<union> \<Union>(set Ks) \<subseteq> s'" by (rule Cons.IH[OF s1(2)])
  ultimately show ?case by auto
qed simp

text \<open>
  Every kind the API group registers is one that the generated code can copy as an object, and
  every kind it can copy so is registered.
\<close>

theorem registered_kinds_copy: "map fst (generated_objects k) = SchemeBuilder"
  by (simp add: generated_objects_def SchemeBuilder_def init_xocluster_def init_xoclustertemplate_def
      init_xomachine_def init_xomachinetemplate_def)

text \<open>
  When \<open>init\<close> does not panic, the manager's scheme knows every kind the controllers read, write or
  watch, the claims and addresses of IPAM included.
\<close>

theorem main_init_knows_kinds:
  assumes "adds_kinds (add_clientgo l) {(core_v1, ''Secret''), (core_v1, ''ConfigMap'')}"
    and "\<And>gv kinds. adds_kinds (builder_add l gv kinds) {(gv, kd) | kd. kd \<in> set kinds}"
    and "adds_kinds (add_clusterv1 l) {(capi_group ''cluster.x-k8s.io'', kd) | kd. kd \<in> {''Cluster'', ''Machine'', ''MachineList''}}"
    and "adds_kinds (add_addonsv1 l) {(capi_group ''addons.cluster.x-k8s.io'', ''ClusterResourceSet'')}"
    and "adds_kinds (add_ipamv1 l) {(capi_group ''ipam.cluster.x-k8s.io'', kd) | kd. kd \<in> {''IPAddressClaim'', ''IPAddress''}}"
    and "main_init l = Inr s"
  shows "needed_kinds \<subseteq> s"
proof -
  have "adds_kinds (infrastructure_AddToScheme l) {(SchemeGroupVersion, kd) | kd. kd \<in> set SchemeBuilder}"
    using assms(2) unfolding infrastructure_AddToScheme_def[abs_def] by simp
  with assms(1,3-5) have "list_all2 adds_kinds
     [add_clientgo l, infrastructure_AddToScheme l, add_clusterv1 l, add_addonsv1 l, add_ipamv1 l]
     [{(core_v1, ''Secret''), (core_v1, ''ConfigMap'')},
      {(SchemeGroupVersion, kd) | kd. kd \<in> set SchemeBuilder},
      {(capi_group ''cluster.x-k8s.io'', kd) | kd. kd \<in> {''Cluster'', ''Machine'', ''MachineList''}},
      {(capi_group ''addons.cluster.x-k8s.io'', ''ClusterResourceSet'')},
      {(capi_group ''ipam.cluster.x-k8s.io'', kd) | kd. kd \<in> {''IPAddressClaim'', ''IPAddress''}}]"
    by simp
  from must_all_adds[OF this assms(6)[unfolded main_init_def]] show ?thesis
    by (auto simp: needed_kinds_def SchemeBuilder_def init_xocluster_def init_xoclustertemplate_def
        init_xomachine_def init_xomachinetemplate_def)
qed

definition sample_schemes :: scheme_lib where
  "sample_schemes = \<lparr>
     add_clientgo = (\<lambda>s. Inr (s \<union> {(core_v1, ''Secret''), (core_v1, ''ConfigMap'')})),
     add_clusterv1 = (\<lambda>s. Inr (s \<union> {(capi_group ''cluster.x-k8s.io'', kd) | kd. kd \<in> {''Cluster'', ''Machine'', ''MachineList''}})),
     add_addonsv1 = (\<lambda>s. Inr (s \<union> {(capi_group ''addons.cluster.x-k8s.io'', ''ClusterResourceSet'')})),
     add_ipamv1 = (\<lambda>s. Inr (s \<union> {(capi_group ''ipam.cluster.x-k8s.io'', kd) | kd. kd \<in> {''IPAddressClaim'', ''IPAddress''}})),
     builder_add = (\<lambda>gv kinds s. Inr (s \<union> {(gv, kd) | kd. kd \<in> set kinds}))\<rparr>"

theorem main_init_knows_kinds_witness: "\<exists>s. main_init sample_schemes = Inr s \<and> needed_kinds \<subseteq> s"
proof -
  obtain s where s: "main_init sample_schemes = Inr s"
    by (simp add: main_init_def infrastructure_AddToScheme_def sample_schemes_def)
  have "needed_kinds \<subseteq> s"
    by (rule main_init_knows_kinds[OF _ _ _ _ _ s]) (auto simp: sample_schemes_def adds_kinds_def)
  with s show ?thesis by blast
qed

end
