(* ===== verification/Machine_Footprint.thy ===== *)
theory Machine_Footprint
  imports Machine_Ledger
begin

text \<open>
  What a run of the XOMachine controller leaves alone. The services' state changes only through the
  calls in the log, so a part of it that those calls do not concern is as before at the end of a run:
  the ledger of another machine, and the status of an XOCluster. The composition of many machines and
  clusters (\<open>Fleet\<close>) rests on this.
\<close>

section \<open>Calls and the parts of the state they concern\<close>

text \<open>
  A part \<open>g\<close> of the state: a value, and a set that may only shrink. \<open>X\<close> is the class of calls that do
  not concern it.
\<close>

definition shrinks :: "'x \<times> 'v set \<Rightarrow> 'x \<times> 'v set \<Rightarrow> bool" where
  "shrinks a b \<longleftrightarrow> fst b = fst a \<and> snd b \<subseteq> snd a"

lemma shrinks_refl [simp]: "shrinks a a"
  by (simp add: shrinks_def)

definition untouched :: "('s \<Rightarrow> 'x \<times> 'v set) \<Rightarrow> (event \<Rightarrow> bool) \<Rightarrow> ('o, 's) st \<Rightarrow> ('o, 's) st \<Rightarrow> bool" where
  "untouched g X w w' \<longleftrightarrow>
     (\<exists>es. log w' = log w @ es \<and> (list_all X es \<longrightarrow> shrinks (g (ext w)) (g (ext w'))))"

interpretation unt: discipline "untouched g X" for g X
proof
  show "untouched g X w w" for w by (simp add: untouched_def)
  show "untouched g X w u" if wv: "untouched g X w v" and vu: "untouched g X v u" for w v u
  proof -
    from wv obtain es where es: "log v = log w @ es" "list_all X es \<longrightarrow> shrinks (g (ext w)) (g (ext v))"
      unfolding untouched_def by blast
    from vu obtain fs where fs: "log u = log v @ fs" "list_all X fs \<longrightarrow> shrinks (g (ext v)) (g (ext u))"
      unfolding untouched_def by blast
    have "log u = log w @ es @ fs" using es fs by simp
    moreover have "list_all X (es @ fs) \<longrightarrow> shrinks (g (ext w)) (g (ext u))"
      using es(2) fs(2) by (auto simp: shrinks_def)
    ultimately show ?thesis unfolding untouched_def by blast
  qed
qed

lemma untouched_run:
  "steps_in (untouched g X) m \<Longrightarrow> log (snd (run_state m w)) = log w @ es \<Longrightarrow> list_all X es \<Longrightarrow>
   shrinks (g (ext w)) (g (ext (snd (run_state m w))))"
  unfolding steps_in_def untouched_def by (metis same_append_eq)

text \<open>The services: reads change nothing, and a write of class \<open>X\<close> does not concern \<open>g\<close>.\<close>

definition spares :: "'s env \<Rightarrow> ('s \<Rightarrow> 'x \<times> 'v set) \<Rightarrow> (event \<Rightarrow> bool) \<Rightarrow> bool" where
  "spares E g X \<longleftrightarrow>
     quiet_calls E g \<and>
     (\<forall>k s. g (snd (k_get_xomachine (kube E) k s)) = g s) \<and>
     (\<forall>m s r s'. k_update_xomachine (kube E) m s = (r, s') \<longrightarrow> X (EvUpdateXOMachine m (failure_of r)) \<longrightarrow>
        shrinks (g s) (g s')) \<and>
     (\<forall>m s r s'. k_status_update_xomachine (kube E) m s = (r, s') \<longrightarrow>
        X (EvStatusUpdateXOMachine m (failure_of r)) \<longrightarrow> shrinks (g s) (g s')) \<and>
     (\<forall>c p ps s r s'. x_vm_create (xo E) c p ps s = (r, s') \<longrightarrow> X (EvCreateVM p ps r) \<longrightarrow> shrinks (g s) (g s')) \<and>
     (\<forall>c i s r s'. x_vm_delete (xo E) c i s = (r, s') \<longrightarrow> X (EvDeleteVM i (failure_of r)) \<longrightarrow> shrinks (g s) (g s'))"

named_theorems footprint "programs that touch nothing their calls do not concern"

lemma untouched_quiet:
  assumes "keeps (\<lambda>w. g (ext w)) m" and "emits (\<lambda>e. True) m"
  shows "steps_in (untouched g X) m"
  using assms unfolding steps_in_def same_def grows_def untouched_def by (metis shrinks_refl)

lemma untouched_prims [footprint]:
  "steps_in (untouched g X) get_obj" "steps_in (untouched g X) (set_obj x)" "steps_in (untouched g X) (modify_obj h)"
  "steps_in (untouched g X) (emit e)"
  by (simp_all add: steps_in_def untouched_def)

lemma untouched_act:
  assumes "\<And>s r s'. op s = (r, s') \<Longrightarrow> X (ev r) \<Longrightarrow> shrinks (g s) (g s')"
  shows "steps_in (untouched g X) (act ev op)"
  using assms[OF prod.collapse[symmetric]] by (simp add: steps_in_def untouched_def)

lemma untouched_reads [footprint]:
  assumes "spares E g X"
  shows "steps_in (untouched g X) (query (k_get_xomachine (kube E) k))"
    "steps_in (untouched g X) (query (e_now E))" "steps_in (untouched g X) (act ev (x_vm_start (xo E) c i))"
proof -
  have q: "quiet_calls E g" and get: "\<And>k s. g (snd (k_get_xomachine (kube E) k s)) = g s"
    using assms by (simp_all add: spares_def)
  show "steps_in (untouched g X) (query (k_get_xomachine (kube E) k))"
    "steps_in (untouched g X) (query (e_now E))" "steps_in (untouched g X) (act ev (x_vm_start (xo E) c i))"
    by (simp_all add: steps_in_def untouched_def get quiet_ops[OF q])
qed

lemma untouched_writes [footprint]:
  assumes "spares E g X"
  shows "steps_in (untouched g X) (act (\<lambda>r. EvUpdateXOMachine m (failure_of r)) (k_update_xomachine (kube E) m))"
    "steps_in (untouched g X) (act (\<lambda>r. EvStatusUpdateXOMachine m (failure_of r)) (k_status_update_xomachine (kube E) m))"
    "steps_in (untouched g X) (act (EvCreateVM p ps) (x_vm_create (xo E) c p ps))"
    "steps_in (untouched g X) (act (\<lambda>r. EvDeleteVM i (failure_of r)) (x_vm_delete (xo E) c i))"
  using assms unfolding spares_def by (intro untouched_act; blast)+

section \<open>The controller\<close>

lemma quiet_untouched [footprint]:
  assumes "spares E g X"
  shows "steps_in (untouched g X) (get_vm E c i)" "steps_in (untouched g X) (task_wait E c tp)"
    "steps_in (untouched g X) (resolveMachineCredentials E)" "steps_in (untouched g X) (newXOClient E creds)"
    "steps_in (untouched g X) (ResolveTemplateID E c a b)" "steps_in (untouched g X) (ResolvePoolID E c a b)"
    "steps_in (untouched g X) (ResolveBootstrapData E)"
    "steps_in (untouched g X) (BuildCloudInitWithSSHKeys E c d inject)"
    "steps_in (untouched g X) (resolveInjectSSHKeys E mach)" "steps_in (untouched g X) (GetXOCluster E ns nm)"
    "steps_in (untouched g X) (computeVMName E mach)" "steps_in (untouched g X) (addVIFsToParams E c m ps p)"
    "steps_in (untouched g X) (ResolveVMIP E c v)" "steps_in (untouched g X) (ResolveVMIPNow E c v)"
    "steps_in (untouched g X) (ManageVIFs E c v)" "steps_in (untouched g X) (SetVMTags E m i cl prov)"
    "steps_in (untouched g X) (ClaimedAddress E m)" "steps_in (untouched g X) (findAdoptableVM E c nm marker)"
    "steps_in (untouched g X) (resizeDiskIfNeeded E c m v)" "steps_in (untouched g X) (setCPUsIfNeeded E c m v)"
    "steps_in (untouched g X) (setBootOrder E c v)" "steps_in (untouched g X) (handleV2BareTaskResponse E c err)"
    "steps_in (untouched g X) (duplicateNameWarning E nm k)"
    "steps_in (untouched g X) (StopVMIfNotDetachable E c i)" "steps_in (untouched g X) (DetachPersistentVolumes E c i)"
    "steps_in (untouched g X) (HardShutdownVM E c i)" "steps_in (untouched g X) (warn E reason note)"
proof -
  have calls: "quiet_calls E g" using assms by (simp add: spares_def)
  note quiet = undisturbed[OF calls]
  have bare: "emits (\<lambda>e. True) (get_vm E c i)" "emits (\<lambda>e. True) (task_wait E c tp)" "emits (\<lambda>e. True) (warn E reason msg)"
    "emits (\<lambda>e. True) (duplicateNameWarning E nm k)" for c i tp reason msg nm k
    unfolding get_vm_def task_wait_def warn_def duplicateNameWarning_def by (intro effects; simp)+
  show "steps_in (untouched g X) (get_vm E c i)" "steps_in (untouched g X) (task_wait E c tp)"
    "steps_in (untouched g X) (resolveMachineCredentials E)" "steps_in (untouched g X) (newXOClient E creds)"
    "steps_in (untouched g X) (ResolveTemplateID E c a b)" "steps_in (untouched g X) (ResolvePoolID E c a b)"
    "steps_in (untouched g X) (ResolveBootstrapData E)"
    "steps_in (untouched g X) (BuildCloudInitWithSSHKeys E c d inject)"
    "steps_in (untouched g X) (resolveInjectSSHKeys E mach)" "steps_in (untouched g X) (GetXOCluster E ns nm)"
    "steps_in (untouched g X) (computeVMName E mach)" "steps_in (untouched g X) (addVIFsToParams E c m ps p)"
    "steps_in (untouched g X) (ResolveVMIP E c v)" "steps_in (untouched g X) (ResolveVMIPNow E c v)"
    "steps_in (untouched g X) (ManageVIFs E c v)" "steps_in (untouched g X) (SetVMTags E m i cl prov)"
    "steps_in (untouched g X) (ClaimedAddress E m)" "steps_in (untouched g X) (findAdoptableVM E c nm marker)"
    "steps_in (untouched g X) (resizeDiskIfNeeded E c m v)" "steps_in (untouched g X) (setCPUsIfNeeded E c m v)"
    "steps_in (untouched g X) (setBootOrder E c v)" "steps_in (untouched g X) (handleV2BareTaskResponse E c err)"
    "steps_in (untouched g X) (duplicateNameWarning E nm k)"
    "steps_in (untouched g X) (StopVMIfNotDetachable E c i)" "steps_in (untouched g X) (DetachPersistentVolumes E c i)"
    "steps_in (untouched g X) (HardShutdownVM E c i)" "steps_in (untouched g X) (warn E reason note)"
    by (rule untouched_quiet, rule quiet, (rule bare | intro effects; simp))+
qed

text \<open>The writes and reads of the object in hand.\<close>

lemma status_update_untouched [footprint]: "spares E g X \<Longrightarrow> steps_in (untouched g X) (status_update E)"
  unfolding status_update_def by (intro unt.steps_struct footprint)

lemma update_machine_untouched [footprint]: "spares E g X \<Longrightarrow> steps_in (untouched g X) (update_machine E)"
  unfolding update_machine_def by (intro unt.steps_struct footprint)

lemma refetch_machine_untouched [footprint]: "spares E g X \<Longrightarrow> steps_in (untouched g X) (refetch_machine E)"
  unfolding refetch_machine_def by (intro unt.steps_struct footprint)

lemma add_finalizer_untouched [footprint]: "spares E g X \<Longrightarrow> steps_in (untouched g X) (add_finalizer E)"
  unfolding add_finalizer_def by (intro unt.steps_struct footprint)

text \<open>Conditions and finalizers.\<close>

lemma UpdateCondition_untouched [footprint]: "spares E g X \<Longrightarrow> steps_in (untouched g X) (UpdateCondition E st reason msg)"
  unfolding UpdateCondition_def by (intro unt.steps_struct footprint)

lemma WithConditionUpdate_untouched [footprint]: "spares E g X \<Longrightarrow> steps_in (untouched g X) (WithConditionUpdate E err st reason)"
  unfolding WithConditionUpdate_def by (intro unt.steps_struct footprint)

lemma note_failure_untouched [footprint]: "spares E g X \<Longrightarrow> steps_in (untouched g X) (note_failure E rs errs)"
  unfolding note_failure_def by (intro unt.steps_struct footprint)

lemma ensureFinalizer_untouched [footprint]: "spares E g X \<Longrightarrow> steps_in (untouched g X) (ensureFinalizer E)"
  unfolding ensureFinalizer_def by (intro unt.steps_struct footprint)

lemma removeFinalizer_untouched [footprint]: "spares E g X \<Longrightarrow> steps_in (untouched g X) (removeFinalizer E)"
  unfolding removeFinalizer_def by (intro unt.steps_struct footprint)

text \<open>Start and readiness.\<close>

lemma StartVM_untouched [footprint]: "spares E g X \<Longrightarrow> steps_in (untouched g X) (StartVM E c v)"
  unfolding StartVM_def by (intro unt.steps_struct footprint)

lemma WaitForVMReady_untouched [footprint]: "spares E g X \<Longrightarrow> steps_in (untouched g X) (WaitForVMReady E c v)"
  unfolding WaitForVMReady_def by (intro unt.steps_struct footprint)

lemma recordAddress_untouched [footprint]: "spares E g X \<Longrightarrow> steps_in (untouched g X) (recordAddress E c m v)"
  unfolding recordAddress_def by (intro unt.steps_struct footprint)

lemma reconcileExistingVM_untouched [footprint]: "spares E g X \<Longrightarrow> steps_in (untouched g X) (reconcileExistingVM E c v)"
  unfolding reconcileExistingVM_def by (intro unt.steps_struct footprint)

lemma refreshVM_untouched [footprint]: "spares E g X \<Longrightarrow> steps_in (untouched g X) (refreshVM E c m p)"
  unfolding refreshVM_def by (intro unt.steps_struct footprint)

lemma refreshReadyMachine_untouched [footprint]: "spares E g X \<Longrightarrow> steps_in (untouched g X) (refreshReadyMachine E)"
  unfolding refreshReadyMachine_def by (intro unt.steps_struct footprint)

lemma readyPath_untouched [footprint]: "spares E g X \<Longrightarrow> steps_in (untouched g X) (readyPath E)"
  unfolding readyPath_def by (intro unt.steps_struct footprint)

lemma tryFastPath_untouched [footprint]: "spares E g X \<Longrightarrow> steps_in (untouched g X) (tryFastPath E)"
  unfolding tryFastPath_def by (intro unt.steps_struct footprint)

text \<open>Creation.\<close>

lemma InjectKubeVIP_untouched [footprint]: "spares E g X \<Longrightarrow> steps_in (untouched g X) (InjectKubeVIP E mach xc cc)"
  unfolding InjectKubeVIP_def by (intro unt.steps_struct footprint)

lemma injectKubeVIPIfNeeded_untouched [footprint]: "spares E g X \<Longrightarrow> steps_in (untouched g X) (injectKubeVIPIfNeeded E cc mach)"
  unfolding injectKubeVIPIfNeeded_def by (intro unt.steps_struct footprint)

lemma Build_untouched [footprint]: "spares E g X \<Longrightarrow> steps_in (untouched g X) (Build E c mach d b)"
  unfolding Build_def by (intro unt.steps_struct footprint)

lemma ipamNetworkConfig_untouched [footprint]: "spares E g X \<Longrightarrow> steps_in (untouched g X) (ipamNetworkConfig E)"
  unfolding ipamNetworkConfig_def by (intro unt.steps_struct footprint)

lemma LookupExistingVM_untouched [footprint]: "spares E g X \<Longrightarrow> steps_in (untouched g X) (LookupExistingVM E c i)"
  unfolding LookupExistingVM_def by (intro unt.steps_struct footprint)

lemma resolveVMName_untouched [footprint]: "spares E g X \<Longrightarrow> steps_in (untouched g X) (resolveVMName E mach)"
  unfolding resolveVMName_def by (intro unt.steps_struct footprint)

lemma write_with_retry_untouched [footprint]:
  "spares E g X \<Longrightarrow> steps_in (untouched g X) write \<Longrightarrow> steps_in (untouched g X) (write_with_retry E change write)"
  unfolding write_with_retry_def by (intro unt.steps_struct footprint)

lemma saveProviderID_untouched [footprint]: "spares E g X \<Longrightarrow> steps_in (untouched g X) (saveProviderID E p)"
  unfolding saveProviderID_def by (intro unt.steps_struct footprint)

lemma recoverCreate_untouched [footprint]: "spares E g X \<Longrightarrow> steps_in (untouched g X) (recoverCreate E c n marker err)"
  unfolding recoverCreate_def by (intro unt.steps_struct footprint)

lemma configureVM_untouched [footprint]: "spares E g X \<Longrightarrow> steps_in (untouched g X) (configureVM E c p prov v)"
  unfolding configureVM_def by (intro unt.steps_struct footprint)

lemma createOrAdopt_untouched [footprint]:
  "spares E g X \<Longrightarrow> (\<And>f n k. onDup = Some f \<Longrightarrow> steps_in (untouched g X) (f n k)) \<Longrightarrow>
   steps_in (untouched g X) (createOrAdopt E c p ps n marker onDup)"
  unfolding createOrAdopt_def by (intro unt.steps_struct footprint)

lemma CreateVM_untouched [footprint]:
  "spares E g X \<Longrightarrow> (\<And>f n k. onDup = Some f \<Longrightarrow> steps_in (untouched g X) (f n k)) \<Longrightarrow>
   steps_in (untouched g X) (CreateVM E c p t cc nc n prov onDup)"
  unfolding CreateVM_def Let_def by (intro unt.steps_struct footprint)

lemma createVM_untouched [footprint]: "spares E g X \<Longrightarrow> steps_in (untouched g X) (createVM E mach c p t cc nc)"
  unfolding createVM_def by (intro unt.steps_struct footprint) (auto intro: footprint)

lemma obtainVM_untouched [footprint]: "spares E g X \<Longrightarrow> steps_in (untouched g X) (obtainVM E mach c p t cc nc)"
  unfolding obtainVM_def by (intro unt.steps_struct footprint)

lemma finishVM_untouched [footprint]: "spares E g X \<Longrightarrow> steps_in (untouched g X) (finishVM E c v)"
  unfolding finishVM_def by (intro unt.steps_struct footprint)

lemma placeVM_untouched [footprint]: "spares E g X \<Longrightarrow> steps_in (untouched g X) (placeVM E mach c cc nc)"
  unfolding placeVM_def by (intro unt.steps_struct footprint)

lemma provision_untouched [footprint]: "spares E g X \<Longrightarrow> steps_in (untouched g X) (provision E bs c)"
  unfolding provision_def by (intro unt.steps_struct footprint)

lemma fullReconcile_untouched [footprint]: "spares E g X \<Longrightarrow> steps_in (untouched g X) (fullReconcile E)"
  unfolding fullReconcile_def by (intro unt.steps_struct footprint)

lemma reconcileNormal_untouched [footprint]: "spares E g X \<Longrightarrow> steps_in (untouched g X) (reconcileNormal E)"
  unfolding reconcileNormal_def by (intro unt.steps_struct footprint)

text \<open>Deletion, and a whole run.\<close>

lemma removed_then_done_untouched [footprint]: "spares E g X \<Longrightarrow> steps_in (untouched g X) (removed_then_done E)"
  unfolding removed_then_done_def by (intro unt.steps_struct footprint)

lemma deleteVM_untouched [footprint]: "spares E g X \<Longrightarrow> steps_in (untouched g X) (deleteVM E c i)"
  unfolding deleteVM_def by (intro unt.steps_struct footprint)

lemma reconcileDelete_untouched [footprint]: "spares E g X \<Longrightarrow> steps_in (untouched g X) (reconcileDelete E)"
  unfolding reconcileDelete_def by (intro unt.steps_struct footprint)

lemma Reconcile_untouched [footprint]: "spares E g X \<Longrightarrow> steps_in (untouched g X) (Reconcile E req)"
  unfolding Reconcile_def by (intro unt.steps_struct footprint)

end
