(* ===== verification/Interference.thy ===== *)
theory Interference
  imports Machine_Footprint Machine_Runs Cluster_Runs
begin

text \<open>
  Others at work between the calls of a run: up to five runs of the XOMachine controller are under way at
  once (\<open>MaxConcurrentReconciles\<close>), beside those of the XOCluster controller, the users and Xen Orchestra
  itself. The services with such a disturbance after every call are services again, and they honour the
  contract of a ledger that the disturbance leaves alone.
\<close>

section \<open>Disturbed services\<close>

definition after :: "('s \<Rightarrow> 's) \<Rightarrow> ('s \<Rightarrow> 'a \<times> 's) \<Rightarrow> 's \<Rightarrow> 'a \<times> 's" where
  "after f op s = (case op s of (r, s') \<Rightarrow> (r, f s'))"

lemma after_parts [simp]: "fst (after f op s) = fst (op s)" "snd (after f op s) = f (snd (op s))"
  by (simp_all add: after_def split: prod.split)

lemma after_run [simp]: "after f op s = (r, s') \<longleftrightarrow> (\<exists>u. op s = (r, u) \<and> s' = f u)"
  by (auto simp: after_def split: prod.split)

text \<open>What is promised of every call, of the disturbed one.\<close>

lemma after_all:
  "(\<forall>s r s'. after f op s = (r, s') \<longrightarrow> P s r s') \<longleftrightarrow> (\<forall>s r u. op s = (r, u) \<longrightarrow> P s r (f u))"
  by auto

definition disturbed_kube :: "('s \<Rightarrow> 's) \<Rightarrow> 's env \<Rightarrow> 's kube" where
  "disturbed_kube f E = \<lparr>
     k_get_xomachine = (\<lambda>a. after f (k_get_xomachine (kube E) a)),
     k_get_xocluster = (\<lambda>a. after f (k_get_xocluster (kube E) a)),
     k_get_machine = (\<lambda>a. after f (k_get_machine (kube E) a)),
     k_get_cluster = (\<lambda>a. after f (k_get_cluster (kube E) a)),
     k_get_secret = (\<lambda>a. after f (k_get_secret (kube E) a)),
     k_get_claim = (\<lambda>a. after f (k_get_claim (kube E) a)),
     k_get_ip_address = (\<lambda>a. after f (k_get_ip_address (kube E) a)),
     k_list_machines = (\<lambda>a b. after f (k_list_machines (kube E) a b)),
     k_update_xomachine = (\<lambda>a. after f (k_update_xomachine (kube E) a)),
     k_status_update_xomachine = (\<lambda>a. after f (k_status_update_xomachine (kube E) a)),
     k_update_xocluster = (\<lambda>a. after f (k_update_xocluster (kube E) a)),
     k_status_patch_xocluster = (\<lambda>a b. after f (k_status_patch_xocluster (kube E) a b)),
     k_patch_cluster = (\<lambda>a b. after f (k_patch_cluster (kube E) a b)),
     k_create_claim = (\<lambda>a. after f (k_create_claim (kube E) a)),
     k_apply_config_map = (\<lambda>a b. after f (k_apply_config_map (kube E) a b)),
     k_apply_resource_set = (\<lambda>a b. after f (k_apply_resource_set (kube E) a b)),
     k_delete_config_map = (\<lambda>a. after f (k_delete_config_map (kube E) a)),
     k_delete_resource_set = (\<lambda>a. after f (k_delete_resource_set (kube E) a))\<rparr>"

definition disturbed_xo :: "('s \<Rightarrow> 's) \<Rightarrow> 's env \<Rightarrow> 's xo_api" where
  "disturbed_xo f E = \<lparr>
     x_new_client = (\<lambda>a. after f (x_new_client (xo E) a)),
     x_check_client = (\<lambda>a. after f (x_check_client (xo E) a)),
     x_vm_get = (\<lambda>a b. after f (x_vm_get (xo E) a b)),
     x_vm_get_all = (\<lambda>a b. after f (x_vm_get_all (xo E) a b)),
     x_vm_create = (\<lambda>a b c. after f (x_vm_create (xo E) a b c)),
     x_vm_start = (\<lambda>a b. after f (x_vm_start (xo E) a b)),
     x_vm_hard_shutdown = (\<lambda>a b. after f (x_vm_hard_shutdown (xo E) a b)),
     x_vm_delete = (\<lambda>a b. after f (x_vm_delete (xo E) a b)),
     x_vm_vdis = (\<lambda>a b c. after f (x_vm_vdis (xo E) a b c)),
     x_vbd_get_all = (\<lambda>a b. after f (x_vbd_get_all (xo E) a b)),
     x_vbd_delete = (\<lambda>a b. after f (x_vbd_delete (xo E) a b)),
     x_task_wait = (\<lambda>a b. after f (x_task_wait (xo E) a b)),
     x_v1_get_vm = (\<lambda>a b. after f (x_v1_get_vm (xo E) a b)),
     x_v1_get_disks = (\<lambda>a b. after f (x_v1_get_disks (xo E) a b)),
     x_v1_get_vifs = (\<lambda>a b. after f (x_v1_get_vifs (xo E) a b)),
     x_v1_connect_vif = (\<lambda>a b. after f (x_v1_connect_vif (xo E) a b)),
     x_v1_call = (\<lambda>a b c. after f (x_v1_call (xo E) a b c)),
     x_v1_add_tag = (\<lambda>a b c. after f (x_v1_add_tag (xo E) a b c)),
     x_v1_templates = (\<lambda>a b. after f (x_v1_templates (xo E) a b)),
     x_v1_pools = (\<lambda>a b. after f (x_v1_pools (xo E) a b)),
     x_v1_network = (\<lambda>a b c. after f (x_v1_network (xo E) a b c)),
     x_v1_ssh_keys = (\<lambda>a. after f (x_v1_ssh_keys (xo E) a))\<rparr>"

definition disturbed :: "('s \<Rightarrow> 's) \<Rightarrow> 's env \<Rightarrow> 's env" where
  "disturbed f E = E\<lparr>kube := disturbed_kube f E, xo := disturbed_xo f E,
     e_now := after f (e_now E), e_new_timer := (\<lambda>d. after f (e_new_timer E d)),
     e_select := (\<lambda>t b. after f (e_select E t b))\<rparr>"

lemma after_nothing: "after (\<lambda>s. s) op = op"
  by (simp add: fun_eq_iff after_def)

lemma disturbed_nothing: "disturbed (\<lambda>s. s) E = E"
  by (simp add: disturbed_def disturbed_kube_def disturbed_xo_def after_nothing)

lemmas disturbed_defs = disturbed_def disturbed_kube_def disturbed_xo_def

section \<open>The contracts\<close>

lemma quiet_disturbed:
  assumes "\<And>s. g (f s) = g s"
  shows "quiet_calls E g \<Longrightarrow> quiet_calls (disturbed f E) g"
    "quiet_cluster_calls E g \<Longrightarrow> quiet_cluster_calls (disturbed f E) g"
  by (simp_all add: quiet_calls_def quiet_cluster_calls_def disturbed_defs assms)

lemma ledger_disturbed:
  assumes "\<And>s. lg_view L (f s) = lg_view L s" and "keeps_ledger E L"
  shows "keeps_ledger (disturbed f E) L"
proof -
  have same: "lg_name L (f s) = lg_name L s" "lg_version L (f s) = lg_version L s" "lg_past L (f s) = lg_past L s"
    "lg_vms L (f s) = lg_vms L s" for s
    using assms(1)[of s] by (simp_all add: lg_view_def)
  have "update_ledger (disturbed f E) L = update_ledger E L"
    by (simp add: update_ledger_def disturbed_defs after_all same del: after_run)
  moreover have "status_ledger (disturbed f E) L = status_ledger E L"
    by (simp add: status_ledger_def disturbed_defs after_all same assms(1) del: after_run)
  moreover have "read_ledger (disturbed f E) L = read_ledger E L"
    by (simp add: read_ledger_def disturbed_defs after_all assms(1) del: after_run)
  moreover have "creation_ledger (disturbed f E) L = creation_ledger E L"
    by (simp add: creation_ledger_def disturbed_defs after_all same del: after_run)
  moreover have "deletion_ledger (disturbed f E) L = deletion_ledger E L"
    by (simp add: deletion_ledger_def disturbed_defs after_all same del: after_run)
  moreover have "listing_ledger (disturbed f E) L"
    using keeps_ledgerD(4)[OF assms(2)] unfolding listing_ledger_def by (auto simp: disturbed_defs)
  ultimately show ?thesis
    using assms(2) quiet_disturbed(1)[of "lg_view L" f E, OF assms(1)] by (simp add: keeps_ledger_def)
qed

lemma cluster_ledger_disturbed:
  assumes "\<And>s. cg_endpoint C (f s) = cg_endpoint C s"
  shows "keeps_cluster_ledger E C \<Longrightarrow> keeps_cluster_ledger (disturbed f E) C"
    "reads_current E C \<Longrightarrow> reads_current (disturbed f E) C"
proof -
  have "read_cluster_ledger (disturbed f E) C = read_cluster_ledger E C"
    by (simp add: read_cluster_ledger_def disturbed_defs after_all assms del: after_run)
  moreover have "update_cluster_ledger (disturbed f E) C = update_cluster_ledger E C"
    by (simp add: update_cluster_ledger_def disturbed_defs after_all assms del: after_run)
  moreover have "patch_cluster_ledger (disturbed f E) C = patch_cluster_ledger E C"
    by (simp add: patch_cluster_ledger_def disturbed_defs after_all assms del: after_run)
  ultimately show "keeps_cluster_ledger E C \<Longrightarrow> keeps_cluster_ledger (disturbed f E) C"
    using quiet_disturbed(2)[of "cg_endpoint C" f E, OF assms] by (simp add: keeps_cluster_ledger_def)
  show "reads_current (disturbed f E) C" if "reads_current E C"
    using that unfolding reads_current_def by (auto simp: disturbed_defs)
qed

lemma spares_disturbed:
  assumes "\<And>s. g (f s) = g s" and "spares E g X"
  shows "spares (disturbed f E) g X"
  using assms(2) quiet_disturbed(1)[of g f E, OF assms(1)]
  by (simp add: spares_def disturbed_defs after_all assms(1) del: after_run)

end
