(* ===== verification/Fleet.thy ===== *)
theory Fleet
  imports Interference
begin

text \<open>
  The two controllers together: any number of machines and of clusters, in any order of runs, with
  anything else going on between the calls of a run. \<open>Machine_Runs\<close> follows one machine and
  \<open>Cluster_Runs\<close> one cluster, and both admit steps of others that respect their ledger. Here these
  others are the runs of the same controllers for other objects: what a run sends is about its own
  machine, so it does not concern the ledger of another.
\<close>

section \<open>The API server and several ledgers\<close>

text \<open>
  An object is answered under its own key, with its own UID, and UIDs are not given twice; a write of
  one machine does not change the record of another, and a VM is created with the marker asked for.
\<close>

definition identities_kept :: "'s env \<Rightarrow> 's ledger \<Rightarrow> bool" where
  "identities_kept E L \<longleftrightarrow>
     (\<forall>m s m' s'. k_update_xomachine (kube E) m s = (Inr m', s') \<or> k_status_update_xomachine (kube E) m s = (Inr m', s') \<longrightarrow>
        machine_key m' = machine_key m \<and> om_uid (xm_meta m') = om_uid (xm_meta m)) \<and>
     (\<forall>k s m s'. k_get_xomachine (kube E) k s = (Inr m, s') \<longrightarrow>
        machine_key m = k \<and> (om_uid (xm_meta m) = lg_uid L \<longrightarrow> k = lg_key L))"

definition writes_apart :: "'s env \<Rightarrow> 's ledger \<Rightarrow> bool" where
  "writes_apart E L \<longleftrightarrow>
     (\<forall>m s r s'. k_update_xomachine (kube E) m s = (r, s') \<or> k_status_update_xomachine (kube E) m s = (r, s') \<longrightarrow>
        machine_key m \<noteq> lg_key L \<longrightarrow> lg_name L s' = lg_name L s \<and> lg_past L s' = lg_past L s) \<and>
     (\<forall>c p ps s r s'. x_vm_create (xo E) c p ps s = (r, s') \<longrightarrow>
        cp_name_description ps \<noteq> lg_marker L \<longrightarrow> lg_vms L s' \<subseteq> lg_vms L s)"

text \<open>The calls of a cluster run on XOCluster objects, for a part of the state they do not concern.\<close>

definition quiet_cluster_writes :: "'s env \<Rightarrow> ('s \<Rightarrow> 'x) \<Rightarrow> bool" where
  "quiet_cluster_writes E f \<longleftrightarrow> quiet_cluster_calls E f \<and>
     (\<forall>k s. f (snd (k_get_xocluster (kube E) k s)) = f s) \<and>
     (\<forall>c s. f (snd (k_update_xocluster (kube E) c s)) = f s) \<and>
     (\<forall>b c s. f (snd (k_status_patch_xocluster (kube E) b c s)) = f s)"

definition serves_machine :: "'s env \<Rightarrow> 's ledger \<Rightarrow> bool" where
  "serves_machine E L \<longleftrightarrow> keeps_ledger E L \<and> identities_kept E L \<and> writes_apart E L \<and> quiet_cluster_writes E (lg_view L)"

text \<open>No call of a machine run writes an XOCluster.\<close>

definition serves_cluster :: "'s env \<Rightarrow> 's cluster_ledger \<Rightarrow> bool" where
  "serves_cluster E C \<longleftrightarrow> keeps_cluster_ledger E C \<and> reads_current E C \<and>
     spares E (\<lambda>s. (cg_endpoint C s, {} :: unit set)) (\<lambda>e. True)"

text \<open>What goes on between the calls of a run leaves the ledgers alone.\<close>

definition bystander :: "'s ledger set \<Rightarrow> 's cluster_ledger set \<Rightarrow> ('s \<Rightarrow> 's) \<Rightarrow> bool" where
  "bystander Ls Cs f \<longleftrightarrow>
     (\<forall>L \<in> Ls. \<forall>s. lg_view L (f s) = lg_view L s) \<and> (\<forall>C \<in> Cs. \<forall>s. cg_endpoint C (f s) = cg_endpoint C s)"

lemma serves_machine_disturbed:
  assumes "serves_machine E L" and "\<And>s. lg_view L (f s) = lg_view L s"
  shows "serves_machine (disturbed f E) L"
proof -
  have same: "lg_name L (f s) = lg_name L s" "lg_past L (f s) = lg_past L s" "lg_vms L (f s) = lg_vms L s" for s
    using assms(2)[of s] by (simp_all add: lg_view_def)
  have "identities_kept (disturbed f E) L"
    using assms(1) unfolding serves_machine_def identities_kept_def by (fastforce simp: disturbed_defs)
  moreover have "writes_apart (disturbed f E) L"
    using assms(1) unfolding serves_machine_def writes_apart_def by (fastforce simp: disturbed_defs same)
  moreover have "quiet_cluster_writes (disturbed f E) (lg_view L)"
    using assms quiet_disturbed(2)[of "lg_view L" f E, OF assms(2)]
    by (simp add: serves_machine_def quiet_cluster_writes_def disturbed_defs)
  ultimately show ?thesis
    using assms(1) ledger_disturbed[of L f E, OF assms(2)] by (simp add: serves_machine_def)
qed

lemma serves_cluster_disturbed:
  assumes "serves_cluster E C" and "\<And>s. cg_endpoint C (f s) = cg_endpoint C s"
  shows "serves_cluster (disturbed f E) C"
  using assms(1) cluster_ledger_disturbed[of C f E, OF assms(2)]
    spares_disturbed[of "\<lambda>s. (cg_endpoint C s, {} :: unit set)" f E] assms(2)
  by (simp add: serves_cluster_def)

section \<open>A machine's run and another machine\<close>

text \<open>The calls that do not concern the machine of a ledger, and the part of the state they leave.\<close>

fun foreign :: "'s ledger \<Rightarrow> event \<Rightarrow> bool" where
  "foreign L (EvUpdateXOMachine m r) = (machine_key m \<noteq> lg_key L)"
| "foreign L (EvStatusUpdateXOMachine m r) = (machine_key m \<noteq> lg_key L)"
| "foreign L (EvCreateVM p ps r) = (cp_name_description ps \<noteq> lg_marker L)"
| "foreign L _ = True"

definition lg_part :: "'s ledger \<Rightarrow> 's \<Rightarrow> (string \<times> string set) \<times> vm set" where
  "lg_part L s = ((lg_name L s, lg_past L s), lg_vms L s)"

lemma quiet_part: "quiet_calls E (lg_view L) \<Longrightarrow> quiet_calls E (lg_part L)"
  unfolding quiet_calls_def lg_view_def lg_part_def by simp

lemma spares_other_machine:
  assumes "serves_machine E L" shows "spares E (lg_part L) (foreign L)"
proof -
  have L: "keeps_ledger E L" and apart: "writes_apart E L" using assms by (simp_all add: serves_machine_def)
  note led = keeps_ledgerD[OF L]
  have get: "lg_part L (snd (k_get_xomachine (kube E) k s)) = lg_part L s" for k s
  proof -
    obtain r s' where rs: "k_get_xomachine (kube E) k s = (r, s')" by fastforce
    with led(3) have "lg_view L s' = lg_view L s" unfolding read_ledger_def by blast
    with rs show ?thesis by (simp add: lg_view_def lg_part_def)
  qed
  have upd: "shrinks (lg_part L s) (lg_part L s')"
    if "k_update_xomachine (kube E) m s = (r, s')" "foreign L (EvUpdateXOMachine m (failure_of r))" for m s r s'
  proof -
    have "lg_vms L s' = lg_vms L s" using that(1) led(1) unfolding update_ledger_def by blast
    moreover have "lg_name L s' = lg_name L s \<and> lg_past L s' = lg_past L s"
      using that apart unfolding writes_apart_def foreign.simps by blast
    ultimately show ?thesis by (simp add: shrinks_def lg_part_def)
  qed
  have st: "shrinks (lg_part L s) (lg_part L s')"
    if "k_status_update_xomachine (kube E) m s = (r, s')" "foreign L (EvStatusUpdateXOMachine m (failure_of r))" for m s r s'
  proof -
    have "lg_vms L s' = lg_vms L s" using that(1) led(2) unfolding status_ledger_def by blast
    moreover have "lg_name L s' = lg_name L s \<and> lg_past L s' = lg_past L s"
      using that apart unfolding writes_apart_def foreign.simps by blast
    ultimately show ?thesis by (simp add: shrinks_def lg_part_def)
  qed
  have cr: "shrinks (lg_part L s) (lg_part L s')"
    if "x_vm_create (xo E) c p ps s = (r, s')" "foreign L (EvCreateVM p ps r)" for c p ps s r s'
    using that led(5) apart unfolding creation_ledger_def writes_apart_def by (simp add: shrinks_def lg_part_def)
  have del: "shrinks (lg_part L s) (lg_part L s')" if "x_vm_delete (xo E) c i s = (r, s')" for c i s r s'
    using that led(6) unfolding deletion_ledger_def by (simp add: shrinks_def lg_part_def)
  show ?thesis
    unfolding spares_def
    by (intro conjI allI impI quiet_part[OF led(7)] get) (erule (1) upd st cr | erule del)+
qed

text \<open>The object of a run for another key.\<close>

definition other_machine :: "'s ledger \<Rightarrow> nn \<Rightarrow> xomachine \<Rightarrow> bool" where
  "other_machine L k m \<longleftrightarrow> machine_key m = k \<and> om_uid (xm_meta m) \<noteq> lg_uid L"

interpretation other: machine_invariant "other_machine L k" for L k
  by unfold_locales
     (simp_all add: other_machine_def SetCondition_def mark_ready_def set_finalizers_def set_addresses_def
        set_vm_name_def set_spec_provider_id_def set_status_provider_id_def)

lemma other_machine_sends:
  assumes "k \<noteq> lg_key L" and "lg_uid L \<noteq> []" and "sends (other_machine L k) e" shows "foreign L e"
  using assms by (cases e) (auto simp: other_machine_def vmMarker_def lg_marker_def split: if_splits)

lemma other_run_untouched:
  assumes "serves_machine E L" and "k \<noteq> lg_key L"
  shows "shrinks (lg_part L (ext w)) (lg_part L (ext (snd (run_state (Reconcile E k) w))))"
proof -
  have ids: "identities_kept E L" and uid: "lg_uid L \<noteq> []"
    using assms(1) by (simp_all add: serves_machine_def keeps_ledger_def)
  have own: "own_keeps (other_machine L k) E"
    unfolding own_keeps_def status_keeps_def other_machine_def
  proof (intro conjI allI impI)
    fix m s m' s' assume k: "machine_key m = k \<and> om_uid (xm_meta m) \<noteq> lg_uid L"
    have kept: "machine_key m' = k" "om_uid (xm_meta m') \<noteq> lg_uid L" if "machine_key m' = machine_key m \<and> om_uid (xm_meta m') = om_uid (xm_meta m)"
      using k that by auto
    {
      assume "k_update_xomachine (kube E) m s = (Inr m', s')"
      with ids kept show "machine_key m' = k" "om_uid (xm_meta m') \<noteq> lg_uid L"
        unfolding identities_kept_def by blast+
    next
      assume "k_status_update_xomachine (kube E) m s = (Inr m', s')"
      with ids kept show "machine_key m' = k" "om_uid (xm_meta m') \<noteq> lg_uid L"
        unfolding identities_kept_def by blast+
    next
      assume "k_get_xomachine (kube E) (machine_key m) s = (Inr m', s')"
      with ids k assms(2) show "machine_key m' = k" "om_uid (xm_meta m') \<noteq> lg_uid L"
        unfolding identities_kept_def by blast+
    }
  qed
  have read: "other_machine L k m" if "k_get_xomachine (kube E) k (ext w) = (Inr m, s')" for m s'
    using ids that assms(2) unfolding identities_kept_def other_machine_def by blast
  have "\<exists>es. log (snd (run_state (Reconcile E k) w)) = log w @ es \<and> (\<forall>e \<in> set es. sends (other_machine L k) e)"
    by (rule other.Reconcile_sends_own[OF own]) (rule read)
  then obtain es where
    es: "log (snd (run_state (Reconcile E k) w)) = log w @ es" "\<forall>e \<in> set es. sends (other_machine L k) e" by blast
  have "list_all (foreign L) es"
    using es(2) other_machine_sends[OF assms(2) uid] by (auto simp: list_all_iff)
  then show ?thesis
    by (rule untouched_run[OF Reconcile_untouched[OF spares_other_machine[OF assms(1)]] es(1)])
qed

section \<open>A cluster's run and a machine\<close>

lemma update_cluster_quiet: "quiet_cluster_writes E f \<Longrightarrow> keeps (\<lambda>w. f (ext w)) (update_cluster E)"
  unfolding update_cluster_def quiet_cluster_writes_def by (intro frames) blast

lemma finishCluster_quiet: "quiet_cluster_writes E f \<Longrightarrow> keeps (\<lambda>w. f (ext w)) (finishCluster E b cl needs)"
  unfolding finishCluster_def status_patch_cluster_def quiet_cluster_writes_def
  by (intro frames cluster_quiet) (auto simp: quiet_cluster_ops)

lemma clusterReconcile_quiet:
  assumes "quiet_cluster_writes E f" shows "keeps (\<lambda>w. f (ext w)) (clusterReconcile E k)"
proof -
  have calls: "quiet_cluster_calls E f" and read: "\<And>k s. f (snd (k_get_xocluster (kube E) k s)) = f s"
    using assms by (simp_all add: quiet_cluster_writes_def)
  show ?thesis
    unfolding clusterReconcile_def clusterReconcileNormal_def clusterReconcileDelete_def reconcileOwned_def Let_def
    by (intro frames update_cluster_quiet[OF assms] finishCluster_quiet[OF assms] cluster_quiet[OF calls] read)
qed

lemma machine_run_spares_cluster:
  assumes "serves_cluster E C"
  shows "cg_endpoint C (ext (snd (run_state (Reconcile E k) w))) = cg_endpoint C (ext w)"
proof -
  have "spares E (\<lambda>s. (cg_endpoint C s, {} :: unit set)) (\<lambda>e. True)" using assms by (simp add: serves_cluster_def)
  note quiet = Reconcile_untouched[OF this, of k]
  then obtain es where "log (snd (run_state (Reconcile E k) w)) = log w @ es"
    unfolding steps_in_def untouched_def by blast
  from untouched_run[OF quiet this] show ?thesis by (simp add: shrinks_def list_all_iff)
qed

section \<open>Any number of machines and clusters\<close>

text \<open>
  The states the services go through while both controllers work: runs for any key, with any changes that
  are no concern of the ledgers between their calls, and steps of others, who leave the recorded names
  and endpoints alone and bring no marked VM into being.
\<close>

inductive system_runs :: "'s env \<Rightarrow> 's ledger set \<Rightarrow> 's cluster_ledger set \<Rightarrow> 's \<Rightarrow> 's \<Rightarrow> bool" for E Ls Cs where
  start: "system_runs E Ls Cs s s"
| machine_run: "system_runs E Ls Cs s s' \<Longrightarrow> ext w = s' \<Longrightarrow> bystander Ls Cs f \<Longrightarrow>
    system_runs E Ls Cs s (ext (snd (run_state (Reconcile (disturbed f E) k) w)))"
| cluster_run: "system_runs E Ls Cs s s' \<Longrightarrow> ext v = s' \<Longrightarrow> bystander Ls Cs f \<Longrightarrow>
    system_runs E Ls Cs s (ext (snd (run_state (clusterReconcile (disturbed f E) k) v)))"
| other: "system_runs E Ls Cs s s' \<Longrightarrow>
    (\<And>L. L \<in> Ls \<Longrightarrow> shrinks (lg_part L s') (lg_part L s'')) \<Longrightarrow>
    (\<And>C. C \<in> Cs \<Longrightarrow> cg_endpoint C s'' = cg_endpoint C s') \<Longrightarrow> system_runs E Ls Cs s s''"

text \<open>Each step, for one machine: a run for it, or a step that shrinks its part.\<close>

lemma sound_shrinks: "sound N L s \<Longrightarrow> shrinks (lg_part L s) (lg_part L s') \<Longrightarrow> sound N L s'"
  using sole_subset unfolding sound_def shrinks_def lg_part_def by fastforce

lemma machine_run_sound:
  assumes "serves_machine E L" and "sound N L (ext w)"
  shows "sound N L (ext (snd (run_state (Reconcile E k) w)))"
proof (cases "k = lg_key L")
  case True
  with assms Reconcile_sound show ?thesis by (auto simp: serves_machine_def)
next
  case False
  from sound_shrinks[OF assms(2) other_run_untouched[OF assms(1) this]] show ?thesis .
qed

lemma cluster_run_sound:
  assumes "serves_machine E L" and "sound N L (ext v)"
  shows "sound N L (ext (snd (run_state (clusterReconcile E k) v)))"
proof -
  have "quiet_cluster_writes E (lg_view L)" using assms(1) by (simp add: serves_machine_def)
  from keeps_run[OF clusterReconcile_quiet[OF this] prod.collapse[symmetric], of k v]
  have "lg_view L (ext (snd (run_state (clusterReconcile E k) v))) = lg_view L (ext v)" .
  then show ?thesis by (intro sound_shrinks[OF assms(2)]) (simp add: shrinks_def lg_part_def lg_view_def)
qed

lemma system_sound:
  assumes "serves_machine E L" and "L \<in> Ls" and "system_runs E Ls Cs s s'" and "sound N L s"
  shows "sound N L s'"
  using assms(3,4)
proof (induction rule: system_runs.induct)
  case (machine_run s s' w f k)
  have "serves_machine (disturbed f E) L"
    using machine_run.hyps(3) assms(1,2) by (intro serves_machine_disturbed) (simp_all add: bystander_def)
  from machine_run_sound[OF this] machine_run show ?case by simp
next
  case (cluster_run s s' v f k)
  have "serves_machine (disturbed f E) L"
    using cluster_run.hyps(3) assms(1,2) by (intro serves_machine_disturbed) (simp_all add: bystander_def)
  from cluster_run_sound[OF this] cluster_run show ?case by simp
next
  case (other s s' s'')
  from sound_shrinks[OF other.IH[OF other.prems] other.hyps(2)[OF assms(2)]] show ?case .
qed

text \<open>And for one cluster.\<close>

lemma system_recorded:
  assumes "serves_cluster E C" and "C \<in> Cs" and "system_runs E Ls Cs s s'" and "has_endpoint (cg_endpoint C s)"
  shows "cg_endpoint C s' = cg_endpoint C s"
  using assms(3,4)
proof (induction rule: system_runs.induct)
  case (machine_run s s' w f k)
  have "serves_cluster (disturbed f E) C"
    using machine_run.hyps(3) assms(1,2) by (intro serves_cluster_disturbed) (simp_all add: bystander_def)
  from machine_run_spares_cluster[OF this, of k w] machine_run show ?case by simp
next
  case (cluster_run s s' v f k)
  have "serves_cluster (disturbed f E) C"
    using cluster_run.hyps(3) assms(1,2) by (intro serves_cluster_disturbed) (simp_all add: bystander_def)
  then have "keeps_cluster_ledger (disturbed f E) C" "reads_current (disturbed f E) C"
    by (simp_all add: serves_cluster_def)
  from clusterReconcile_recorded[OF this, of v k] cluster_run show ?case by simp
next
  case (other s s' s'')
  with assms(2) show ?case by simp
qed simp


text \<open>
  Services with two machines and a cluster, of which they keep what the ledgers speak of: the API
  server refuses a write prepared on another version, and Xen Orchestra creates the VM it is asked
  for and then answers with a timeout.
\<close>

record fleet =
  fl_first :: "string \<times> string"
  fl_second :: "string \<times> string"
  fl_vms :: "vm list"
  fl_endpoint :: "api_endpoint option"

definition first_key :: nn where
  "first_key = \<lparr>nn_namespace = ''default'', nn_name = ''demo-cp-7n62g''\<rparr>"

definition second_key :: nn where
  "second_key = \<lparr>nn_namespace = ''default'', nn_name = ''demo-cp-8m73h''\<rparr>"

definition uid_of :: "nn \<Rightarrow> string option" where
  "uid_of k = (if k = first_key then Some ''uid-1'' else if k = second_key then Some ''uid-2'' else None)"

definition registered :: "xomachine \<Rightarrow> bool" where
  "registered m \<longleftrightarrow> uid_of (machine_key m) = Some (om_uid (xm_meta m))"

definition second_machine :: xomachine where
  "second_machine = solo_machine\<lparr>xm_meta := (xm_meta solo_machine)\<lparr>om_name := nn_name second_key, om_uid := ''uid-2''\<rparr>\<rparr>"

definition fl_record :: "fleet \<Rightarrow> nn \<Rightarrow> string \<times> string" where
  "fl_record s k = (if k = second_key then fl_second s else fl_first s)"

definition fl_store :: "nn \<Rightarrow> string \<times> string \<Rightarrow> fleet \<Rightarrow> fleet" where
  "fl_store k r s = (if k = second_key then s\<lparr>fl_second := r\<rparr> else s\<lparr>fl_first := r\<rparr>)"

definition with_record :: "string \<times> string \<Rightarrow> xomachine \<Rightarrow> xomachine" where
  "with_record r m = set_vm_name (fst r) (m\<lparr>xm_meta := (xm_meta m)\<lparr>om_resource_version := snd r\<rparr>\<rparr>)"

definition fleet_ledger :: "nn \<Rightarrow> string \<Rightarrow> fleet ledger" where
  "fleet_ledger k u = \<lparr>lg_key = k, lg_uid = u,
     lg_name = (\<lambda>s. fst (fl_record s k)), lg_version = (\<lambda>s. snd (fl_record s k)),
     lg_past = (\<lambda>s. {[], fst (fl_record s k)}),
     lg_vms = (\<lambda>s. {v \<in> set (fl_vms s). vm_name_description v = ''vates-capi-machine:'' @ u})\<rparr>"

definition fleet_read :: "nn \<Rightarrow> fleet \<Rightarrow> (error + xomachine) \<times> fleet" where
  "fleet_read k s =
     (if k = first_key then (Inr (with_record (fl_first s) solo_machine), s)
      else if k = second_key then (Inr (with_record (fl_second s) second_machine), s)
      else (Inl (ApiStatus NotFound ''xomachine not found''), s))"

definition next_record :: "(xomachine \<Rightarrow> string \<Rightarrow> string) \<Rightarrow> xomachine \<Rightarrow> fleet \<Rightarrow> string \<times> string" where
  "next_record name m s =
     (name m (fst (fl_record s (machine_key m))), snd (fl_record s (machine_key m)) @ ''i'')"

definition fleet_write ::
  "(xomachine \<Rightarrow> string \<Rightarrow> string) \<Rightarrow> xomachine \<Rightarrow> fleet \<Rightarrow> (error + xomachine) \<times> fleet" where
  "fleet_write name m s =
     (let new = next_record name m s in
      if registered m \<and> version m = snd (fl_record s (machine_key m))
      then (Inr (with_record new m), fl_store (machine_key m) new s)
      else (Inl (ApiStatus Conflict ''the object has been modified''), s))"

definition with_endpoint :: "api_endpoint option \<Rightarrow> xocluster \<Rightarrow> xocluster" where
  "with_endpoint ep c = c\<lparr>xc_status := (xc_status c)\<lparr>cst_control_plane_endpoint := ep\<rparr>\<rparr>"

definition fleet_patch :: "xocluster \<Rightarrow> xocluster \<Rightarrow> fleet \<Rightarrow> (error + xocluster) \<times> fleet" where
  "fleet_patch b c s =
     (let ep = (if status_endpoint b = status_endpoint c then fl_endpoint s else status_endpoint c) in
      if key_of c = demo_key then (Inr (with_endpoint ep c), s\<lparr>fl_endpoint := ep\<rparr>)
      else (Inl (ApiStatus NotFound ''xocluster not found''), s))"

definition fleet_env :: "fleet env" where
  "fleet_env = ref_env\<lparr>
     kube := ref_kube\<lparr>
       k_get_xomachine := fleet_read,
       k_update_xomachine := fleet_write (\<lambda>m old. old),
       k_status_update_xomachine := fleet_write (\<lambda>m old. status_name m),
       k_get_cluster := (\<lambda>n s. (Inr ref_cluster, s)),
       k_get_xocluster := (\<lambda>k s. (if k = demo_key then Inr (with_endpoint (fl_endpoint s) up_cluster)
                                  else Inl (ApiStatus NotFound ''xocluster not found''), s)),
       k_update_xocluster := (\<lambda>c s. (Inr (with_endpoint (fl_endpoint s) c), s)),
       k_status_patch_xocluster := fleet_patch\<rparr>,
     xo := ref_xo\<lparr>
       x_vm_get_all := (\<lambda>c f s. (Inr (map Some (fl_vms s)), s)),
       x_vm_create := (\<lambda>c p ps s. (Inl (Plain ''timeout''), s\<lparr>fl_vms := fl_vms s @
          [ref_vm\<lparr>vm_name_label := cp_name_label ps, vm_name_description := cp_name_description ps\<rparr>]\<rparr>)),
       x_vm_delete := (\<lambda>c i s. (Inr (), s\<lparr>fl_vms := filter (\<lambda>v. vm_id v \<noteq> i) (fl_vms s)\<rparr>))\<rparr>\<rparr>"

definition fleet_cluster :: "fleet cluster_ledger" where
  "fleet_cluster = \<lparr>cg_key = demo_key, cg_endpoint = fl_endpoint\<rparr>"

definition fleet_start :: fleet where
  "fleet_start = \<lparr>fl_first = ([], ''1''), fl_second = ([], ''1''), fl_vms = [],
     fl_endpoint = Some \<lparr>ep_host = ''10.0.0.9'', ep_port = 6443, ep_subnet = None\<rparr>\<rparr>"

definition machine_pass :: "nn \<Rightarrow> fleet \<Rightarrow> fleet" where
  "machine_pass k s = ext (snd (run_state (Reconcile fleet_env k) (start_state ref_machine s)))"

definition cluster_pass :: "fleet \<Rightarrow> fleet" where
  "cluster_pass s = ext (snd (run_state (clusterReconcile fleet_env demo_key) (start_state ref_xocluster s)))"

text \<open>The states after the runs for the first and for the second machine: each has its VM.\<close>

definition marked_vm :: "nn \<Rightarrow> string \<Rightarrow> vm" where
  "marked_vm k u = ref_vm\<lparr>vm_name_label := nn_name k, vm_name_description := ''vates-capi-machine:'' @ u\<rparr>"

definition fleet_mid :: fleet where
  "fleet_mid = fleet_start\<lparr>fl_first := (nn_name first_key, ''1iiiii''), fl_vms := [marked_vm first_key ''uid-1'']\<rparr>"

definition fleet_full :: fleet where
  "fleet_full = fleet_mid\<lparr>fl_second := (nn_name second_key, ''1iiiii''),
     fl_vms := [marked_vm first_key ''uid-1'', marked_vm second_key ''uid-2'']\<rparr>"

lemma first_pass: "machine_pass first_key fleet_start = fleet_mid"
  by code_simp

lemma second_pass: "machine_pass second_key fleet_mid = fleet_full"
  by code_simp

lemma fleet_kube [simp]:
  "k_get_xomachine (kube fleet_env) = fleet_read"
  "k_update_xomachine (kube fleet_env) = fleet_write (\<lambda>m old. old)"
  "k_status_update_xomachine (kube fleet_env) = fleet_write (\<lambda>m old. status_name m)"
  by (simp_all add: fleet_env_def)

text \<open>A write is refused, or replaces the machine's own entry.\<close>

lemma fleet_write_run:
  assumes "fleet_write name m s = (r, s')"
  shows "(\<exists>e. r = Inl e) \<and> s' = s \<or>
    registered m \<and> version m = snd (fl_record s (machine_key m)) \<and>
    r = Inr (with_record (next_record name m s) m) \<and> s' = fl_store (machine_key m) (next_record name m s) s"
  using assms by (auto simp: fleet_write_def Let_def split: if_splits)

lemma with_record_parts [simp]:
  "machine_key (with_record r m) = machine_key m" "om_uid (xm_meta (with_record r m)) = om_uid (xm_meta m)"
  "om_namespace (xm_meta (with_record r m)) = om_namespace (xm_meta m)" "om_name (xm_meta (with_record r m)) = om_name (xm_meta m)"
  "status_name (with_record r m) = fst r" "version (with_record r m) = snd r"
  by (simp_all add: with_record_def set_vm_name_def)

lemma fl_store_parts [simp]:
  "fl_vms (fl_store k r s) = fl_vms s" "fl_endpoint (fl_store k r s) = fl_endpoint s" "fl_record (fl_store k r s) k = r"
  "uid_of k \<noteq> None \<Longrightarrow> uid_of k' \<noteq> None \<Longrightarrow> k \<noteq> k' \<Longrightarrow> fl_record (fl_store k r s) k' = fl_record s k'"
  by (auto simp: fl_record_def fl_store_def uid_of_def split: if_splits)

lemma fleet_ledger_parts [simp]:
  "lg_key (fleet_ledger k u) = k" "lg_uid (fleet_ledger k u) = u"
  "lg_name (fleet_ledger k u) s = fst (fl_record s k)" "lg_version (fleet_ledger k u) s = snd (fl_record s k)"
  "lg_past (fleet_ledger k u) s = {[], fst (fl_record s k)}"
  "lg_vms (fleet_ledger k u) s = {v \<in> set (fl_vms s). vm_name_description v = ''vates-capi-machine:'' @ u}"
  by (simp_all add: fleet_ledger_def)

lemma fleet_machine_write:
  assumes "fleet_write name m s = (r, s')"
  shows "fl_vms s' = fl_vms s" "fl_endpoint s' = fl_endpoint s"
    "uid_of k \<noteq> None \<Longrightarrow> machine_key m \<noteq> k \<Longrightarrow> fl_record s' k = fl_record s k"
    "(\<exists>e. r = Inl e) \<and> s' = s \<or>
     version m = snd (fl_record s (machine_key m)) \<and> fst (fl_record s' (machine_key m)) = name m (fst (fl_record s (machine_key m)))"
    "r = Inr m' \<Longrightarrow> machine_key m' = machine_key m \<and> om_uid (xm_meta m') = om_uid (xm_meta m) \<and>
       status_name m' = name m (fst (fl_record s (machine_key m)))"
  using fleet_write_run[OF assms] by (auto simp: registered_def next_record_def)

lemma fleet_creates:
  assumes "x_vm_create (xo fleet_env) c p ps s = (r, s')"
  shows "fl_record s' k = fl_record s k" "fl_endpoint s' = fl_endpoint s"
    "\<exists>v. fl_vms s' = fl_vms s @ [v] \<and> vm_name_label v = cp_name_label ps \<and> vm_name_description v = cp_name_description ps"
  using assms by (auto simp: fleet_env_def fl_record_def)

lemma fleet_quiet: "quiet_calls fleet_env f"
  by (auto simp: quiet_calls_def fleet_env_def ref_env_def ref_kube_def ref_xo_def)

lemma uid_of_unique: "uid_of k = Some u \<Longrightarrow> uid_of k' = Some u \<Longrightarrow> k' = k"
  by (auto simp: uid_of_def split: if_splits)

lemma fleet_read_run:
  assumes "fleet_read k s = (r, s')"
  shows "s' = s" "r = Inr m \<Longrightarrow> machine_key m = k \<and> uid_of k = Some (om_uid (xm_meta m)) \<and>
    status_name m = fst (fl_record s k) \<and> version m = snd (fl_record s k)"
  using assms
  by (auto simp: fleet_read_def fl_record_def uid_of_def second_machine_def solo_machine_def ref_machine_def ref_meta_def
      first_key_def second_key_def split: if_splits)

lemma fleet_is_machine: "is_machine (fleet_ledger k u) m \<longleftrightarrow> machine_key m = k \<and> om_uid (xm_meta m) = u"
  by (simp add: is_machine_def)

lemma fleet_update_ledger: "update_ledger fleet_env (fleet_ledger k u)"
  unfolding update_ledger_def fleet_is_machine fleet_kube
proof (intro allI impI conjI)
  let ?L = "fleet_ledger k u"
  fix m r and s s' assume run: "fleet_write (\<lambda>m old. old) m s = (r, s')"
  note w = fleet_machine_write[OF run]
  show "lg_vms ?L s' = lg_vms ?L s" using w(1) by simp
  assume m: "machine_key m = k \<and> om_uid (xm_meta m) = u"
  have kept: "fst (fl_record s' k) = fst (fl_record s k)" using w(4) m by auto
  then show "lg_name ?L s' = lg_name ?L s" "lg_past ?L s' = lg_past ?L s" by simp_all
  show "lg_version ?L s' = lg_version ?L s \<or> version m = lg_version ?L s" using w(4) m by auto
  fix m' assume "r = Inr m'"
  from w(5)[OF this] m kept show "machine_key m' = k" "om_uid (xm_meta m') = u" "status_name m' = lg_name ?L s'"
    by simp_all
qed

lemma fleet_status_ledger: "status_ledger fleet_env (fleet_ledger k u)"
  unfolding status_ledger_def fleet_is_machine lg_view_def fleet_kube
proof (intro allI impI conjI)
  let ?L = "fleet_ledger k u"
  fix m r and s s' assume run: "fleet_write (\<lambda>m old. status_name m) m s = (r, s')"
  note w = fleet_machine_write[OF run]
  show "lg_vms ?L s' = lg_vms ?L s" using w(1) by simp
  assume m: "machine_key m = k \<and> om_uid (xm_meta m) = u"
  with w(4,5) show
    "(\<exists>e. r = Inl e \<and> (lg_name ?L s', lg_version ?L s', lg_past ?L s', lg_vms ?L s') =
        (lg_name ?L s, lg_version ?L s, lg_past ?L s, lg_vms ?L s)) \<or>
     version m = lg_version ?L s \<and> lg_name ?L s' = status_name m \<and>
     lg_past ?L s' \<subseteq> insert (status_name m) (lg_past ?L s) \<and>
     (\<forall>m'. r = Inr m' \<longrightarrow> (machine_key m' = k \<and> om_uid (xm_meta m') = u) \<and> status_name m' = status_name m)"
    by auto
qed

lemma fleet_creation_ledger: "creation_ledger fleet_env (fleet_ledger k u)"
  unfolding creation_ledger_def
proof (intro allI impI)
  let ?L = "fleet_ledger k u"
  fix c p ps r and s s' assume "x_vm_create (xo fleet_env) c p ps s = (r, s')"
  note w = fleet_creates[OF this]
  from w(3) show "lg_name ?L s' = lg_name ?L s \<and> lg_version ?L s' = lg_version ?L s \<and> lg_past ?L s' = lg_past ?L s \<and>
      (lg_vms ?L s' = lg_vms ?L s \<or> (\<exists>v. vm_name_label v = cp_name_label ps \<and> lg_vms ?L s' = insert v (lg_vms ?L s)))"
    by (cases "cp_name_description ps = ''vates-capi-machine:'' @ u") (auto simp: w(1))
qed

lemma fleet_keeps_ledger:
  assumes "uid_of k = Some u" shows "keeps_ledger fleet_env (fleet_ledger k u)"
proof -
  have "read_ledger fleet_env (fleet_ledger k u)"
    unfolding read_ledger_def fleet_is_machine lg_view_def fleet_kube using fleet_read_run assms by fastforce
  moreover have "listing_ledger fleet_env (fleet_ledger k u)"
    by (auto simp: listing_ledger_def fleet_env_def named_vms_def lg_marker_def)
  moreover have "deletion_ledger fleet_env (fleet_ledger k u)"
    by (auto simp: deletion_ledger_def fleet_env_def fl_record_def)
  moreover have "u \<noteq> []" "nn_name k \<noteq> []"
    using assms by (auto simp: uid_of_def first_key_def second_key_def split: if_splits)
  ultimately show ?thesis
    by (simp add: keeps_ledger_def fleet_quiet fleet_update_ledger fleet_status_ledger fleet_creation_ledger)
qed

lemma fleet_writes_apart:
  assumes "uid_of k = Some u" shows "writes_apart fleet_env (fleet_ledger k u)"
  unfolding writes_apart_def
proof (intro conjI allI impI)
  let ?L = "fleet_ledger k u"
  fix m r and s s' assume run: "k_update_xomachine (kube fleet_env) m s = (r, s') \<or>
    k_status_update_xomachine (kube fleet_env) m s = (r, s')" and "machine_key m \<noteq> lg_key ?L"
  then have "fl_record s' k = fl_record s k"
    using fleet_machine_write(3) assms unfolding fleet_kube fleet_ledger_parts by blast
  then show "lg_name ?L s' = lg_name ?L s" "lg_past ?L s' = lg_past ?L s" by simp_all
next
  let ?L = "fleet_ledger k u"
  fix c p ps r and s s' assume run: "x_vm_create (xo fleet_env) c p ps s = (r, s')"
    and "cp_name_description ps \<noteq> lg_marker ?L"
  with fleet_creates(3)[OF run] show "lg_vms ?L s' \<subseteq> lg_vms ?L s" by (auto simp: lg_marker_def)
qed

lemma fleet_serves_machine:
  assumes "uid_of k = Some u" shows "serves_machine fleet_env (fleet_ledger k u)"
proof -
  have "identities_kept fleet_env (fleet_ledger k u)"
    unfolding identities_kept_def fleet_kube fleet_ledger_parts
    using fleet_machine_write(5) fleet_read_run(2) uid_of_unique[OF assms] by metis
  moreover have "quiet_cluster_writes fleet_env (lg_view (fleet_ledger k u))"
    by (auto simp: quiet_cluster_writes_def quiet_cluster_calls_def fleet_env_def ref_env_def ref_kube_def
        fleet_read_def fleet_patch_def fl_record_def lg_view_def Let_def split: if_splits)
  ultimately show ?thesis
    using fleet_keeps_ledger[OF assms] fleet_writes_apart[OF assms] by (simp add: serves_machine_def)
qed

lemma fleet_serves_cluster: "serves_cluster fleet_env fleet_cluster"
proof -
  have reads: "fl_endpoint (snd (fleet_read k s)) = fl_endpoint s" for k s
    by (simp add: fleet_read_def)
  have "keeps_cluster_ledger fleet_env fleet_cluster"
    by (auto simp: keeps_cluster_ledger_def read_cluster_ledger_def update_cluster_ledger_def
        patch_cluster_ledger_def quiet_cluster_calls_def fleet_env_def fleet_cluster_def fleet_patch_def
        with_endpoint_def up_cluster_def waiting_cluster_def demo_key_def ref_xocluster_def ref_meta_def
        reads ref_kube_def ref_env_def Let_def split: if_splits)
  moreover have "reads_current fleet_env fleet_cluster"
    by (auto simp: reads_current_def fleet_env_def fleet_cluster_def with_endpoint_def split: if_splits)
  moreover have "spares fleet_env (\<lambda>s. (cg_endpoint fleet_cluster s, {} :: unit set)) (\<lambda>e. True)"
    unfolding spares_def fleet_kube
  proof (intro conjI allI impI fleet_quiet)
    fix c i r and s s' assume "x_vm_delete (xo fleet_env) c i s = (r, s')"
    then have "fl_endpoint s' = fl_endpoint s" by (auto simp: fleet_env_def)
    then show "shrinks (cg_endpoint fleet_cluster s, {} :: unit set) (cg_endpoint fleet_cluster s', {})"
      by (simp add: fleet_cluster_def)
  qed (simp_all add: fleet_cluster_def reads fleet_machine_write(2) fleet_creates(2))
  ultimately show ?thesis by (simp add: serves_cluster_def)
qed


end
