(* ===== verification/System_Progress.thy ===== *)
theory System_Progress
  imports Machine_Footprint Machine_Progress Cluster_Runs
begin

text \<open>
  The two controllers in sequence: the first control plane machine of a cluster comes up, which
  wakes the XOCluster controller, and its run declares the cluster Ready with the address of the VM
  that the run of the XOMachine controller brought up.
\<close>

section \<open>What a machine's run leaves to the cluster's\<close>

text \<open>The Machine \<open>mch\<close> is a control plane machine of the Cluster \<open>cl\<close>, backed by the XOMachine \<open>key\<close>.\<close>

definition backed_by :: "cluster \<Rightarrow> machine \<Rightarrow> nn \<Rightarrow> bool" where
  "backed_by cl mch key \<longleftrightarrow>
     om_namespace (mach_meta mch) = om_namespace (cl_meta cl) \<and>
     om_labels (mach_meta mch) MachineControlPlaneLabel \<noteq> None \<and>
     om_labels (mach_meta mch) ClusterNameLabel = Some (om_name (cl_meta cl)) \<and>
     mach_cluster_name mch = om_name (cl_meta cl) \<and> mach_infra_kind mch = KindXOMachine \<and>
     \<lparr>nn_namespace = om_namespace (mach_meta mch), nn_name = mach_infra_name mch\<rparr> = key"

text \<open>
  The part \<open>V\<close> of the services' state that the reads of a cluster run are answered from, besides the
  machine \<open>S\<close>: no call of a machine run writes it.
\<close>

definition cluster_side ::
  "'s env \<Rightarrow> ('s \<Rightarrow> xomachine) \<Rightarrow> nn \<Rightarrow> ('s \<Rightarrow> 'v) \<Rightarrow> 'v \<Rightarrow> xocluster \<Rightarrow> cluster \<Rightarrow> machine list \<Rightarrow> bool" where
  "cluster_side E S key V v xc cl ms \<longleftrightarrow>
     spares E (\<lambda>s. (V s, {} :: unit set)) (\<lambda>e. True) \<and>
     (\<forall>s. V s = v \<longrightarrow> (\<exists>look. api_answers E s (look(key := Inr (S s))) xc cl ms))"

lemma run_spares:
  assumes "spares E (\<lambda>s. (V s, {} :: unit set)) (\<lambda>e. True)"
  shows "V (ext (snd (run_state (Reconcile E k) w))) = V (ext w)"
proof -
  note quiet = Reconcile_untouched[OF assms, of k]
  then obtain es where "log (snd (run_state (Reconcile E k) w)) = log w @ es"
    unfolding steps_in_def untouched_def by blast
  from untouched_run[OF quiet this] show ?thesis by (simp add: shrinks_def list_all_iff)
qed

lemma recorded_up_offers:
  assumes "recorded_up u k"
  obtains ip where "mst_ready (xm_status k)" "nodeIPv4 ip"
    "mst_addresses (xm_status k) = [\<lparr>na_type = NodeInternalIP, na_address = ip\<rparr>]"
    "offered_address (mst_addresses (xm_status k)) = Some ip"
  using assms by (auto simp: recorded_up_def)

lemma only_machine_discovered:
  assumes "backed_by cl mch key" and "look key = Inr xm" and "mst_ready (xm_status xm)"
    and "offered_address (mst_addresses (xm_status xm)) = Some ip"
  shows "discovered look (om_name (cl_meta cl)) [mch] = Some \<lparr>ep_host = ip, ep_port = 6443, ep_subnet = None\<rparr>"
    "machine_is_up look cl mch xm"
proof -
  from assms(1) have b: "om_namespace (mach_meta mch) = om_namespace (cl_meta cl)" "om_labels (mach_meta mch) MachineControlPlaneLabel \<noteq> None"
    "om_labels (mach_meta mch) ClusterNameLabel = Some (om_name (cl_meta cl))" "mach_cluster_name mch = om_name (cl_meta cl)"
    "mach_infra_kind mch = KindXOMachine" "\<lparr>nn_namespace = om_namespace (mach_meta mch), nn_name = mach_infra_name mch\<rparr> = key"
    unfolding backed_by_def by blast+
  show "discovered look (om_name (cl_meta cl)) [mch] = Some \<lparr>ep_host = ip, ep_port = 6443, ep_subnet = None\<rparr>"
    using assms(2-4) offered_address_find[of "mst_addresses (xm_status xm)"]
    by (auto simp: discovered_Cons candidate_def b(4-6))
  show "machine_is_up look cl mch xm"
    unfolding machine_is_up_def b(6) using assms(2-4) b by simp
qed

section \<open>From a machine to a Ready cluster\<close>


text \<open>The services of a new cluster with one machine.\<close>

abbreviation new_env :: "xomachine env" where
  "new_env \<equiv> stored_env (Inr up_cluster) (Inr ref_cluster) [up_machine]"

abbreviation new_key :: nn where
  "new_key \<equiv> \<lparr>nn_namespace = ''default'', nn_name = ''demo-cp-7n62g''\<rparr>"

lemma new_cluster_side: "cluster_side new_env (\<lambda>s. s) new_key (\<lambda>s. ()) () up_cluster ref_cluster [up_machine]"
proof -
  have "api_answers new_env s ((\<lambda>n. Inr s)(new_key := Inr s)) up_cluster ref_cluster [up_machine]" for s
    by (simp add: api_answers_def stored_env_def ref_env_def ref_kube_def)
  then show ?thesis
    by (auto simp: cluster_side_def spares_def shrinks_def quiet_calls_def)
qed


end
