(* ===== verification/Gomock.thy ===== *)
theory Gomock
  imports Main
begin

text \<open>
  The test doubles of the Xen Orchestra client (\<open>mock_v1client.go\<close>, \<open>mock_task.go\<close>, \<open>mock_vbd.go\<close> in
  \<open>internal/controller\<close>). Each method hands its name and arguments to gomock's controller and takes the
  answers out of the interface values it gets back; each recorder method announces a call of the same
  name, with the type of the method. gomock is a library outside the repository: its operations are the
  fields of the record \<open>gomock\<close>.
\<close>

section \<open>Interface values\<close>

text \<open>
  A value of a Go interface type: nil, or a value of a concrete type, by the name of the type. The types
  a signature mentions are concrete or interface types.
\<close>

datatype 'v dyn = NilIface | Dyn string 'v

datatype static_type = Concrete string | Interface string

record method_type =
  sg_params :: "static_type list"
  sg_results :: "static_type list"

text \<open>How a call ends: it returns, it panics, or gomock's \<open>Fatalf\<close> ends the test.\<close>

datatype 'a outcome = Returned 'a | Panicked string | TestEnded

text \<open>
  A double is a pointer to a struct with its controller; the recorder points back to it.
\<close>

record 'c double_struct =
  mo_addr :: nat
  mo_ctrl :: 'c

record 'c recorder_struct =
  mr_mock :: "'c double_struct"

text \<open>
  The controller: \<open>Call\<close> (None when nobody expects the call), \<open>RecordCallWithMethodType\<close>, \<open>Return\<close> of the
  call it gives. Of the types of other packages: the zero value, and which concrete types implement an
  interface.
\<close>

record ('c, 'v, 's) gomock =
  g_call :: "'c \<Rightarrow> 'c double_struct \<Rightarrow> string \<Rightarrow> 'v dyn list \<Rightarrow> 's \<Rightarrow> 'v dyn list option \<times> 's"
  g_record :: "'c \<Rightarrow> 'c double_struct \<Rightarrow> string \<Rightarrow> method_type \<Rightarrow> 'v dyn list \<Rightarrow> 's \<Rightarrow> nat \<times> 's"
  g_return :: "nat \<Rightarrow> 'v dyn list \<Rightarrow> 's \<Rightarrow> 's"
  g_zero :: "string \<Rightarrow> 'v"
  g_implements :: "string \<Rightarrow> string \<Rightarrow> bool"

text \<open>\<open>retI, _ := ret[I].(T)\<close>: the value if its dynamic type fits, else the zero value.\<close>

fun asserted :: "('c, 'v, 's) gomock \<Rightarrow> static_type \<Rightarrow> 'v dyn \<Rightarrow> 'v dyn" where
  "asserted G (Concrete T) (Dyn t v) = (if t = T then Dyn t v else Dyn T (g_zero G T))"
| "asserted G (Concrete T) NilIface = Dyn T (g_zero G T)"
| "asserted G (Interface N) (Dyn t v) = (if g_implements G t N then Dyn t v else NilIface)"
| "asserted G (Interface N) NilIface = NilIface"

definition mock_call ::
  "('c, 'v, 's) gomock \<Rightarrow> 'c double_struct \<Rightarrow> string \<Rightarrow> 'v dyn list \<Rightarrow> static_type list \<Rightarrow> 's \<Rightarrow> 'v dyn list outcome \<times> 's" where
  "mock_call G m name args results s =
     (case g_call G (mo_ctrl m) m name args s of
        (None, s') \<Rightarrow> (TestEnded, s')
      | (Some ret, s') \<Rightarrow>
          (if length ret < length results then (Panicked ''index out of range'', s')
           else (Returned (map2 (asserted G) results ret), s')))"

definition mock_record ::
  "('c, 'v, 's) gomock \<Rightarrow> 'c recorder_struct \<Rightarrow> string \<Rightarrow> method_type \<Rightarrow> 'v dyn list \<Rightarrow> 's \<Rightarrow> nat \<times> 's" where
  "mock_record G mr name type args = g_record G (mo_ctrl (mr_mock mr)) (mr_mock mr) name type args"

section \<open>What gomock promises\<close>

text \<open>
  What a test may tell a call to return: as many values as the method has results, each of a type that
  can be assigned to the result's; nil also for a pointer, slice or map.
\<close>

definition nilable :: "string \<Rightarrow> bool" where
  "nilable T \<longleftrightarrow> (T \<noteq> [] \<and> hd T \<in> {CHR ''*'', CHR ''[''}) \<or> take 4 T = ''map[''"

fun assignable :: "('c, 'v, 's) gomock \<Rightarrow> static_type \<Rightarrow> 'v dyn \<Rightarrow> bool" where
  "assignable G (Concrete T) (Dyn t v) = (t = T)"
| "assignable G (Concrete T) NilIface = nilable T"
| "assignable G (Interface N) (Dyn t v) = g_implements G t N"
| "assignable G (Interface N) NilIface = True"

text \<open>The value a result has then: nil becomes the nil pointer, slice or map of the result's type.\<close>

fun held :: "('c, 'v, 's) gomock \<Rightarrow> static_type \<Rightarrow> 'v dyn \<Rightarrow> 'v dyn" where
  "held G (Concrete T) NilIface = Dyn T (g_zero G T)"
| "held G T v = v"

lemma asserted_held: "assignable G T v \<Longrightarrow> asserted G T v = held G T v"
  by (cases T; cases v) simp_all

text \<open>
  In a state without pending expectations, the call that a test has announced, with the type of a method
  and what to return, is answered by exactly that when it comes, and no expectation is left. Nobody
  expects any other.
\<close>

definition honours :: "('c, 'v, 's) gomock \<Rightarrow> ('s \<Rightarrow> bool) \<Rightarrow> bool" where
  "honours G idle \<longleftrightarrow>
     (\<forall>ctrl m name type args vals s k s1. idle s \<longrightarrow> g_record G ctrl m name type args s = (k, s1) \<longrightarrow>
        length args = length (sg_params type) \<longrightarrow> list_all2 (assignable G) (sg_results type) vals \<longrightarrow>
        (\<exists>s2. g_call G ctrl m name args (g_return G k vals s1) = (Some vals, s2) \<and> idle s2)) \<and>
     (\<forall>ctrl m name args s. idle s \<longrightarrow> fst (g_call G ctrl m name args s) = None)"

section \<open>A method and its recorder\<close>

record ('c, 'v, 's) double =
  db_name :: string
  db_type :: method_type
  db_method :: "('c, 'v, 's) gomock \<Rightarrow> 'c double_struct \<Rightarrow> 'v dyn list \<Rightarrow> 's \<Rightarrow> 'v dyn list outcome \<times> 's"
  db_expect :: "'c double_struct \<Rightarrow> 'c recorder_struct"
  db_recorder :: "('c, 'v, 's) gomock \<Rightarrow> 'c recorder_struct \<Rightarrow> 'v dyn list \<Rightarrow> 's \<Rightarrow> nat \<times> 's"

text \<open>
  The two agree: on the object, on the name, on the arguments and their order, and the method asserts the
  very types of its results.
\<close>

definition agrees :: "('c, 'v, 's) double \<Rightarrow> bool" where
  "agrees d \<longleftrightarrow>
     (\<forall>m. mr_mock (db_expect d m) = m) \<and>
     (\<forall>G m mr args. length args = length (sg_params (db_type d)) \<longrightarrow>
        db_method d G m args = mock_call G m (db_name d) args (sg_results (db_type d)) \<and>
        db_recorder d G mr args = mock_record G mr (db_name d) (db_type d) args)"

lemma args_listed:
  "length args = Suc 0 \<Longrightarrow> [args ! 0] = args"
  "length args = Suc (Suc 0) \<Longrightarrow> [args ! 0, args ! Suc 0] = args"
  "length args = Suc (Suc (Suc 0)) \<Longrightarrow> [args ! 0, args ! Suc 0, args ! 2] = args"
  "length args = Suc (Suc (Suc (Suc 0))) \<Longrightarrow> [args ! 0, args ! Suc 0, args ! 2, args ! 3] = args"
  by (auto simp: numeral_eq_Suc length_Suc_conv)

lemma told_is_returned:
  assumes "agrees d" and "honours G idle" and "idle s"
    and "length args = length (sg_params (db_type d))" and "list_all2 (assignable G) (sg_results (db_type d)) vals"
    and "db_recorder d G (db_expect d m) args s = (k, s1)"
  shows "\<exists>s2. db_method d G m args (g_return G k vals s1) =
    (Returned (map2 (held G) (sg_results (db_type d)) vals), s2) \<and> idle s2"
proof -
  let ?name = "db_name d"
  have name: "db_method d G m args = mock_call G m ?name args (sg_results (db_type d))"
    "db_recorder d G (db_expect d m) args = mock_record G (db_expect d m) ?name (db_type d) args"
    "mr_mock (db_expect d m) = m"
    using assms(1,4) unfolding agrees_def by blast+
  from assms(6) have "g_record G (mo_ctrl m) m ?name (db_type d) args s = (k, s1)"
    by (simp add: name mock_record_def)
  with assms(2-5) obtain s2 where
    "g_call G (mo_ctrl m) m ?name args (g_return G k vals s1) = (Some vals, s2)" "idle s2"
    unfolding honours_def by blast
  moreover have "map2 (asserted G) (sg_results (db_type d)) vals = map2 (held G) (sg_results (db_type d)) vals"
    using assms(5) by (induction rule: list_all2_induct) (simp_all add: asserted_held)
  moreover have "length vals = length (sg_results (db_type d))"
    using assms(5) by (simp add: list_all2_lengthD)
  ultimately show ?thesis by (simp add: name mock_call_def)
qed

lemma unexpected_ends:
  assumes "agrees d" and "honours G idle" and "idle s" and "length args = length (sg_params (db_type d))"
  shows "fst (db_method d G m args s) = TestEnded"
proof -
  have "db_method d G m args = mock_call G m (db_name d) args (sg_results (db_type d))"
    using assms(1,4) unfolding agrees_def by blast
  moreover obtain s' where "g_call G (mo_ctrl m) m (db_name d) args s = (None, s')"
    using assms(2,3) unfolding honours_def by (metis prod.collapse)
  ultimately show ?thesis by (simp add: mock_call_def)
qed

end
