(* ===== verification/Test_Doubles.thy ===== *)
theory Test_Doubles
  imports Gomock
begin

text \<open>
  The doubles, method by method: the type of the method, the method, and the recorder's method of the
  same name.
\<close>

section \<open>\<open>MockVBD\<close>\<close>

type_synonym 'c MockVBD = "'c double_struct"

type_synonym 'c MockVBDMockRecorder = "'c recorder_struct"

definition NewMockVBD :: "nat \<Rightarrow> 'c \<Rightarrow> 'c MockVBD" where
  "NewMockVBD addr ctrl = \<lparr>mo_addr = addr, mo_ctrl = ctrl\<rparr>"

definition MockVBD_EXPECT :: "'c MockVBD \<Rightarrow> 'c MockVBDMockRecorder" where
  "MockVBD_EXPECT m = \<lparr>mr_mock = m\<rparr>"

definition MockVBD_Connect_type :: method_type where
  "MockVBD_Connect_type = \<lparr>sg_params = [Interface ''context.Context'', Concrete ''uuid.UUID''],
     sg_results = [Concrete ''string'', Interface ''error'']\<rparr>"

definition MockVBD_Connect where
  "MockVBD_Connect G m ctx id' = mock_call G m ''Connect'' [ctx, id']
     [Concrete ''string'', Interface ''error'']"

definition MockVBDMockRecorder_Connect where
  "MockVBDMockRecorder_Connect G mr ctx id' = mock_record G mr ''Connect'' MockVBD_Connect_type [ctx, id']"

definition MockVBD_Create_type :: method_type where
  "MockVBD_Create_type = \<lparr>sg_params = [Interface ''context.Context'', Concrete ''*payloads.CreateVBDParams''],
     sg_results = [Concrete ''uuid.UUID'', Interface ''error'']\<rparr>"

definition MockVBD_Create where
  "MockVBD_Create G m ctx params' = mock_call G m ''Create'' [ctx, params']
     [Concrete ''uuid.UUID'', Interface ''error'']"

definition MockVBDMockRecorder_Create where
  "MockVBDMockRecorder_Create G mr ctx params' = mock_record G mr ''Create'' MockVBD_Create_type [ctx, params']"

definition MockVBD_Delete_type :: method_type where
  "MockVBD_Delete_type = \<lparr>sg_params = [Interface ''context.Context'', Concrete ''uuid.UUID''],
     sg_results = [Interface ''error'']\<rparr>"

definition MockVBD_Delete where
  "MockVBD_Delete G m ctx id' = mock_call G m ''Delete'' [ctx, id']
     [Interface ''error'']"

definition MockVBDMockRecorder_Delete where
  "MockVBDMockRecorder_Delete G mr ctx id' = mock_record G mr ''Delete'' MockVBD_Delete_type [ctx, id']"

definition MockVBD_Disconnect_type :: method_type where
  "MockVBD_Disconnect_type = \<lparr>sg_params = [Interface ''context.Context'', Concrete ''uuid.UUID''],
     sg_results = [Concrete ''string'', Interface ''error'']\<rparr>"

definition MockVBD_Disconnect where
  "MockVBD_Disconnect G m ctx id' = mock_call G m ''Disconnect'' [ctx, id']
     [Concrete ''string'', Interface ''error'']"

definition MockVBDMockRecorder_Disconnect where
  "MockVBDMockRecorder_Disconnect G mr ctx id' = mock_record G mr ''Disconnect'' MockVBD_Disconnect_type [ctx, id']"

definition MockVBD_Get_type :: method_type where
  "MockVBD_Get_type = \<lparr>sg_params = [Interface ''context.Context'', Concrete ''uuid.UUID''],
     sg_results = [Concrete ''*payloads.VBD'', Interface ''error'']\<rparr>"

definition MockVBD_Get where
  "MockVBD_Get G m ctx id' = mock_call G m ''Get'' [ctx, id']
     [Concrete ''*payloads.VBD'', Interface ''error'']"

definition MockVBDMockRecorder_Get where
  "MockVBDMockRecorder_Get G mr ctx id' = mock_record G mr ''Get'' MockVBD_Get_type [ctx, id']"

definition MockVBD_GetAll_type :: method_type where
  "MockVBD_GetAll_type = \<lparr>sg_params = [Interface ''context.Context'', Concrete ''int'', Concrete ''string''],
     sg_results = [Concrete ''[]*payloads.VBD'', Interface ''error'']\<rparr>"

definition MockVBD_GetAll where
  "MockVBD_GetAll G m ctx limit' filter' = mock_call G m ''GetAll'' [ctx, limit', filter']
     [Concrete ''[]*payloads.VBD'', Interface ''error'']"

definition MockVBDMockRecorder_GetAll where
  "MockVBDMockRecorder_GetAll G mr ctx limit' filter' = mock_record G mr ''GetAll'' MockVBD_GetAll_type [ctx, limit', filter']"

definition MockVBD_GetTasks_type :: method_type where
  "MockVBD_GetTasks_type = \<lparr>sg_params = [Interface ''context.Context'', Concrete ''uuid.UUID'', Concrete ''int'', Concrete ''string''],
     sg_results = [Concrete ''[]*payloads.Task'', Interface ''error'']\<rparr>"

definition MockVBD_GetTasks where
  "MockVBD_GetTasks G m ctx id' limit' filter' = mock_call G m ''GetTasks'' [ctx, id', limit', filter']
     [Concrete ''[]*payloads.Task'', Interface ''error'']"

definition MockVBDMockRecorder_GetTasks where
  "MockVBDMockRecorder_GetTasks G mr ctx id' limit' filter' = mock_record G mr ''GetTasks'' MockVBD_GetTasks_type [ctx, id', limit', filter']"

section \<open>\<open>MockTask\<close>\<close>

type_synonym 'c MockTask = "'c double_struct"

type_synonym 'c MockTaskMockRecorder = "'c recorder_struct"

definition NewMockTask :: "nat \<Rightarrow> 'c \<Rightarrow> 'c MockTask" where
  "NewMockTask addr ctrl = \<lparr>mo_addr = addr, mo_ctrl = ctrl\<rparr>"

definition MockTask_EXPECT :: "'c MockTask \<Rightarrow> 'c MockTaskMockRecorder" where
  "MockTask_EXPECT m = \<lparr>mr_mock = m\<rparr>"

definition MockTask_Abort_type :: method_type where
  "MockTask_Abort_type = \<lparr>sg_params = [Interface ''context.Context'', Concrete ''string''],
     sg_results = [Interface ''error'']\<rparr>"

definition MockTask_Abort where
  "MockTask_Abort G m ctx id' = mock_call G m ''Abort'' [ctx, id']
     [Interface ''error'']"

definition MockTaskMockRecorder_Abort where
  "MockTaskMockRecorder_Abort G mr ctx id' = mock_record G mr ''Abort'' MockTask_Abort_type [ctx, id']"

definition MockTask_Get_type :: method_type where
  "MockTask_Get_type = \<lparr>sg_params = [Interface ''context.Context'', Concrete ''string''],
     sg_results = [Concrete ''*payloads.Task'', Interface ''error'']\<rparr>"

definition MockTask_Get where
  "MockTask_Get G m ctx path' = mock_call G m ''Get'' [ctx, path']
     [Concrete ''*payloads.Task'', Interface ''error'']"

definition MockTaskMockRecorder_Get where
  "MockTaskMockRecorder_Get G mr ctx path' = mock_record G mr ''Get'' MockTask_Get_type [ctx, path']"

definition MockTask_GetAll_type :: method_type where
  "MockTask_GetAll_type = \<lparr>sg_params = [Interface ''context.Context'', Concrete ''int'', Concrete ''string''],
     sg_results = [Concrete ''[]*payloads.Task'', Interface ''error'']\<rparr>"

definition MockTask_GetAll where
  "MockTask_GetAll G m ctx limit' filter' = mock_call G m ''GetAll'' [ctx, limit', filter']
     [Concrete ''[]*payloads.Task'', Interface ''error'']"

definition MockTaskMockRecorder_GetAll where
  "MockTaskMockRecorder_GetAll G mr ctx limit' filter' = mock_record G mr ''GetAll'' MockTask_GetAll_type [ctx, limit', filter']"

definition MockTask_HandleTaskResponse_type :: method_type where
  "MockTask_HandleTaskResponse_type = \<lparr>sg_params = [Interface ''context.Context'', Concrete ''payloads.TaskIDResponse'', Concrete ''bool''],
     sg_results = [Concrete ''*payloads.Task'', Interface ''error'']\<rparr>"

definition MockTask_HandleTaskResponse where
  "MockTask_HandleTaskResponse G m ctx response' waitForCompletion = mock_call G m ''HandleTaskResponse'' [ctx, response', waitForCompletion]
     [Concrete ''*payloads.Task'', Interface ''error'']"

definition MockTaskMockRecorder_HandleTaskResponse where
  "MockTaskMockRecorder_HandleTaskResponse G mr ctx response' waitForCompletion = mock_record G mr ''HandleTaskResponse'' MockTask_HandleTaskResponse_type [ctx, response', waitForCompletion]"

definition MockTask_Wait_type :: method_type where
  "MockTask_Wait_type = \<lparr>sg_params = [Interface ''context.Context'', Concrete ''string''],
     sg_results = [Concrete ''*payloads.Task'', Interface ''error'']\<rparr>"

definition MockTask_Wait where
  "MockTask_Wait G m ctx id' = mock_call G m ''Wait'' [ctx, id']
     [Concrete ''*payloads.Task'', Interface ''error'']"

definition MockTaskMockRecorder_Wait where
  "MockTaskMockRecorder_Wait G mr ctx id' = mock_record G mr ''Wait'' MockTask_Wait_type [ctx, id']"

section \<open>\<open>MockTaskAction\<close>\<close>

type_synonym 'c MockTaskAction = "'c double_struct"

type_synonym 'c MockTaskActionMockRecorder = "'c recorder_struct"

definition NewMockTaskAction :: "nat \<Rightarrow> 'c \<Rightarrow> 'c MockTaskAction" where
  "NewMockTaskAction addr ctrl = \<lparr>mo_addr = addr, mo_ctrl = ctrl\<rparr>"

definition MockTaskAction_EXPECT :: "'c MockTaskAction \<Rightarrow> 'c MockTaskActionMockRecorder" where
  "MockTaskAction_EXPECT m = \<lparr>mr_mock = m\<rparr>"

definition MockTaskAction_Abort_type :: method_type where
  "MockTaskAction_Abort_type = \<lparr>sg_params = [Interface ''context.Context'', Concrete ''string''],
     sg_results = [Interface ''error'']\<rparr>"

definition MockTaskAction_Abort where
  "MockTaskAction_Abort G m ctx id' = mock_call G m ''Abort'' [ctx, id']
     [Interface ''error'']"

definition MockTaskActionMockRecorder_Abort where
  "MockTaskActionMockRecorder_Abort G mr ctx id' = mock_record G mr ''Abort'' MockTaskAction_Abort_type [ctx, id']"

definition MockTaskAction_HandleTaskResponse_type :: method_type where
  "MockTaskAction_HandleTaskResponse_type = \<lparr>sg_params = [Interface ''context.Context'', Concrete ''payloads.TaskIDResponse'', Concrete ''bool''],
     sg_results = [Concrete ''*payloads.Task'', Interface ''error'']\<rparr>"

definition MockTaskAction_HandleTaskResponse where
  "MockTaskAction_HandleTaskResponse G m ctx response' waitForCompletion = mock_call G m ''HandleTaskResponse'' [ctx, response', waitForCompletion]
     [Concrete ''*payloads.Task'', Interface ''error'']"

definition MockTaskActionMockRecorder_HandleTaskResponse where
  "MockTaskActionMockRecorder_HandleTaskResponse G mr ctx response' waitForCompletion = mock_record G mr ''HandleTaskResponse'' MockTaskAction_HandleTaskResponse_type [ctx, response', waitForCompletion]"

definition MockTaskAction_Wait_type :: method_type where
  "MockTaskAction_Wait_type = \<lparr>sg_params = [Interface ''context.Context'', Concrete ''string''],
     sg_results = [Concrete ''*payloads.Task'', Interface ''error'']\<rparr>"

definition MockTaskAction_Wait where
  "MockTaskAction_Wait G m ctx id' = mock_call G m ''Wait'' [ctx, id']
     [Concrete ''*payloads.Task'', Interface ''error'']"

definition MockTaskActionMockRecorder_Wait where
  "MockTaskActionMockRecorder_Wait G mr ctx id' = mock_record G mr ''Wait'' MockTaskAction_Wait_type [ctx, id']"

section \<open>\<open>MockXOClient\<close>\<close>

type_synonym 'c MockXOClient = "'c double_struct"

type_synonym 'c MockXOClientMockRecorder = "'c recorder_struct"

definition NewMockXOClient :: "nat \<Rightarrow> 'c \<Rightarrow> 'c MockXOClient" where
  "NewMockXOClient addr ctrl = \<lparr>mo_addr = addr, mo_ctrl = ctrl\<rparr>"

definition MockXOClient_EXPECT :: "'c MockXOClient \<Rightarrow> 'c MockXOClientMockRecorder" where
  "MockXOClient_EXPECT m = \<lparr>mr_mock = m\<rparr>"

definition MockXOClient_AddResourceSetLimit_type :: method_type where
  "MockXOClient_AddResourceSetLimit_type = \<lparr>sg_params = [Concrete ''client.ResourceSet'', Concrete ''string'', Concrete ''int''],
     sg_results = [Interface ''error'']\<rparr>"

definition MockXOClient_AddResourceSetLimit where
  "MockXOClient_AddResourceSetLimit G m rsReq limit' quantity = mock_call G m ''AddResourceSetLimit'' [rsReq, limit', quantity]
     [Interface ''error'']"

definition MockXOClientMockRecorder_AddResourceSetLimit where
  "MockXOClientMockRecorder_AddResourceSetLimit G mr rsReq limit' quantity = mock_record G mr ''AddResourceSetLimit'' MockXOClient_AddResourceSetLimit_type [rsReq, limit', quantity]"

definition MockXOClient_AddResourceSetObject_type :: method_type where
  "MockXOClient_AddResourceSetObject_type = \<lparr>sg_params = [Concrete ''client.ResourceSet'', Concrete ''string''],
     sg_results = [Interface ''error'']\<rparr>"

definition MockXOClient_AddResourceSetObject where
  "MockXOClient_AddResourceSetObject G m rsReq object' = mock_call G m ''AddResourceSetObject'' [rsReq, object']
     [Interface ''error'']"

definition MockXOClientMockRecorder_AddResourceSetObject where
  "MockXOClientMockRecorder_AddResourceSetObject G mr rsReq object' = mock_record G mr ''AddResourceSetObject'' MockXOClient_AddResourceSetObject_type [rsReq, object']"

definition MockXOClient_AddResourceSetSubject_type :: method_type where
  "MockXOClient_AddResourceSetSubject_type = \<lparr>sg_params = [Concrete ''client.ResourceSet'', Concrete ''string''],
     sg_results = [Interface ''error'']\<rparr>"

definition MockXOClient_AddResourceSetSubject where
  "MockXOClient_AddResourceSetSubject G m rsReq subject' = mock_call G m ''AddResourceSetSubject'' [rsReq, subject']
     [Interface ''error'']"

definition MockXOClientMockRecorder_AddResourceSetSubject where
  "MockXOClientMockRecorder_AddResourceSetSubject G mr rsReq subject' = mock_record G mr ''AddResourceSetSubject'' MockXOClient_AddResourceSetSubject_type [rsReq, subject']"

definition MockXOClient_AddTag_type :: method_type where
  "MockXOClient_AddTag_type = \<lparr>sg_params = [Concrete ''string'', Concrete ''string''],
     sg_results = [Interface ''error'']\<rparr>"

definition MockXOClient_AddTag where
  "MockXOClient_AddTag G m id' tag' = mock_call G m ''AddTag'' [id', tag']
     [Interface ''error'']"

definition MockXOClientMockRecorder_AddTag where
  "MockXOClientMockRecorder_AddTag G mr id' tag' = mock_record G mr ''AddTag'' MockXOClient_AddTag_type [id', tag']"

definition MockXOClient_ConnectDisk_type :: method_type where
  "MockXOClient_ConnectDisk_type = \<lparr>sg_params = [Concrete ''client.Disk''],
     sg_results = [Interface ''error'']\<rparr>"

definition MockXOClient_ConnectDisk where
  "MockXOClient_ConnectDisk G m d' = mock_call G m ''ConnectDisk'' [d']
     [Interface ''error'']"

definition MockXOClientMockRecorder_ConnectDisk where
  "MockXOClientMockRecorder_ConnectDisk G mr d' = mock_record G mr ''ConnectDisk'' MockXOClient_ConnectDisk_type [d']"

definition MockXOClient_ConnectVIF_type :: method_type where
  "MockXOClient_ConnectVIF_type = \<lparr>sg_params = [Concrete ''*client.VIF''],
     sg_results = [Interface ''error'']\<rparr>"

definition MockXOClient_ConnectVIF where
  "MockXOClient_ConnectVIF G m vifReq = mock_call G m ''ConnectVIF'' [vifReq]
     [Interface ''error'']"

definition MockXOClientMockRecorder_ConnectVIF where
  "MockXOClientMockRecorder_ConnectVIF G mr vifReq = mock_record G mr ''ConnectVIF'' MockXOClient_ConnectVIF_type [vifReq]"

definition MockXOClient_CreateAcl_type :: method_type where
  "MockXOClient_CreateAcl_type = \<lparr>sg_params = [Concrete ''client.Acl''],
     sg_results = [Concrete ''*client.Acl'', Interface ''error'']\<rparr>"

definition MockXOClient_CreateAcl where
  "MockXOClient_CreateAcl G m acl' = mock_call G m ''CreateAcl'' [acl']
     [Concrete ''*client.Acl'', Interface ''error'']"

definition MockXOClientMockRecorder_CreateAcl where
  "MockXOClientMockRecorder_CreateAcl G mr acl' = mock_record G mr ''CreateAcl'' MockXOClient_CreateAcl_type [acl']"

definition MockXOClient_CreateBondedNetwork_type :: method_type where
  "MockXOClient_CreateBondedNetwork_type = \<lparr>sg_params = [Concrete ''client.CreateBondedNetworkRequest''],
     sg_results = [Concrete ''*client.Network'', Interface ''error'']\<rparr>"

definition MockXOClient_CreateBondedNetwork where
  "MockXOClient_CreateBondedNetwork G m netReq = mock_call G m ''CreateBondedNetwork'' [netReq]
     [Concrete ''*client.Network'', Interface ''error'']"

definition MockXOClientMockRecorder_CreateBondedNetwork where
  "MockXOClientMockRecorder_CreateBondedNetwork G mr netReq = mock_record G mr ''CreateBondedNetwork'' MockXOClient_CreateBondedNetwork_type [netReq]"

definition MockXOClient_CreateCloudConfig_type :: method_type where
  "MockXOClient_CreateCloudConfig_type = \<lparr>sg_params = [Concrete ''string'', Concrete ''string''],
     sg_results = [Concrete ''*client.CloudConfig'', Interface ''error'']\<rparr>"

definition MockXOClient_CreateCloudConfig where
  "MockXOClient_CreateCloudConfig G m name' template' = mock_call G m ''CreateCloudConfig'' [name', template']
     [Concrete ''*client.CloudConfig'', Interface ''error'']"

definition MockXOClientMockRecorder_CreateCloudConfig where
  "MockXOClientMockRecorder_CreateCloudConfig G mr name' template' = mock_record G mr ''CreateCloudConfig'' MockXOClient_CreateCloudConfig_type [name', template']"

definition MockXOClient_CreateDisk_type :: method_type where
  "MockXOClient_CreateDisk_type = \<lparr>sg_params = [Concrete ''client.Vm'', Concrete ''client.Disk''],
     sg_results = [Concrete ''string'', Interface ''error'']\<rparr>"

definition MockXOClient_CreateDisk where
  "MockXOClient_CreateDisk G m vm' d' = mock_call G m ''CreateDisk'' [vm', d']
     [Concrete ''string'', Interface ''error'']"

definition MockXOClientMockRecorder_CreateDisk where
  "MockXOClientMockRecorder_CreateDisk G mr vm' d' = mock_record G mr ''CreateDisk'' MockXOClient_CreateDisk_type [vm', d']"

definition MockXOClient_CreateNetwork_type :: method_type where
  "MockXOClient_CreateNetwork_type = \<lparr>sg_params = [Concrete ''client.CreateNetworkRequest''],
     sg_results = [Concrete ''*client.Network'', Interface ''error'']\<rparr>"

definition MockXOClient_CreateNetwork where
  "MockXOClient_CreateNetwork G m netReq = mock_call G m ''CreateNetwork'' [netReq]
     [Concrete ''*client.Network'', Interface ''error'']"

definition MockXOClientMockRecorder_CreateNetwork where
  "MockXOClientMockRecorder_CreateNetwork G mr netReq = mock_record G mr ''CreateNetwork'' MockXOClient_CreateNetwork_type [netReq]"

definition MockXOClient_CreateResourceSet_type :: method_type where
  "MockXOClient_CreateResourceSet_type = \<lparr>sg_params = [Concrete ''client.ResourceSet''],
     sg_results = [Concrete ''*client.ResourceSet'', Interface ''error'']\<rparr>"

definition MockXOClient_CreateResourceSet where
  "MockXOClient_CreateResourceSet G m rsReq = mock_call G m ''CreateResourceSet'' [rsReq]
     [Concrete ''*client.ResourceSet'', Interface ''error'']"

definition MockXOClientMockRecorder_CreateResourceSet where
  "MockXOClientMockRecorder_CreateResourceSet G mr rsReq = mock_record G mr ''CreateResourceSet'' MockXOClient_CreateResourceSet_type [rsReq]"

definition MockXOClient_CreateUser_type :: method_type where
  "MockXOClient_CreateUser_type = \<lparr>sg_params = [Concrete ''client.User''],
     sg_results = [Concrete ''*client.User'', Interface ''error'']\<rparr>"

definition MockXOClient_CreateUser where
  "MockXOClient_CreateUser G m user' = mock_call G m ''CreateUser'' [user']
     [Concrete ''*client.User'', Interface ''error'']"

definition MockXOClientMockRecorder_CreateUser where
  "MockXOClientMockRecorder_CreateUser G mr user' = mock_record G mr ''CreateUser'' MockXOClient_CreateUser_type [user']"

definition MockXOClient_CreateVDI_type :: method_type where
  "MockXOClient_CreateVDI_type = \<lparr>sg_params = [Concrete ''client.CreateVDIReq''],
     sg_results = [Concrete ''client.VDI'', Interface ''error'']\<rparr>"

definition MockXOClient_CreateVDI where
  "MockXOClient_CreateVDI G m vdiReq = mock_call G m ''CreateVDI'' [vdiReq]
     [Concrete ''client.VDI'', Interface ''error'']"

definition MockXOClientMockRecorder_CreateVDI where
  "MockXOClientMockRecorder_CreateVDI G mr vdiReq = mock_record G mr ''CreateVDI'' MockXOClient_CreateVDI_type [vdiReq]"

definition MockXOClient_CreateVIF_type :: method_type where
  "MockXOClient_CreateVIF_type = \<lparr>sg_params = [Concrete ''*client.Vm'', Concrete ''*client.VIF''],
     sg_results = [Concrete ''*client.VIF'', Interface ''error'']\<rparr>"

definition MockXOClient_CreateVIF where
  "MockXOClient_CreateVIF G m vm' vif = mock_call G m ''CreateVIF'' [vm', vif]
     [Concrete ''*client.VIF'', Interface ''error'']"

definition MockXOClientMockRecorder_CreateVIF where
  "MockXOClientMockRecorder_CreateVIF G mr vm' vif = mock_record G mr ''CreateVIF'' MockXOClient_CreateVIF_type [vm', vif]"

definition MockXOClient_CreateVm_type :: method_type where
  "MockXOClient_CreateVm_type = \<lparr>sg_params = [Concrete ''client.Vm'', Concrete ''time.Duration''],
     sg_results = [Concrete ''*client.Vm'', Interface ''error'']\<rparr>"

definition MockXOClient_CreateVm where
  "MockXOClient_CreateVm G m vmReq d' = mock_call G m ''CreateVm'' [vmReq, d']
     [Concrete ''*client.Vm'', Interface ''error'']"

definition MockXOClientMockRecorder_CreateVm where
  "MockXOClientMockRecorder_CreateVm G mr vmReq d' = mock_record G mr ''CreateVm'' MockXOClient_CreateVm_type [vmReq, d']"

definition MockXOClient_DeleteAcl_type :: method_type where
  "MockXOClient_DeleteAcl_type = \<lparr>sg_params = [Concrete ''client.Acl''],
     sg_results = [Interface ''error'']\<rparr>"

definition MockXOClient_DeleteAcl where
  "MockXOClient_DeleteAcl G m acl' = mock_call G m ''DeleteAcl'' [acl']
     [Interface ''error'']"

definition MockXOClientMockRecorder_DeleteAcl where
  "MockXOClientMockRecorder_DeleteAcl G mr acl' = mock_record G mr ''DeleteAcl'' MockXOClient_DeleteAcl_type [acl']"

definition MockXOClient_DeleteCloudConfig_type :: method_type where
  "MockXOClient_DeleteCloudConfig_type = \<lparr>sg_params = [Concrete ''string''],
     sg_results = [Interface ''error'']\<rparr>"

definition MockXOClient_DeleteCloudConfig where
  "MockXOClient_DeleteCloudConfig G m id' = mock_call G m ''DeleteCloudConfig'' [id']
     [Interface ''error'']"

definition MockXOClientMockRecorder_DeleteCloudConfig where
  "MockXOClientMockRecorder_DeleteCloudConfig G mr id' = mock_record G mr ''DeleteCloudConfig'' MockXOClient_DeleteCloudConfig_type [id']"

definition MockXOClient_DeleteDisk_type :: method_type where
  "MockXOClient_DeleteDisk_type = \<lparr>sg_params = [Concrete ''client.Vm'', Concrete ''client.Disk''],
     sg_results = [Interface ''error'']\<rparr>"

definition MockXOClient_DeleteDisk where
  "MockXOClient_DeleteDisk G m vm' d' = mock_call G m ''DeleteDisk'' [vm', d']
     [Interface ''error'']"

definition MockXOClientMockRecorder_DeleteDisk where
  "MockXOClientMockRecorder_DeleteDisk G mr vm' d' = mock_record G mr ''DeleteDisk'' MockXOClient_DeleteDisk_type [vm', d']"

definition MockXOClient_DeleteNetwork_type :: method_type where
  "MockXOClient_DeleteNetwork_type = \<lparr>sg_params = [Concrete ''string''],
     sg_results = [Interface ''error'']\<rparr>"

definition MockXOClient_DeleteNetwork where
  "MockXOClient_DeleteNetwork G m id' = mock_call G m ''DeleteNetwork'' [id']
     [Interface ''error'']"

definition MockXOClientMockRecorder_DeleteNetwork where
  "MockXOClientMockRecorder_DeleteNetwork G mr id' = mock_record G mr ''DeleteNetwork'' MockXOClient_DeleteNetwork_type [id']"

definition MockXOClient_DeleteResourceSet_type :: method_type where
  "MockXOClient_DeleteResourceSet_type = \<lparr>sg_params = [Concrete ''client.ResourceSet''],
     sg_results = [Interface ''error'']\<rparr>"

definition MockXOClient_DeleteResourceSet where
  "MockXOClient_DeleteResourceSet G m rsReq = mock_call G m ''DeleteResourceSet'' [rsReq]
     [Interface ''error'']"

definition MockXOClientMockRecorder_DeleteResourceSet where
  "MockXOClientMockRecorder_DeleteResourceSet G mr rsReq = mock_record G mr ''DeleteResourceSet'' MockXOClient_DeleteResourceSet_type [rsReq]"

definition MockXOClient_DeleteUser_type :: method_type where
  "MockXOClient_DeleteUser_type = \<lparr>sg_params = [Concrete ''client.User''],
     sg_results = [Interface ''error'']\<rparr>"

definition MockXOClient_DeleteUser where
  "MockXOClient_DeleteUser G m userReq = mock_call G m ''DeleteUser'' [userReq]
     [Interface ''error'']"

definition MockXOClientMockRecorder_DeleteUser where
  "MockXOClientMockRecorder_DeleteUser G mr userReq = mock_record G mr ''DeleteUser'' MockXOClient_DeleteUser_type [userReq]"

definition MockXOClient_DeleteVDI_type :: method_type where
  "MockXOClient_DeleteVDI_type = \<lparr>sg_params = [Concrete ''string''],
     sg_results = [Interface ''error'']\<rparr>"

definition MockXOClient_DeleteVDI where
  "MockXOClient_DeleteVDI G m id' = mock_call G m ''DeleteVDI'' [id']
     [Interface ''error'']"

definition MockXOClientMockRecorder_DeleteVDI where
  "MockXOClientMockRecorder_DeleteVDI G mr id' = mock_record G mr ''DeleteVDI'' MockXOClient_DeleteVDI_type [id']"

definition MockXOClient_DeleteVIF_type :: method_type where
  "MockXOClient_DeleteVIF_type = \<lparr>sg_params = [Concrete ''*client.VIF''],
     sg_results = [Interface ''error'']\<rparr>"

definition MockXOClient_DeleteVIF where
  "MockXOClient_DeleteVIF G m vifReq = mock_call G m ''DeleteVIF'' [vifReq]
     [Interface ''error'']"

definition MockXOClientMockRecorder_DeleteVIF where
  "MockXOClientMockRecorder_DeleteVIF G mr vifReq = mock_record G mr ''DeleteVIF'' MockXOClient_DeleteVIF_type [vifReq]"

definition MockXOClient_DeleteVm_type :: method_type where
  "MockXOClient_DeleteVm_type = \<lparr>sg_params = [Concrete ''string''],
     sg_results = [Interface ''error'']\<rparr>"

definition MockXOClient_DeleteVm where
  "MockXOClient_DeleteVm G m id' = mock_call G m ''DeleteVm'' [id']
     [Interface ''error'']"

definition MockXOClientMockRecorder_DeleteVm where
  "MockXOClientMockRecorder_DeleteVm G mr id' = mock_record G mr ''DeleteVm'' MockXOClient_DeleteVm_type [id']"

definition MockXOClient_DisconnectDisk_type :: method_type where
  "MockXOClient_DisconnectDisk_type = \<lparr>sg_params = [Concrete ''client.Disk''],
     sg_results = [Interface ''error'']\<rparr>"

definition MockXOClient_DisconnectDisk where
  "MockXOClient_DisconnectDisk G m d' = mock_call G m ''DisconnectDisk'' [d']
     [Interface ''error'']"

definition MockXOClientMockRecorder_DisconnectDisk where
  "MockXOClientMockRecorder_DisconnectDisk G mr d' = mock_record G mr ''DisconnectDisk'' MockXOClient_DisconnectDisk_type [d']"

definition MockXOClient_DisconnectVIF_type :: method_type where
  "MockXOClient_DisconnectVIF_type = \<lparr>sg_params = [Concrete ''*client.VIF''],
     sg_results = [Interface ''error'']\<rparr>"

definition MockXOClient_DisconnectVIF where
  "MockXOClient_DisconnectVIF G m vifReq = mock_call G m ''DisconnectVIF'' [vifReq]
     [Interface ''error'']"

definition MockXOClientMockRecorder_DisconnectVIF where
  "MockXOClientMockRecorder_DisconnectVIF G mr vifReq = mock_record G mr ''DisconnectVIF'' MockXOClient_DisconnectVIF_type [vifReq]"

definition MockXOClient_EjectCd_type :: method_type where
  "MockXOClient_EjectCd_type = \<lparr>sg_params = [Concrete ''string''],
     sg_results = [Interface ''error'']\<rparr>"

definition MockXOClient_EjectCd where
  "MockXOClient_EjectCd G m id' = mock_call G m ''EjectCd'' [id']
     [Interface ''error'']"

definition MockXOClientMockRecorder_EjectCd where
  "MockXOClientMockRecorder_EjectCd G mr id' = mock_record G mr ''EjectCd'' MockXOClient_EjectCd_type [id']"

definition MockXOClient_GetAcl_type :: method_type where
  "MockXOClient_GetAcl_type = \<lparr>sg_params = [Concrete ''client.Acl''],
     sg_results = [Concrete ''*client.Acl'', Interface ''error'']\<rparr>"

definition MockXOClient_GetAcl where
  "MockXOClient_GetAcl G m aclReq = mock_call G m ''GetAcl'' [aclReq]
     [Concrete ''*client.Acl'', Interface ''error'']"

definition MockXOClientMockRecorder_GetAcl where
  "MockXOClientMockRecorder_GetAcl G mr aclReq = mock_record G mr ''GetAcl'' MockXOClient_GetAcl_type [aclReq]"

definition MockXOClient_GetAllCloudConfigs_type :: method_type where
  "MockXOClient_GetAllCloudConfigs_type = \<lparr>sg_params = [],
     sg_results = [Concrete ''[]client.CloudConfig'', Interface ''error'']\<rparr>"

definition MockXOClient_GetAllCloudConfigs where
  "MockXOClient_GetAllCloudConfigs G m = mock_call G m ''GetAllCloudConfigs'' []
     [Concrete ''[]client.CloudConfig'', Interface ''error'']"

definition MockXOClientMockRecorder_GetAllCloudConfigs where
  "MockXOClientMockRecorder_GetAllCloudConfigs G mr = mock_record G mr ''GetAllCloudConfigs'' MockXOClient_GetAllCloudConfigs_type []"

definition MockXOClient_GetAllObjectsOfType_type :: method_type where
  "MockXOClient_GetAllObjectsOfType_type = \<lparr>sg_params = [Interface ''client.XoObject'', Interface ''any''],
     sg_results = [Interface ''error'']\<rparr>"

definition MockXOClient_GetAllObjectsOfType where
  "MockXOClient_GetAllObjectsOfType G m obj' response' = mock_call G m ''GetAllObjectsOfType'' [obj', response']
     [Interface ''error'']"

definition MockXOClientMockRecorder_GetAllObjectsOfType where
  "MockXOClientMockRecorder_GetAllObjectsOfType G mr obj' response' = mock_record G mr ''GetAllObjectsOfType'' MockXOClient_GetAllObjectsOfType_type [obj', response']"

definition MockXOClient_GetAllUsers_type :: method_type where
  "MockXOClient_GetAllUsers_type = \<lparr>sg_params = [],
     sg_results = [Concrete ''[]client.User'', Interface ''error'']\<rparr>"

definition MockXOClient_GetAllUsers where
  "MockXOClient_GetAllUsers G m = mock_call G m ''GetAllUsers'' []
     [Concrete ''[]client.User'', Interface ''error'']"

definition MockXOClientMockRecorder_GetAllUsers where
  "MockXOClientMockRecorder_GetAllUsers G mr = mock_record G mr ''GetAllUsers'' MockXOClient_GetAllUsers_type []"

definition MockXOClient_GetAllVDIs_type :: method_type where
  "MockXOClient_GetAllVDIs_type = \<lparr>sg_params = [],
     sg_results = [Concrete ''[]client.VDI'', Interface ''error'']\<rparr>"

definition MockXOClient_GetAllVDIs where
  "MockXOClient_GetAllVDIs G m = mock_call G m ''GetAllVDIs'' []
     [Concrete ''[]client.VDI'', Interface ''error'']"

definition MockXOClientMockRecorder_GetAllVDIs where
  "MockXOClientMockRecorder_GetAllVDIs G mr = mock_record G mr ''GetAllVDIs'' MockXOClient_GetAllVDIs_type []"

definition MockXOClient_GetBond_type :: method_type where
  "MockXOClient_GetBond_type = \<lparr>sg_params = [Concrete ''client.Bond''],
     sg_results = [Concrete ''*client.Bond'', Interface ''error'']\<rparr>"

definition MockXOClient_GetBond where
  "MockXOClient_GetBond G m bondReq = mock_call G m ''GetBond'' [bondReq]
     [Concrete ''*client.Bond'', Interface ''error'']"

definition MockXOClientMockRecorder_GetBond where
  "MockXOClientMockRecorder_GetBond G mr bondReq = mock_record G mr ''GetBond'' MockXOClient_GetBond_type [bondReq]"

definition MockXOClient_GetBonds_type :: method_type where
  "MockXOClient_GetBonds_type = \<lparr>sg_params = [Concrete ''client.Bond''],
     sg_results = [Concrete ''[]client.Bond'', Interface ''error'']\<rparr>"

definition MockXOClient_GetBonds where
  "MockXOClient_GetBonds G m bondReq = mock_call G m ''GetBonds'' [bondReq]
     [Concrete ''[]client.Bond'', Interface ''error'']"

definition MockXOClientMockRecorder_GetBonds where
  "MockXOClientMockRecorder_GetBonds G mr bondReq = mock_record G mr ''GetBonds'' MockXOClient_GetBonds_type [bondReq]"

definition MockXOClient_GetCdroms_type :: method_type where
  "MockXOClient_GetCdroms_type = \<lparr>sg_params = [Concrete ''*client.Vm''],
     sg_results = [Concrete ''[]client.Disk'', Interface ''error'']\<rparr>"

definition MockXOClient_GetCdroms where
  "MockXOClient_GetCdroms G m vm' = mock_call G m ''GetCdroms'' [vm']
     [Concrete ''[]client.Disk'', Interface ''error'']"

definition MockXOClientMockRecorder_GetCdroms where
  "MockXOClientMockRecorder_GetCdroms G mr vm' = mock_record G mr ''GetCdroms'' MockXOClient_GetCdroms_type [vm']"

definition MockXOClient_GetCloudConfig_type :: method_type where
  "MockXOClient_GetCloudConfig_type = \<lparr>sg_params = [Concrete ''string''],
     sg_results = [Concrete ''*client.CloudConfig'', Interface ''error'']\<rparr>"

definition MockXOClient_GetCloudConfig where
  "MockXOClient_GetCloudConfig G m id' = mock_call G m ''GetCloudConfig'' [id']
     [Concrete ''*client.CloudConfig'', Interface ''error'']"

definition MockXOClientMockRecorder_GetCloudConfig where
  "MockXOClientMockRecorder_GetCloudConfig G mr id' = mock_record G mr ''GetCloudConfig'' MockXOClient_GetCloudConfig_type [id']"

definition MockXOClient_GetCloudConfigByName_type :: method_type where
  "MockXOClient_GetCloudConfigByName_type = \<lparr>sg_params = [Concrete ''string''],
     sg_results = [Concrete ''[]client.CloudConfig'', Interface ''error'']\<rparr>"

definition MockXOClient_GetCloudConfigByName where
  "MockXOClient_GetCloudConfigByName G m name' = mock_call G m ''GetCloudConfigByName'' [name']
     [Concrete ''[]client.CloudConfig'', Interface ''error'']"

definition MockXOClientMockRecorder_GetCloudConfigByName where
  "MockXOClientMockRecorder_GetCloudConfigByName G mr name' = mock_record G mr ''GetCloudConfigByName'' MockXOClient_GetCloudConfigByName_type [name']"

definition MockXOClient_GetCurrentUser_type :: method_type where
  "MockXOClient_GetCurrentUser_type = \<lparr>sg_params = [],
     sg_results = [Concrete ''*client.User'', Interface ''error'']\<rparr>"

definition MockXOClient_GetCurrentUser where
  "MockXOClient_GetCurrentUser G m = mock_call G m ''GetCurrentUser'' []
     [Concrete ''*client.User'', Interface ''error'']"

definition MockXOClientMockRecorder_GetCurrentUser where
  "MockXOClientMockRecorder_GetCurrentUser G mr = mock_record G mr ''GetCurrentUser'' MockXOClient_GetCurrentUser_type []"

definition MockXOClient_GetDisks_type :: method_type where
  "MockXOClient_GetDisks_type = \<lparr>sg_params = [Concrete ''*client.Vm''],
     sg_results = [Concrete ''[]client.Disk'', Interface ''error'']\<rparr>"

definition MockXOClient_GetDisks where
  "MockXOClient_GetDisks G m vm' = mock_call G m ''GetDisks'' [vm']
     [Concrete ''[]client.Disk'', Interface ''error'']"

definition MockXOClientMockRecorder_GetDisks where
  "MockXOClientMockRecorder_GetDisks G mr vm' = mock_record G mr ''GetDisks'' MockXOClient_GetDisks_type [vm']"

definition MockXOClient_GetHostById_type :: method_type where
  "MockXOClient_GetHostById_type = \<lparr>sg_params = [Concrete ''string''],
     sg_results = [Concrete ''client.Host'', Interface ''error'']\<rparr>"

definition MockXOClient_GetHostById where
  "MockXOClient_GetHostById G m id' = mock_call G m ''GetHostById'' [id']
     [Concrete ''client.Host'', Interface ''error'']"

definition MockXOClientMockRecorder_GetHostById where
  "MockXOClientMockRecorder_GetHostById G mr id' = mock_record G mr ''GetHostById'' MockXOClient_GetHostById_type [id']"

definition MockXOClient_GetHostByName_type :: method_type where
  "MockXOClient_GetHostByName_type = \<lparr>sg_params = [Concrete ''string''],
     sg_results = [Concrete ''[]client.Host'', Interface ''error'']\<rparr>"

definition MockXOClient_GetHostByName where
  "MockXOClient_GetHostByName G m nameLabel = mock_call G m ''GetHostByName'' [nameLabel]
     [Concrete ''[]client.Host'', Interface ''error'']"

definition MockXOClientMockRecorder_GetHostByName where
  "MockXOClientMockRecorder_GetHostByName G mr nameLabel = mock_record G mr ''GetHostByName'' MockXOClient_GetHostByName_type [nameLabel]"

definition MockXOClient_GetNetwork_type :: method_type where
  "MockXOClient_GetNetwork_type = \<lparr>sg_params = [Concrete ''client.Network''],
     sg_results = [Concrete ''*client.Network'', Interface ''error'']\<rparr>"

definition MockXOClient_GetNetwork where
  "MockXOClient_GetNetwork G m netReq = mock_call G m ''GetNetwork'' [netReq]
     [Concrete ''*client.Network'', Interface ''error'']"

definition MockXOClientMockRecorder_GetNetwork where
  "MockXOClientMockRecorder_GetNetwork G mr netReq = mock_record G mr ''GetNetwork'' MockXOClient_GetNetwork_type [netReq]"

definition MockXOClient_GetNetworks_type :: method_type where
  "MockXOClient_GetNetworks_type = \<lparr>sg_params = [],
     sg_results = [Concrete ''[]client.Network'', Interface ''error'']\<rparr>"

definition MockXOClient_GetNetworks where
  "MockXOClient_GetNetworks G m = mock_call G m ''GetNetworks'' []
     [Concrete ''[]client.Network'', Interface ''error'']"

definition MockXOClientMockRecorder_GetNetworks where
  "MockXOClientMockRecorder_GetNetworks G mr = mock_record G mr ''GetNetworks'' MockXOClient_GetNetworks_type []"

definition MockXOClient_GetObjectsWithTags_type :: method_type where
  "MockXOClient_GetObjectsWithTags_type = \<lparr>sg_params = [Concrete ''[]string''],
     sg_results = [Concrete ''[]client.Object'', Interface ''error'']\<rparr>"

definition MockXOClient_GetObjectsWithTags where
  "MockXOClient_GetObjectsWithTags G m tags' = mock_call G m ''GetObjectsWithTags'' [tags']
     [Concrete ''[]client.Object'', Interface ''error'']"

definition MockXOClientMockRecorder_GetObjectsWithTags where
  "MockXOClientMockRecorder_GetObjectsWithTags G mr tags' = mock_record G mr ''GetObjectsWithTags'' MockXOClient_GetObjectsWithTags_type [tags']"

definition MockXOClient_GetPIF_type :: method_type where
  "MockXOClient_GetPIF_type = \<lparr>sg_params = [Concrete ''client.PIF''],
     sg_results = [Concrete ''[]client.PIF'', Interface ''error'']\<rparr>"

definition MockXOClient_GetPIF where
  "MockXOClient_GetPIF G m pifReq = mock_call G m ''GetPIF'' [pifReq]
     [Concrete ''[]client.PIF'', Interface ''error'']"

definition MockXOClientMockRecorder_GetPIF where
  "MockXOClientMockRecorder_GetPIF G mr pifReq = mock_record G mr ''GetPIF'' MockXOClient_GetPIF_type [pifReq]"

definition MockXOClient_GetPIFByDevice_type :: method_type where
  "MockXOClient_GetPIFByDevice_type = \<lparr>sg_params = [Concrete ''string'', Concrete ''int''],
     sg_results = [Concrete ''[]client.PIF'', Interface ''error'']\<rparr>"

definition MockXOClient_GetPIFByDevice where
  "MockXOClient_GetPIFByDevice G m dev vlan = mock_call G m ''GetPIFByDevice'' [dev, vlan]
     [Concrete ''[]client.PIF'', Interface ''error'']"

definition MockXOClientMockRecorder_GetPIFByDevice where
  "MockXOClientMockRecorder_GetPIFByDevice G mr dev vlan = mock_record G mr ''GetPIFByDevice'' MockXOClient_GetPIFByDevice_type [dev, vlan]"

definition MockXOClient_GetPoolByName_type :: method_type where
  "MockXOClient_GetPoolByName_type = \<lparr>sg_params = [Concrete ''string''],
     sg_results = [Concrete ''[]client.Pool'', Interface ''error'']\<rparr>"

definition MockXOClient_GetPoolByName where
  "MockXOClient_GetPoolByName G m name' = mock_call G m ''GetPoolByName'' [name']
     [Concrete ''[]client.Pool'', Interface ''error'']"

definition MockXOClientMockRecorder_GetPoolByName where
  "MockXOClientMockRecorder_GetPoolByName G mr name' = mock_record G mr ''GetPoolByName'' MockXOClient_GetPoolByName_type [name']"

definition MockXOClient_GetPools_type :: method_type where
  "MockXOClient_GetPools_type = \<lparr>sg_params = [Concrete ''client.Pool''],
     sg_results = [Concrete ''[]client.Pool'', Interface ''error'']\<rparr>"

definition MockXOClient_GetPools where
  "MockXOClient_GetPools G m pool' = mock_call G m ''GetPools'' [pool']
     [Concrete ''[]client.Pool'', Interface ''error'']"

definition MockXOClientMockRecorder_GetPools where
  "MockXOClientMockRecorder_GetPools G mr pool' = mock_record G mr ''GetPools'' MockXOClient_GetPools_type [pool']"

definition MockXOClient_GetResourceSet_type :: method_type where
  "MockXOClient_GetResourceSet_type = \<lparr>sg_params = [Concrete ''client.ResourceSet''],
     sg_results = [Concrete ''[]client.ResourceSet'', Interface ''error'']\<rparr>"

definition MockXOClient_GetResourceSet where
  "MockXOClient_GetResourceSet G m rsReq = mock_call G m ''GetResourceSet'' [rsReq]
     [Concrete ''[]client.ResourceSet'', Interface ''error'']"

definition MockXOClientMockRecorder_GetResourceSet where
  "MockXOClientMockRecorder_GetResourceSet G mr rsReq = mock_record G mr ''GetResourceSet'' MockXOClient_GetResourceSet_type [rsReq]"

definition MockXOClient_GetResourceSetById_type :: method_type where
  "MockXOClient_GetResourceSetById_type = \<lparr>sg_params = [Concrete ''string''],
     sg_results = [Concrete ''*client.ResourceSet'', Interface ''error'']\<rparr>"

definition MockXOClient_GetResourceSetById where
  "MockXOClient_GetResourceSetById G m id' = mock_call G m ''GetResourceSetById'' [id']
     [Concrete ''*client.ResourceSet'', Interface ''error'']"

definition MockXOClientMockRecorder_GetResourceSetById where
  "MockXOClientMockRecorder_GetResourceSetById G mr id' = mock_record G mr ''GetResourceSetById'' MockXOClient_GetResourceSetById_type [id']"

definition MockXOClient_GetResourceSets_type :: method_type where
  "MockXOClient_GetResourceSets_type = \<lparr>sg_params = [],
     sg_results = [Concrete ''[]client.ResourceSet'', Interface ''error'']\<rparr>"

definition MockXOClient_GetResourceSets where
  "MockXOClient_GetResourceSets G m = mock_call G m ''GetResourceSets'' []
     [Concrete ''[]client.ResourceSet'', Interface ''error'']"

definition MockXOClientMockRecorder_GetResourceSets where
  "MockXOClientMockRecorder_GetResourceSets G mr = mock_record G mr ''GetResourceSets'' MockXOClient_GetResourceSets_type []"

definition MockXOClient_GetSortedHosts_type :: method_type where
  "MockXOClient_GetSortedHosts_type = \<lparr>sg_params = [Concrete ''client.Host'', Concrete ''string'', Concrete ''string''],
     sg_results = [Concrete ''[]client.Host'', Interface ''error'']\<rparr>"

definition MockXOClient_GetSortedHosts where
  "MockXOClient_GetSortedHosts G m host' sortBy sortOrder = mock_call G m ''GetSortedHosts'' [host', sortBy, sortOrder]
     [Concrete ''[]client.Host'', Interface ''error'']"

definition MockXOClientMockRecorder_GetSortedHosts where
  "MockXOClientMockRecorder_GetSortedHosts G mr host' sortBy sortOrder = mock_record G mr ''GetSortedHosts'' MockXOClient_GetSortedHosts_type [host', sortBy, sortOrder]"

definition MockXOClient_GetStorageRepository_type :: method_type where
  "MockXOClient_GetStorageRepository_type = \<lparr>sg_params = [Concrete ''client.StorageRepository''],
     sg_results = [Concrete ''[]client.StorageRepository'', Interface ''error'']\<rparr>"

definition MockXOClient_GetStorageRepository where
  "MockXOClient_GetStorageRepository G m sr' = mock_call G m ''GetStorageRepository'' [sr']
     [Concrete ''[]client.StorageRepository'', Interface ''error'']"

definition MockXOClientMockRecorder_GetStorageRepository where
  "MockXOClientMockRecorder_GetStorageRepository G mr sr' = mock_record G mr ''GetStorageRepository'' MockXOClient_GetStorageRepository_type [sr']"

definition MockXOClient_GetStorageRepositoryById_type :: method_type where
  "MockXOClient_GetStorageRepositoryById_type = \<lparr>sg_params = [Concrete ''string''],
     sg_results = [Concrete ''client.StorageRepository'', Interface ''error'']\<rparr>"

definition MockXOClient_GetStorageRepositoryById where
  "MockXOClient_GetStorageRepositoryById G m id' = mock_call G m ''GetStorageRepositoryById'' [id']
     [Concrete ''client.StorageRepository'', Interface ''error'']"

definition MockXOClientMockRecorder_GetStorageRepositoryById where
  "MockXOClientMockRecorder_GetStorageRepositoryById G mr id' = mock_record G mr ''GetStorageRepositoryById'' MockXOClient_GetStorageRepositoryById_type [id']"

definition MockXOClient_GetTemplate_type :: method_type where
  "MockXOClient_GetTemplate_type = \<lparr>sg_params = [Concrete ''client.Template''],
     sg_results = [Concrete ''[]client.Template'', Interface ''error'']\<rparr>"

definition MockXOClient_GetTemplate where
  "MockXOClient_GetTemplate G m template' = mock_call G m ''GetTemplate'' [template']
     [Concrete ''[]client.Template'', Interface ''error'']"

definition MockXOClientMockRecorder_GetTemplate where
  "MockXOClientMockRecorder_GetTemplate G mr template' = mock_record G mr ''GetTemplate'' MockXOClient_GetTemplate_type [template']"

definition MockXOClient_GetUser_type :: method_type where
  "MockXOClient_GetUser_type = \<lparr>sg_params = [Concrete ''client.User''],
     sg_results = [Concrete ''*client.User'', Interface ''error'']\<rparr>"

definition MockXOClient_GetUser where
  "MockXOClient_GetUser G m userReq = mock_call G m ''GetUser'' [userReq]
     [Concrete ''*client.User'', Interface ''error'']"

definition MockXOClientMockRecorder_GetUser where
  "MockXOClientMockRecorder_GetUser G mr userReq = mock_record G mr ''GetUser'' MockXOClient_GetUser_type [userReq]"

definition MockXOClient_GetVDI_type :: method_type where
  "MockXOClient_GetVDI_type = \<lparr>sg_params = [Concrete ''client.VDI''],
     sg_results = [Concrete ''client.VDI'', Interface ''error'']\<rparr>"

definition MockXOClient_GetVDI where
  "MockXOClient_GetVDI G m vdiReq = mock_call G m ''GetVDI'' [vdiReq]
     [Concrete ''client.VDI'', Interface ''error'']"

definition MockXOClientMockRecorder_GetVDI where
  "MockXOClientMockRecorder_GetVDI G mr vdiReq = mock_record G mr ''GetVDI'' MockXOClient_GetVDI_type [vdiReq]"

definition MockXOClient_GetVDIs_type :: method_type where
  "MockXOClient_GetVDIs_type = \<lparr>sg_params = [Concrete ''client.VDI''],
     sg_results = [Concrete ''[]client.VDI'', Interface ''error'']\<rparr>"

definition MockXOClient_GetVDIs where
  "MockXOClient_GetVDIs G m vdiReq = mock_call G m ''GetVDIs'' [vdiReq]
     [Concrete ''[]client.VDI'', Interface ''error'']"

definition MockXOClientMockRecorder_GetVDIs where
  "MockXOClientMockRecorder_GetVDIs G mr vdiReq = mock_record G mr ''GetVDIs'' MockXOClient_GetVDIs_type [vdiReq]"

definition MockXOClient_GetVIF_type :: method_type where
  "MockXOClient_GetVIF_type = \<lparr>sg_params = [Concrete ''*client.VIF''],
     sg_results = [Concrete ''*client.VIF'', Interface ''error'']\<rparr>"

definition MockXOClient_GetVIF where
  "MockXOClient_GetVIF G m vifReq = mock_call G m ''GetVIF'' [vifReq]
     [Concrete ''*client.VIF'', Interface ''error'']"

definition MockXOClientMockRecorder_GetVIF where
  "MockXOClientMockRecorder_GetVIF G mr vifReq = mock_record G mr ''GetVIF'' MockXOClient_GetVIF_type [vifReq]"

definition MockXOClient_GetVIFs_type :: method_type where
  "MockXOClient_GetVIFs_type = \<lparr>sg_params = [Concrete ''*client.Vm''],
     sg_results = [Concrete ''[]client.VIF'', Interface ''error'']\<rparr>"

definition MockXOClient_GetVIFs where
  "MockXOClient_GetVIFs G m vm' = mock_call G m ''GetVIFs'' [vm']
     [Concrete ''[]client.VIF'', Interface ''error'']"

definition MockXOClientMockRecorder_GetVIFs where
  "MockXOClientMockRecorder_GetVIFs G mr vm' = mock_record G mr ''GetVIFs'' MockXOClient_GetVIFs_type [vm']"

definition MockXOClient_GetVm_type :: method_type where
  "MockXOClient_GetVm_type = \<lparr>sg_params = [Concrete ''client.Vm''],
     sg_results = [Concrete ''*client.Vm'', Interface ''error'']\<rparr>"

definition MockXOClient_GetVm where
  "MockXOClient_GetVm G m vmReq = mock_call G m ''GetVm'' [vmReq]
     [Concrete ''*client.Vm'', Interface ''error'']"

definition MockXOClientMockRecorder_GetVm where
  "MockXOClientMockRecorder_GetVm G mr vmReq = mock_record G mr ''GetVm'' MockXOClient_GetVm_type [vmReq]"

definition MockXOClient_GetVms_type :: method_type where
  "MockXOClient_GetVms_type = \<lparr>sg_params = [Concrete ''client.Vm''],
     sg_results = [Concrete ''[]client.Vm'', Interface ''error'']\<rparr>"

definition MockXOClient_GetVms where
  "MockXOClient_GetVms G m vm' = mock_call G m ''GetVms'' [vm']
     [Concrete ''[]client.Vm'', Interface ''error'']"

definition MockXOClientMockRecorder_GetVms where
  "MockXOClientMockRecorder_GetVms G mr vm' = mock_record G mr ''GetVms'' MockXOClient_GetVms_type [vm']"

definition MockXOClient_HaltVm_type :: method_type where
  "MockXOClient_HaltVm_type = \<lparr>sg_params = [Concrete ''string''],
     sg_results = [Interface ''error'']\<rparr>"

definition MockXOClient_HaltVm where
  "MockXOClient_HaltVm G m id' = mock_call G m ''HaltVm'' [id']
     [Interface ''error'']"

definition MockXOClientMockRecorder_HaltVm where
  "MockXOClientMockRecorder_HaltVm G mr id' = mock_record G mr ''HaltVm'' MockXOClient_HaltVm_type [id']"

definition MockXOClient_InsertCd_type :: method_type where
  "MockXOClient_InsertCd_type = \<lparr>sg_params = [Concrete ''string'', Concrete ''string''],
     sg_results = [Interface ''error'']\<rparr>"

definition MockXOClient_InsertCd where
  "MockXOClient_InsertCd G m vmId cdId = mock_call G m ''InsertCd'' [vmId, cdId]
     [Interface ''error'']"

definition MockXOClientMockRecorder_InsertCd where
  "MockXOClientMockRecorder_InsertCd G mr vmId cdId = mock_record G mr ''InsertCd'' MockXOClient_InsertCd_type [vmId, cdId]"

definition MockXOClient_PauseVm_type :: method_type where
  "MockXOClient_PauseVm_type = \<lparr>sg_params = [Concrete ''string''],
     sg_results = [Interface ''error'']\<rparr>"

definition MockXOClient_PauseVm where
  "MockXOClient_PauseVm G m id' = mock_call G m ''PauseVm'' [id']
     [Interface ''error'']"

definition MockXOClientMockRecorder_PauseVm where
  "MockXOClientMockRecorder_PauseVm G mr id' = mock_record G mr ''PauseVm'' MockXOClient_PauseVm_type [id']"

definition MockXOClient_RemoveResourceSetLimit_type :: method_type where
  "MockXOClient_RemoveResourceSetLimit_type = \<lparr>sg_params = [Concrete ''client.ResourceSet'', Concrete ''string''],
     sg_results = [Interface ''error'']\<rparr>"

definition MockXOClient_RemoveResourceSetLimit where
  "MockXOClient_RemoveResourceSetLimit G m rsReq limit' = mock_call G m ''RemoveResourceSetLimit'' [rsReq, limit']
     [Interface ''error'']"

definition MockXOClientMockRecorder_RemoveResourceSetLimit where
  "MockXOClientMockRecorder_RemoveResourceSetLimit G mr rsReq limit' = mock_record G mr ''RemoveResourceSetLimit'' MockXOClient_RemoveResourceSetLimit_type [rsReq, limit']"

definition MockXOClient_RemoveResourceSetObject_type :: method_type where
  "MockXOClient_RemoveResourceSetObject_type = \<lparr>sg_params = [Concrete ''client.ResourceSet'', Concrete ''string''],
     sg_results = [Interface ''error'']\<rparr>"

definition MockXOClient_RemoveResourceSetObject where
  "MockXOClient_RemoveResourceSetObject G m rsReq object' = mock_call G m ''RemoveResourceSetObject'' [rsReq, object']
     [Interface ''error'']"

definition MockXOClientMockRecorder_RemoveResourceSetObject where
  "MockXOClientMockRecorder_RemoveResourceSetObject G mr rsReq object' = mock_record G mr ''RemoveResourceSetObject'' MockXOClient_RemoveResourceSetObject_type [rsReq, object']"

definition MockXOClient_RemoveResourceSetSubject_type :: method_type where
  "MockXOClient_RemoveResourceSetSubject_type = \<lparr>sg_params = [Concrete ''client.ResourceSet'', Concrete ''string''],
     sg_results = [Interface ''error'']\<rparr>"

definition MockXOClient_RemoveResourceSetSubject where
  "MockXOClient_RemoveResourceSetSubject G m rsReq subject' = mock_call G m ''RemoveResourceSetSubject'' [rsReq, subject']
     [Interface ''error'']"

definition MockXOClientMockRecorder_RemoveResourceSetSubject where
  "MockXOClientMockRecorder_RemoveResourceSetSubject G mr rsReq subject' = mock_record G mr ''RemoveResourceSetSubject'' MockXOClient_RemoveResourceSetSubject_type [rsReq, subject']"

definition MockXOClient_RemoveTag_type :: method_type where
  "MockXOClient_RemoveTag_type = \<lparr>sg_params = [Concrete ''string'', Concrete ''string''],
     sg_results = [Interface ''error'']\<rparr>"

definition MockXOClient_RemoveTag where
  "MockXOClient_RemoveTag G m id' tag' = mock_call G m ''RemoveTag'' [id', tag']
     [Interface ''error'']"

definition MockXOClientMockRecorder_RemoveTag where
  "MockXOClientMockRecorder_RemoveTag G mr id' tag' = mock_record G mr ''RemoveTag'' MockXOClient_RemoveTag_type [id', tag']"

definition MockXOClient_ResizeVDI_type :: method_type where
  "MockXOClient_ResizeVDI_type = \<lparr>sg_params = [Concrete ''client.Disk''],
     sg_results = [Interface ''error'']\<rparr>"

definition MockXOClient_ResizeVDI where
  "MockXOClient_ResizeVDI G m d' = mock_call G m ''ResizeVDI'' [d']
     [Interface ''error'']"

definition MockXOClientMockRecorder_ResizeVDI where
  "MockXOClientMockRecorder_ResizeVDI G mr d' = mock_record G mr ''ResizeVDI'' MockXOClient_ResizeVDI_type [d']"

definition MockXOClient_StartVm_type :: method_type where
  "MockXOClient_StartVm_type = \<lparr>sg_params = [Concrete ''string''],
     sg_results = [Interface ''error'']\<rparr>"

definition MockXOClient_StartVm where
  "MockXOClient_StartVm G m id' = mock_call G m ''StartVm'' [id']
     [Interface ''error'']"

definition MockXOClientMockRecorder_StartVm where
  "MockXOClientMockRecorder_StartVm G mr id' = mock_record G mr ''StartVm'' MockXOClient_StartVm_type [id']"

definition MockXOClient_SuspendVm_type :: method_type where
  "MockXOClient_SuspendVm_type = \<lparr>sg_params = [Concrete ''string''],
     sg_results = [Interface ''error'']\<rparr>"

definition MockXOClient_SuspendVm where
  "MockXOClient_SuspendVm G m id' = mock_call G m ''SuspendVm'' [id']
     [Interface ''error'']"

definition MockXOClientMockRecorder_SuspendVm where
  "MockXOClientMockRecorder_SuspendVm G mr id' = mock_record G mr ''SuspendVm'' MockXOClient_SuspendVm_type [id']"

definition MockXOClient_UpdateNetwork_type :: method_type where
  "MockXOClient_UpdateNetwork_type = \<lparr>sg_params = [Concrete ''client.UpdateNetworkRequest''],
     sg_results = [Concrete ''*client.Network'', Interface ''error'']\<rparr>"

definition MockXOClient_UpdateNetwork where
  "MockXOClient_UpdateNetwork G m netReq = mock_call G m ''UpdateNetwork'' [netReq]
     [Concrete ''*client.Network'', Interface ''error'']"

definition MockXOClientMockRecorder_UpdateNetwork where
  "MockXOClientMockRecorder_UpdateNetwork G mr netReq = mock_record G mr ''UpdateNetwork'' MockXOClient_UpdateNetwork_type [netReq]"

definition MockXOClient_UpdateVDI_type :: method_type where
  "MockXOClient_UpdateVDI_type = \<lparr>sg_params = [Concrete ''client.Disk''],
     sg_results = [Interface ''error'']\<rparr>"

definition MockXOClient_UpdateVDI where
  "MockXOClient_UpdateVDI G m d' = mock_call G m ''UpdateVDI'' [d']
     [Interface ''error'']"

definition MockXOClientMockRecorder_UpdateVDI where
  "MockXOClientMockRecorder_UpdateVDI G mr d' = mock_record G mr ''UpdateVDI'' MockXOClient_UpdateVDI_type [d']"

definition MockXOClient_UpdateVm_type :: method_type where
  "MockXOClient_UpdateVm_type = \<lparr>sg_params = [Concrete ''client.Vm''],
     sg_results = [Concrete ''*client.Vm'', Interface ''error'']\<rparr>"

definition MockXOClient_UpdateVm where
  "MockXOClient_UpdateVm G m vmReq = mock_call G m ''UpdateVm'' [vmReq]
     [Concrete ''*client.Vm'', Interface ''error'']"

definition MockXOClientMockRecorder_UpdateVm where
  "MockXOClientMockRecorder_UpdateVm G mr vmReq = mock_record G mr ''UpdateVm'' MockXOClient_UpdateVm_type [vmReq]"

end
