(* ===== verification/Test_Doubles_Properties.thy ===== *)
theory Test_Doubles_Properties
  imports Test_Doubles
begin

text \<open>
  What a test tells a double to return is what the method returns, for every method of the four
  doubles. A double in the table is a method with its type, its name and its recorder.
\<close>

section \<open>The table\<close>

definition MockVBD_methods :: "('c, 'v, 's) double list" where
  "MockVBD_methods =
    [\<lparr>db_name = ''Connect'', db_type = MockVBD_Connect_type, db_method = (\<lambda>G m args. MockVBD_Connect G m (args ! 0) (args ! 1)),
       db_expect = MockVBD_EXPECT,
       db_recorder = (\<lambda>G mr args. MockVBDMockRecorder_Connect G mr (args ! 0) (args ! 1))\<rparr>,
     \<lparr>db_name = ''Create'', db_type = MockVBD_Create_type, db_method = (\<lambda>G m args. MockVBD_Create G m (args ! 0) (args ! 1)),
       db_expect = MockVBD_EXPECT,
       db_recorder = (\<lambda>G mr args. MockVBDMockRecorder_Create G mr (args ! 0) (args ! 1))\<rparr>,
     \<lparr>db_name = ''Delete'', db_type = MockVBD_Delete_type, db_method = (\<lambda>G m args. MockVBD_Delete G m (args ! 0) (args ! 1)),
       db_expect = MockVBD_EXPECT,
       db_recorder = (\<lambda>G mr args. MockVBDMockRecorder_Delete G mr (args ! 0) (args ! 1))\<rparr>,
     \<lparr>db_name = ''Disconnect'', db_type = MockVBD_Disconnect_type, db_method = (\<lambda>G m args. MockVBD_Disconnect G m (args ! 0) (args ! 1)),
       db_expect = MockVBD_EXPECT,
       db_recorder = (\<lambda>G mr args. MockVBDMockRecorder_Disconnect G mr (args ! 0) (args ! 1))\<rparr>,
     \<lparr>db_name = ''Get'', db_type = MockVBD_Get_type, db_method = (\<lambda>G m args. MockVBD_Get G m (args ! 0) (args ! 1)),
       db_expect = MockVBD_EXPECT,
       db_recorder = (\<lambda>G mr args. MockVBDMockRecorder_Get G mr (args ! 0) (args ! 1))\<rparr>,
     \<lparr>db_name = ''GetAll'', db_type = MockVBD_GetAll_type, db_method = (\<lambda>G m args. MockVBD_GetAll G m (args ! 0) (args ! 1) (args ! 2)),
       db_expect = MockVBD_EXPECT,
       db_recorder = (\<lambda>G mr args. MockVBDMockRecorder_GetAll G mr (args ! 0) (args ! 1) (args ! 2))\<rparr>,
     \<lparr>db_name = ''GetTasks'', db_type = MockVBD_GetTasks_type, db_method = (\<lambda>G m args. MockVBD_GetTasks G m (args ! 0) (args ! 1) (args ! 2) (args ! 3)),
       db_expect = MockVBD_EXPECT,
       db_recorder = (\<lambda>G mr args. MockVBDMockRecorder_GetTasks G mr (args ! 0) (args ! 1) (args ! 2) (args ! 3))\<rparr>]"

lemmas MockVBD_defs = MockVBD_Connect_def MockVBDMockRecorder_Connect_def MockVBD_Connect_type_def MockVBD_Create_def MockVBDMockRecorder_Create_def MockVBD_Create_type_def
  MockVBD_Delete_def MockVBDMockRecorder_Delete_def MockVBD_Delete_type_def MockVBD_Disconnect_def MockVBDMockRecorder_Disconnect_def MockVBD_Disconnect_type_def
  MockVBD_Get_def MockVBDMockRecorder_Get_def MockVBD_Get_type_def MockVBD_GetAll_def MockVBDMockRecorder_GetAll_def MockVBD_GetAll_type_def
  MockVBD_GetTasks_def MockVBDMockRecorder_GetTasks_def MockVBD_GetTasks_type_def

lemma MockVBD_agree: "list_all agrees MockVBD_methods"
  by (simp add: MockVBD_methods_def agrees_def args_listed MockVBD_EXPECT_def MockVBD_defs)

definition MockTask_methods :: "('c, 'v, 's) double list" where
  "MockTask_methods =
    [\<lparr>db_name = ''Abort'', db_type = MockTask_Abort_type, db_method = (\<lambda>G m args. MockTask_Abort G m (args ! 0) (args ! 1)),
       db_expect = MockTask_EXPECT,
       db_recorder = (\<lambda>G mr args. MockTaskMockRecorder_Abort G mr (args ! 0) (args ! 1))\<rparr>,
     \<lparr>db_name = ''Get'', db_type = MockTask_Get_type, db_method = (\<lambda>G m args. MockTask_Get G m (args ! 0) (args ! 1)),
       db_expect = MockTask_EXPECT,
       db_recorder = (\<lambda>G mr args. MockTaskMockRecorder_Get G mr (args ! 0) (args ! 1))\<rparr>,
     \<lparr>db_name = ''GetAll'', db_type = MockTask_GetAll_type, db_method = (\<lambda>G m args. MockTask_GetAll G m (args ! 0) (args ! 1) (args ! 2)),
       db_expect = MockTask_EXPECT,
       db_recorder = (\<lambda>G mr args. MockTaskMockRecorder_GetAll G mr (args ! 0) (args ! 1) (args ! 2))\<rparr>,
     \<lparr>db_name = ''HandleTaskResponse'', db_type = MockTask_HandleTaskResponse_type, db_method = (\<lambda>G m args. MockTask_HandleTaskResponse G m (args ! 0) (args ! 1) (args ! 2)),
       db_expect = MockTask_EXPECT,
       db_recorder = (\<lambda>G mr args. MockTaskMockRecorder_HandleTaskResponse G mr (args ! 0) (args ! 1) (args ! 2))\<rparr>,
     \<lparr>db_name = ''Wait'', db_type = MockTask_Wait_type, db_method = (\<lambda>G m args. MockTask_Wait G m (args ! 0) (args ! 1)),
       db_expect = MockTask_EXPECT,
       db_recorder = (\<lambda>G mr args. MockTaskMockRecorder_Wait G mr (args ! 0) (args ! 1))\<rparr>]"

lemmas MockTask_defs = MockTask_Abort_def MockTaskMockRecorder_Abort_def MockTask_Abort_type_def MockTask_Get_def MockTaskMockRecorder_Get_def MockTask_Get_type_def
  MockTask_GetAll_def MockTaskMockRecorder_GetAll_def MockTask_GetAll_type_def MockTask_HandleTaskResponse_def MockTaskMockRecorder_HandleTaskResponse_def MockTask_HandleTaskResponse_type_def
  MockTask_Wait_def MockTaskMockRecorder_Wait_def MockTask_Wait_type_def

lemma MockTask_agree: "list_all agrees MockTask_methods"
  by (simp add: MockTask_methods_def agrees_def args_listed MockTask_EXPECT_def MockTask_defs)

definition MockTaskAction_methods :: "('c, 'v, 's) double list" where
  "MockTaskAction_methods =
    [\<lparr>db_name = ''Abort'', db_type = MockTaskAction_Abort_type, db_method = (\<lambda>G m args. MockTaskAction_Abort G m (args ! 0) (args ! 1)),
       db_expect = MockTaskAction_EXPECT,
       db_recorder = (\<lambda>G mr args. MockTaskActionMockRecorder_Abort G mr (args ! 0) (args ! 1))\<rparr>,
     \<lparr>db_name = ''HandleTaskResponse'', db_type = MockTaskAction_HandleTaskResponse_type, db_method = (\<lambda>G m args. MockTaskAction_HandleTaskResponse G m (args ! 0) (args ! 1) (args ! 2)),
       db_expect = MockTaskAction_EXPECT,
       db_recorder = (\<lambda>G mr args. MockTaskActionMockRecorder_HandleTaskResponse G mr (args ! 0) (args ! 1) (args ! 2))\<rparr>,
     \<lparr>db_name = ''Wait'', db_type = MockTaskAction_Wait_type, db_method = (\<lambda>G m args. MockTaskAction_Wait G m (args ! 0) (args ! 1)),
       db_expect = MockTaskAction_EXPECT,
       db_recorder = (\<lambda>G mr args. MockTaskActionMockRecorder_Wait G mr (args ! 0) (args ! 1))\<rparr>]"

lemmas MockTaskAction_defs = MockTaskAction_Abort_def MockTaskActionMockRecorder_Abort_def MockTaskAction_Abort_type_def MockTaskAction_HandleTaskResponse_def MockTaskActionMockRecorder_HandleTaskResponse_def MockTaskAction_HandleTaskResponse_type_def
  MockTaskAction_Wait_def MockTaskActionMockRecorder_Wait_def MockTaskAction_Wait_type_def

lemma MockTaskAction_agree: "list_all agrees MockTaskAction_methods"
  by (simp add: MockTaskAction_methods_def agrees_def args_listed MockTaskAction_EXPECT_def MockTaskAction_defs)

definition MockXOClient_methods :: "('c, 'v, 's) double list" where
  "MockXOClient_methods =
    [\<lparr>db_name = ''AddResourceSetLimit'', db_type = MockXOClient_AddResourceSetLimit_type, db_method = (\<lambda>G m args. MockXOClient_AddResourceSetLimit G m (args ! 0) (args ! 1) (args ! 2)),
       db_expect = MockXOClient_EXPECT,
       db_recorder = (\<lambda>G mr args. MockXOClientMockRecorder_AddResourceSetLimit G mr (args ! 0) (args ! 1) (args ! 2))\<rparr>,
     \<lparr>db_name = ''AddResourceSetObject'', db_type = MockXOClient_AddResourceSetObject_type, db_method = (\<lambda>G m args. MockXOClient_AddResourceSetObject G m (args ! 0) (args ! 1)),
       db_expect = MockXOClient_EXPECT,
       db_recorder = (\<lambda>G mr args. MockXOClientMockRecorder_AddResourceSetObject G mr (args ! 0) (args ! 1))\<rparr>,
     \<lparr>db_name = ''AddResourceSetSubject'', db_type = MockXOClient_AddResourceSetSubject_type, db_method = (\<lambda>G m args. MockXOClient_AddResourceSetSubject G m (args ! 0) (args ! 1)),
       db_expect = MockXOClient_EXPECT,
       db_recorder = (\<lambda>G mr args. MockXOClientMockRecorder_AddResourceSetSubject G mr (args ! 0) (args ! 1))\<rparr>,
     \<lparr>db_name = ''AddTag'', db_type = MockXOClient_AddTag_type, db_method = (\<lambda>G m args. MockXOClient_AddTag G m (args ! 0) (args ! 1)),
       db_expect = MockXOClient_EXPECT,
       db_recorder = (\<lambda>G mr args. MockXOClientMockRecorder_AddTag G mr (args ! 0) (args ! 1))\<rparr>,
     \<lparr>db_name = ''ConnectDisk'', db_type = MockXOClient_ConnectDisk_type, db_method = (\<lambda>G m args. MockXOClient_ConnectDisk G m (args ! 0)),
       db_expect = MockXOClient_EXPECT,
       db_recorder = (\<lambda>G mr args. MockXOClientMockRecorder_ConnectDisk G mr (args ! 0))\<rparr>,
     \<lparr>db_name = ''ConnectVIF'', db_type = MockXOClient_ConnectVIF_type, db_method = (\<lambda>G m args. MockXOClient_ConnectVIF G m (args ! 0)),
       db_expect = MockXOClient_EXPECT,
       db_recorder = (\<lambda>G mr args. MockXOClientMockRecorder_ConnectVIF G mr (args ! 0))\<rparr>,
     \<lparr>db_name = ''CreateAcl'', db_type = MockXOClient_CreateAcl_type, db_method = (\<lambda>G m args. MockXOClient_CreateAcl G m (args ! 0)),
       db_expect = MockXOClient_EXPECT,
       db_recorder = (\<lambda>G mr args. MockXOClientMockRecorder_CreateAcl G mr (args ! 0))\<rparr>,
     \<lparr>db_name = ''CreateBondedNetwork'', db_type = MockXOClient_CreateBondedNetwork_type, db_method = (\<lambda>G m args. MockXOClient_CreateBondedNetwork G m (args ! 0)),
       db_expect = MockXOClient_EXPECT,
       db_recorder = (\<lambda>G mr args. MockXOClientMockRecorder_CreateBondedNetwork G mr (args ! 0))\<rparr>,
     \<lparr>db_name = ''CreateCloudConfig'', db_type = MockXOClient_CreateCloudConfig_type, db_method = (\<lambda>G m args. MockXOClient_CreateCloudConfig G m (args ! 0) (args ! 1)),
       db_expect = MockXOClient_EXPECT,
       db_recorder = (\<lambda>G mr args. MockXOClientMockRecorder_CreateCloudConfig G mr (args ! 0) (args ! 1))\<rparr>,
     \<lparr>db_name = ''CreateDisk'', db_type = MockXOClient_CreateDisk_type, db_method = (\<lambda>G m args. MockXOClient_CreateDisk G m (args ! 0) (args ! 1)),
       db_expect = MockXOClient_EXPECT,
       db_recorder = (\<lambda>G mr args. MockXOClientMockRecorder_CreateDisk G mr (args ! 0) (args ! 1))\<rparr>,
     \<lparr>db_name = ''CreateNetwork'', db_type = MockXOClient_CreateNetwork_type, db_method = (\<lambda>G m args. MockXOClient_CreateNetwork G m (args ! 0)),
       db_expect = MockXOClient_EXPECT,
       db_recorder = (\<lambda>G mr args. MockXOClientMockRecorder_CreateNetwork G mr (args ! 0))\<rparr>,
     \<lparr>db_name = ''CreateResourceSet'', db_type = MockXOClient_CreateResourceSet_type, db_method = (\<lambda>G m args. MockXOClient_CreateResourceSet G m (args ! 0)),
       db_expect = MockXOClient_EXPECT,
       db_recorder = (\<lambda>G mr args. MockXOClientMockRecorder_CreateResourceSet G mr (args ! 0))\<rparr>,
     \<lparr>db_name = ''CreateUser'', db_type = MockXOClient_CreateUser_type, db_method = (\<lambda>G m args. MockXOClient_CreateUser G m (args ! 0)),
       db_expect = MockXOClient_EXPECT,
       db_recorder = (\<lambda>G mr args. MockXOClientMockRecorder_CreateUser G mr (args ! 0))\<rparr>,
     \<lparr>db_name = ''CreateVDI'', db_type = MockXOClient_CreateVDI_type, db_method = (\<lambda>G m args. MockXOClient_CreateVDI G m (args ! 0)),
       db_expect = MockXOClient_EXPECT,
       db_recorder = (\<lambda>G mr args. MockXOClientMockRecorder_CreateVDI G mr (args ! 0))\<rparr>,
     \<lparr>db_name = ''CreateVIF'', db_type = MockXOClient_CreateVIF_type, db_method = (\<lambda>G m args. MockXOClient_CreateVIF G m (args ! 0) (args ! 1)),
       db_expect = MockXOClient_EXPECT,
       db_recorder = (\<lambda>G mr args. MockXOClientMockRecorder_CreateVIF G mr (args ! 0) (args ! 1))\<rparr>,
     \<lparr>db_name = ''CreateVm'', db_type = MockXOClient_CreateVm_type, db_method = (\<lambda>G m args. MockXOClient_CreateVm G m (args ! 0) (args ! 1)),
       db_expect = MockXOClient_EXPECT,
       db_recorder = (\<lambda>G mr args. MockXOClientMockRecorder_CreateVm G mr (args ! 0) (args ! 1))\<rparr>,
     \<lparr>db_name = ''DeleteAcl'', db_type = MockXOClient_DeleteAcl_type, db_method = (\<lambda>G m args. MockXOClient_DeleteAcl G m (args ! 0)),
       db_expect = MockXOClient_EXPECT,
       db_recorder = (\<lambda>G mr args. MockXOClientMockRecorder_DeleteAcl G mr (args ! 0))\<rparr>,
     \<lparr>db_name = ''DeleteCloudConfig'', db_type = MockXOClient_DeleteCloudConfig_type, db_method = (\<lambda>G m args. MockXOClient_DeleteCloudConfig G m (args ! 0)),
       db_expect = MockXOClient_EXPECT,
       db_recorder = (\<lambda>G mr args. MockXOClientMockRecorder_DeleteCloudConfig G mr (args ! 0))\<rparr>,
     \<lparr>db_name = ''DeleteDisk'', db_type = MockXOClient_DeleteDisk_type, db_method = (\<lambda>G m args. MockXOClient_DeleteDisk G m (args ! 0) (args ! 1)),
       db_expect = MockXOClient_EXPECT,
       db_recorder = (\<lambda>G mr args. MockXOClientMockRecorder_DeleteDisk G mr (args ! 0) (args ! 1))\<rparr>,
     \<lparr>db_name = ''DeleteNetwork'', db_type = MockXOClient_DeleteNetwork_type, db_method = (\<lambda>G m args. MockXOClient_DeleteNetwork G m (args ! 0)),
       db_expect = MockXOClient_EXPECT,
       db_recorder = (\<lambda>G mr args. MockXOClientMockRecorder_DeleteNetwork G mr (args ! 0))\<rparr>,
     \<lparr>db_name = ''DeleteResourceSet'', db_type = MockXOClient_DeleteResourceSet_type, db_method = (\<lambda>G m args. MockXOClient_DeleteResourceSet G m (args ! 0)),
       db_expect = MockXOClient_EXPECT,
       db_recorder = (\<lambda>G mr args. MockXOClientMockRecorder_DeleteResourceSet G mr (args ! 0))\<rparr>,
     \<lparr>db_name = ''DeleteUser'', db_type = MockXOClient_DeleteUser_type, db_method = (\<lambda>G m args. MockXOClient_DeleteUser G m (args ! 0)),
       db_expect = MockXOClient_EXPECT,
       db_recorder = (\<lambda>G mr args. MockXOClientMockRecorder_DeleteUser G mr (args ! 0))\<rparr>,
     \<lparr>db_name = ''DeleteVDI'', db_type = MockXOClient_DeleteVDI_type, db_method = (\<lambda>G m args. MockXOClient_DeleteVDI G m (args ! 0)),
       db_expect = MockXOClient_EXPECT,
       db_recorder = (\<lambda>G mr args. MockXOClientMockRecorder_DeleteVDI G mr (args ! 0))\<rparr>,
     \<lparr>db_name = ''DeleteVIF'', db_type = MockXOClient_DeleteVIF_type, db_method = (\<lambda>G m args. MockXOClient_DeleteVIF G m (args ! 0)),
       db_expect = MockXOClient_EXPECT,
       db_recorder = (\<lambda>G mr args. MockXOClientMockRecorder_DeleteVIF G mr (args ! 0))\<rparr>,
     \<lparr>db_name = ''DeleteVm'', db_type = MockXOClient_DeleteVm_type, db_method = (\<lambda>G m args. MockXOClient_DeleteVm G m (args ! 0)),
       db_expect = MockXOClient_EXPECT,
       db_recorder = (\<lambda>G mr args. MockXOClientMockRecorder_DeleteVm G mr (args ! 0))\<rparr>,
     \<lparr>db_name = ''DisconnectDisk'', db_type = MockXOClient_DisconnectDisk_type, db_method = (\<lambda>G m args. MockXOClient_DisconnectDisk G m (args ! 0)),
       db_expect = MockXOClient_EXPECT,
       db_recorder = (\<lambda>G mr args. MockXOClientMockRecorder_DisconnectDisk G mr (args ! 0))\<rparr>,
     \<lparr>db_name = ''DisconnectVIF'', db_type = MockXOClient_DisconnectVIF_type, db_method = (\<lambda>G m args. MockXOClient_DisconnectVIF G m (args ! 0)),
       db_expect = MockXOClient_EXPECT,
       db_recorder = (\<lambda>G mr args. MockXOClientMockRecorder_DisconnectVIF G mr (args ! 0))\<rparr>,
     \<lparr>db_name = ''EjectCd'', db_type = MockXOClient_EjectCd_type, db_method = (\<lambda>G m args. MockXOClient_EjectCd G m (args ! 0)),
       db_expect = MockXOClient_EXPECT,
       db_recorder = (\<lambda>G mr args. MockXOClientMockRecorder_EjectCd G mr (args ! 0))\<rparr>,
     \<lparr>db_name = ''GetAcl'', db_type = MockXOClient_GetAcl_type, db_method = (\<lambda>G m args. MockXOClient_GetAcl G m (args ! 0)),
       db_expect = MockXOClient_EXPECT,
       db_recorder = (\<lambda>G mr args. MockXOClientMockRecorder_GetAcl G mr (args ! 0))\<rparr>,
     \<lparr>db_name = ''GetAllCloudConfigs'', db_type = MockXOClient_GetAllCloudConfigs_type, db_method = (\<lambda>G m args. MockXOClient_GetAllCloudConfigs G m),
       db_expect = MockXOClient_EXPECT,
       db_recorder = (\<lambda>G mr args. MockXOClientMockRecorder_GetAllCloudConfigs G mr)\<rparr>,
     \<lparr>db_name = ''GetAllObjectsOfType'', db_type = MockXOClient_GetAllObjectsOfType_type, db_method = (\<lambda>G m args. MockXOClient_GetAllObjectsOfType G m (args ! 0) (args ! 1)),
       db_expect = MockXOClient_EXPECT,
       db_recorder = (\<lambda>G mr args. MockXOClientMockRecorder_GetAllObjectsOfType G mr (args ! 0) (args ! 1))\<rparr>,
     \<lparr>db_name = ''GetAllUsers'', db_type = MockXOClient_GetAllUsers_type, db_method = (\<lambda>G m args. MockXOClient_GetAllUsers G m),
       db_expect = MockXOClient_EXPECT,
       db_recorder = (\<lambda>G mr args. MockXOClientMockRecorder_GetAllUsers G mr)\<rparr>,
     \<lparr>db_name = ''GetAllVDIs'', db_type = MockXOClient_GetAllVDIs_type, db_method = (\<lambda>G m args. MockXOClient_GetAllVDIs G m),
       db_expect = MockXOClient_EXPECT,
       db_recorder = (\<lambda>G mr args. MockXOClientMockRecorder_GetAllVDIs G mr)\<rparr>,
     \<lparr>db_name = ''GetBond'', db_type = MockXOClient_GetBond_type, db_method = (\<lambda>G m args. MockXOClient_GetBond G m (args ! 0)),
       db_expect = MockXOClient_EXPECT,
       db_recorder = (\<lambda>G mr args. MockXOClientMockRecorder_GetBond G mr (args ! 0))\<rparr>,
     \<lparr>db_name = ''GetBonds'', db_type = MockXOClient_GetBonds_type, db_method = (\<lambda>G m args. MockXOClient_GetBonds G m (args ! 0)),
       db_expect = MockXOClient_EXPECT,
       db_recorder = (\<lambda>G mr args. MockXOClientMockRecorder_GetBonds G mr (args ! 0))\<rparr>,
     \<lparr>db_name = ''GetCdroms'', db_type = MockXOClient_GetCdroms_type, db_method = (\<lambda>G m args. MockXOClient_GetCdroms G m (args ! 0)),
       db_expect = MockXOClient_EXPECT,
       db_recorder = (\<lambda>G mr args. MockXOClientMockRecorder_GetCdroms G mr (args ! 0))\<rparr>,
     \<lparr>db_name = ''GetCloudConfig'', db_type = MockXOClient_GetCloudConfig_type, db_method = (\<lambda>G m args. MockXOClient_GetCloudConfig G m (args ! 0)),
       db_expect = MockXOClient_EXPECT,
       db_recorder = (\<lambda>G mr args. MockXOClientMockRecorder_GetCloudConfig G mr (args ! 0))\<rparr>,
     \<lparr>db_name = ''GetCloudConfigByName'', db_type = MockXOClient_GetCloudConfigByName_type, db_method = (\<lambda>G m args. MockXOClient_GetCloudConfigByName G m (args ! 0)),
       db_expect = MockXOClient_EXPECT,
       db_recorder = (\<lambda>G mr args. MockXOClientMockRecorder_GetCloudConfigByName G mr (args ! 0))\<rparr>,
     \<lparr>db_name = ''GetCurrentUser'', db_type = MockXOClient_GetCurrentUser_type, db_method = (\<lambda>G m args. MockXOClient_GetCurrentUser G m),
       db_expect = MockXOClient_EXPECT,
       db_recorder = (\<lambda>G mr args. MockXOClientMockRecorder_GetCurrentUser G mr)\<rparr>,
     \<lparr>db_name = ''GetDisks'', db_type = MockXOClient_GetDisks_type, db_method = (\<lambda>G m args. MockXOClient_GetDisks G m (args ! 0)),
       db_expect = MockXOClient_EXPECT,
       db_recorder = (\<lambda>G mr args. MockXOClientMockRecorder_GetDisks G mr (args ! 0))\<rparr>,
     \<lparr>db_name = ''GetHostById'', db_type = MockXOClient_GetHostById_type, db_method = (\<lambda>G m args. MockXOClient_GetHostById G m (args ! 0)),
       db_expect = MockXOClient_EXPECT,
       db_recorder = (\<lambda>G mr args. MockXOClientMockRecorder_GetHostById G mr (args ! 0))\<rparr>,
     \<lparr>db_name = ''GetHostByName'', db_type = MockXOClient_GetHostByName_type, db_method = (\<lambda>G m args. MockXOClient_GetHostByName G m (args ! 0)),
       db_expect = MockXOClient_EXPECT,
       db_recorder = (\<lambda>G mr args. MockXOClientMockRecorder_GetHostByName G mr (args ! 0))\<rparr>,
     \<lparr>db_name = ''GetNetwork'', db_type = MockXOClient_GetNetwork_type, db_method = (\<lambda>G m args. MockXOClient_GetNetwork G m (args ! 0)),
       db_expect = MockXOClient_EXPECT,
       db_recorder = (\<lambda>G mr args. MockXOClientMockRecorder_GetNetwork G mr (args ! 0))\<rparr>,
     \<lparr>db_name = ''GetNetworks'', db_type = MockXOClient_GetNetworks_type, db_method = (\<lambda>G m args. MockXOClient_GetNetworks G m),
       db_expect = MockXOClient_EXPECT,
       db_recorder = (\<lambda>G mr args. MockXOClientMockRecorder_GetNetworks G mr)\<rparr>,
     \<lparr>db_name = ''GetObjectsWithTags'', db_type = MockXOClient_GetObjectsWithTags_type, db_method = (\<lambda>G m args. MockXOClient_GetObjectsWithTags G m (args ! 0)),
       db_expect = MockXOClient_EXPECT,
       db_recorder = (\<lambda>G mr args. MockXOClientMockRecorder_GetObjectsWithTags G mr (args ! 0))\<rparr>,
     \<lparr>db_name = ''GetPIF'', db_type = MockXOClient_GetPIF_type, db_method = (\<lambda>G m args. MockXOClient_GetPIF G m (args ! 0)),
       db_expect = MockXOClient_EXPECT,
       db_recorder = (\<lambda>G mr args. MockXOClientMockRecorder_GetPIF G mr (args ! 0))\<rparr>,
     \<lparr>db_name = ''GetPIFByDevice'', db_type = MockXOClient_GetPIFByDevice_type, db_method = (\<lambda>G m args. MockXOClient_GetPIFByDevice G m (args ! 0) (args ! 1)),
       db_expect = MockXOClient_EXPECT,
       db_recorder = (\<lambda>G mr args. MockXOClientMockRecorder_GetPIFByDevice G mr (args ! 0) (args ! 1))\<rparr>,
     \<lparr>db_name = ''GetPoolByName'', db_type = MockXOClient_GetPoolByName_type, db_method = (\<lambda>G m args. MockXOClient_GetPoolByName G m (args ! 0)),
       db_expect = MockXOClient_EXPECT,
       db_recorder = (\<lambda>G mr args. MockXOClientMockRecorder_GetPoolByName G mr (args ! 0))\<rparr>,
     \<lparr>db_name = ''GetPools'', db_type = MockXOClient_GetPools_type, db_method = (\<lambda>G m args. MockXOClient_GetPools G m (args ! 0)),
       db_expect = MockXOClient_EXPECT,
       db_recorder = (\<lambda>G mr args. MockXOClientMockRecorder_GetPools G mr (args ! 0))\<rparr>,
     \<lparr>db_name = ''GetResourceSet'', db_type = MockXOClient_GetResourceSet_type, db_method = (\<lambda>G m args. MockXOClient_GetResourceSet G m (args ! 0)),
       db_expect = MockXOClient_EXPECT,
       db_recorder = (\<lambda>G mr args. MockXOClientMockRecorder_GetResourceSet G mr (args ! 0))\<rparr>,
     \<lparr>db_name = ''GetResourceSetById'', db_type = MockXOClient_GetResourceSetById_type, db_method = (\<lambda>G m args. MockXOClient_GetResourceSetById G m (args ! 0)),
       db_expect = MockXOClient_EXPECT,
       db_recorder = (\<lambda>G mr args. MockXOClientMockRecorder_GetResourceSetById G mr (args ! 0))\<rparr>,
     \<lparr>db_name = ''GetResourceSets'', db_type = MockXOClient_GetResourceSets_type, db_method = (\<lambda>G m args. MockXOClient_GetResourceSets G m),
       db_expect = MockXOClient_EXPECT,
       db_recorder = (\<lambda>G mr args. MockXOClientMockRecorder_GetResourceSets G mr)\<rparr>,
     \<lparr>db_name = ''GetSortedHosts'', db_type = MockXOClient_GetSortedHosts_type, db_method = (\<lambda>G m args. MockXOClient_GetSortedHosts G m (args ! 0) (args ! 1) (args ! 2)),
       db_expect = MockXOClient_EXPECT,
       db_recorder = (\<lambda>G mr args. MockXOClientMockRecorder_GetSortedHosts G mr (args ! 0) (args ! 1) (args ! 2))\<rparr>,
     \<lparr>db_name = ''GetStorageRepository'', db_type = MockXOClient_GetStorageRepository_type, db_method = (\<lambda>G m args. MockXOClient_GetStorageRepository G m (args ! 0)),
       db_expect = MockXOClient_EXPECT,
       db_recorder = (\<lambda>G mr args. MockXOClientMockRecorder_GetStorageRepository G mr (args ! 0))\<rparr>,
     \<lparr>db_name = ''GetStorageRepositoryById'', db_type = MockXOClient_GetStorageRepositoryById_type, db_method = (\<lambda>G m args. MockXOClient_GetStorageRepositoryById G m (args ! 0)),
       db_expect = MockXOClient_EXPECT,
       db_recorder = (\<lambda>G mr args. MockXOClientMockRecorder_GetStorageRepositoryById G mr (args ! 0))\<rparr>,
     \<lparr>db_name = ''GetTemplate'', db_type = MockXOClient_GetTemplate_type, db_method = (\<lambda>G m args. MockXOClient_GetTemplate G m (args ! 0)),
       db_expect = MockXOClient_EXPECT,
       db_recorder = (\<lambda>G mr args. MockXOClientMockRecorder_GetTemplate G mr (args ! 0))\<rparr>,
     \<lparr>db_name = ''GetUser'', db_type = MockXOClient_GetUser_type, db_method = (\<lambda>G m args. MockXOClient_GetUser G m (args ! 0)),
       db_expect = MockXOClient_EXPECT,
       db_recorder = (\<lambda>G mr args. MockXOClientMockRecorder_GetUser G mr (args ! 0))\<rparr>,
     \<lparr>db_name = ''GetVDI'', db_type = MockXOClient_GetVDI_type, db_method = (\<lambda>G m args. MockXOClient_GetVDI G m (args ! 0)),
       db_expect = MockXOClient_EXPECT,
       db_recorder = (\<lambda>G mr args. MockXOClientMockRecorder_GetVDI G mr (args ! 0))\<rparr>,
     \<lparr>db_name = ''GetVDIs'', db_type = MockXOClient_GetVDIs_type, db_method = (\<lambda>G m args. MockXOClient_GetVDIs G m (args ! 0)),
       db_expect = MockXOClient_EXPECT,
       db_recorder = (\<lambda>G mr args. MockXOClientMockRecorder_GetVDIs G mr (args ! 0))\<rparr>,
     \<lparr>db_name = ''GetVIF'', db_type = MockXOClient_GetVIF_type, db_method = (\<lambda>G m args. MockXOClient_GetVIF G m (args ! 0)),
       db_expect = MockXOClient_EXPECT,
       db_recorder = (\<lambda>G mr args. MockXOClientMockRecorder_GetVIF G mr (args ! 0))\<rparr>,
     \<lparr>db_name = ''GetVIFs'', db_type = MockXOClient_GetVIFs_type, db_method = (\<lambda>G m args. MockXOClient_GetVIFs G m (args ! 0)),
       db_expect = MockXOClient_EXPECT,
       db_recorder = (\<lambda>G mr args. MockXOClientMockRecorder_GetVIFs G mr (args ! 0))\<rparr>,
     \<lparr>db_name = ''GetVm'', db_type = MockXOClient_GetVm_type, db_method = (\<lambda>G m args. MockXOClient_GetVm G m (args ! 0)),
       db_expect = MockXOClient_EXPECT,
       db_recorder = (\<lambda>G mr args. MockXOClientMockRecorder_GetVm G mr (args ! 0))\<rparr>,
     \<lparr>db_name = ''GetVms'', db_type = MockXOClient_GetVms_type, db_method = (\<lambda>G m args. MockXOClient_GetVms G m (args ! 0)),
       db_expect = MockXOClient_EXPECT,
       db_recorder = (\<lambda>G mr args. MockXOClientMockRecorder_GetVms G mr (args ! 0))\<rparr>,
     \<lparr>db_name = ''HaltVm'', db_type = MockXOClient_HaltVm_type, db_method = (\<lambda>G m args. MockXOClient_HaltVm G m (args ! 0)),
       db_expect = MockXOClient_EXPECT,
       db_recorder = (\<lambda>G mr args. MockXOClientMockRecorder_HaltVm G mr (args ! 0))\<rparr>,
     \<lparr>db_name = ''InsertCd'', db_type = MockXOClient_InsertCd_type, db_method = (\<lambda>G m args. MockXOClient_InsertCd G m (args ! 0) (args ! 1)),
       db_expect = MockXOClient_EXPECT,
       db_recorder = (\<lambda>G mr args. MockXOClientMockRecorder_InsertCd G mr (args ! 0) (args ! 1))\<rparr>,
     \<lparr>db_name = ''PauseVm'', db_type = MockXOClient_PauseVm_type, db_method = (\<lambda>G m args. MockXOClient_PauseVm G m (args ! 0)),
       db_expect = MockXOClient_EXPECT,
       db_recorder = (\<lambda>G mr args. MockXOClientMockRecorder_PauseVm G mr (args ! 0))\<rparr>,
     \<lparr>db_name = ''RemoveResourceSetLimit'', db_type = MockXOClient_RemoveResourceSetLimit_type, db_method = (\<lambda>G m args. MockXOClient_RemoveResourceSetLimit G m (args ! 0) (args ! 1)),
       db_expect = MockXOClient_EXPECT,
       db_recorder = (\<lambda>G mr args. MockXOClientMockRecorder_RemoveResourceSetLimit G mr (args ! 0) (args ! 1))\<rparr>,
     \<lparr>db_name = ''RemoveResourceSetObject'', db_type = MockXOClient_RemoveResourceSetObject_type, db_method = (\<lambda>G m args. MockXOClient_RemoveResourceSetObject G m (args ! 0) (args ! 1)),
       db_expect = MockXOClient_EXPECT,
       db_recorder = (\<lambda>G mr args. MockXOClientMockRecorder_RemoveResourceSetObject G mr (args ! 0) (args ! 1))\<rparr>,
     \<lparr>db_name = ''RemoveResourceSetSubject'', db_type = MockXOClient_RemoveResourceSetSubject_type, db_method = (\<lambda>G m args. MockXOClient_RemoveResourceSetSubject G m (args ! 0) (args ! 1)),
       db_expect = MockXOClient_EXPECT,
       db_recorder = (\<lambda>G mr args. MockXOClientMockRecorder_RemoveResourceSetSubject G mr (args ! 0) (args ! 1))\<rparr>,
     \<lparr>db_name = ''RemoveTag'', db_type = MockXOClient_RemoveTag_type, db_method = (\<lambda>G m args. MockXOClient_RemoveTag G m (args ! 0) (args ! 1)),
       db_expect = MockXOClient_EXPECT,
       db_recorder = (\<lambda>G mr args. MockXOClientMockRecorder_RemoveTag G mr (args ! 0) (args ! 1))\<rparr>,
     \<lparr>db_name = ''ResizeVDI'', db_type = MockXOClient_ResizeVDI_type, db_method = (\<lambda>G m args. MockXOClient_ResizeVDI G m (args ! 0)),
       db_expect = MockXOClient_EXPECT,
       db_recorder = (\<lambda>G mr args. MockXOClientMockRecorder_ResizeVDI G mr (args ! 0))\<rparr>,
     \<lparr>db_name = ''StartVm'', db_type = MockXOClient_StartVm_type, db_method = (\<lambda>G m args. MockXOClient_StartVm G m (args ! 0)),
       db_expect = MockXOClient_EXPECT,
       db_recorder = (\<lambda>G mr args. MockXOClientMockRecorder_StartVm G mr (args ! 0))\<rparr>,
     \<lparr>db_name = ''SuspendVm'', db_type = MockXOClient_SuspendVm_type, db_method = (\<lambda>G m args. MockXOClient_SuspendVm G m (args ! 0)),
       db_expect = MockXOClient_EXPECT,
       db_recorder = (\<lambda>G mr args. MockXOClientMockRecorder_SuspendVm G mr (args ! 0))\<rparr>,
     \<lparr>db_name = ''UpdateNetwork'', db_type = MockXOClient_UpdateNetwork_type, db_method = (\<lambda>G m args. MockXOClient_UpdateNetwork G m (args ! 0)),
       db_expect = MockXOClient_EXPECT,
       db_recorder = (\<lambda>G mr args. MockXOClientMockRecorder_UpdateNetwork G mr (args ! 0))\<rparr>,
     \<lparr>db_name = ''UpdateVDI'', db_type = MockXOClient_UpdateVDI_type, db_method = (\<lambda>G m args. MockXOClient_UpdateVDI G m (args ! 0)),
       db_expect = MockXOClient_EXPECT,
       db_recorder = (\<lambda>G mr args. MockXOClientMockRecorder_UpdateVDI G mr (args ! 0))\<rparr>,
     \<lparr>db_name = ''UpdateVm'', db_type = MockXOClient_UpdateVm_type, db_method = (\<lambda>G m args. MockXOClient_UpdateVm G m (args ! 0)),
       db_expect = MockXOClient_EXPECT,
       db_recorder = (\<lambda>G mr args. MockXOClientMockRecorder_UpdateVm G mr (args ! 0))\<rparr>]"

lemmas MockXOClient_defs = MockXOClient_AddResourceSetLimit_def MockXOClientMockRecorder_AddResourceSetLimit_def MockXOClient_AddResourceSetLimit_type_def MockXOClient_AddResourceSetObject_def MockXOClientMockRecorder_AddResourceSetObject_def MockXOClient_AddResourceSetObject_type_def
  MockXOClient_AddResourceSetSubject_def MockXOClientMockRecorder_AddResourceSetSubject_def MockXOClient_AddResourceSetSubject_type_def MockXOClient_AddTag_def MockXOClientMockRecorder_AddTag_def MockXOClient_AddTag_type_def
  MockXOClient_ConnectDisk_def MockXOClientMockRecorder_ConnectDisk_def MockXOClient_ConnectDisk_type_def MockXOClient_ConnectVIF_def MockXOClientMockRecorder_ConnectVIF_def MockXOClient_ConnectVIF_type_def
  MockXOClient_CreateAcl_def MockXOClientMockRecorder_CreateAcl_def MockXOClient_CreateAcl_type_def MockXOClient_CreateBondedNetwork_def MockXOClientMockRecorder_CreateBondedNetwork_def MockXOClient_CreateBondedNetwork_type_def
  MockXOClient_CreateCloudConfig_def MockXOClientMockRecorder_CreateCloudConfig_def MockXOClient_CreateCloudConfig_type_def MockXOClient_CreateDisk_def MockXOClientMockRecorder_CreateDisk_def MockXOClient_CreateDisk_type_def
  MockXOClient_CreateNetwork_def MockXOClientMockRecorder_CreateNetwork_def MockXOClient_CreateNetwork_type_def MockXOClient_CreateResourceSet_def MockXOClientMockRecorder_CreateResourceSet_def MockXOClient_CreateResourceSet_type_def
  MockXOClient_CreateUser_def MockXOClientMockRecorder_CreateUser_def MockXOClient_CreateUser_type_def MockXOClient_CreateVDI_def MockXOClientMockRecorder_CreateVDI_def MockXOClient_CreateVDI_type_def
  MockXOClient_CreateVIF_def MockXOClientMockRecorder_CreateVIF_def MockXOClient_CreateVIF_type_def MockXOClient_CreateVm_def MockXOClientMockRecorder_CreateVm_def MockXOClient_CreateVm_type_def
  MockXOClient_DeleteAcl_def MockXOClientMockRecorder_DeleteAcl_def MockXOClient_DeleteAcl_type_def MockXOClient_DeleteCloudConfig_def MockXOClientMockRecorder_DeleteCloudConfig_def MockXOClient_DeleteCloudConfig_type_def
  MockXOClient_DeleteDisk_def MockXOClientMockRecorder_DeleteDisk_def MockXOClient_DeleteDisk_type_def MockXOClient_DeleteNetwork_def MockXOClientMockRecorder_DeleteNetwork_def MockXOClient_DeleteNetwork_type_def
  MockXOClient_DeleteResourceSet_def MockXOClientMockRecorder_DeleteResourceSet_def MockXOClient_DeleteResourceSet_type_def MockXOClient_DeleteUser_def MockXOClientMockRecorder_DeleteUser_def MockXOClient_DeleteUser_type_def
  MockXOClient_DeleteVDI_def MockXOClientMockRecorder_DeleteVDI_def MockXOClient_DeleteVDI_type_def MockXOClient_DeleteVIF_def MockXOClientMockRecorder_DeleteVIF_def MockXOClient_DeleteVIF_type_def
  MockXOClient_DeleteVm_def MockXOClientMockRecorder_DeleteVm_def MockXOClient_DeleteVm_type_def MockXOClient_DisconnectDisk_def MockXOClientMockRecorder_DisconnectDisk_def MockXOClient_DisconnectDisk_type_def
  MockXOClient_DisconnectVIF_def MockXOClientMockRecorder_DisconnectVIF_def MockXOClient_DisconnectVIF_type_def MockXOClient_EjectCd_def MockXOClientMockRecorder_EjectCd_def MockXOClient_EjectCd_type_def
  MockXOClient_GetAcl_def MockXOClientMockRecorder_GetAcl_def MockXOClient_GetAcl_type_def MockXOClient_GetAllCloudConfigs_def MockXOClientMockRecorder_GetAllCloudConfigs_def MockXOClient_GetAllCloudConfigs_type_def
  MockXOClient_GetAllObjectsOfType_def MockXOClientMockRecorder_GetAllObjectsOfType_def MockXOClient_GetAllObjectsOfType_type_def MockXOClient_GetAllUsers_def MockXOClientMockRecorder_GetAllUsers_def MockXOClient_GetAllUsers_type_def
  MockXOClient_GetAllVDIs_def MockXOClientMockRecorder_GetAllVDIs_def MockXOClient_GetAllVDIs_type_def MockXOClient_GetBond_def MockXOClientMockRecorder_GetBond_def MockXOClient_GetBond_type_def
  MockXOClient_GetBonds_def MockXOClientMockRecorder_GetBonds_def MockXOClient_GetBonds_type_def MockXOClient_GetCdroms_def MockXOClientMockRecorder_GetCdroms_def MockXOClient_GetCdroms_type_def
  MockXOClient_GetCloudConfig_def MockXOClientMockRecorder_GetCloudConfig_def MockXOClient_GetCloudConfig_type_def MockXOClient_GetCloudConfigByName_def MockXOClientMockRecorder_GetCloudConfigByName_def MockXOClient_GetCloudConfigByName_type_def
  MockXOClient_GetCurrentUser_def MockXOClientMockRecorder_GetCurrentUser_def MockXOClient_GetCurrentUser_type_def MockXOClient_GetDisks_def MockXOClientMockRecorder_GetDisks_def MockXOClient_GetDisks_type_def
  MockXOClient_GetHostById_def MockXOClientMockRecorder_GetHostById_def MockXOClient_GetHostById_type_def MockXOClient_GetHostByName_def MockXOClientMockRecorder_GetHostByName_def MockXOClient_GetHostByName_type_def
  MockXOClient_GetNetwork_def MockXOClientMockRecorder_GetNetwork_def MockXOClient_GetNetwork_type_def MockXOClient_GetNetworks_def MockXOClientMockRecorder_GetNetworks_def MockXOClient_GetNetworks_type_def
  MockXOClient_GetObjectsWithTags_def MockXOClientMockRecorder_GetObjectsWithTags_def MockXOClient_GetObjectsWithTags_type_def MockXOClient_GetPIF_def MockXOClientMockRecorder_GetPIF_def MockXOClient_GetPIF_type_def
  MockXOClient_GetPIFByDevice_def MockXOClientMockRecorder_GetPIFByDevice_def MockXOClient_GetPIFByDevice_type_def MockXOClient_GetPoolByName_def MockXOClientMockRecorder_GetPoolByName_def MockXOClient_GetPoolByName_type_def
  MockXOClient_GetPools_def MockXOClientMockRecorder_GetPools_def MockXOClient_GetPools_type_def MockXOClient_GetResourceSet_def MockXOClientMockRecorder_GetResourceSet_def MockXOClient_GetResourceSet_type_def
  MockXOClient_GetResourceSetById_def MockXOClientMockRecorder_GetResourceSetById_def MockXOClient_GetResourceSetById_type_def MockXOClient_GetResourceSets_def MockXOClientMockRecorder_GetResourceSets_def MockXOClient_GetResourceSets_type_def
  MockXOClient_GetSortedHosts_def MockXOClientMockRecorder_GetSortedHosts_def MockXOClient_GetSortedHosts_type_def MockXOClient_GetStorageRepository_def MockXOClientMockRecorder_GetStorageRepository_def MockXOClient_GetStorageRepository_type_def
  MockXOClient_GetStorageRepositoryById_def MockXOClientMockRecorder_GetStorageRepositoryById_def MockXOClient_GetStorageRepositoryById_type_def MockXOClient_GetTemplate_def MockXOClientMockRecorder_GetTemplate_def MockXOClient_GetTemplate_type_def
  MockXOClient_GetUser_def MockXOClientMockRecorder_GetUser_def MockXOClient_GetUser_type_def MockXOClient_GetVDI_def MockXOClientMockRecorder_GetVDI_def MockXOClient_GetVDI_type_def
  MockXOClient_GetVDIs_def MockXOClientMockRecorder_GetVDIs_def MockXOClient_GetVDIs_type_def MockXOClient_GetVIF_def MockXOClientMockRecorder_GetVIF_def MockXOClient_GetVIF_type_def
  MockXOClient_GetVIFs_def MockXOClientMockRecorder_GetVIFs_def MockXOClient_GetVIFs_type_def MockXOClient_GetVm_def MockXOClientMockRecorder_GetVm_def MockXOClient_GetVm_type_def
  MockXOClient_GetVms_def MockXOClientMockRecorder_GetVms_def MockXOClient_GetVms_type_def MockXOClient_HaltVm_def MockXOClientMockRecorder_HaltVm_def MockXOClient_HaltVm_type_def
  MockXOClient_InsertCd_def MockXOClientMockRecorder_InsertCd_def MockXOClient_InsertCd_type_def MockXOClient_PauseVm_def MockXOClientMockRecorder_PauseVm_def MockXOClient_PauseVm_type_def
  MockXOClient_RemoveResourceSetLimit_def MockXOClientMockRecorder_RemoveResourceSetLimit_def MockXOClient_RemoveResourceSetLimit_type_def MockXOClient_RemoveResourceSetObject_def MockXOClientMockRecorder_RemoveResourceSetObject_def MockXOClient_RemoveResourceSetObject_type_def
  MockXOClient_RemoveResourceSetSubject_def MockXOClientMockRecorder_RemoveResourceSetSubject_def MockXOClient_RemoveResourceSetSubject_type_def MockXOClient_RemoveTag_def MockXOClientMockRecorder_RemoveTag_def MockXOClient_RemoveTag_type_def
  MockXOClient_ResizeVDI_def MockXOClientMockRecorder_ResizeVDI_def MockXOClient_ResizeVDI_type_def MockXOClient_StartVm_def MockXOClientMockRecorder_StartVm_def MockXOClient_StartVm_type_def
  MockXOClient_SuspendVm_def MockXOClientMockRecorder_SuspendVm_def MockXOClient_SuspendVm_type_def MockXOClient_UpdateNetwork_def MockXOClientMockRecorder_UpdateNetwork_def MockXOClient_UpdateNetwork_type_def
  MockXOClient_UpdateVDI_def MockXOClientMockRecorder_UpdateVDI_def MockXOClient_UpdateVDI_type_def MockXOClient_UpdateVm_def MockXOClientMockRecorder_UpdateVm_def MockXOClient_UpdateVm_type_def

lemma MockXOClient_agree: "list_all agrees MockXOClient_methods"
  by (simp add: MockXOClient_methods_def agrees_def args_listed MockXOClient_EXPECT_def MockXOClient_defs)

definition all_doubles :: "('c, 'v, 's) double list" where
  "all_doubles = MockVBD_methods @ MockTask_methods @ MockTaskAction_methods @ MockXOClient_methods"

lemma all_agree: "d \<in> set all_doubles \<Longrightarrow> agrees d"
  using MockVBD_agree MockTask_agree MockTaskAction_agree MockXOClient_agree
  by (auto simp: all_doubles_def list_all_iff)

section \<open>The property\<close>


text \<open>A controller that keeps the announced calls in a list.\<close>

type_synonym expected = "unit double_struct \<times> string \<times> string dyn list \<times> string dyn list"

fun answer :: "unit double_struct \<Rightarrow> string \<Rightarrow> string dyn list \<Rightarrow> expected list \<Rightarrow> string dyn list option \<times> expected list" where
  "answer m name args [] = (None, [])"
| "answer m name args ((m', name', args', vals) # es) =
     (if m' = m \<and> name' = name \<and> args' = args then (Some vals, es)
      else (case answer m name args es of (r, es') \<Rightarrow> (r, (m', name', args', vals) # es')))"

definition list_gomock :: "(unit, string, expected list) gomock" where
  "list_gomock = \<lparr>g_call = (\<lambda>ctrl m name args s. answer m name args s),
     g_record = (\<lambda>ctrl m name type args s. (length s, s @ [(m, name, args, [])])),
     g_return = (\<lambda>k vals s. s[k := (case s ! k of (m, name, args, old) \<Rightarrow> (m, name, args, vals))]),
     g_zero = (\<lambda>T. []), g_implements = (\<lambda>t N. True)\<rparr>"

lemma list_gomock_honours: "honours list_gomock (\<lambda>s. s = [])"
  by (auto simp: honours_def list_gomock_def)

definition get_vbd :: "(unit, string, expected list) double" where
  "get_vbd = \<lparr>db_name = ''Get'', db_type = MockVBD_Get_type, db_method = (\<lambda>G m args. MockVBD_Get G m (args ! 0) (args ! 1)),
     db_expect = MockVBD_EXPECT, db_recorder = (\<lambda>G mr args. MockVBDMockRecorder_Get G mr (args ! 0) (args ! 1))\<rparr>"


end
